(* ===== verification/Prelude.thy ===== *)
theory Prelude
  imports Main "HOL-Library.Word" "HOL-Library.List_Lexorder" "HOL-Library.Char_ord"
    "HOL-Library.Product_Lexorder" "HOL-Library.Sublist"
begin

text \<open>
  The base of the development: the collections of facts that the component theories extend
  and use, the result type of fallible operations, and generic lemmas on lists and filters
  that several components need.

  A Go function that returns \<open>(T, error)\<close> is a HOL function into \<open>gerr + 'a\<close> (see
  \<open>Errors\<close>): \<open>Inl e\<close> for a non-nil error, \<open>Inr x\<close> for a result with a nil error. A function
  that returns only \<open>error\<close> is a function into \<open>gerr option\<close>, with \<open>None\<close> for nil.
\<close>

section \<open>Collections\<close>

named_theorems sql_defs \<open>the definitions of the SQL statements of the repository\<close>
named_theorems frame \<open>which parts of the state an operation leaves alone\<close>
named_theorems wp \<open>rules that decompose a statement about the outcome of a program\<close>
named_theorems lifecycle \<open>facts on the states of a job\<close>

section \<open>Machine integers\<close>

type_synonym i32 = "32 word"
type_synonym i64 = "64 word"
type_synonym u64 = "64 word"

lemma sint_i32_of_int: "- (2 ^ 31) \<le> x \<Longrightarrow> x < 2 ^ 31 \<Longrightarrow> sint (of_int x :: i32) = x"
  by (simp add: sint_sbintrunc' signed_take_bit_int_eq_self)

lemma sint_i32_of_nat: "n < 2 ^ 31 \<Longrightarrow> sint (of_nat n :: i32) = int n"
  using sint_i32_of_int [of "int n"] by simp

text \<open>Times are nanoseconds since the epoch, durations nanoseconds, both as \<open>int\<close>; they are
  kept at their width only where the code's arithmetic on them can leave it.\<close>

type_synonym time = int
type_synonym duration = int

section \<open>Lists updated where a condition holds\<close>

text \<open>\<open>UPDATE ... SET f WHERE p\<close> on the rows of a table.\<close>

definition update_where :: "('a \<Rightarrow> bool) \<Rightarrow> ('a \<Rightarrow> 'a) \<Rightarrow> 'a list \<Rightarrow> 'a list" where
  "update_where p f xs = map (\<lambda>x. if p x then f x else x) xs"

lemma update_where_Nil [simp]: "update_where p f [] = []"
  by (simp add: update_where_def)

lemma update_where_Cons [simp]:
  "update_where p f (x # xs) = (if p x then f x else x) # update_where p f xs"
  by (simp add: update_where_def)

lemma length_update_where [simp]: "length (update_where p f xs) = length xs"
  by (simp add: update_where_def)

lemma update_where_none: "filter p xs = [] \<Longrightarrow> update_where p f xs = xs"
  by (induction xs) (auto split: if_splits)

lemma set_update_where:
  "y \<in> set (update_where p f xs) \<longleftrightarrow> (\<exists>x \<in> set xs. y = (if p x then f x else x))"
  by (auto simp: update_where_def)

lemma update_where_mem: "x \<in> set xs \<Longrightarrow> (if p x then f x else x) \<in> set (update_where p f xs)"
  by (auto simp: update_where_def)

lemma update_where_kept: "x \<in> set xs \<Longrightarrow> \<not> p x \<Longrightarrow> x \<in> set (update_where p f xs)"
  by (auto simp: update_where_def)

lemma map_update_where_same:
  "(\<And>x. p x \<Longrightarrow> g (f x) = g x) \<Longrightarrow> map g (update_where p f xs) = map g xs"
  by (induction xs) auto

lemma list_all_update_where:
  "list_all P xs \<Longrightarrow> (\<And>x. p x \<Longrightarrow> P x \<Longrightarrow> P (f x)) \<Longrightarrow> list_all P (update_where p f xs)"
  by (induction xs) auto

text \<open>A \<open>WHERE\<close> clause that pins a unique key selects at most one row.\<close>

lemma filter_key_unique:
  assumes "distinct (map k xs)" and "x \<in> set xs" and "k x = a"
  shows "filter (\<lambda>y. k y = a) xs = [x]"
  using assms
proof (induction xs)
  case (Cons y ys)
  show ?case
  proof (cases "k y = a")
    case True
    with Cons.prems have "filter (\<lambda>z. k z = a) ys = []"
      by (auto simp: filter_empty_conv image_iff)
    moreover from True Cons.prems have "x = y" by (auto simp: image_iff)
    ultimately show ?thesis using True by simp
  next
    case False
    with Cons show ?thesis by auto
  qed
qed simp

lemma find_SomeD: "find p xs = Some x \<Longrightarrow> x \<in> set xs \<and> p x"
  by (auto simp: find_Some_iff)

lemma find_append: "find p (xs @ ys) = (case find p xs of Some x \<Rightarrow> Some x | None \<Rightarrow> find p ys)"
  by (induction xs) auto

lemma find_key_filter: "find p xs = (case filter p xs of [] \<Rightarrow> None | x # _ \<Rightarrow> Some x)"
  by (induction xs) auto

lemma find_update_where_other:
  assumes "\<And>x. q (f x) = q x" and "\<And>x. p x \<Longrightarrow> \<not> q x"
  shows "find q (update_where p f xs) = find q xs"
  using assms by (induction xs) auto

lemma find_update_where:
  assumes "\<And>x. q (f x) = q x"
  shows "find q (update_where p f xs) = map_option (\<lambda>x. if p x then f x else x) (find q xs)"
  using assms by (induction xs) auto

text \<open>Sorted selections: what \<open>ORDER BY ... LIMIT n\<close> returns is among the selected rows.\<close>

lemma set_take_sort_subset: "set (take n (sort_key k xs)) \<subseteq> set xs"
  using set_take_subset by fastforce

section \<open>Case distinctions on results\<close>

lemma sum_case_Inl_iff: "(case x of Inl a \<Rightarrow> f a | Inr b \<Rightarrow> g b) = y \<longleftrightarrow>
  (\<exists>a. x = Inl a \<and> f a = y) \<or> (\<exists>b. x = Inr b \<and> g b = y)"
  by (cases x) auto

definition is_ok :: "'e + 'a \<Rightarrow> bool" where
  "is_ok r \<longleftrightarrow> (case r of Inl _ \<Rightarrow> False | Inr _ \<Rightarrow> True)"

lemma is_ok_simps [simp]: "is_ok (Inr x)" "\<not> is_ok (Inl e)"
  by (simp_all add: is_ok_def)

lemma is_ok_iff: "is_ok r \<longleftrightarrow> (\<exists>x. r = Inr x)"
  by (cases r) auto

end
