(* ===== verification/Go_Strings.thy ===== *)
theory Go_Strings
  imports Prelude
begin

text \<open>
  The functions of Go's packages \<open>strings\<close>, \<open>strconv\<close> and \<open>path/filepath\<close> that the service
  uses, on byte strings: a HOL \<open>char\<close> is a byte, so \<open>length\<close> is Go's \<open>len\<close>.

  \<open>TrimSpace\<close> knows every Unicode space by its UTF-8 encoding. \<open>EqualFold\<close> and \<open>ToLower\<close> fold
  the ASCII letters and the two non-ASCII runes that Unicode folds to an ASCII letter (the long
  s and the Kelvin sign); other non-ASCII bytes are compared as they are, which is Go's result
  whenever one of the two strings is ASCII, as it is in every use but one (a checksum that the
  client sent against a checksum the object store reports).
\<close>

section \<open>White space\<close>

definition space_encodings :: "string list" where
  "space_encodings =
     [[CHR 0x09], [CHR 0x0A], [CHR 0x0B], [CHR 0x0C], [CHR 0x0D], [CHR 0x20],
      [CHR 0xC2, CHR 0x85], [CHR 0xC2, CHR 0xA0], [CHR 0xE1, CHR 0x9A, CHR 0x80],
      [CHR 0xE2, CHR 0x80, CHR 0x80], [CHR 0xE2, CHR 0x80, CHR 0x81],
      [CHR 0xE2, CHR 0x80, CHR 0x82], [CHR 0xE2, CHR 0x80, CHR 0x83],
      [CHR 0xE2, CHR 0x80, CHR 0x84], [CHR 0xE2, CHR 0x80, CHR 0x85],
      [CHR 0xE2, CHR 0x80, CHR 0x86], [CHR 0xE2, CHR 0x80, CHR 0x87],
      [CHR 0xE2, CHR 0x80, CHR 0x88], [CHR 0xE2, CHR 0x80, CHR 0x89],
      [CHR 0xE2, CHR 0x80, CHR 0x8A], [CHR 0xE2, CHR 0x80, CHR 0xA8],
      [CHR 0xE2, CHR 0x80, CHR 0xA9], [CHR 0xE2, CHR 0x80, CHR 0xAF],
      [CHR 0xE2, CHR 0x81, CHR 0x9F], [CHR 0xE3, CHR 0x80, CHR 0x80]]"

text \<open>How many bytes at the front of \<open>s\<close> encode a space (0 if none does).\<close>

fun lead :: "string list \<Rightarrow> string \<Rightarrow> nat" where
  "lead [] s = 0"
| "lead (e # es) s = (if e \<noteq> [] \<and> take (length e) s = e then length e else lead es s)"

function trim_left :: "string list \<Rightarrow> string \<Rightarrow> string" where
  "trim_left es s = (if lead es s = 0 \<or> s = [] then s else trim_left es (drop (lead es s) s))"
  by pat_completeness auto
termination
  by (relation "measure (\<lambda>(es, s). length s)") auto

declare trim_left.simps [simp del]

definition trim_right :: "string list \<Rightarrow> string \<Rightarrow> string" where
  "trim_right es s = rev (trim_left (map rev es) (rev s))"

definition trim_space :: "string \<Rightarrow> string" where
  "trim_space s = trim_right space_encodings (trim_left space_encodings s)"

lemma lead_le: "lead es s \<le> length s"
  by (induction es) (auto dest: arg_cong [where f = length])

lemma lead_empty [simp]: "lead es [] = 0"
  by (induction es) auto

lemma trim_left_suffix: "suffix (trim_left es s) s"
proof (induction es s rule: trim_left.induct)
  case (1 es s)
  show ?case
  proof (cases "lead es s = 0 \<or> s = []")
    case True
    then show ?thesis by (simp add: trim_left.simps [of es s])
  next
    case False
    with "1.IH" have "suffix (trim_left es (drop (lead es s) s)) (drop (lead es s) s)" by simp
    also have "suffix (drop (lead es s) s) s" by (rule suffix_drop)
    finally show ?thesis using False by (simp add: trim_left.simps [of es s])
  qed
qed

lemma lead_trim_left: "lead es (trim_left es s) = 0"
proof (induction es s rule: trim_left.induct)
  case (1 es s)
  then show ?case
    by (cases "lead es s = 0 \<or> s = []") (auto simp: trim_left.simps [of es s])
qed

lemma trim_left_fixed: "lead es s = 0 \<Longrightarrow> trim_left es s = s"
  by (simp add: trim_left.simps)

lemma trim_right_prefix: "prefix (trim_right es s) s"
  using trim_left_suffix [of "map rev es" "rev s"]
  by (simp add: trim_right_def suffix_to_prefix)

lemma lead_prefix_zero: "lead es s = 0 \<Longrightarrow> prefix t s \<Longrightarrow> lead es t = 0"
proof (induction es)
  case (Cons e es)
  from Cons.prems(1) have e: "\<not> (e \<noteq> [] \<and> take (length e) s = e)" and "lead es s = 0"
    by (auto split: if_splits)
  then have "lead es t = 0" using Cons by auto
  moreover have "\<not> (e \<noteq> [] \<and> take (length e) t = e)"
  proof
    assume t: "e \<noteq> [] \<and> take (length e) t = e"
    then have "length e \<le> length t" by (metis length_take min.cobounded1)
    moreover from Cons.prems(2) obtain u where "s = t @ u" by (auto elim: prefixE)
    ultimately have "take (length e) s = take (length e) t" by simp
    with t e show False by simp
  qed
  ultimately show ?case by simp
qed simp

lemma trim_space_idem [simp]: "trim_space (trim_space s) = trim_space s"
proof -
  let ?t = "trim_space s"
  have "prefix ?t (trim_left space_encodings s)"
    by (simp add: trim_space_def trim_right_prefix)
  then have "lead space_encodings ?t = 0"
    by (rule lead_prefix_zero [OF lead_trim_left])
  then have l: "trim_left space_encodings ?t = ?t" by (rule trim_left_fixed)
  have "rev ?t = trim_left (map rev space_encodings) (rev (trim_left space_encodings s))"
    by (simp add: trim_space_def trim_right_def)
  then have "lead (map rev space_encodings) (rev ?t) = 0" by (simp add: lead_trim_left)
  then have "trim_right space_encodings ?t = ?t"
    by (simp add: trim_right_def trim_left_fixed)
  with l show ?thesis by (simp add: trim_space_def [of ?t])
qed

lemma trim_space_Nil [simp]: "trim_space [] = []"
  by (simp add: trim_space_def trim_right_def trim_left.simps)

section \<open>Case folding\<close>

definition lower_char :: "char \<Rightarrow> char" where
  "lower_char c = (let n = of_char c :: nat in if 65 \<le> n \<and> n \<le> 90 then char_of (n + 32) else c)"

text \<open>U+017F (the bytes C5 BF) folds to \<open>s\<close>, U+212A (the bytes E2 84 AA) to \<open>k\<close>.\<close>

fun fold_runes :: "string \<Rightarrow> string" where
  "fold_runes (a # b # c # s) =
     (if [a, b] = [CHR 0xC5, CHR 0xBF] then CHR ''s'' # fold_runes (c # s)
      else if [a, b, c] = [CHR 0xE2, CHR 0x84, CHR 0xAA] then CHR ''k'' # fold_runes s
      else lower_char a # fold_runes (b # c # s))"
| "fold_runes [a, b] = (if [a, b] = [CHR 0xC5, CHR 0xBF] then ''s'' else [lower_char a, lower_char b])"
| "fold_runes [a] = [lower_char a]"
| "fold_runes [] = []"

definition equal_fold :: "string \<Rightarrow> string \<Rightarrow> bool" where
  "equal_fold s t \<longleftrightarrow> fold_runes s = fold_runes t"

definition to_lower :: "string \<Rightarrow> string" where
  "to_lower s = map lower_char s"

lemma equal_fold_refl [simp]: "equal_fold s s"
  by (simp add: equal_fold_def)

lemma length_to_lower [simp]: "length (to_lower s) = length s"
  by (simp add: to_lower_def)

section \<open>Prefixes, suffixes, substrings\<close>

definition has_prefix :: "string \<Rightarrow> string \<Rightarrow> bool" where
  "has_prefix s p \<longleftrightarrow> take (length p) s = p"

definition has_suffix :: "string \<Rightarrow> string \<Rightarrow> bool" where
  "has_suffix s p \<longleftrightarrow> has_prefix (rev s) (rev p)"

definition trim_prefix :: "string \<Rightarrow> string \<Rightarrow> string" where
  "trim_prefix s p = (if has_prefix s p then drop (length p) s else s)"

definition trim_suffix :: "string \<Rightarrow> string \<Rightarrow> string" where
  "trim_suffix s p = (if has_suffix s p then take (length s - length p) s else s)"

fun contains :: "string \<Rightarrow> string \<Rightarrow> bool" where
  "contains [] p = (p = [])"
| "contains (c # s) p = (has_prefix (c # s) p \<or> contains s p)"

text \<open>\<open>strings.Cut\<close>: the text before and after the first occurrence of a separator byte.\<close>

fun cut :: "string \<Rightarrow> char \<Rightarrow> string \<times> string \<times> bool" where
  "cut [] c = ([], [], False)"
| "cut (a # s) c = (if a = c then ([], s, True)
     else case cut s c of (before, after, found) \<Rightarrow> (a # before, after, found))"

lemma has_prefix_iff: "has_prefix s p \<longleftrightarrow> (\<exists>t. s = p @ t)"
  by (metis append_eq_conv_conj append_take_drop_id has_prefix_def)

lemma has_suffix_iff: "has_suffix s p \<longleftrightarrow> (\<exists>t. s = t @ p)"
  by (metis has_prefix_iff has_suffix_def rev_append rev_rev_ident)

lemma contains_iff: "contains s p \<longleftrightarrow> (\<exists>a b. s = a @ p @ b)"
proof (induction s p rule: contains.induct)
  case (2 c s p)
  show ?case
  proof
    assume "contains (c # s) p"
    then consider "has_prefix (c # s) p" | "contains s p" by auto
    then show "\<exists>a b. c # s = a @ p @ b"
    proof cases
      case 1
      then obtain t where "c # s = p @ t" by (auto simp: has_prefix_iff)
      then have "c # s = [] @ p @ t" by simp
      then show ?thesis by blast
    next
      case 2
      with "2.IH" obtain a b where "s = a @ p @ b" by blast
      then have "c # s = (c # a) @ p @ b" by simp
      then show ?thesis by blast
    qed
  next
    assume "\<exists>a b. c # s = a @ p @ b"
    then obtain a b where ab: "c # s = a @ p @ b" by blast
    show "contains (c # s) p"
    proof (cases a)
      case Nil
      with ab have "has_prefix (c # s) p" by (simp add: has_prefix_iff)
      then show ?thesis by simp
    next
      case (Cons d a')
      with ab have "s = a' @ p @ b" by simp
      with "2.IH" show ?thesis by auto
    qed
  qed
qed auto

lemma cut_found: "cut s c = (a, b, True) \<Longrightarrow> s = a @ c # b \<and> c \<notin> set a"
  by (induction s arbitrary: a) (auto split: if_splits prod.splits)

lemma cut_not_found: "cut s c = (a, b, False) \<Longrightarrow> a = s \<and> b = [] \<and> c \<notin> set s"
  by (induction s arbitrary: a) (auto split: if_splits prod.splits)

text \<open>\<open>strings.Split\<close> at one character.\<close>

fun split_at :: "char \<Rightarrow> string \<Rightarrow> string list" where
  "split_at c [] = [[]]"
| "split_at c (a # s) = (if a = c then [] # split_at c s
     else case split_at c s of [] \<Rightarrow> [[a]] | l # ls \<Rightarrow> (a # l) # ls)"

lemma split_at_no [simp]: "c \<notin> set x \<Longrightarrow> split_at c x = [x]"
  by (induction x) auto

lemma split_at_append: "c \<notin> set x \<Longrightarrow> split_at c (x @ c # s) = x # split_at c s"
  by (induction x) auto

section \<open>Decimal numbers\<close>

text \<open>\<open>strconv.Itoa\<close>, \<open>strconv.FormatInt(x, 10)\<close> and the verb \<open>%d\<close>.\<close>

fun show_nat :: "nat \<Rightarrow> string" where
  "show_nat n = (if n < 10 then [char_of (48 + n)] else show_nat (n div 10) @ [char_of (48 + n mod 10)])"

declare show_nat.simps [simp del]

definition itoa :: "int \<Rightarrow> string" where
  "itoa x = (if x < 0 then CHR ''-'' # show_nat (nat (- x)) else show_nat (nat x))"

definition digits_value :: "string \<Rightarrow> nat" where
  "digits_value s = foldl (\<lambda>n c. 10 * n + (of_char c - 48)) 0 s"

lemma digits_value_show_nat: "digits_value (show_nat n) = n"
proof (induction n rule: show_nat.induct)
  case (1 n)
  show ?case
  proof (cases "n < 10")
    case True
    then show ?thesis by (simp add: show_nat.simps [of n] digits_value_def of_char_of)
  next
    case False
    with 1 have ih: "digits_value (show_nat (n div 10)) = n div 10" by simp
    have "(48 + n mod 10) mod 256 = 48 + n mod 10" by simp
    with False ih show ?thesis
      by (simp add: show_nat.simps [of n] digits_value_def of_char_of)
  qed
qed

lemma show_nat_inject [simp]: "show_nat m = show_nat n \<longleftrightarrow> m = n"
  by (metis digits_value_show_nat)

lemma show_nat_digits: "c \<in> set (show_nat n) \<Longrightarrow> 48 \<le> (of_char c :: nat) \<and> (of_char c :: nat) \<le> 57"
proof (induction n rule: show_nat.induct)
  case (1 n)
  have small: "(48 + k) mod 256 = 48 + k" if "k < 10" for k :: nat using that by simp
  show ?case
  proof (cases "n < 10")
    case True
    with "1.prems" small [of n] show ?thesis by (simp add: show_nat.simps [of n] of_char_of)
  next
    case False
    with 1 small [of "n mod 10"] show ?thesis
      by (auto simp: show_nat.simps [of n] of_char_of)
  qed
qed

lemma itoa_inject [simp]: "itoa x = itoa y \<longleftrightarrow> x = y"
proof
  assume eq: "itoa x = itoa y"
  have minus: "CHR ''-'' \<notin> set (show_nat n)" for n
  proof
    assume "CHR ''-'' \<in> set (show_nat n)"
    then have "48 \<le> (of_char CHR ''-'' :: nat)" by (blast dest: show_nat_digits)
    then show False by simp
  qed
  have ne: "CHR ''-'' # a \<noteq> show_nat n" for a n
    using minus [of n] by (metis list.set_intros(1))
  show "x = y"
  proof (cases "x < 0"; cases "y < 0")
    assume "x < 0" "y < 0"
    with eq show ?thesis by (simp add: itoa_def)
  next
    assume "x < 0" "\<not> y < 0"
    with eq ne show ?thesis by (simp add: itoa_def)
  next
    assume "\<not> x < 0" "y < 0"
    with eq ne [symmetric] show ?thesis by (simp add: itoa_def)
  next
    assume "\<not> x < 0" "\<not> y < 0"
    with eq show ?thesis by (simp add: itoa_def eq_nat_nat_iff)
  qed
qed simp

section \<open>Quoting\<close>

text \<open>The verb \<open>%q\<close> on a string without non-printable runes beyond ASCII: the control
  characters, the quote and the backslash are escaped.\<close>

definition hex_digit :: "nat \<Rightarrow> char" where
  "hex_digit n = ''0123456789abcdef'' ! (n mod 16)"

definition quote_char :: "char \<Rightarrow> string" where
  "quote_char c = (let n = of_char c :: nat in
     if c = CHR 0x22 then [CHR 0x5C, CHR 0x22]
     else if c = CHR 0x5C then [CHR 0x5C, CHR 0x5C]
     else if n = 7 then [CHR 0x5C, CHR ''a''] else if n = 8 then [CHR 0x5C, CHR ''b'']
     else if n = 9 then [CHR 0x5C, CHR ''t''] else if n = 10 then [CHR 0x5C, CHR ''n'']
     else if n = 11 then [CHR 0x5C, CHR ''v''] else if n = 12 then [CHR 0x5C, CHR ''f'']
     else if n = 13 then [CHR 0x5C, CHR ''r'']
     else if n < 32 \<or> n = 127 then [CHR 0x5C, CHR ''x'', hex_digit (n div 16), hex_digit n]
     else [c])"

definition go_quote :: "string \<Rightarrow> string" where
  "go_quote s = CHR 0x22 # concat (map quote_char s) @ [CHR 0x22]"

section \<open>File names\<close>

text \<open>\<open>filepath.Ext\<close>: the suffix beginning at the last dot of the last path element.\<close>

definition last_elem :: "string \<Rightarrow> string" where
  "last_elem s = rev (takeWhile (\<lambda>c. c \<noteq> CHR ''/'') (rev s))"

definition file_ext :: "string \<Rightarrow> string" where
  "file_ext s = (let e = last_elem s in
     if CHR ''.'' \<in> set e then CHR ''.'' # rev (takeWhile (\<lambda>c. c \<noteq> CHR ''.'') (rev e)) else [])"

text \<open>\<open>filepath.Base\<close> on a Unix system.\<close>

definition file_base :: "string \<Rightarrow> string" where
  "file_base s = (if s = [] then ''.''
     else let t = rev (dropWhile (\<lambda>c. c = CHR ''/'') (rev s)) in
       if t = [] then ''/'' else last_elem t)"

lemma file_base_nonempty: "file_base s \<noteq> []"
proof -
  have "last_elem t \<noteq> []" if "t \<noteq> []" "last t \<noteq> CHR ''/''" for t
    using that by (cases t rule: rev_cases) (auto simp: last_elem_def)
  moreover have "last (rev (dropWhile (\<lambda>c. c = CHR ''/'') (rev s))) \<noteq> CHR ''/''"
    if "rev (dropWhile (\<lambda>c. c = CHR ''/'') (rev s)) \<noteq> []"
    using that hd_dropWhile [of "\<lambda>c. c = CHR ''/''" "rev s"] by (simp add: last_rev)
  ultimately show ?thesis by (auto simp: file_base_def Let_def)
qed

end
