(* ===== verification/Errors.thy ===== *)
theory Errors
  imports Go_Strings
begin

text \<open>
  Go's error values. A package-level error (\<open>errors.New\<close> bound to a variable, compared by
  identity) is a \<open>sentinel\<close>; \<open>fmt.Errorf\<close> with \<open>%w\<close> is \<open>Wrapped\<close>, with the text before and after
  the wrapped error's; \<open>errors.Join\<close> of two errors is \<open>Joined\<close>; the service's own error type
  (\<open>internal/apperror/error.go\<close>) is \<open>AppError\<close>; a gRPC status error is \<open>StatusError\<close>. The text of an
  error that belongs to code outside the repository is carried by the value. \<open>err_any\<close> walks
  the tree of wrapped errors as \<open>errors.Is\<close> and \<open>errors.As\<close> do.
\<close>

section \<open>Error values\<close>

datatype sentinel =
    ErrNotFound | ErrStaleVersion
  | ErrRowLimitExceeded | ErrByteLimitExceeded | ErrInvalidHeader
  | ErrInvalidProviderResponse | ErrOutputLimitExceeded
  | ErrDisabled
  | SqlErrNoRows | IoEOF | BufioErrTooLong
  | CtxDeadlineExceeded | CtxCanceled
  | ErrNotGranted string | ErrDecisionUnavailable string

datatype grpc_code =
    GrpcOK | GrpcCanceled | GrpcUnknown | GrpcInvalidArgument | GrpcDeadlineExceeded
  | GrpcNotFound | GrpcAlreadyExists | GrpcPermissionDenied | GrpcResourceExhausted
  | GrpcFailedPrecondition | GrpcAborted | GrpcOutOfRange | GrpcUnimplemented
  | GrpcInternal | GrpcUnavailable | GrpcDataLoss | GrpcUnauthenticated

datatype gerr =
    Sentinel sentinel
  | ErrText string
  | Wrapped string gerr string
  | Joined gerr gerr
  | StatusError grpc_code string
  | AppError int string int "gerr option"

fun sentinel_text :: "sentinel \<Rightarrow> string" where
  "sentinel_text ErrNotFound = ''import job not found''"
| "sentinel_text ErrStaleVersion = ''stale import job version''"
| "sentinel_text ErrRowLimitExceeded = ''import row limit exceeded''"
| "sentinel_text ErrByteLimitExceeded = ''import byte limit exceeded''"
| "sentinel_text ErrInvalidHeader = ''import file has an invalid header''"
| "sentinel_text ErrInvalidProviderResponse = ''import provider returned an invalid response''"
| "sentinel_text ErrOutputLimitExceeded = ''import generated output exceeds byte limit''"
| "sentinel_text ErrDisabled = ''object storage is disabled''"
| "sentinel_text SqlErrNoRows = ''sql: no rows in result set''"
| "sentinel_text IoEOF = ''EOF''"
| "sentinel_text BufioErrTooLong = ''bufio.Scanner: token too long''"
| "sentinel_text CtxDeadlineExceeded = ''context deadline exceeded''"
| "sentinel_text CtxCanceled = ''context canceled''"
| "sentinel_text (ErrNotGranted t) = t"
| "sentinel_text (ErrDecisionUnavailable t) = t"

fun grpc_code_text :: "grpc_code \<Rightarrow> string" where
  "grpc_code_text GrpcOK = ''OK''"
| "grpc_code_text GrpcCanceled = ''Canceled''"
| "grpc_code_text GrpcUnknown = ''Unknown''"
| "grpc_code_text GrpcInvalidArgument = ''InvalidArgument''"
| "grpc_code_text GrpcDeadlineExceeded = ''DeadlineExceeded''"
| "grpc_code_text GrpcNotFound = ''NotFound''"
| "grpc_code_text GrpcAlreadyExists = ''AlreadyExists''"
| "grpc_code_text GrpcPermissionDenied = ''PermissionDenied''"
| "grpc_code_text GrpcResourceExhausted = ''ResourceExhausted''"
| "grpc_code_text GrpcFailedPrecondition = ''FailedPrecondition''"
| "grpc_code_text GrpcAborted = ''Aborted''"
| "grpc_code_text GrpcOutOfRange = ''OutOfRange''"
| "grpc_code_text GrpcUnimplemented = ''Unimplemented''"
| "grpc_code_text GrpcInternal = ''Internal''"
| "grpc_code_text GrpcUnavailable = ''Unavailable''"
| "grpc_code_text GrpcDataLoss = ''DataLoss''"
| "grpc_code_text GrpcUnauthenticated = ''Unauthenticated''"

text \<open>The method \<open>Error\<close>: an application error shows its cause when it has one.\<close>

fun err_text :: "gerr \<Rightarrow> string" where
  "err_text (Sentinel s) = sentinel_text s"
| "err_text (ErrText t) = t"
| "err_text (Wrapped a e b) = a @ err_text e @ b"
| "err_text (Joined e f) = err_text e @ CHR 0x0A # err_text f"
| "err_text (StatusError c m) = ''rpc error: code = '' @ grpc_code_text c @ '' desc = '' @ m"
| "err_text (AppError c m s None) = m"
| "err_text (AppError c m s (Some e)) = err_text e"

section \<open>Walking wrapped errors\<close>

fun err_any :: "(gerr \<Rightarrow> bool) \<Rightarrow> gerr \<Rightarrow> bool" where
  "err_any p (Sentinel s) = p (Sentinel s)"
| "err_any p (ErrText t) = p (ErrText t)"
| "err_any p (Wrapped a e b) = (p (Wrapped a e b) \<or> err_any p e)"
| "err_any p (Joined e f) = (p (Joined e f) \<or> err_any p e \<or> err_any p f)"
| "err_any p (StatusError c m) = p (StatusError c m)"
| "err_any p (AppError c m s None) = p (AppError c m s None)"
| "err_any p (AppError c m s (Some e)) = (p (AppError c m s (Some e)) \<or> err_any p e)"

definition err_is :: "gerr \<Rightarrow> sentinel \<Rightarrow> bool" where
  "err_is e s \<longleftrightarrow> err_any (\<lambda>x. x = Sentinel s) e"

definition err_is_not_granted :: "gerr \<Rightarrow> bool" where
  "err_is_not_granted e \<longleftrightarrow>
     err_any (\<lambda>x. case x of Sentinel (ErrNotGranted _) \<Rightarrow> True | _ \<Rightarrow> False) e"

definition err_is_decision_unavailable :: "gerr \<Rightarrow> bool" where
  "err_is_decision_unavailable e \<longleftrightarrow>
     err_any (\<lambda>x. case x of Sentinel (ErrDecisionUnavailable _) \<Rightarrow> True | _ \<Rightarrow> False) e"

text \<open>\<open>errors.As\<close> with a target of type \<open>*apperror.Error\<close>: the first one, in pre-order.\<close>

fun as_app_error :: "gerr \<Rightarrow> (int \<times> string \<times> int \<times> gerr option) option" where
  "as_app_error (Sentinel s) = None"
| "as_app_error (ErrText t) = None"
| "as_app_error (Wrapped a e b) = as_app_error e"
| "as_app_error (Joined e f) = (case as_app_error e of Some x \<Rightarrow> Some x | None \<Rightarrow> as_app_error f)"
| "as_app_error (StatusError c m) = None"
| "as_app_error (AppError c m s e) = Some (c, m, s, e)"

text \<open>\<open>status.Code\<close>: the code of the first wrapped status error, \<open>Unknown\<close> without one.\<close>

fun as_status :: "gerr \<Rightarrow> grpc_code option" where
  "as_status (Sentinel s) = None"
| "as_status (ErrText t) = None"
| "as_status (Wrapped a e b) = as_status e"
| "as_status (Joined e f) = (case as_status e of Some x \<Rightarrow> Some x | None \<Rightarrow> as_status f)"
| "as_status (StatusError c m) = Some c"
| "as_status (AppError c m s None) = None"
| "as_status (AppError c m s (Some e)) = as_status e"

definition status_code :: "gerr option \<Rightarrow> grpc_code" where
  "status_code r = (case r of None \<Rightarrow> GrpcOK
     | Some e \<Rightarrow> (case as_status e of None \<Rightarrow> GrpcUnknown | Some c \<Rightarrow> c))"

text \<open>\<open>errors.Join\<close> drops nil errors.\<close>

fun errors_join :: "gerr option \<Rightarrow> gerr option \<Rightarrow> gerr option" where
  "errors_join None f = f"
| "errors_join (Some e) None = Some e"
| "errors_join (Some e) (Some f) = Some (Joined e f)"

lemma err_is_simps [simp]:
  "err_is (Sentinel s) t \<longleftrightarrow> s = t"
  "err_is (ErrText a) t \<longleftrightarrow> False"
  "err_is (Wrapped a e b) t \<longleftrightarrow> err_is e t"
  "err_is (Joined e f) t \<longleftrightarrow> err_is e t \<or> err_is f t"
  "err_is (StatusError gc m) t \<longleftrightarrow> False"
  "err_is (AppError c m st None) t \<longleftrightarrow> False"
  "err_is (AppError c m st (Some e)) t \<longleftrightarrow> err_is e t"
  by (auto simp: err_is_def)

section \<open>Application errors (internal/apperror/error.go)\<close>

definition CodeOK :: int where "CodeOK = 0"
definition CodeInvalidArgument :: int where "CodeInvalidArgument = 10001"
definition CodeNotFound :: int where "CodeNotFound = 10004"
definition CodeRequestTimeout :: int where "CodeRequestTimeout = 10008"
definition CodeTooManyRequests :: int where "CodeTooManyRequests = 10029"
definition CodeUnauthorized :: int where "CodeUnauthorized = 20001"
definition CodeForbidden :: int where "CodeForbidden = 20003"
definition CodeConflict :: int where "CodeConflict = 30009"
definition CodeRequestInProgress :: int where "CodeRequestInProgress = 30010"
definition CodeInternal :: int where "CodeInternal = 50000"
definition CodeDependencyUnavailable :: int where "CodeDependencyUnavailable = 50003"

lemmas code_defs = CodeOK_def CodeInvalidArgument_def CodeNotFound_def CodeRequestTimeout_def
  CodeTooManyRequests_def CodeUnauthorized_def CodeForbidden_def CodeConflict_def
  CodeRequestInProgress_def CodeInternal_def CodeDependencyUnavailable_def

definition app_new :: "int \<Rightarrow> string \<Rightarrow> int \<Rightarrow> gerr option \<Rightarrow> gerr" where
  "app_new code message status e = AppError code message status e"

definition app_invalid :: "string \<Rightarrow> gerr option \<Rightarrow> gerr" where
  "app_invalid message e = app_new CodeInvalidArgument message 400 e"
definition app_not_found :: "string \<Rightarrow> gerr" where
  "app_not_found message = app_new CodeNotFound message 404 None"
definition app_conflict :: "string \<Rightarrow> gerr option \<Rightarrow> gerr" where
  "app_conflict message e = app_new CodeConflict message 409 e"
definition app_request_in_progress :: gerr where
  "app_request_in_progress = app_new CodeRequestInProgress ''request is already processing'' 409 None"
definition app_unauthorized :: "string \<Rightarrow> gerr" where
  "app_unauthorized message = app_new CodeUnauthorized message 401 None"
definition app_forbidden :: "string \<Rightarrow> gerr" where
  "app_forbidden message = app_new CodeForbidden message 403 None"
definition app_too_many_requests :: gerr where
  "app_too_many_requests = app_new CodeTooManyRequests ''too many requests'' 429 None"
definition app_request_timeout :: gerr where
  "app_request_timeout = app_new CodeRequestTimeout ''request timeout'' 504 None"
definition app_unavailable :: "string \<Rightarrow> gerr option \<Rightarrow> gerr" where
  "app_unavailable message e = app_new CodeDependencyUnavailable message 503 e"
definition app_internal :: "gerr option \<Rightarrow> gerr" where
  "app_internal e = app_new CodeInternal ''internal server error'' 500 e"

lemmas app_error_defs = app_new_def app_invalid_def app_not_found_def app_conflict_def
  app_request_in_progress_def app_unauthorized_def app_forbidden_def app_too_many_requests_def
  app_request_timeout_def app_unavailable_def app_internal_def

text \<open>The code of an error as a client sees it, and the HTTP status that goes with it.\<close>

definition app_code :: "gerr \<Rightarrow> int" where
  "app_code e = (case as_app_error e of Some (c, _, _, _) \<Rightarrow> c | None \<Rightarrow> CodeInternal)"

end
