(* ===== verification/Job_Model.thy ===== *)
theory Job_Model
  imports Errors
begin

text \<open>
  The data of \<open>internal/importjob/model.go\<close>: the eleven status values, the three file formats,
  the import job (a record with one field per column of the table \<open>import_jobs\<close>, under the
  column's name; \<open>job_id\<close> is the column \<open>id\<close>), the input of \<open>Create\<close>, the filter and the page of
  \<open>List\<close>, and the event of the transactional outbox.
\<close>

section \<open>Status values\<close>

definition StatusUploading :: string where "StatusUploading = ''uploading''"
definition StatusQueued :: string where "StatusQueued = ''queued''"
definition StatusValidating :: string where "StatusValidating = ''validating''"
definition StatusValidationFailed :: string where "StatusValidationFailed = ''validation_failed''"
definition StatusReady :: string where "StatusReady = ''ready''"
definition StatusApplyQueued :: string where "StatusApplyQueued = ''apply_queued''"
definition StatusApplying :: string where "StatusApplying = ''applying''"
definition StatusSucceeded :: string where "StatusSucceeded = ''succeeded''"
definition StatusFailed :: string where "StatusFailed = ''failed''"
definition StatusCanceled :: string where "StatusCanceled = ''canceled''"
definition StatusExpired :: string where "StatusExpired = ''expired''"

lemmas status_defs = StatusUploading_def StatusQueued_def StatusValidating_def
  StatusValidationFailed_def StatusReady_def StatusApplyQueued_def StatusApplying_def
  StatusSucceeded_def StatusFailed_def StatusCanceled_def StatusExpired_def

definition all_statuses :: "string list" where
  "all_statuses = [StatusUploading, StatusQueued, StatusValidating, StatusValidationFailed,
     StatusReady, StatusApplyQueued, StatusApplying, StatusSucceeded, StatusFailed,
     StatusCanceled, StatusExpired]"

lemma statuses_distinct: "distinct all_statuses"
  by (simp add: all_statuses_def status_defs)

lemma statuses_distinct_rev: "distinct (rev all_statuses)"
  using statuses_distinct by simp

lemmas status_neq [simp] = statuses_distinct [unfolded all_statuses_def, simplified]
  statuses_distinct_rev [unfolded all_statuses_def, simplified]

section \<open>Formats\<close>

definition FormatCSV :: string where "FormatCSV = ''csv''"
definition FormatJSONL :: string where "FormatJSONL = ''jsonl''"
definition FormatXLSX :: string where "FormatXLSX = ''xlsx''"

lemmas format_defs = FormatCSV_def FormatJSONL_def FormatXLSX_def

lemma formats_distinct [simp]:
  "FormatCSV \<noteq> FormatJSONL" "FormatCSV \<noteq> FormatXLSX" "FormatJSONL \<noteq> FormatXLSX"
  "FormatJSONL \<noteq> FormatCSV" "FormatXLSX \<noteq> FormatCSV" "FormatXLSX \<noteq> FormatJSONL"
  by (simp_all add: format_defs)

section \<open>Jobs\<close>

record job =
  job_id :: string
  tenant_id :: string
  application_id :: string
  dataset_code :: string
  provider_service :: string
  file_format :: string
  filename :: string
  status :: string
  source_object_key :: string
  normalized_object_key :: string
  error_report_object_key :: string
  source_checksum :: string
  source_bytes :: int
  total_rows :: int
  valid_rows :: int
  invalid_rows :: int
  applied_rows :: int
  progress_percent :: int
  error_code :: string
  error_message :: string
  idempotency_key :: string
  confirm_key :: string
  upload_expires_at :: "time option"
  started_at :: "time option"
  completed_at :: "time option"
  result_expires_at :: "time option"
  version :: int
  created_at :: time
  updated_at :: time
  created_by :: string
  updated_by :: string

text \<open>The zero value \<open>Job{}\<close>; Go's zero \<open>time.Time\<close> is the given instant.\<close>

definition zero_time :: time where
  "zero_time = - 62135596800 * 1000000000"

definition zero_job :: job where
  "zero_job = \<lparr>job_id = [], tenant_id = [], application_id = [], dataset_code = [],
     provider_service = [], file_format = [], filename = [], status = [],
     source_object_key = [], normalized_object_key = [], error_report_object_key = [],
     source_checksum = [], source_bytes = 0, total_rows = 0, valid_rows = 0, invalid_rows = 0,
     applied_rows = 0, progress_percent = 0, error_code = [], error_message = [],
     idempotency_key = [], confirm_key = [], upload_expires_at = None, started_at = None,
     completed_at = None, result_expires_at = None, version = 0, created_at = zero_time,
     updated_at = zero_time, created_by = [], updated_by = []\<rparr>"

record create_input =
  ci_tenant_id :: string
  ci_application_id :: string
  ci_dataset_code :: string
  ci_provider_service :: string
  ci_format :: string
  ci_filename :: string
  ci_idempotency_key :: string

record list_filter =
  lf_tenant_id :: string
  lf_application_id :: string
  lf_status :: string
  lf_dataset_code :: string
  lf_created_from :: "time option"
  lf_created_to :: "time option"
  lf_page :: i32
  lf_page_size :: i32

record job_page =
  page_items :: "job list"
  page_total :: int

record outbox_event =
  oe_id :: string
  oe_subject :: string
  oe_envelope :: string
  oe_available_at :: time
  oe_created_at :: time
  oe_updated_at :: time
  oe_created_by :: string
  oe_updated_by :: string

text \<open>A row of \<open>import_outbox_events\<close> as \<open>AddOutbox\<close> writes it.\<close>

record outbox_row = outbox_event +
  or_attempts :: int
  or_published_at :: "time option"
  or_last_error :: string
  or_version :: int

end
