(* ===== verification/Store.thy ===== *)
theory Store
  imports Job_Model
begin

text \<open>
  The state that the service and the worker share, and the transactor.

  A \<open>world\<close> holds the two tables of the migrations (\<open>import_jobs\<close>, \<open>import_outbox_events\<close>), the
  object store, the flags of the open transaction, and what the environment decides: which calls
  fail (\<open>faults\<close>, indexed by the number of calls made so far), what the clock shows, which
  identifiers \<open>uuid.NewString\<close> returns. A theorem about every world is therefore a theorem about
  every pattern of failures. A call can fail before it takes effect (\<open>Fault\<close>) or take effect and
  lose its answer (\<open>Lost\<close>).

  One statement, and one transaction as a whole, is atomic; what other clients do between two
  of them is the subject of theory \<open>Lifecycle\<close>.
\<close>

section \<open>The world\<close>

datatype fault = Fault gerr | Lost gerr

datatype dialect = Postgres | Kingbase | Mysql

record world =
  jobs :: "job list"
  outbox :: "outbox_row list"
  objects :: "string \<rightharpoonup> string"
  dialect :: dialect
  db_enabled :: bool
  in_tx :: bool
  aborted :: bool
  faults :: "nat \<Rightarrow> fault option"
  calls :: nat
  clock :: "nat \<Rightarrow> time"
  readings :: nat
  uuids :: "nat \<Rightarrow> string"
  uuids_used :: nat
  driver_text :: string

fun fault_err :: "fault \<Rightarrow> gerr" where
  "fault_err (Fault e) = e"
| "fault_err (Lost e) = e"

text \<open>One call to the outside: whether it fails, and the world in which it has been made.\<close>

definition tick :: "world \<Rightarrow> fault option \<times> world" where
  "tick w = (faults w (calls w), w\<lparr>calls := Suc (calls w)\<rparr>)"

definition time_now :: "world \<Rightarrow> time \<times> world" where
  "time_now w = (clock w (readings w), w\<lparr>readings := Suc (readings w)\<rparr>)"

definition new_uuid :: "world \<Rightarrow> string \<times> world" where
  "new_uuid w = (uuids w (uuids_used w), w\<lparr>uuids_used := Suc (uuids_used w)\<rparr>)"

text \<open>A call that changes none of the tables (the object store, the provider, the verifier, the
  clock of another machine): its answer may depend on everything, the number of calls included.\<close>

definition ask :: "(world \<Rightarrow> 'a) \<Rightarrow> world \<Rightarrow> 'a \<times> world" where
  "ask f w = (f w, w\<lparr>calls := Suc (calls w)\<rparr>)"

text \<open>Go's \<open>if err != nil { return err }\<close> between two calls.\<close>

definition and_then :: "('e + 'a) \<times> 'w \<Rightarrow> ('a \<Rightarrow> 'w \<Rightarrow> ('e + 'b) \<times> 'w) \<Rightarrow> ('e + 'b) \<times> 'w" where
  "and_then r f = (case r of (Inl e, w) \<Rightarrow> (Inl e, w) | (Inr x, w) \<Rightarrow> f x w)"

lemma and_then_simps [simp]:
  "and_then (Inl e, w) f = (Inl e, w)" "and_then (Inr x, w) f = f x w"
  by (simp_all add: and_then_def)

lemma and_then_cases:
  assumes "and_then r f = (r', w')"
  obtains e where "r = (Inl e, w')" "r' = Inl e" | x w where "r = (Inr x, w)" "f x w = (r', w')"
  using assms by (cases r; cases "fst r") auto

lemma and_then_ok:
  assumes "and_then r f = (Inr y, w')"
  obtains x w where "r = (Inr x, w)" "f x w = (Inr y, w')"
  using assms by (rule and_then_cases) auto

section \<open>Outcomes of programs\<close>

text \<open>\<open>post r Q\<close>: the result and the world of \<open>r\<close> satisfy \<open>Q\<close>. The rules in \<open>wp\<close> take a program
  apart, one call, branch or binding at a time; each operation adds its own.\<close>

definition post :: "'r \<times> 'w \<Rightarrow> ('r \<Rightarrow> 'w \<Rightarrow> bool) \<Rightarrow> bool" where
  "post r Q \<longleftrightarrow> Q (fst r) (snd r)"

lemma post_pair [simp]: "post (x, w) Q \<longleftrightarrow> Q x w"
  by (simp add: post_def)

lemma postI: "(\<And>x v. r = (x, v) \<Longrightarrow> Q x v) \<Longrightarrow> post r Q"
  by (cases r) (simp add: post_def)

lemma postD: "post r Q \<Longrightarrow> r = (x, v) \<Longrightarrow> Q x v"
  by (simp add: post_def)

lemma post_mono: "post r P \<Longrightarrow> (\<And>x v. P x v \<Longrightarrow> Q x v) \<Longrightarrow> post r Q"
  by (simp add: post_def)

lemma post_return [wp]: "Q x w \<Longrightarrow> post (x, w) Q"
  by simp

lemma post_bind_pair [wp]: "post r (\<lambda>x v. post (f x v) Q) \<Longrightarrow> post (case r of (x, v) \<Rightarrow> f x v) Q"
  by (cases r) (simp add: post_def)

lemma post_and_then [wp]:
  "post r (\<lambda>x v. (\<forall>e. x = Inl e \<longrightarrow> Q (Inl e) v) \<and> (\<forall>y. x = Inr y \<longrightarrow> post (f y v) Q)) \<Longrightarrow>
   post (and_then r f) Q"
  by (cases r; cases "fst r") (auto simp: post_def)

lemma post_if [wp]: "(c \<Longrightarrow> post x Q) \<Longrightarrow> (\<not> c \<Longrightarrow> post y Q) \<Longrightarrow> post (if c then x else y) Q"
  by simp

lemma post_let [wp]: "(\<And>y. y = x \<Longrightarrow> post (f y) Q) \<Longrightarrow> post (let y = x in f y) Q"
  by (simp add: Let_def)

lemma post_sum [wp]:
  "(\<And>e. x = Inl e \<Longrightarrow> post (f e) Q) \<Longrightarrow> (\<And>y. x = Inr y \<Longrightarrow> post (g y) Q) \<Longrightarrow>
   post (case x of Inl e \<Rightarrow> f e | Inr y \<Rightarrow> g y) Q"
  by (cases x) auto

lemma post_option [wp]:
  "(x = None \<Longrightarrow> post f Q) \<Longrightarrow> (\<And>y. x = Some y \<Longrightarrow> post (g y) Q) \<Longrightarrow>
   post (case x of None \<Rightarrow> f | Some y \<Rightarrow> g y) Q"
  by (cases x) auto

lemma post_pattern [wp]:
  "(\<And>a b. x = (a, b) \<Longrightarrow> post (f a b w) Q) \<Longrightarrow> post ((case x of (a, b) \<Rightarrow> f a b) w) Q"
  by (cases x) auto

section \<open>Constraints of the tables (migrations)\<close>

definition idem_columns :: "job \<Rightarrow> string \<times> string \<times> string" where
  "idem_columns j = (tenant_id j, application_id j, idempotency_key j)"

definition row_checks :: "job \<Rightarrow> bool" where
  "row_checks j \<longleftrightarrow> status j \<in> set all_statuses
     \<and> file_format j \<in> {FormatCSV, FormatJSONL, FormatXLSX}
     \<and> 0 \<le> progress_percent j \<and> progress_percent j \<le> 100"

definition constraints_ok :: "job list \<Rightarrow> bool" where
  "constraints_ok rows \<longleftrightarrow> distinct (map job_id rows) \<and> distinct (map idem_columns rows)
     \<and> list_all row_checks rows"

section \<open>Statements\<close>

text \<open>PostgreSQL (and KingbaseES with it) aborts the transaction when a statement of it fails:
  every later statement fails until the transaction is rolled back. MySQL does not.\<close>

definition aborts_on_error :: "world \<Rightarrow> bool" where
  "aborts_on_error w \<longleftrightarrow> in_tx w \<and> dialect w \<noteq> Mysql"

definition fail_tx :: "world \<Rightarrow> world" where
  "fail_tx w = (if aborts_on_error w then w\<lparr>aborted := True\<rparr> else w)"

definition tx_aborted_error :: gerr where
  "tx_aborted_error = ErrText ''current transaction is aborted''"

definition stmt :: "(world \<Rightarrow> (gerr + 'a) \<times> world) \<Rightarrow> world \<Rightarrow> (gerr + 'a) \<times> world" where
  "stmt f w = (if in_tx w \<and> aborted w then (Inl tx_aborted_error, w)
     else case tick w of
       (Some (Fault e), w1) \<Rightarrow> (Inl e, fail_tx w1)
     | (Some (Lost e), w1) \<Rightarrow> (Inl e, fail_tx (snd (f w1)))
     | (None, w1) \<Rightarrow> (case f w1 of
           (Inl e, w2) \<Rightarrow> (Inl e, fail_tx w2)
         | (Inr x, w2) \<Rightarrow> (Inr x, w2)))"

definition exec_update :: "(job \<Rightarrow> bool) \<Rightarrow> (job \<Rightarrow> job) \<Rightarrow> world \<Rightarrow> (gerr + nat) \<times> world" where
  "exec_update p f w = (let rows = update_where p f (jobs w) in
     if constraints_ok rows then (Inr (length (filter p (jobs w))), w\<lparr>jobs := rows\<rparr>)
     else (Inl (ErrText (driver_text w)), w))"

definition exec_insert :: "job \<Rightarrow> world \<Rightarrow> (gerr + nat) \<times> world" where
  "exec_insert j w = (if constraints_ok (jobs w @ [j]) then (Inr 1, w\<lparr>jobs := jobs w @ [j]\<rparr>)
     else (Inl (ErrText (driver_text w)), w))"

definition exec_delete :: "(job \<Rightarrow> bool) \<Rightarrow> world \<Rightarrow> (gerr + nat) \<times> world" where
  "exec_delete p w = (Inr (length (filter p (jobs w))), w\<lparr>jobs := filter (\<lambda>j. \<not> p j) (jobs w)\<rparr>)"

definition exec_insert_outbox :: "outbox_row \<Rightarrow> world \<Rightarrow> (gerr + nat) \<times> world" where
  "exec_insert_outbox r w = (if oe_id r \<in> set (map oe_id (outbox w))
     then (Inl (ErrText (driver_text w)), w) else (Inr 1, w\<lparr>outbox := outbox w @ [r]\<rparr>))"

definition query :: "(job list \<Rightarrow> 'a) \<Rightarrow> world \<Rightarrow> (gerr + 'a) \<times> world" where
  "query f w = (Inr (f (jobs w)), w)"

text \<open>\<open>result.RowsAffected()\<close>, which a driver can refuse.\<close>

definition rows_affected :: "nat \<Rightarrow> world \<Rightarrow> (gerr + nat) \<times> world" where
  "rows_affected n w = (case tick w of
       (Some f, w1) \<Rightarrow> (Inl (fault_err f), w1)
     | (None, w1) \<Rightarrow> (Inr n, w1))"

section \<open>The transactor (internal/database/transaction.go)\<close>

definition leave_tx :: "world \<Rightarrow> world" where
  "leave_tx w = w\<lparr>in_tx := False, aborted := False\<rparr>"

text \<open>Rolling back restores the tables of the world \<open>w0\<close> in which the transaction began.\<close>

definition undo_tx :: "world \<Rightarrow> world \<Rightarrow> world" where
  "undo_tx w0 w = leave_tx (w\<lparr>jobs := jobs w0, outbox := outbox w0\<rparr>)"

definition commit_refused :: gerr where
  "commit_refused = ErrText ''commit unexpectedly resulted in rollback''"

definition within :: "(world \<Rightarrow> (gerr + 'a) \<times> world) \<Rightarrow> world \<Rightarrow> (gerr + 'a) \<times> world" where
  "within fn w =
     (if \<not> db_enabled w then (Inl (ErrText ''begin transaction: database is disabled''), w)
      else case tick w of
        (Some f, w1) \<Rightarrow> (Inl (Wrapped ''begin transaction: '' (fault_err f) []), w1)
      | (None, w1) \<Rightarrow>
          (case fn (w1\<lparr>in_tx := True, aborted := False\<rparr>) of
             (Inl e, w2) \<Rightarrow>
               (case tick w2 of
                  (Some f, w3) \<Rightarrow>
                    (Inl (Wrapped (''rollback transaction after '' @ err_text e @ '': '') (fault_err f) []),
                     undo_tx w w3)
                | (None, w3) \<Rightarrow> (Inl e, undo_tx w w3))
           | (Inr x, w2) \<Rightarrow>
               (case tick w2 of
                  (Some (Fault e), w3) \<Rightarrow> (Inl (Wrapped ''commit transaction: '' e []), undo_tx w w3)
                | (Some (Lost e), w3) \<Rightarrow>
                    (Inl (Wrapped ''commit transaction: '' e []),
                     if aborted w3 then undo_tx w w3 else leave_tx w3)
                | (None, w3) \<Rightarrow>
                    (if aborted w3 then (Inl (Wrapped ''commit transaction: '' commit_refused []), undo_tx w w3)
                     else (Inr x, leave_tx w3)))))"

section \<open>Facts on statements and transactions\<close>

text \<open>The tables of a world, all that a transaction commits or undoes.\<close>

definition tables :: "world \<Rightarrow> job list \<times> outbox_row list" where
  "tables w = (jobs w, outbox w)"

lemma fst_tables: "fst (tables w) = jobs w"
  by (simp add: tables_def)

lemma snd_tables: "snd (tables w) = outbox w"
  by (simp add: tables_def)

lemma tables_eq_iff: "tables w = tables v \<longleftrightarrow> jobs w = jobs v \<and> outbox w = outbox v"
  by (simp add: tables_def)

lemma tables_simps [simp]:
  "tables (w\<lparr>calls := n\<rparr>) = tables w" "tables (w\<lparr>in_tx := b\<rparr>) = tables w"
  "tables (w\<lparr>aborted := b\<rparr>) = tables w" "tables (w\<lparr>readings := n\<rparr>) = tables w"
  "tables (w\<lparr>uuids_used := n\<rparr>) = tables w" "tables (w\<lparr>objects := ob\<rparr>) = tables w"
  by (simp_all add: tables_def)

lemma tick_frame [frame]:
  "jobs (snd (tick w)) = jobs w" "outbox (snd (tick w)) = outbox w"
  "in_tx (snd (tick w)) = in_tx w" "aborted (snd (tick w)) = aborted w"
  "dialect (snd (tick w)) = dialect w" "objects (snd (tick w)) = objects w"
  by (simp_all add: tick_def)

lemma fail_tx_frame [simp]:
  "jobs (fail_tx w) = jobs w" "outbox (fail_tx w) = outbox w" "in_tx (fail_tx w) = in_tx w"
  "objects (fail_tx w) = objects w" "dialect (fail_tx w) = dialect w"
  by (simp_all add: fail_tx_def)

lemma leave_tx_frame [simp]:
  "jobs (leave_tx w) = jobs w" "outbox (leave_tx w) = outbox w" "objects (leave_tx w) = objects w"
  by (simp_all add: leave_tx_def)

lemma undo_tx_frame [simp]:
  "jobs (undo_tx w0 w) = jobs w0" "outbox (undo_tx w0 w) = outbox w0"
  "objects (undo_tx w0 w) = objects w"
  by (simp_all add: undo_tx_def)

lemma post_time_now [wp]: "(\<And>v. tables v = tables w \<Longrightarrow> Q (clock w (readings w)) v) \<Longrightarrow> post (time_now w) Q"
  by (simp add: time_now_def)

lemma post_new_uuid [wp]: "(\<And>v. tables v = tables w \<Longrightarrow> Q (uuids w (uuids_used w)) v) \<Longrightarrow> post (new_uuid w) Q"
  by (simp add: new_uuid_def)

lemma post_ask [wp]: "(\<And>v. tables v = tables w \<Longrightarrow> Q (f w) v) \<Longrightarrow> post (ask f w) Q"
  by (simp add: ask_def)

text \<open>What a successful statement did, and what any statement can have done to the tables.\<close>

lemma stmt_ok:
  assumes "stmt f w = (Inr x, w')"
  shows "f (w\<lparr>calls := Suc (calls w)\<rparr>) = (Inr x, w')" and "faults w (calls w) = None"
  using assms by (auto simp: stmt_def tick_def split: if_splits option.splits fault.splits prod.splits sum.splits)

lemma stmt_tables:
  assumes "stmt f w = (r, w')"
  shows "tables w' = tables w \<or> tables w' = tables (snd (f (w\<lparr>calls := Suc (calls w)\<rparr>)))"
  using assms
  by (auto simp: stmt_def tick_def tables_def
      split: if_splits option.splits fault.splits prod.splits sum.splits)

lemma post_stmt_query [wp]:
  "(\<And>e v. tables v = tables w \<Longrightarrow> Q (Inl e) v) \<Longrightarrow>
   (\<And>v. tables v = tables w \<Longrightarrow> Q (Inr (f (fst (tables w)))) v) \<Longrightarrow> post (stmt (query f) w) Q"
  by (rule postI) (auto simp: stmt_def tick_def query_def tables_def fail_tx_def
      split: if_splits option.splits fault.splits)

lemma rows_affected_ok: "rows_affected n w = (Inr m, w') \<Longrightarrow> m = n \<and> tables w' = tables w"
  by (auto simp: rows_affected_def tick_def tables_def split: option.splits)

lemma rows_affected_tables: "rows_affected n w = (r, w') \<Longrightarrow> tables w' = tables w"
  by (auto simp: rows_affected_def tick_def tables_def split: option.splits)

text \<open>The three ways a transaction can end: undone with an error, committed with its result,
  or committed with the answer lost.\<close>

lemma within_cases [consumes 1, case_names undone committed lost]:
  assumes "within fn w = (r, w')"
  obtains e where "r = Inl e" "tables w' = tables w"
  | x w2 where "r = Inr x"
      "fn (w\<lparr>calls := Suc (calls w), in_tx := True, aborted := False\<rparr>) = (Inr x, w2)"
      "tables w' = tables w2" "\<not> aborted w2"
  | x e w2 where "r = Inl (Wrapped ''commit transaction: '' e [])"
      "fn (w\<lparr>calls := Suc (calls w), in_tx := True, aborted := False\<rparr>) = (Inr x, w2)"
      "tables w' = tables w2" "\<not> aborted w2"
  using assms
  by (auto simp: within_def tick_def tables_def
      split: if_splits option.splits fault.splits prod.splits sum.splits)

lemma within_ok:
  assumes "within fn w = (Inr x, w')"
  obtains w2 where "fn (w\<lparr>calls := Suc (calls w), in_tx := True, aborted := False\<rparr>) = (Inr x, w2)"
    and "tables w' = tables w2"
  using assms by (cases rule: within_cases) auto

lemma within_disabled: "\<not> db_enabled w \<Longrightarrow>
    within fn w = (Inl (ErrText ''begin transaction: database is disabled''), w)"
  by (simp add: within_def)

text \<open>Whatever every successful run of the body establishes of the tables from those it began
  with holds of the transaction, if leaving the tables alone does too.\<close>

lemma within_rel:
  assumes "within fn w = (r, w')"
    and refl: "R (tables w) (tables w)"
    and body: "\<And>v x v2. fn v = (Inr x, v2) \<Longrightarrow> tables v = tables w \<Longrightarrow> R (tables v) (tables v2)"
  shows "R (tables w) (tables w')"
  using assms(1)
proof (cases rule: within_cases)
  case (undone e)
  with refl show ?thesis by simp
next
  case (committed x w2)
  with body [OF committed(2)] show ?thesis by simp
next
  case (lost x e w2)
  with body [OF lost(2)] show ?thesis by simp
qed

lemma constraints_ok_distinct_ids: "constraints_ok rows \<Longrightarrow> distinct (map job_id rows)"
  by (simp add: constraints_ok_def)

end
