(* ===== verification/Repository.thy ===== *)
theory Repository
  imports Store
begin

text \<open>
  The SQL repository (\<open>internal/importjob/repository.go\<close>): one definition per method. The
  \<open>WHERE\<close> clause and the \<open>SET\<close> list of every \<open>UPDATE\<close> are definitions of their own
  (\<open>..._where\<close>, \<open>..._set\<close>), so that the lifecycle of a job can be stated over them.

  Methods that get an \<open>sqlx.ExtContext\<close> run on the connection of the open transaction, the
  others on the database handle; both are the same \<open>world\<close>. Bytes are compared exactly, as a
  binary collation does.
\<close>

section \<open>Reading\<close>

definition is_key :: "string \<Rightarrow> string \<Rightarrow> string \<Rightarrow> job \<Rightarrow> bool" where
  "is_key t a i j \<longleftrightarrow> tenant_id j = t \<and> application_id j = a \<and> job_id j = i"

definition is_idem :: "string \<Rightarrow> string \<Rightarrow> string \<Rightarrow> job \<Rightarrow> bool" where
  "is_idem t a k j \<longleftrightarrow> tenant_id j = t \<and> application_id j = a \<and> idempotency_key j = k"

definition not_found :: "gerr \<Rightarrow> gerr" where
  "not_found e = (if err_is e SqlErrNoRows then Sentinel ErrNotFound else e)"

definition get_one :: "(job \<Rightarrow> bool) \<Rightarrow> world \<Rightarrow> (gerr + job) \<times> world" where
  "get_one p w = (case stmt (query (filter p)) w of
       (Inl e, w1) \<Rightarrow> (Inl (not_found e), w1)
     | (Inr [], w1) \<Rightarrow> (Inl (not_found (Sentinel SqlErrNoRows)), w1)
     | (Inr (j # js), w1) \<Rightarrow> (Inr j, w1))"

definition repo_get :: "string \<Rightarrow> string \<Rightarrow> string \<Rightarrow> world \<Rightarrow> (gerr + job) \<times> world" where
  "repo_get t a i = get_one (is_key t a i)"

definition repo_get_by_idempotency :: "string \<Rightarrow> string \<Rightarrow> string \<Rightarrow> world \<Rightarrow> (gerr + job) \<times> world" where
  "repo_get_by_idempotency t a k = get_one (is_idem t a k)"

text \<open>\<open>LIMIT\<close> and \<open>OFFSET\<close>: a negative one is an error of the database.\<close>

definition page_query :: "int \<Rightarrow> int \<Rightarrow> (job list \<Rightarrow> job list) \<Rightarrow> world \<Rightarrow> (gerr + job list) \<times> world" where
  "page_query limit offset f w = (if limit < 0 \<or> offset < 0 then (Inl (ErrText (driver_text w)), w)
     else (Inr (take (nat limit) (drop (nat offset) (f (jobs w)))), w))"

definition list_where :: "list_filter \<Rightarrow> job \<Rightarrow> bool" where
  "list_where f j \<longleftrightarrow> tenant_id j = lf_tenant_id f \<and> application_id j = lf_application_id f
     \<and> (lf_status f = [] \<or> status j = lf_status f)
     \<and> (lf_dataset_code f = [] \<or> dataset_code j = lf_dataset_code f)
     \<and> (case lf_created_from f of None \<Rightarrow> True | Some t \<Rightarrow> t \<le> created_at j)
     \<and> (case lf_created_to f of None \<Rightarrow> True | Some t \<Rightarrow> created_at j < t)"

definition newest_first :: "job list \<Rightarrow> job list" where
  "newest_first rows = rev (sort_key (\<lambda>j. (created_at j, job_id j)) rows)"

text \<open>The offset is computed in \<open>int32\<close>.\<close>

definition list_offset :: "list_filter \<Rightarrow> i32" where
  "list_offset f = (lf_page f - 1) * lf_page_size f"

definition repo_list :: "list_filter \<Rightarrow> world \<Rightarrow> (gerr + job_page) \<times> world" where
  "repo_list f w = (case stmt (query (\<lambda>rows. length (filter (list_where f) rows))) w of
       (Inl e, w1) \<Rightarrow> (Inl e, w1)
     | (Inr n, w1) \<Rightarrow>
         (case stmt (page_query (sint (lf_page_size f)) (sint (list_offset f))
                  (\<lambda>rows. newest_first (filter (list_where f) rows))) w1 of
            (Inl e, w2) \<Rightarrow> (Inl e, w2)
          | (Inr items, w2) \<Rightarrow> (Inr \<lparr>page_items = items, page_total = int n\<rparr>, w2)))"

section \<open>Writing\<close>

definition after_update :: "string \<Rightarrow> string \<Rightarrow> string \<Rightarrow> (gerr + nat) \<times> world \<Rightarrow> (gerr + job) \<times> world" where
  "after_update t a i r = (case r of
       (Inl e, w) \<Rightarrow> (Inl e, w)
     | (Inr n, w) \<Rightarrow> (case rows_affected n w of
           (Inl e, w1) \<Rightarrow> (Inl e, w1)
         | (Inr m, w1) \<Rightarrow> if m = 0 then (Inl (Sentinel ErrStaleVersion), w1) else repo_get t a i w1))"

definition repo_create :: "job \<Rightarrow> world \<Rightarrow> (gerr + job \<times> bool) \<times> world" where
  "repo_create v w =
     (case repo_get_by_idempotency (tenant_id v) (application_id v) (idempotency_key v) w of
        (Inr existing, w1) \<Rightarrow> (Inr (existing, False), w1)
      | (Inl e, w1) \<Rightarrow>
          if \<not> err_is e ErrNotFound then (Inl e, w1)
          else (case stmt (exec_insert v) w1 of
              (Inr _, w2) \<Rightarrow> (Inr (v, True), w2)
            | (Inl insert_err, w2) \<Rightarrow>
                (case repo_get_by_idempotency (tenant_id v) (application_id v) (idempotency_key v) w2 of
                   (Inr existing, w3) \<Rightarrow> (Inr (existing, False), w3)
                 | (Inl _, w3) \<Rightarrow> (Inl insert_err, w3))))"

definition complete_upload_where :: "job \<Rightarrow> int \<Rightarrow> job \<Rightarrow> bool" where
  "complete_upload_where v expected j \<longleftrightarrow> is_key (tenant_id v) (application_id v) (job_id v) j
     \<and> version j = expected \<and> status j = StatusUploading"

definition complete_upload_set :: "job \<Rightarrow> job \<Rightarrow> job" where
  "complete_upload_set v j = j\<lparr>status := StatusQueued, source_checksum := source_checksum v,
     source_bytes := source_bytes v, version := version j + 1, updated_at := updated_at v,
     updated_by := updated_by v\<rparr>"

definition repo_complete_upload :: "job \<Rightarrow> int \<Rightarrow> world \<Rightarrow> (gerr + job) \<times> world" where
  "repo_complete_upload v expected w = after_update (tenant_id v) (application_id v) (job_id v)
     (stmt (exec_update (complete_upload_where v expected) (complete_upload_set v)) w)"

definition cancelable :: "string list" where
  "cancelable = [StatusUploading, StatusQueued, StatusValidating, StatusValidationFailed,
     StatusReady, StatusApplyQueued, StatusApplying, StatusFailed]"

definition cancel_where :: "string \<Rightarrow> string \<Rightarrow> string \<Rightarrow> int \<Rightarrow> job \<Rightarrow> bool" where
  "cancel_where t a i expected j \<longleftrightarrow> is_key t a i j \<and> version j = expected
     \<and> status j \<in> set cancelable"

definition cancel_set :: "string \<Rightarrow> time \<Rightarrow> job \<Rightarrow> job" where
  "cancel_set actor now j = j\<lparr>status := StatusCanceled, completed_at := Some now,
     version := version j + 1, updated_at := now, updated_by := actor\<rparr>"

definition repo_cancel ::
  "string \<Rightarrow> string \<Rightarrow> string \<Rightarrow> int \<Rightarrow> string \<Rightarrow> time \<Rightarrow> world \<Rightarrow> (gerr + job) \<times> world" where
  "repo_cancel t a i expected actor now w = after_update t a i
     (stmt (exec_update (cancel_where t a i expected) (cancel_set actor now)) w)"

definition retryable :: "string list" where
  "retryable = [StatusValidationFailed, StatusFailed, StatusCanceled]"

definition retry_where :: "job \<Rightarrow> int \<Rightarrow> job \<Rightarrow> bool" where
  "retry_where v expected j \<longleftrightarrow> is_key (tenant_id v) (application_id v) (job_id v) j
     \<and> version j = expected \<and> status j \<in> set retryable"

definition retry_set :: "job \<Rightarrow> job \<Rightarrow> job" where
  "retry_set v j = j\<lparr>status := StatusUploading, source_object_key := source_object_key v,
     normalized_object_key := normalized_object_key v,
     error_report_object_key := error_report_object_key v, source_checksum := [],
     source_bytes := 0, total_rows := 0, valid_rows := 0, invalid_rows := 0, applied_rows := 0,
     progress_percent := 0, error_code := [], error_message := [],
     idempotency_key := idempotency_key v, confirm_key := [],
     upload_expires_at := upload_expires_at v, started_at := None, completed_at := None,
     result_expires_at := None, version := version j + 1, updated_at := updated_at v,
     updated_by := updated_by v\<rparr>"

definition repo_retry :: "job \<Rightarrow> int \<Rightarrow> world \<Rightarrow> (gerr + job) \<times> world" where
  "repo_retry v expected w = after_update (tenant_id v) (application_id v) (job_id v)
     (stmt (exec_update (retry_where v expected) (retry_set v)) w)"

definition confirm_where :: "job \<Rightarrow> int \<Rightarrow> job \<Rightarrow> bool" where
  "confirm_where v expected j \<longleftrightarrow> is_key (tenant_id v) (application_id v) (job_id v) j
     \<and> version j = expected \<and> status j = StatusReady"

definition confirm_set :: "job \<Rightarrow> job \<Rightarrow> job" where
  "confirm_set v j = j\<lparr>status := StatusApplyQueued, confirm_key := confirm_key v,
     version := version j + 1, updated_at := updated_at v, updated_by := updated_by v\<rparr>"

definition repo_confirm :: "job \<Rightarrow> int \<Rightarrow> world \<Rightarrow> (gerr + job \<times> bool) \<times> world" where
  "repo_confirm v expected w =
     (case repo_get (tenant_id v) (application_id v) (job_id v) w of
        (Inl e, w1) \<Rightarrow> (Inl e, w1)
      | (Inr current, w1) \<Rightarrow>
          if confirm_key current \<noteq> [] \<and> confirm_key current = confirm_key v
          then (Inr (current, False), w1)
          else (case after_update (tenant_id v) (application_id v) (job_id v)
                  (stmt (exec_update (confirm_where v expected) (confirm_set v)) w1) of
              (Inl e, w2) \<Rightarrow> (Inl e, w2)
            | (Inr updated, w2) \<Rightarrow> (Inr (updated, True), w2)))"

definition claim_where :: "string \<Rightarrow> string \<Rightarrow> string \<Rightarrow> string \<Rightarrow> job \<Rightarrow> bool" where
  "claim_where t a i from j \<longleftrightarrow> is_key t a i j \<and> status j = from"

definition claim_set :: "string \<Rightarrow> time \<Rightarrow> job \<Rightarrow> job" where
  "claim_set to now j = j\<lparr>status := to,
     started_at := (case started_at j of None \<Rightarrow> Some now | Some s \<Rightarrow> Some s),
     version := version j + 1, updated_at := now, updated_by := ''import-worker''\<rparr>"

definition repo_claim ::
  "string \<Rightarrow> string \<Rightarrow> string \<Rightarrow> string \<Rightarrow> string \<Rightarrow> time \<Rightarrow> world \<Rightarrow> (gerr + job option) \<times> world" where
  "repo_claim t a i from to now w =
     (case stmt (exec_update (claim_where t a i from) (claim_set to now)) w of
        (Inl e, w1) \<Rightarrow> (Inl e, w1)
      | (Inr n, w1) \<Rightarrow> (case rows_affected n w1 of
            (Inl e, w2) \<Rightarrow> (Inl e, w2)
          | (Inr m, w2) \<Rightarrow> if m = 0 then (Inr None, w2)
              else (case repo_get t a i w2 of
                  (Inl e, w3) \<Rightarrow> (Inl e, w3)
                | (Inr j, w3) \<Rightarrow> (Inr (Some j), w3))))"

definition repo_claim_validation :: "string \<Rightarrow> string \<Rightarrow> string \<Rightarrow> time \<Rightarrow> world \<Rightarrow> (gerr + job option) \<times> world" where
  "repo_claim_validation t a i now = repo_claim t a i StatusQueued StatusValidating now"

definition repo_claim_apply :: "string \<Rightarrow> string \<Rightarrow> string \<Rightarrow> time \<Rightarrow> world \<Rightarrow> (gerr + job option) \<times> world" where
  "repo_claim_apply t a i now = repo_claim t a i StatusApplyQueued StatusApplying now"

definition finish_validation_where :: "job \<Rightarrow> job \<Rightarrow> bool" where
  "finish_validation_where v j \<longleftrightarrow> is_key (tenant_id v) (application_id v) (job_id v) j
     \<and> status j = StatusValidating"

definition finish_validation_set :: "job \<Rightarrow> job \<Rightarrow> job" where
  "finish_validation_set v j = j\<lparr>status := status v, total_rows := total_rows v,
     valid_rows := valid_rows v, invalid_rows := invalid_rows v, progress_percent := 100,
     normalized_object_key := normalized_object_key v,
     error_report_object_key := error_report_object_key v, completed_at := completed_at v,
     result_expires_at := result_expires_at v, version := version j + 1,
     updated_at := updated_at v, updated_by := updated_by v\<rparr>"

definition repo_finish_validation :: "job \<Rightarrow> world \<Rightarrow> (gerr + job) \<times> world" where
  "repo_finish_validation v w = after_update (tenant_id v) (application_id v) (job_id v)
     (stmt (exec_update (finish_validation_where v) (finish_validation_set v)) w)"

definition finish_apply_where :: "job \<Rightarrow> job \<Rightarrow> bool" where
  "finish_apply_where v j \<longleftrightarrow> is_key (tenant_id v) (application_id v) (job_id v) j
     \<and> status j = StatusApplying"

definition finish_apply_set :: "job \<Rightarrow> job \<Rightarrow> job" where
  "finish_apply_set v j = j\<lparr>status := StatusSucceeded, applied_rows := applied_rows v,
     progress_percent := 100, completed_at := completed_at v,
     result_expires_at := result_expires_at v, version := version j + 1,
     updated_at := updated_at v, updated_by := updated_by v\<rparr>"

definition repo_finish_apply :: "job \<Rightarrow> world \<Rightarrow> (gerr + job) \<times> world" where
  "repo_finish_apply v w = after_update (tenant_id v) (application_id v) (job_id v)
     (stmt (exec_update (finish_apply_where v) (finish_apply_set v)) w)"

definition fail_where :: "job \<Rightarrow> string \<Rightarrow> job \<Rightarrow> bool" where
  "fail_where v expected j \<longleftrightarrow> is_key (tenant_id v) (application_id v) (job_id v) j
     \<and> status j = expected"

definition fail_set :: "job \<Rightarrow> job \<Rightarrow> job" where
  "fail_set v j = j\<lparr>status := StatusFailed, error_code := error_code v,
     error_message := error_message v, completed_at := completed_at v,
     result_expires_at := result_expires_at v, version := version j + 1,
     updated_at := updated_at v, updated_by := updated_by v\<rparr>"

definition repo_fail :: "job \<Rightarrow> string \<Rightarrow> world \<Rightarrow> (gerr + job) \<times> world" where
  "repo_fail v expected w = after_update (tenant_id v) (application_id v) (job_id v)
     (stmt (exec_update (fail_where v expected) (fail_set v)) w)"

section \<open>Retention\<close>

definition expired_where :: "time \<Rightarrow> job \<Rightarrow> bool" where
  "expired_where now j \<longleftrightarrow>
     status j = StatusUploading \<and> (case upload_expires_at j of None \<Rightarrow> False | Some t \<Rightarrow> t \<le> now)
     \<or> status j \<in> set [StatusValidationFailed, StatusSucceeded, StatusFailed, StatusCanceled]
       \<and> (case result_expires_at j of None \<Rightarrow> False | Some t \<Rightarrow> t \<le> now)"

text \<open>\<open>COALESCE(result_expires_at,upload_expires_at)\<close>, never null for a selected row.\<close>

definition expiry :: "job \<Rightarrow> time" where
  "expiry j = (case result_expires_at j of Some t \<Rightarrow> t
     | None \<Rightarrow> (case upload_expires_at j of Some t \<Rightarrow> t | None \<Rightarrow> 0))"

definition repo_list_expired :: "time \<Rightarrow> int \<Rightarrow> world \<Rightarrow> (gerr + job list) \<times> world" where
  "repo_list_expired now limit = stmt (page_query limit 0
     (\<lambda>rows. sort_key (\<lambda>j. (expiry j, job_id j)) (filter (expired_where now) rows)))"

definition expire_where :: "job \<Rightarrow> job \<Rightarrow> bool" where
  "expire_where v j \<longleftrightarrow> is_key (tenant_id v) (application_id v) (job_id v) j \<and> status j = status v"

definition expire_set :: "time \<Rightarrow> job \<Rightarrow> job" where
  "expire_set now j = j\<lparr>status := StatusExpired, version := version j + 1, updated_at := now,
     updated_by := ''import-cleaner''\<rparr>"

definition repo_expire :: "job \<Rightarrow> time \<Rightarrow> world \<Rightarrow> (gerr + job) \<times> world" where
  "repo_expire v now w = after_update (tenant_id v) (application_id v) (job_id v)
     (stmt (exec_update (expire_where v) (expire_set now)) w)"

definition old_metadata_where :: "time \<Rightarrow> job \<Rightarrow> bool" where
  "old_metadata_where before j \<longleftrightarrow> status j = StatusExpired \<and> updated_at j < before"

definition repo_list_expired_metadata_before :: "time \<Rightarrow> int \<Rightarrow> world \<Rightarrow> (gerr + job list) \<times> world" where
  "repo_list_expired_metadata_before before limit = stmt (page_query limit 0
     (\<lambda>rows. sort_key (\<lambda>j. (updated_at j, job_id j)) (filter (old_metadata_where before) rows)))"

definition delete_where :: "job \<Rightarrow> time \<Rightarrow> job \<Rightarrow> bool" where
  "delete_where v before j \<longleftrightarrow> is_key (tenant_id v) (application_id v) (job_id v) j
     \<and> version j = version v \<and> status j = StatusExpired \<and> updated_at j < before"

definition repo_delete_expired_metadata :: "job \<Rightarrow> time \<Rightarrow> world \<Rightarrow> (gerr + bool) \<times> world" where
  "repo_delete_expired_metadata v before w =
     (case stmt (exec_delete (delete_where v before)) w of
        (Inl e, w1) \<Rightarrow> (Inl e, w1)
      | (Inr n, w1) \<Rightarrow> (case rows_affected n w1 of
            (Inl e, w2) \<Rightarrow> (Inl e, w2)
          | (Inr m, w2) \<Rightarrow> (Inr (m = 1), w2)))"

definition outbox_row_of :: "outbox_event \<Rightarrow> outbox_row" where
  "outbox_row_of v = \<lparr>oe_id = oe_id v, oe_subject = oe_subject v, oe_envelope = oe_envelope v,
     oe_available_at = oe_available_at v, oe_created_at = oe_created_at v,
     oe_updated_at = oe_updated_at v, oe_created_by = oe_created_by v,
     oe_updated_by = oe_updated_by v, or_attempts = 0, or_published_at = None,
     or_last_error = [], or_version = 1\<rparr>"

definition repo_add_outbox :: "outbox_event \<Rightarrow> world \<Rightarrow> (gerr + unit) \<times> world" where
  "repo_add_outbox v w = (case stmt (exec_insert_outbox (outbox_row_of v)) w of
       (Inl e, w1) \<Rightarrow> (Inl e, w1)
     | (Inr _, w1) \<Rightarrow> (Inr (), w1))"

lemmas where_defs = complete_upload_where_def cancel_where_def retry_where_def confirm_where_def
  claim_where_def finish_validation_where_def finish_apply_where_def fail_where_def
  expire_where_def is_key_def

lemmas set_defs = complete_upload_set_def cancel_set_def retry_set_def confirm_set_def
  claim_set_def finish_validation_set_def finish_apply_set_def fail_set_def expire_set_def

end
