(* ===== verification/Guarded_Update.thy ===== *)
theory Guarded_Update
  imports Repository
begin

text \<open>
  The interface the nine \<open>UPDATE\<close> statements of the repository share, as a locale: a guard that
  pins one job by its key, and a change that keeps the key and raises the version by one. What
  a mutation of that shape does to the table, to its caller and to other jobs is proved once,
  inside the locale. Two extensions: \<open>optimistic_update\<close> for the mutations that also compare
  the version the client saw, and \<open>status_claim\<close> for those that leave the status they ask for.
  Every locale is interpreted on the statements of theory \<open>Repository\<close>.
\<close>

section \<open>Statements that update\<close>

lemma exec_update_ok:
  assumes "exec_update p f w = (Inr n, w')"
  shows "n = length (filter p (jobs w))" "jobs w' = update_where p f (jobs w)"
    "outbox w' = outbox w" "constraints_ok (jobs w')"
  using assms by (auto simp: exec_update_def Let_def split: if_splits)

lemma stmt_update_ok:
  assumes "stmt (exec_update p f) w = (Inr n, w')"
  shows "n = length (filter p (jobs w))" "jobs w' = update_where p f (jobs w)"
    "outbox w' = outbox w" "constraints_ok (jobs w')"
  using exec_update_ok [OF stmt_ok(1) [OF assms]] by simp_all

lemma stmt_update_tables:
  assumes "stmt (exec_update p f) w = (r, w')"
  shows "outbox w' = outbox w"
    and "jobs w' = jobs w \<or> jobs w' = update_where p f (jobs w) \<and> constraints_ok (jobs w')"
  using stmt_tables [OF assms] by (auto simp: exec_update_def Let_def tables_def split: if_splits)

lemma stmt_query_tables: "stmt (query f) w = (r, w') \<Longrightarrow> tables w' = tables w"
  using stmt_tables [of "query f" w r w'] by (auto simp: query_def)

lemma get_one_tables: "get_one p w = (r, w') \<Longrightarrow> tables w' = tables w"
  by (auto simp: get_one_def split: prod.splits sum.splits list.splits dest: stmt_query_tables)

lemma repo_get_tables: "repo_get t a i w = (r, w') \<Longrightarrow> tables w' = tables w"
  by (simp add: repo_get_def get_one_tables)

lemma get_one_ok:
  assumes "get_one p w = (Inr j, w')"
  shows "find p (jobs w) = Some j"
  using assms
  by (auto simp: get_one_def query_def find_key_filter
      split: prod.splits sum.splits list.splits dest!: stmt_ok(1))

lemma after_update_tables:
  "after_update t a i (r, w) = (r', w') \<Longrightarrow> tables w' = tables w"
  by (auto simp: after_update_def repo_get_def split: sum.splits prod.splits if_splits
      dest!: rows_affected_tables get_one_tables)

lemma after_update_ok:
  assumes "after_update t a i (r, w) = (Inr j, w')"
  obtains n where "r = Inr n" "n \<noteq> 0" "find (is_key t a i) (jobs w) = Some j" "tables w' = tables w"
proof -
  from assms obtain n m w1 where r: "r = Inr n" and ra: "rows_affected n w = (Inr m, w1)"
    and "m \<noteq> 0" and g: "repo_get t a i w1 = (Inr j, w')"
    by (auto simp: after_update_def split: sum.splits prod.splits if_splits)
  from ra \<open>m \<noteq> 0\<close> have n: "n \<noteq> 0" and "tables w1 = tables w"
    by (auto dest: rows_affected_ok)
  moreover from g have "find (is_key t a i) (jobs w1) = Some j" and "tables w' = tables w1"
    by (auto simp: repo_get_def dest: get_one_ok get_one_tables)
  ultimately show ?thesis using r n that by (auto simp: tables_def)
qed

text \<open>Without a failing call, an update whose guard holds nowhere is answered as stale.\<close>

lemma after_update_stale:
  assumes "filter p (jobs w) = []" and "after_update t a i (stmt (exec_update p f) w) = (r, w')"
  shows "tables w' = tables w" and "\<nexists>j. r = Inr j"
proof -
  obtain s w1 where s: "stmt (exec_update p f) w = (s, w1)" by fastforce
  from assms(1) have same: "update_where p f (jobs w) = jobs w" by (rule update_where_none)
  from stmt_update_tables [OF s] same have "tables w1 = tables w" by (auto simp: tables_def)
  with assms(2) s show "tables w' = tables w" by (auto dest: after_update_tables)
  show "\<nexists>j. r = Inr j"
  proof
    assume "\<exists>j. r = Inr j"
    then obtain j where "r = Inr j" ..
    with assms(2) s obtain n where "s = Inr n" "n \<noteq> 0" by (auto elim: after_update_ok)
    with stmt_update_ok(1) [of p f w n w1] s assms(1) show False by simp
  qed
qed

section \<open>The locale of a guarded update\<close>

locale guarded_update =
  fixes guard :: "'i \<Rightarrow> job \<Rightarrow> bool"
    and change :: "'i \<Rightarrow> job \<Rightarrow> job"
    and key :: "'i \<Rightarrow> string \<times> string \<times> string"
  assumes guard_key: "guard v j \<Longrightarrow> key v = (tenant_id j, application_id j, job_id j)"
    and change_key: "is_key t a i (change v j) \<longleftrightarrow> is_key t a i j"
    and change_id: "job_id (change v j) = job_id j"
    and change_version: "version (change v j) = version j + 1"
begin

lemma other_rows: "\<not> is_key (fst (key v)) (fst (snd (key v))) (snd (snd (key v))) j \<Longrightarrow> \<not> guard v j"
  using guard_key by (force simp: is_key_def)

lemma find_other:
  assumes "(t, a, i) \<noteq> key v"
  shows "find (is_key t a i) (update_where (guard v) (change v) rows) = find (is_key t a i) rows"
  using assms guard_key by (intro find_update_where_other change_key) (force simp: is_key_def)

lemma find_same:
  "find (is_key t a i) (update_where (guard v) (change v) rows)
   = map_option (\<lambda>j. if guard v j then change v j else j) (find (is_key t a i) rows)"
  by (intro find_update_where change_key)

text \<open>The caller gets the changed row, the row had satisfied the guard, and the table is the
  old one with that row changed.\<close>

lemma update_ok:
  assumes "after_update t a i (stmt (exec_update (guard v) (change v)) w) = (Inr j', w')"
    and "key v = (t, a, i)"
  obtains j where "find (is_key t a i) (jobs w) = Some j" "guard v j" "j' = change v j"
    "jobs w' = update_where (guard v) (change v) (jobs w)" "outbox w' = outbox w"
    "constraints_ok (jobs w')"
proof -
  obtain s w1 where s: "stmt (exec_update (guard v) (change v)) w = (s, w1)" by fastforce
  with assms(1) obtain n where n: "s = Inr n" "n \<noteq> 0"
    and j': "find (is_key t a i) (jobs w1) = Some j'" and w': "tables w' = tables w1"
    by (auto elim: after_update_ok)
  from s n have st: "stmt (exec_update (guard v) (change v)) w = (Inr n, w1)" by simp
  note up = stmt_update_ok [OF st]
  from n up(1) obtain x where x: "x \<in> set (jobs w)" "guard v x"
    by (auto simp: filter_empty_conv)
  with assms(2) have kx: "is_key t a i x" using guard_key by (fastforce simp: is_key_def)
  have dist: "distinct (map job_id (jobs w))"
  proof -
    have "map job_id (jobs w1) = map job_id (jobs w)"
      unfolding up(2) by (rule map_update_where_same) (rule change_id)
    with up(4) show ?thesis by (simp add: constraints_ok_def)
  qed
  have "find (is_key t a i) (jobs w) = Some x"
  proof -
    from kx x(1) obtain y where y: "find (is_key t a i) (jobs w) = Some y"
      by (cases "find (is_key t a i) (jobs w)") (auto simp: find_None_iff)
    then have "y \<in> set (jobs w)" "is_key t a i y" by (auto simp: find_Some_iff)
    with dist x(1) kx have "y = x" by (auto simp: is_key_def distinct_map inj_on_def)
    with y show ?thesis by simp
  qed
  moreover from this j' x(2) have "j' = change v x"
    by (simp add: up(2) find_same)
  ultimately show ?thesis using that x(2) up w' by (auto simp: tables_def)
qed

lemma update_version:
  assumes "find (is_key t a i) rows = Some j"
    and "find (is_key t a i) (update_where (guard v) (change v) rows) = Some j'"
  shows "j' = j \<or> guard v j \<and> j' = change v j \<and> version j' = version j + 1"
  using assms by (cases "guard v j") (auto simp: find_same change_version)

lemma keeps_keys: "map job_id (update_where (guard v) (change v) rows) = map job_id rows"
  by (rule map_update_where_same) (rule change_id)

end

section \<open>Optimistic locking\<close>

locale optimistic_update = guarded_update +
  fixes expected :: "'a \<Rightarrow> int"
  assumes guard_version: "guard v j \<Longrightarrow> version j = expected v"
begin

text \<open>No lost update: after a successful mutation, every mutation of the same kind by a client
  that saw the same version of the same job is refused and leaves the tables alone.\<close>

lemma second_writer_refused:
  assumes "after_update t a i (stmt (exec_update (guard v) (change v)) w) = (Inr j', w1)"
    and "key v = (t, a, i)" and "key u = (t, a, i)" and "expected u = expected v"
    and "constraints_ok (jobs w)"
    and "jobs w2 = jobs w1" and "outbox w2 = outbox w1"
    and "after_update t a i (stmt (exec_update (guard u) (change u)) w2) = (r, w3)"
  shows "tables w3 = tables w1" and "\<nexists>x. r = Inr x"
proof -
  from assms(1,2) obtain j where j: "find (is_key t a i) (jobs w) = Some j" "guard v j"
    and w1: "jobs w1 = update_where (guard v) (change v) (jobs w)"
    by (rule update_ok)
  have none: "filter (guard u) (jobs w2) = []"
  proof (rule ccontr)
    assume "filter (guard u) (jobs w2) \<noteq> []"
    then obtain x where x: "x \<in> set (jobs w2)" "guard u x" by (auto simp: filter_empty_conv)
    with assms(3) have kx: "tenant_id x = t" "application_id x = a" "job_id x = i"
      using guard_key [OF x(2)] by auto
    from x(1) w1 assms(6) obtain y where y: "y \<in> set (jobs w)"
      and xy: "x = (if guard v y then change v y else y)" by (auto simp: set_update_where)
    from xy kx have "job_id y = i" by (auto simp: change_id split: if_splits)
    moreover from j(1) have "job_id j = i" "j \<in> set (jobs w)"
      by (auto simp: find_Some_iff is_key_def)
    ultimately have "y = j" using assms(5) y
      by (auto simp: constraints_ok_def distinct_map inj_on_def)
    with xy j(2) have "version x = version j + 1" by (simp add: change_version)
    moreover have "version x = expected u" using x(2) by (rule guard_version)
    moreover have "version j = expected v" using j(2) by (rule guard_version)
    ultimately show False using assms(4) by simp
  qed
  show "tables w3 = tables w1" "\<nexists>x. r = Inr x"
    using after_update_stale [OF none assms(8)] assms(6,7) by (auto simp: tables_def)
qed

end

section \<open>Claims by status\<close>

locale status_claim = guarded_update +
  fixes from_status :: "'a \<Rightarrow> string"
  assumes guard_status: "guard v j \<Longrightarrow> status j = from_status v"
    and change_status: "status (change v j) \<noteq> from_status v"
begin

text \<open>Once claimed, a job is not claimed again: the guard holds nowhere in the new table.\<close>

lemma claimed_once:
  assumes "distinct (map job_id rows)" and "find (is_key t a i) rows = Some j" and "guard v j"
    and "key v = (t, a, i)" and "key u = (t, a, i)" and "from_status u = from_status v"
  shows "filter (guard u) (update_where (guard v) (change v) rows) = []"
proof (rule ccontr)
  assume "filter (guard u) (update_where (guard v) (change v) rows) \<noteq> []"
  then obtain x where x: "x \<in> set (update_where (guard v) (change v) rows)" "guard u x"
    by (auto simp: filter_empty_conv)
  then obtain y where y: "y \<in> set rows" and xy: "x = (if guard v y then change v y else y)"
    by (auto simp: set_update_where)
  from x(2) assms(5) have "job_id x = i" using guard_key [OF x(2)] by auto
  with xy have "job_id y = i" by (auto simp: change_id split: if_splits)
  moreover from assms(2) have "job_id j = i" "j \<in> set rows"
    by (auto simp: find_Some_iff is_key_def)
  ultimately have "y = j" using assms(1) y by (auto simp: distinct_map inj_on_def)
  with xy assms(3) have "status x \<noteq> from_status v" by (simp add: change_status)
  moreover have "status x = from_status u" using x(2) by (rule guard_status)
  ultimately show False using assms(6) by simp
qed

end

section \<open>The statements of the repository\<close>

definition key_of :: "job \<Rightarrow> string \<times> string \<times> string" where
  "key_of j = (tenant_id j, application_id j, job_id j)"

interpretation complete_up: optimistic_update "\<lambda>(v, n). complete_upload_where v n"
  "\<lambda>(v, n). complete_upload_set v" "\<lambda>(v, n). key_of v" snd
  by unfold_locales (auto simp: where_defs set_defs key_of_def)

interpretation cancel_up: optimistic_update "\<lambda>((t, a, i), n, x). cancel_where t a i n"
  "\<lambda>(k, n, (actor, now)). cancel_set actor now" fst "\<lambda>(k, n, x). n"
  by unfold_locales (auto simp: where_defs set_defs)

interpretation retry_up: optimistic_update "\<lambda>(v, n). retry_where v n"
  "\<lambda>(v, n). retry_set v" "\<lambda>(v, n). key_of v" snd
  by unfold_locales (auto simp: where_defs set_defs key_of_def)

interpretation confirm_up: optimistic_update "\<lambda>(v, n). confirm_where v n"
  "\<lambda>(v, n). confirm_set v" "\<lambda>(v, n). key_of v" snd
  by unfold_locales (auto simp: where_defs set_defs key_of_def)

interpretation claim_up: guarded_update "\<lambda>((t, a, i), from, to, now). claim_where t a i from"
  "\<lambda>(k, from, to, now). claim_set to now" fst
  by unfold_locales (auto simp: where_defs set_defs)

interpretation validation_claim: status_claim "\<lambda>((t, a, i), now). claim_where t a i StatusQueued"
  "\<lambda>(k, now). claim_set StatusValidating now" fst "\<lambda>_. StatusQueued"
  by unfold_locales (auto simp: where_defs set_defs)

interpretation apply_claim: status_claim "\<lambda>((t, a, i), now). claim_where t a i StatusApplyQueued"
  "\<lambda>(k, now). claim_set StatusApplying now" fst "\<lambda>_. StatusApplyQueued"
  by unfold_locales (auto simp: where_defs set_defs)

interpretation finish_apply_up: status_claim finish_apply_where finish_apply_set key_of
  "\<lambda>_. StatusApplying"
  by unfold_locales (auto simp: where_defs set_defs key_of_def)

interpretation finish_validation_up: guarded_update finish_validation_where finish_validation_set key_of
  by unfold_locales (auto simp: where_defs set_defs key_of_def)

interpretation fail_up: guarded_update "\<lambda>(v, s). fail_where v s" "\<lambda>(v, s). fail_set v" "\<lambda>(v, s). key_of v"
  by unfold_locales (auto simp: where_defs set_defs key_of_def)

interpretation expire_up: guarded_update "\<lambda>(v, now). expire_where v" "\<lambda>(v, now). expire_set now" "\<lambda>(v, now). key_of v"
  by unfold_locales (auto simp: where_defs set_defs key_of_def)

end
