(* ===== verification/Lifecycle.thy ===== *)
theory Lifecycle
  imports Guarded_Update
begin

text \<open>
  The life of an import job. The abstract specification is a state machine on eleven phases:
  the diagram of the README, with the two further retries (of failed and canceled jobs) that
  the repository's SQL admits. The concrete system is \<open>table_step\<close>: one rule per statement of the
  repository that writes the table, with \<^emph>\<open>any\<close> arguments the callers may pass, so that every
  interleaving of clients, workers and cleaners is a path of it. The refinement: each step of
  the table moves each job along the state machine, with its version raised by one, or leaves
  it alone. \<open>job_ok\<close> is the invariant of a row, kept by every step.
\<close>

section \<open>The abstract state machine\<close>

datatype phase = Uploading | Queued | Validating | ValidationFailed | Ready | ApplyQueued
  | Applying | Succeeded | Failed | Canceled | Expired

fun phase_code :: "phase \<Rightarrow> string" where
  "phase_code Uploading = StatusUploading"
| "phase_code Queued = StatusQueued"
| "phase_code Validating = StatusValidating"
| "phase_code ValidationFailed = StatusValidationFailed"
| "phase_code Ready = StatusReady"
| "phase_code ApplyQueued = StatusApplyQueued"
| "phase_code Applying = StatusApplying"
| "phase_code Succeeded = StatusSucceeded"
| "phase_code Failed = StatusFailed"
| "phase_code Canceled = StatusCanceled"
| "phase_code Expired = StatusExpired"

lemma phase_code_inject [simp]: "phase_code p = phase_code q \<longleftrightarrow> p = q"
  by (cases p; cases q) simp_all

definition phases :: "phase list" where
  "phases = [Uploading, Queued, Validating, ValidationFailed, Ready, ApplyQueued, Applying,
     Succeeded, Failed, Canceled, Expired]"

lemma all_statuses_phases: "all_statuses = map phase_code phases"
  by (simp add: all_statuses_def phases_def)

instantiation phase :: enum
begin

definition "enum_phase = phases"
definition "enum_all_phase P \<longleftrightarrow> list_all P phases"
definition "enum_ex_phase P \<longleftrightarrow> list_ex P phases"

instance proof
  have all: "x \<in> set phases" for x by (cases x) (simp_all add: phases_def)
  then show "(UNIV :: phase set) = set enum_class.enum" by (auto simp: enum_phase_def)
  show "distinct (enum_class.enum :: phase list)" by (simp add: enum_phase_def phases_def)
  show "enum_class.enum_all P \<longleftrightarrow> Ball UNIV P" for P :: "phase \<Rightarrow> bool"
    using all by (auto simp: enum_all_phase_def list_all_iff)
  show "enum_class.enum_ex P \<longleftrightarrow> Bex UNIV P" for P :: "phase \<Rightarrow> bool"
    using all by (auto simp: enum_ex_phase_def list_ex_iff)
qed

end

definition phase_of :: "string \<Rightarrow> phase option" where
  "phase_of s = find (\<lambda>p. phase_code p = s) phases"

lemma phase_of_code [simp]: "phase_of (phase_code p) = Some p"
  by (cases p) (simp_all add: phase_of_def phases_def)

lemma phase_of_status [simp]:
  "phase_of StatusUploading = Some Uploading" "phase_of StatusQueued = Some Queued"
  "phase_of StatusValidating = Some Validating"
  "phase_of StatusValidationFailed = Some ValidationFailed" "phase_of StatusReady = Some Ready"
  "phase_of StatusApplyQueued = Some ApplyQueued" "phase_of StatusApplying = Some Applying"
  "phase_of StatusSucceeded = Some Succeeded" "phase_of StatusFailed = Some Failed"
  "phase_of StatusCanceled = Some Canceled" "phase_of StatusExpired = Some Expired"
  using phase_of_code by (metis phase_code.simps)+

inductive phase_step :: "phase \<Rightarrow> phase \<Rightarrow> bool" where
  uploaded: "phase_step Uploading Queued"
| validation_starts: "phase_step Queued Validating"
| rejected: "phase_step Validating ValidationFailed"
| accepted: "phase_step Validating Ready"
| confirmed: "phase_step Ready ApplyQueued"
| apply_starts: "phase_step ApplyQueued Applying"
| applied: "phase_step Applying Succeeded"
| fails: "p \<in> {Validating, Applying} \<Longrightarrow> phase_step p Failed"
| retried: "p \<in> {ValidationFailed, Failed, Canceled} \<Longrightarrow> phase_step p Uploading"
| canceled: "p \<in> {Uploading, Queued, Validating, ValidationFailed, Ready, ApplyQueued, Applying, Failed}
    \<Longrightarrow> phase_step p Canceled"
| expires: "p \<in> {Uploading, ValidationFailed, Succeeded, Failed, Canceled} \<Longrightarrow> phase_step p Expired"

code_pred phase_step .

inductive_simps from_Expired [simp]: "phase_step Expired p"
inductive_simps from_Succeeded: "phase_step Succeeded p"
inductive_simps to_Applying: "phase_step p Applying"
inductive_simps to_ApplyQueued: "phase_step p ApplyQueued"
inductive_simps to_Ready: "phase_step p Ready"

section \<open>The concrete steps\<close>

text \<open>What the worker may report of a validation.\<close>

definition outcome_ok :: "job \<Rightarrow> bool" where
  "outcome_ok v \<longleftrightarrow> 0 \<le> valid_rows v \<and> 0 \<le> invalid_rows v
     \<and> total_rows v = valid_rows v + invalid_rows v
     \<and> status v = (if 0 < invalid_rows v then StatusValidationFailed else StatusReady)
     \<and> completed_at v \<noteq> None \<and> result_expires_at v \<noteq> None"

text \<open>What \<open>Create\<close> inserts.\<close>

definition new_job_ok :: "job \<Rightarrow> bool" where
  "new_job_ok v \<longleftrightarrow> status v = StatusUploading \<and> version v = 1 \<and> upload_expires_at v \<noteq> None
     \<and> tenant_id v \<noteq> [] \<and> application_id v \<noteq> [] \<and> idempotency_key v \<noteq> [] \<and> confirm_key v = []"

inductive table_step :: "job list \<Rightarrow> job list \<Rightarrow> bool" where
  insert: "new_job_ok v \<Longrightarrow> constraints_ok (T @ [v]) \<Longrightarrow> table_step T (T @ [v])"
| complete_upload: "1 \<le> source_bytes v \<Longrightarrow> source_checksum v \<noteq> [] \<Longrightarrow>
    T' = update_where (complete_upload_where v n) (complete_upload_set v) T \<Longrightarrow>
    constraints_ok T' \<Longrightarrow> table_step T T'"
| cancel: "T' = update_where (cancel_where t a i n) (cancel_set actor now) T \<Longrightarrow>
    constraints_ok T' \<Longrightarrow> table_step T T'"
| retry: "upload_expires_at v \<noteq> None \<Longrightarrow> idempotency_key v \<noteq> [] \<Longrightarrow>
    T' = update_where (retry_where v n) (retry_set v) T \<Longrightarrow> constraints_ok T' \<Longrightarrow> table_step T T'"
| confirm: "confirm_key v \<noteq> [] \<Longrightarrow>
    T' = update_where (confirm_where v n) (confirm_set v) T \<Longrightarrow> constraints_ok T' \<Longrightarrow> table_step T T'"
| claim_validation: "T' = update_where (claim_where t a i StatusQueued) (claim_set StatusValidating now) T \<Longrightarrow>
    constraints_ok T' \<Longrightarrow> table_step T T'"
| finish_validation: "outcome_ok v \<Longrightarrow>
    T' = update_where (finish_validation_where v) (finish_validation_set v) T \<Longrightarrow>
    constraints_ok T' \<Longrightarrow> table_step T T'"
| claim_apply: "T' = update_where (claim_where t a i StatusApplyQueued) (claim_set StatusApplying now) T \<Longrightarrow>
    constraints_ok T' \<Longrightarrow> table_step T T'"
| finish_apply: "0 \<le> applied_rows v \<Longrightarrow> completed_at v \<noteq> None \<Longrightarrow> result_expires_at v \<noteq> None \<Longrightarrow>
    T' = update_where (finish_apply_where v) (finish_apply_set v) T \<Longrightarrow>
    constraints_ok T' \<Longrightarrow> table_step T T'"
| fail: "s \<in> {StatusValidating, StatusApplying} \<Longrightarrow> completed_at v \<noteq> None \<Longrightarrow>
    result_expires_at v \<noteq> None \<Longrightarrow>
    T' = update_where (fail_where v s) (fail_set v) T \<Longrightarrow> constraints_ok T' \<Longrightarrow> table_step T T'"
| expire: "status v \<in> set [StatusUploading, StatusValidationFailed, StatusSucceeded, StatusFailed, StatusCanceled] \<Longrightarrow>
    T' = update_where (expire_where v) (expire_set now) T \<Longrightarrow> constraints_ok T' \<Longrightarrow> table_step T T'"
| delete: "T' = filter (\<lambda>j. \<not> delete_where v before j) T \<Longrightarrow> table_step T T'"

section \<open>Refinement of the state machine\<close>

text \<open>One row before and after a step of the table.\<close>

inductive row_step :: "job \<Rightarrow> job \<Rightarrow> bool" where
  stays: "row_step j j"
| moves: "phase_of (status j) = Some p \<Longrightarrow> phase_of (status j') = Some q \<Longrightarrow> phase_step p q \<Longrightarrow>
    version j' = version j + 1 \<Longrightarrow> job_id j' = job_id j \<Longrightarrow> tenant_id j' = tenant_id j \<Longrightarrow>
    application_id j' = application_id j \<Longrightarrow> dataset_code j' = dataset_code j \<Longrightarrow>
    provider_service j' = provider_service j \<Longrightarrow> file_format j' = file_format j \<Longrightarrow>
    created_at j' = created_at j \<Longrightarrow> created_by j' = created_by j \<Longrightarrow> row_step j j'"

lemma movesI:
  assumes "phase_step p q" and "status j = phase_code p" and "status j' = phase_code q"
    and "version j' = version j + 1" and "job_id j' = job_id j" and "tenant_id j' = tenant_id j"
    and "application_id j' = application_id j" and "dataset_code j' = dataset_code j"
    and "provider_service j' = provider_service j" and "file_format j' = file_format j"
    and "created_at j' = created_at j" and "created_by j' = created_by j"
  shows "row_step j j'"
  using assms by (auto intro: row_step.moves [of j p j' q])

lemma status_phase: "s \<in> phase_code ` ps \<Longrightarrow> (\<And>p. p \<in> ps \<Longrightarrow> s = phase_code p \<Longrightarrow> P) \<Longrightarrow> P"
  by blast

lemma row_step_set_defs [lifecycle]:
  "complete_upload_where v n j \<Longrightarrow> row_step j (complete_upload_set v j)"
  "cancel_where t a i n j \<Longrightarrow> row_step j (cancel_set actor now j)"
  "retry_where v n j \<Longrightarrow> row_step j (retry_set v j)"
  "confirm_where v n j \<Longrightarrow> row_step j (confirm_set v j)"
  "claim_where t a i StatusQueued j \<Longrightarrow> row_step j (claim_set StatusValidating now j)"
  "claim_where t a i StatusApplyQueued j \<Longrightarrow> row_step j (claim_set StatusApplying now j)"
  "outcome_ok u \<Longrightarrow> finish_validation_where u j \<Longrightarrow> row_step j (finish_validation_set u j)"
  "finish_apply_where v j \<Longrightarrow> row_step j (finish_apply_set v j)"
  "s \<in> {StatusValidating, StatusApplying} \<Longrightarrow> fail_where v s j \<Longrightarrow> row_step j (fail_set v j)"
  "status v \<in> set [StatusUploading, StatusValidationFailed, StatusSucceeded, StatusFailed, StatusCanceled] \<Longrightarrow>
     expire_where v j \<Longrightarrow> row_step j (expire_set now j)"
proof -
  show "complete_upload_where v n j \<Longrightarrow> row_step j (complete_upload_set v j)"
    by (rule movesI [OF phase_step.uploaded]) (simp_all add: where_defs set_defs)
  show "confirm_where v n j \<Longrightarrow> row_step j (confirm_set v j)"
    by (rule movesI [OF phase_step.confirmed]) (simp_all add: where_defs set_defs)
  show "claim_where t a i StatusQueued j \<Longrightarrow> row_step j (claim_set StatusValidating now j)"
    by (rule movesI [OF phase_step.validation_starts]) (simp_all add: where_defs set_defs)
  show "claim_where t a i StatusApplyQueued j \<Longrightarrow> row_step j (claim_set StatusApplying now j)"
    by (rule movesI [OF phase_step.apply_starts]) (simp_all add: where_defs set_defs)
  show "finish_apply_where v j \<Longrightarrow> row_step j (finish_apply_set v j)"
    by (rule movesI [OF phase_step.applied]) (simp_all add: where_defs set_defs)
  show "row_step j (finish_validation_set u j)" if "outcome_ok u" "finish_validation_where u j"
  proof (cases "0 < invalid_rows u")
    case True
    with that show ?thesis
      by (intro movesI [OF phase_step.rejected]) (simp_all add: where_defs set_defs outcome_ok_def)
  next
    case False
    with that show ?thesis
      by (intro movesI [OF phase_step.accepted]) (simp_all add: where_defs set_defs outcome_ok_def)
  qed
  show "row_step j (cancel_set actor now j)" if "cancel_where t a i n j"
  proof -
    from that have "status j \<in> phase_code ` {Uploading, Queued, Validating, ValidationFailed, Ready,
        ApplyQueued, Applying, Failed}"
      by (simp add: cancel_where_def cancelable_def)
    then show ?thesis
      by (rule status_phase) (rule movesI [OF phase_step.canceled]; simp add: set_defs)
  qed
  show "row_step j (retry_set v j)" if "retry_where v n j"
  proof -
    from that have "status j \<in> phase_code ` {ValidationFailed, Failed, Canceled}"
      by (simp add: retry_where_def retryable_def)
    then show ?thesis
      by (rule status_phase) (rule movesI [OF phase_step.retried]; simp add: set_defs)
  qed
  show "row_step j (fail_set v j)" if "s \<in> {StatusValidating, StatusApplying}" "fail_where v s j"
  proof -
    from that have "status j \<in> phase_code ` {Validating, Applying}" by (auto simp: fail_where_def)
    then show ?thesis
      by (rule status_phase) (rule movesI [OF phase_step.fails]; simp add: set_defs)
  qed
  show "row_step j (expire_set now j)"
    if "status v \<in> set [StatusUploading, StatusValidationFailed, StatusSucceeded, StatusFailed, StatusCanceled]"
      "expire_where v j"
  proof -
    from that have "status j \<in> phase_code ` {Uploading, ValidationFailed, Succeeded, Failed, Canceled}"
      by (simp add: expire_where_def)
    then show ?thesis
      by (rule status_phase) (rule movesI [OF phase_step.expires]; simp add: set_defs)
  qed
qed

text \<open>Every row after a step was there before, unless it was just created, and has moved along
  the state machine or stayed.\<close>

lemma update_rows_step:
  assumes "T' = update_where p f T" and "\<And>j. p j \<Longrightarrow> row_step j (f j)" and "\<And>j. job_id (f j) = job_id j"
  shows "list_all2 row_step T T'"
  using assms by (auto simp: update_where_def list_all2_conv_all_nth intro: row_step.stays)

lemma set_ids:
  "job_id (complete_upload_set v j) = job_id j" "job_id (cancel_set actor now j) = job_id j"
  "job_id (retry_set v j) = job_id j" "job_id (confirm_set v j) = job_id j"
  "job_id (claim_set s now j) = job_id j" "job_id (finish_validation_set v j) = job_id j"
  "job_id (finish_apply_set v j) = job_id j" "job_id (fail_set v j) = job_id j"
  "job_id (expire_set now j) = job_id j"
  by (simp_all add: set_defs)

lemma table_step_rows:
  assumes "table_step T T'"
  shows "(\<exists>v. new_job_ok v \<and> T' = T @ [v]) \<or> list_all2 row_step T T'
    \<or> (\<exists>d. T' = filter (\<lambda>j. \<not> d j) T \<and> (\<forall>j. d j \<longrightarrow> status j = StatusExpired))"
  using assms
proof cases
  case insert
  then show ?thesis by blast
next
  case (delete v before)
  then show ?thesis
    by (intro disjI2 exI [of _ "delete_where v before"]) (auto simp: delete_where_def)
qed (rule disjI2, rule disjI1, erule update_rows_step; (rule set_ids | erule (1) row_step_set_defs | erule row_step_set_defs))+

section \<open>The invariant of a row\<close>

definition validated_states :: "string set" where
  "validated_states = {StatusReady, StatusApplyQueued, StatusApplying, StatusSucceeded}"

definition confirmed_states :: "string set" where
  "confirmed_states = {StatusApplyQueued, StatusApplying, StatusSucceeded}"

definition job_ok :: "job \<Rightarrow> bool" where
  "job_ok j \<longleftrightarrow> status j \<in> set all_statuses \<and> 1 \<le> version j
     \<and> (status j \<in> validated_states \<longrightarrow> invalid_rows j = 0 \<and> total_rows j = valid_rows j)
     \<and> (status j = StatusValidationFailed \<longrightarrow>
          0 < invalid_rows j \<and> total_rows j = valid_rows j + invalid_rows j)
     \<and> (status j \<in> confirmed_states \<longrightarrow> confirm_key j \<noteq> [])
     \<and> (status j = StatusUploading \<longrightarrow> upload_expires_at j \<noteq> None)
     \<and> (status j \<in> {StatusQueued, StatusValidating, StatusValidationFailed} \<union> validated_states \<longrightarrow>
          1 \<le> source_bytes j \<and> source_checksum j \<noteq> [])
     \<and> (status j \<in> {StatusValidationFailed, StatusReady, StatusSucceeded, StatusFailed} \<longrightarrow>
          completed_at j \<noteq> None \<and> result_expires_at j \<noteq> None)
     \<and> tenant_id j \<noteq> [] \<and> application_id j \<noteq> [] \<and> idempotency_key j \<noteq> []"

lemma job_ok_set_defs [lifecycle]:
  "job_ok j \<Longrightarrow> complete_upload_where v n j \<Longrightarrow> 1 \<le> source_bytes v \<Longrightarrow> source_checksum v \<noteq> [] \<Longrightarrow>
     job_ok (complete_upload_set v j)"
  "job_ok j \<Longrightarrow> cancel_where t a i n j \<Longrightarrow> job_ok (cancel_set actor now j)"
  "job_ok j \<Longrightarrow> retry_where v n j \<Longrightarrow> upload_expires_at v \<noteq> None \<Longrightarrow> idempotency_key v \<noteq> [] \<Longrightarrow>
     job_ok (retry_set v j)"
  "job_ok j \<Longrightarrow> confirm_where v n j \<Longrightarrow> confirm_key v \<noteq> [] \<Longrightarrow> job_ok (confirm_set v j)"
  "job_ok j \<Longrightarrow> claim_where t a i StatusQueued j \<Longrightarrow> job_ok (claim_set StatusValidating now j)"
  "job_ok j \<Longrightarrow> claim_where t a i StatusApplyQueued j \<Longrightarrow> job_ok (claim_set StatusApplying now j)"
  "job_ok j \<Longrightarrow> finish_validation_where u j \<Longrightarrow> outcome_ok u \<Longrightarrow> job_ok (finish_validation_set u j)"
  "job_ok j \<Longrightarrow> finish_apply_where v j \<Longrightarrow> completed_at v \<noteq> None \<Longrightarrow> result_expires_at v \<noteq> None \<Longrightarrow>
     job_ok (finish_apply_set v j)"
  "job_ok j \<Longrightarrow> completed_at v \<noteq> None \<Longrightarrow> result_expires_at v \<noteq> None \<Longrightarrow> job_ok (fail_set v j)"
  "job_ok j \<Longrightarrow> job_ok (expire_set now j)"
  by (auto simp: job_ok_def where_defs set_defs outcome_ok_def validated_states_def
      confirmed_states_def all_statuses_def)

lemma table_step_job_ok:
  assumes "table_step T T'" and "list_all job_ok T"
  shows "list_all job_ok T'"
  using assms
proof cases
  case (insert v)
  then show ?thesis using assms(2)
    by (auto simp: job_ok_def new_job_ok_def all_statuses_def validated_states_def confirmed_states_def)
next
  case (delete v before)
  then show ?thesis using assms(2) by (auto simp: list_all_iff)
qed (use assms(2) in \<open>simp, blast intro: list_all_update_where job_ok_set_defs\<close>)+

text \<open>Reachable tables: any number of steps from the empty one.\<close>

definition reachable :: "job list \<Rightarrow> bool" where
  "reachable T \<longleftrightarrow> table_step\<^sup>*\<^sup>* [] T"

lemma reachable_step: "reachable T \<Longrightarrow> table_step T T' \<Longrightarrow> reachable T'"
  by (auto simp: reachable_def)

lemma reachable_steps: "reachable T \<Longrightarrow> table_step\<^sup>*\<^sup>* T T' \<Longrightarrow> reachable T'"
  by (auto simp: reachable_def)

lemma reachable_constraints: "reachable T \<Longrightarrow> constraints_ok T"
  unfolding reachable_def
proof (induction rule: rtranclp_induct)
  case base
  show ?case by (simp add: constraints_ok_def)
next
  case (step T T')
  from step(2) show ?case
  proof cases
    case (delete v before)
    then show ?thesis using step.IH
      by (auto simp: constraints_ok_def list_all_iff distinct_map inj_on_def)
  qed auto
qed

lemma reachable_job_ok: "reachable T \<Longrightarrow> list_all job_ok T"
  unfolding reachable_def
  by (induction rule: rtranclp_induct) (auto intro: table_step_job_ok)

end
