(* ===== verification/Events.thy ===== *)
theory Events
  imports Lifecycle
begin

text \<open>
  The transactional outbox: \<open>ToProto\<close> (\<open>internal/importjob/proto.go\<close>), \<open>jobChangedEvent\<close>
  (\<open>internal/importjob/events.go\<close>), \<open>addEvent\<close> of the service, and the shape in which service and
  worker use them, \<open>changed\<close>: one update of a job and the event that announces it, inside one
  transaction. The lemma \<open>published\<close>, proved for every guarded update, is the contract of the
  outbox: the job changes exactly when its event is stored.

  The constructors and the encoder of messages belong to other modules; they are the fields of
  the record \<open>event_codec\<close>.
\<close>

section \<open>Messages\<close>

text \<open>Seconds and nanoseconds of \<open>timestamppb.Timestamp\<close>.\<close>

type_synonym timestamp = "int \<times> int"

record proto_job =
  pj_id :: string
  pj_tenant_id :: string
  pj_application_id :: string
  pj_dataset_code :: string
  pj_provider_service :: string
  pj_format :: string
  pj_filename :: string
  pj_status :: string
  pj_source_object_key :: string
  pj_normalized_object_key :: string
  pj_error_report_object_key :: string
  pj_source_checksum :: string
  pj_source_bytes :: int
  pj_total_rows :: int
  pj_valid_rows :: int
  pj_invalid_rows :: int
  pj_applied_rows :: int
  pj_progress_percent :: int
  pj_error_code :: string
  pj_error_message :: string
  pj_upload_expires_at :: "timestamp option"
  pj_started_at :: "timestamp option"
  pj_completed_at :: "timestamp option"
  pj_result_expires_at :: "timestamp option"
  pj_version :: int
  pj_created_at :: timestamp
  pj_updated_at :: timestamp
  pj_created_by :: string
  pj_updated_by :: string

definition to_proto :: "(time \<Rightarrow> timestamp) \<Rightarrow> job \<Rightarrow> proto_job" where
  "to_proto ts v = \<lparr>pj_id = job_id v, pj_tenant_id = tenant_id v,
     pj_application_id = application_id v, pj_dataset_code = dataset_code v,
     pj_provider_service = provider_service v, pj_format = file_format v,
     pj_filename = filename v, pj_status = status v,
     pj_source_object_key = source_object_key v,
     pj_normalized_object_key = normalized_object_key v,
     pj_error_report_object_key = error_report_object_key v,
     pj_source_checksum = source_checksum v, pj_source_bytes = source_bytes v,
     pj_total_rows = total_rows v, pj_valid_rows = valid_rows v,
     pj_invalid_rows = invalid_rows v, pj_applied_rows = applied_rows v,
     pj_progress_percent = progress_percent v, pj_error_code = error_code v,
     pj_error_message = error_message v,
     pj_upload_expires_at = map_option ts (upload_expires_at v),
     pj_started_at = map_option ts (started_at v),
     pj_completed_at = map_option ts (completed_at v),
     pj_result_expires_at = map_option ts (result_expires_at v), pj_version = version v,
     pj_created_at = ts (created_at v), pj_updated_at = ts (updated_at v),
     pj_created_by = created_by v, pj_updated_by = updated_by v\<rparr>"

record event_metadata =
  em_event_id :: string
  em_event_type :: string
  em_aggregate_id :: string
  em_aggregate_type :: string
  em_tenant_id :: string
  em_application_id :: string
  em_schema_version :: int
  em_actor_id :: string
  em_occurred_at :: time

record job_changed =
  jc_job :: proto_job
  jc_change_type :: string

text \<open>\<open>timestamppb.New\<close>, \<open>platformevents.NewEnvelope\<close>, \<open>proto.Marshal\<close> and the getter of the
  envelope's event id.\<close>

record 'env event_codec =
  ec_timestamp :: "time \<Rightarrow> timestamp"
  ec_envelope :: "event_metadata \<Rightarrow> job_changed \<Rightarrow> gerr + 'env"
  ec_marshal :: "'env \<Rightarrow> gerr + string"
  ec_event_id :: "'env \<Rightarrow> string"

section \<open>Events\<close>

definition job_metadata :: "string \<Rightarrow> job \<Rightarrow> string \<Rightarrow> time \<Rightarrow> event_metadata" where
  "job_metadata uid j actor at = \<lparr>em_event_id = uid,
     em_event_type = ''platform.import.v1.ImportJobChanged'', em_aggregate_id = job_id j,
     em_aggregate_type = ''import_job'', em_tenant_id = tenant_id j,
     em_application_id = application_id j, em_schema_version = 1, em_actor_id = actor,
     em_occurred_at = at\<rparr>"

definition event_subject :: "string \<Rightarrow> string" where
  "event_subject change = ''platform.import.job.'' @ change @ ''.v1''"

definition job_changed_event ::
  "'env event_codec \<Rightarrow> job \<Rightarrow> string \<Rightarrow> string \<Rightarrow> time \<Rightarrow> world \<Rightarrow> (gerr + outbox_event) \<times> world" where
  "job_changed_event c j change actor at w =
     (let payload = \<lparr>jc_job = to_proto (ec_timestamp c) j, jc_change_type = change\<rparr> in
      case new_uuid w of (uid, w1) \<Rightarrow>
        (case ec_envelope c (job_metadata uid j actor at) payload of
           Inl e \<Rightarrow> (Inl e, w1)
         | Inr envelope \<Rightarrow> (case ec_marshal c envelope of
               Inl e \<Rightarrow> (Inl e, w1)
             | Inr encoded \<Rightarrow> (Inr \<lparr>oe_id = ec_event_id c envelope, oe_subject = event_subject change,
                 oe_envelope = encoded, oe_available_at = at, oe_created_at = at,
                 oe_updated_at = at, oe_created_by = actor, oe_updated_by = actor\<rparr>, w1))))"

definition add_event ::
  "'env event_codec \<Rightarrow> job \<Rightarrow> string \<Rightarrow> string \<Rightarrow> time \<Rightarrow> world \<Rightarrow> (gerr + unit) \<times> world" where
  "add_event c j change actor at w =
     and_then (job_changed_event c j change actor at w) (\<lambda>event w1. repo_add_outbox event w1)"

text \<open>The body of the transactions of \<open>CompleteUpload\<close>, \<open>Cancel\<close>, \<open>Retry\<close>, and of the worker: the
  update, and the event about the row that the update left. The worker names the row's
  \<open>updated_by\<close> as the actor.\<close>

definition changed ::
  "(world \<Rightarrow> (gerr + job) \<times> world) \<Rightarrow> 'env event_codec \<Rightarrow> string \<Rightarrow> (job \<Rightarrow> string) \<Rightarrow> time \<Rightarrow>
   world \<Rightarrow> (gerr + job) \<times> world" where
  "changed update c change actor at w =
     and_then (update w) (\<lambda>j w1.
       and_then (add_event c j change (actor j) at w1) (\<lambda>_ w2. (Inr j, w2)))"

text \<open>The row that announces the change \<open>change\<close> of a job that is now \<open>j\<close>.\<close>

definition announces ::
  "'env event_codec \<Rightarrow> job \<Rightarrow> string \<Rightarrow> string \<Rightarrow> time \<Rightarrow> outbox_row \<Rightarrow> bool" where
  "announces c j change actor at row \<longleftrightarrow> oe_subject row = event_subject change
     \<and> oe_available_at row = at \<and> oe_created_by row = actor
     \<and> or_attempts row = 0 \<and> or_published_at row = None
     \<and> (\<exists>uid envelope. ec_envelope c (job_metadata uid j actor at)
            \<lparr>jc_job = to_proto (ec_timestamp c) j, jc_change_type = change\<rparr> = Inr envelope
          \<and> ec_marshal c envelope = Inr (oe_envelope row) \<and> ec_event_id c envelope = oe_id row)"

section \<open>What storing an event does\<close>

lemma job_changed_event_tables: "job_changed_event c j ch actor at w = (r, w') \<Longrightarrow> tables w' = tables w"
  by (auto simp: job_changed_event_def new_uuid_def Let_def split: sum.splits)

lemma exec_insert_outbox_ok:
  assumes "exec_insert_outbox row w = (Inr n, w')"
  shows "jobs w' = jobs w" "outbox w' = outbox w @ [row]" "oe_id row \<notin> oe_id ` set (outbox w)"
  using assms by (auto simp: exec_insert_outbox_def split: if_splits)

lemma add_event_jobs:
  assumes "add_event c j ch actor at w = (r, w')"
  shows "jobs w' = jobs w"
  using assms unfolding add_event_def
proof (rule and_then_cases)
  fix e assume "job_changed_event c j ch actor at w = (Inl e, w')"
  then show ?thesis by (auto dest: job_changed_event_tables simp: tables_def)
next
  fix ev w1 assume ev: "job_changed_event c j ch actor at w = (Inr ev, w1)"
    and "repo_add_outbox ev w1 = (r, w')"
  then obtain s where "stmt (exec_insert_outbox (outbox_row_of ev)) w1 = (s, w')"
    by (auto simp: repo_add_outbox_def split: prod.splits sum.splits)
  from stmt_tables [OF this] have "jobs w' = jobs w1"
    by (auto simp: exec_insert_outbox_def tables_def split: if_splits)
  with ev show ?thesis by (auto dest: job_changed_event_tables simp: tables_def)
qed

lemma add_event_ok:
  assumes "add_event c j ch actor at w = (Inr u, w')"
  obtains row where "outbox w' = outbox w @ [row]" "announces c j ch actor at row"
    "oe_id row \<notin> oe_id ` set (outbox w)"
proof -
  from assms obtain ev w1 where ev: "job_changed_event c j ch actor at w = (Inr ev, w1)"
    and "repo_add_outbox ev w1 = (Inr u, w')" unfolding add_event_def by (rule and_then_ok)
  then obtain n where st: "stmt (exec_insert_outbox (outbox_row_of ev)) w1 = (Inr n, w')"
    by (auto simp: repo_add_outbox_def split: prod.splits sum.splits)
  from exec_insert_outbox_ok [OF stmt_ok(1) [OF st]] job_changed_event_tables [OF ev]
  have "outbox w' = outbox w @ [outbox_row_of ev]"
    "oe_id (outbox_row_of ev) \<notin> oe_id ` set (outbox w)" by (auto simp: tables_def)
  moreover from ev have "announces c j ch actor at (outbox_row_of ev)"
    by (auto simp: job_changed_event_def announces_def outbox_row_of_def new_uuid_def Let_def
        split: sum.splits) blast
  ultimately show ?thesis using that by blast
qed

section \<open>The contract of the outbox\<close>

text \<open>The two ways such a transaction can end, for the update of the rows where \<open>p\<close> holds by \<open>f\<close>.\<close>

definition published_update ::
  "(job \<Rightarrow> bool) \<Rightarrow> (job \<Rightarrow> job) \<Rightarrow> string \<times> string \<times> string \<Rightarrow> 'env event_codec \<Rightarrow> string \<Rightarrow>
   (job \<Rightarrow> string) \<Rightarrow> time \<Rightarrow> job list \<times> outbox_row list \<Rightarrow> gerr + job \<Rightarrow>
   job list \<times> outbox_row list \<Rightarrow> bool" where
  "published_update p f k c ch actor at T r T' \<longleftrightarrow>
     (\<exists>e. r = Inl e) \<and> T' = T
   \<or> (\<exists>j row. find (is_key (fst k) (fst (snd k)) (snd (snd k))) (fst T) = Some j \<and> p j
        \<and> fst T' = update_where p f (fst T) \<and> constraints_ok (fst T')
        \<and> snd T' = snd T @ [row] \<and> announces c (f j) ch (actor (f j)) at row
        \<and> (r = Inr (f j) \<or> (\<exists>e. r = Inl e)))"

context guarded_update
begin

lemma changed_run:
  assumes "changed (\<lambda>v. after_update t a i (stmt (exec_update (guard u) (change u)) v)) c ch actor at w
      = (Inr x, w')" and "key u = (t, a, i)"
  obtains j row where "find (is_key t a i) (jobs w) = Some j" "guard u j" "x = change u j"
    "jobs w' = update_where (guard u) (change u) (jobs w)" "constraints_ok (jobs w')"
    "outbox w' = outbox w @ [row]" "announces c (change u j) ch (actor (change u j)) at row"
proof -
  from assms(1) obtain j' w1 where
    up: "after_update t a i (stmt (exec_update (guard u) (change u)) w) = (Inr j', w1)"
    and rest: "and_then (add_event c j' ch (actor j') at w1) (\<lambda>_ w2. (Inr j', w2)) = (Inr x, w')"
    unfolding changed_def by (rule and_then_ok)
  from rest have x: "x = j'" and ev: "add_event c j' ch (actor j') at w1 = (Inr (), w')"
    by (auto elim: and_then_ok)
  from up assms(2) obtain j where j: "find (is_key t a i) (jobs w) = Some j" "guard u j"
    "j' = change u j" and w1: "jobs w1 = update_where (guard u) (change u) (jobs w)"
    "outbox w1 = outbox w" "constraints_ok (jobs w1)"
    by (auto elim: update_ok)
  from ev obtain row where "outbox w' = outbox w1 @ [row]" "announces c j' ch (actor j') at row"
    by (rule add_event_ok)
  with j w1 x add_event_jobs [OF ev] show thesis by (intro that) auto
qed

text \<open>A guarded update with its event, as one transaction: either nothing of it is in the
  tables and the caller gets an error, or the row is changed and its event is stored. In the
  second case an error means that the answer to the commit was lost.\<close>

lemma published:
  assumes "within (changed (\<lambda>v. after_update t a i (stmt (exec_update (guard u) (change u)) v))
      c ch actor at) w = (r, w')" and "key u = (t, a, i)"
  obtains (undone) e where "r = Inl e" "tables w' = tables w"
  | (stored) j row where "find (is_key t a i) (jobs w) = Some j" "guard u j"
      "jobs w' = update_where (guard u) (change u) (jobs w)" "constraints_ok (jobs w')"
      "outbox w' = outbox w @ [row]" "announces c (change u j) ch (actor (change u j)) at row"
      "r = Inr (change u j) \<or> (\<exists>e. r = Inl (Wrapped ''commit transaction: '' e []))"
  using assms(1)
proof (cases rule: within_cases)
  case (undone e)
  then show thesis by (rule that(1))
next
  case (committed x w2)
  from committed(2) assms(2) show thesis
    by (rule changed_run) (use committed(1,3) in \<open>auto simp: tables_def intro!: that(2)\<close>)
next
  case (lost x e w2)
  from lost(2) assms(2) show thesis
    by (rule changed_run) (use lost(1,3) in \<open>auto simp: tables_def intro!: that(2)\<close>)
qed

lemma published_update:
  assumes "key u = (t, a, i)"
    and "within (changed (\<lambda>v. after_update t a i (stmt (exec_update (guard u) (change u)) v))
      c ch actor at) w = (r, w')"
  shows "published_update (guard u) (change u) (t, a, i) c ch actor at (tables w) r (tables w')"
  using assms(2,1) by (rule published) (auto simp: published_update_def tables_def)

end

lemma published_cases [consumes 1, case_names undone stored]:
  assumes "published_update p f k c ch actor at T r T'"
  obtains e where "r = Inl e" "T' = T"
  | j row where "find (is_key (fst k) (fst (snd k)) (snd (snd k))) (fst T) = Some j" "p j"
      "fst T' = update_where p f (fst T)" "constraints_ok (fst T')"
      "snd T' = snd T @ [row]" "announces c (f j) ch (actor (f j)) at row"
      "r = Inr (f j) \<or> (\<exists>e. r = Inl e)"
  using assms unfolding published_update_def by blast

text \<open>Which error it is does not matter; the simplifier uses one.\<close>

lemma published_error:
  "NO_MATCH (ErrText []) e \<Longrightarrow> published_update p f k c ch actor at T (Inl e) T'
     \<longleftrightarrow> published_update p f k c ch actor at T (Inl (ErrText [])) T'"
  by (auto simp: published_update_def)

text \<open>The transactions of the service and of the worker.\<close>

lemma complete_upload_published:
  "within (changed (repo_complete_upload v n) c ch actor at) w = (r, w') \<Longrightarrow>
   published_update (complete_upload_where v n) (complete_upload_set v) (key_of v) c ch actor at (tables w) r (tables w')"
  using complete_up.published_update [of "(v, n)" "tenant_id v" "application_id v" "job_id v" c ch actor at w r w']
  by (simp add: repo_complete_upload_def [abs_def] key_of_def)

lemma cancel_published:
  "within (changed (repo_cancel t a i n who now) c ch actor at) w = (r, w') \<Longrightarrow>
   published_update (cancel_where t a i n) (cancel_set who now) (t, a, i) c ch actor at (tables w) r (tables w')"
  using cancel_up.published_update [of "((t, a, i), n, who, now)" t a i c ch actor at w r w']
  by (simp add: repo_cancel_def [abs_def])

lemma retry_published:
  "within (changed (repo_retry v n) c ch actor at) w = (r, w') \<Longrightarrow>
   published_update (retry_where v n) (retry_set v) (key_of v) c ch actor at (tables w) r (tables w')"
  using retry_up.published_update [of "(v, n)" "tenant_id v" "application_id v" "job_id v" c ch actor at w r w']
  by (simp add: repo_retry_def [abs_def] key_of_def)

lemma finish_validation_published:
  "within (changed (repo_finish_validation v) c ch actor at) w = (r, w') \<Longrightarrow>
   published_update (finish_validation_where v) (finish_validation_set v) (key_of v) c ch actor at (tables w) r (tables w')"
  using finish_validation_up.published_update [of v "tenant_id v" "application_id v" "job_id v" c ch actor at w r w']
  by (simp add: repo_finish_validation_def [abs_def] key_of_def)

lemma finish_apply_published:
  "within (changed (repo_finish_apply v) c ch actor at) w = (r, w') \<Longrightarrow>
   published_update (finish_apply_where v) (finish_apply_set v) (key_of v) c ch actor at (tables w) r (tables w')"
  using finish_apply_up.published_update [of v "tenant_id v" "application_id v" "job_id v" c ch actor at w r w']
  by (simp add: repo_finish_apply_def [abs_def] key_of_def)

lemma fail_published:
  "within (changed (repo_fail v s) c ch actor at) w = (r, w') \<Longrightarrow>
   published_update (fail_where v s) (fail_set v) (key_of v) c ch actor at (tables w) r (tables w')"
  using fail_up.published_update [of "(v, s)" "tenant_id v" "application_id v" "job_id v" c ch actor at w r w']
  by (simp add: repo_fail_def [abs_def] key_of_def)

lemma expire_published:
  "within (changed (repo_expire v now) c ch actor at) w = (r, w') \<Longrightarrow>
   published_update (expire_where v) (expire_set now) (key_of v) c ch actor at (tables w) r (tables w')"
  using expire_up.published_update [of "(v, now)" "tenant_id v" "application_id v" "job_id v" c ch actor at w r w']
  by (simp add: repo_expire_def [abs_def] key_of_def)

end
