(* ===== verification/Provider_Types.thy ===== *)
theory Provider_Types
  imports Job_Model
begin

text \<open>
  The interface to the dataset providers (\<open>internal/importjob/provider.go\<close>) and to the object
  store (\<open>internal/importjob/storage.go\<close>): the data that crosses it. A row of an import file is a
  finite map from column keys to values of Go's type \<open>any\<close>, of which the parsers produce what
  \<open>encoding/json\<close> decodes to.
\<close>

datatype go_value = GoNil | GoBool bool | GoNumber string | GoString string
  | GoSlice "go_value list" | GoMap "(string \<times> go_value) list"

type_synonym import_row = "string \<rightharpoonup> go_value"

record dataset_summary =
  ds_provider_service :: string
  ds_code :: string
  ds_title :: string
  ds_formats :: "string list"
  ds_max_batch_size :: i32
  ds_supports_dry_run :: bool
  ds_healthy_instances :: i32

record import_column =
  ic_key :: string
  ic_title :: string
  ic_type :: string
  ic_description :: string
  ic_example :: string
  ic_required :: bool
  ic_sensitive :: bool

record dataset_descriptor =
  dd_code :: string
  dd_title :: string
  dd_columns :: "import_column list"
  dd_formats :: "string list"
  dd_max_batch_size :: i32
  dd_supports_dry_run :: bool

record row_issue =
  ri_row_number :: int
  ri_column_key :: string
  ri_code :: string
  ri_message :: string

record validate_batch_request =
  vb_tenant_id :: string
  vb_application_id :: string
  vb_dataset_code :: string
  vb_job_id :: string
  vb_batch_number :: int
  vb_first_row_number :: int
  vb_rows :: "import_row list"

record validate_batch_result =
  vr_normalized_rows :: "import_row list"
  vr_issues :: "row_issue list"

record apply_batch_request =
  ab_tenant_id :: string
  ab_application_id :: string
  ab_dataset_code :: string
  ab_job_id :: string
  ab_idempotency_key :: string
  ab_batch_number :: int
  ab_rows :: "import_row list"

record apply_batch_result =
  ar_applied_rows :: int
  ar_issues :: "row_issue list"

section \<open>The object store\<close>

record object_info =
  oi_size :: int
  oi_checksum :: string

record upload =
  up_url :: string
  up_headers :: "(string \<times> string) list"
  up_expires_at :: time

end
