(* ===== verification/Service_Correct.thy ===== *)
theory Service_Correct
  imports Service
begin

text \<open>
  What the operations of the service do to the tables. \<open>request\<close> names an operation with its
  arguments and \<open>serve\<close> runs it, so that a statement about \<open>serve\<close> is one about every operation.
\<close>

section \<open>Authorization\<close>

lemma authorize_ok:
  assumes "authorize caller t = Inr actor"
  obtains p where "caller = Some p" "actor = pr_id p"
    "pr_type p \<in> {TypeServiceAccount, TypeSystem} \<or> pr_tenant_id p \<noteq> [] \<and> pr_tenant_id p = clean t"
  using assms by (auto simp: authorize_def split: option.splits if_splits)

lemma authorize_scope_tables: "authorize_scope v caller t a w = (r, w') \<Longrightarrow> tables w' = tables w"
  by (auto simp: authorize_scope_def ask_def split: sum.splits if_splits option.splits)

lemma authorize_scope_ok:
  assumes "authorize_scope v caller t a w = (Inr actor, w')"
  shows "authorize caller t = Inr actor" "clean t \<noteq> []" "clean a \<noteq> []"
    "v (clean t) (clean a) w = None" "w' = w\<lparr>calls := Suc (calls w)\<rparr>"
  using assms by (auto simp: authorize_scope_def ask_def split: sum.splits if_splits option.splits)

section \<open>Requests\<close>

datatype request =
    ReqCreate create_input
  | ReqCompleteUpload string string string int int string
  | ReqGet string string string
  | ReqList list_filter
  | ReqCancel string string string int
  | ReqRetry string string string int string
  | ReqConfirm string string string int string
  | ReqErrorReport string string string duration

fun request_tenant :: "request \<Rightarrow> string" where
  "request_tenant (ReqCreate i) = ci_tenant_id i"
| "request_tenant (ReqCompleteUpload t a i n b c) = t"
| "request_tenant (ReqGet t a i) = t"
| "request_tenant (ReqList f) = lf_tenant_id f"
| "request_tenant (ReqCancel t a i n) = t"
| "request_tenant (ReqRetry t a i n k) = t"
| "request_tenant (ReqConfirm t a i n k) = t"
| "request_tenant (ReqErrorReport t a i d) = t"

fun request_application :: "request \<Rightarrow> string" where
  "request_application (ReqCreate i) = ci_application_id i"
| "request_application (ReqCompleteUpload t a i n b c) = a"
| "request_application (ReqGet t a i) = a"
| "request_application (ReqList f) = lf_application_id f"
| "request_application (ReqCancel t a i n) = a"
| "request_application (ReqRetry t a i n k) = a"
| "request_application (ReqConfirm t a i n k) = a"
| "request_application (ReqErrorReport t a i d) = a"

text \<open>The error of a request, if any, the jobs that its answer shows, and the world it leaves.\<close>

definition answered :: "('a \<Rightarrow> job list) \<Rightarrow> (gerr + 'a) \<times> world \<Rightarrow> (gerr + job list) \<times> world" where
  "answered f r = (case r of (Inl e, w) \<Rightarrow> (Inl e, w) | (Inr x, w) \<Rightarrow> (Inr (f x), w))"

lemma answered_ok: "answered f r = (Inr js, w) \<Longrightarrow> \<exists>x. r = (Inr x, w) \<and> js = f x"
  by (auto simp: answered_def split: prod.splits sum.splits)

lemma answered_world: "answered f r = (x, w) \<Longrightarrow> snd r = w"
  by (auto simp: answered_def split: prod.splits sum.splits)

lemma answered_error: "answered f r = (Inl e, w) \<Longrightarrow> r = (Inl e, w)"
  by (auto simp: answered_def split: prod.splits sum.splits)

fun serve :: "'env service \<Rightarrow> principal option \<Rightarrow> request \<Rightarrow> world \<Rightarrow> (gerr + job list) \<times> world" where
  "serve s p (ReqCreate i) w = answered (\<lambda>(j, u, replayed). [j]) (service_create s p i w)"
| "serve s p (ReqCompleteUpload t a i n b c) w =
     answered (\<lambda>j. [j]) (service_complete_upload s p t a i n b c w)"
| "serve s p (ReqGet t a i) w = answered (\<lambda>j. [j]) (service_get s p t a i w)"
| "serve s p (ReqList f) w = answered page_items (service_list s p f w)"
| "serve s p (ReqCancel t a i n) w = answered (\<lambda>j. [j]) (service_cancel s p t a i n w)"
| "serve s p (ReqRetry t a i n k) w =
     answered (\<lambda>(j, u, replayed). [j]) (service_retry s p t a i n k w)"
| "serve s p (ReqConfirm t a i n k) w =
     answered (\<lambda>(j, replayed). [j]) (service_confirm s p t a i n k w)"
| "serve s p (ReqErrorReport t a i d) w =
     answered (\<lambda>(url, expires, j). [j]) (service_error_report_url s p t a i d w)"

section \<open>One job, one event\<close>

text \<open>What one transaction of the service or the worker may do: nothing, create a job, or move
  the job at one position of the table one step along the state machine and store the event
  that announces it.\<close>

definition one_change :: "'env event_codec \<Rightarrow> string set \<Rightarrow> job list \<times> outbox_row list \<Rightarrow>
    job list \<times> outbox_row list \<Rightarrow> bool" where
  "one_change c changes T T' \<longleftrightarrow> T' = T
   \<or> (\<exists>v. new_job_ok v \<and> fst T' = fst T @ [v] \<and> snd T' = snd T)
   \<or> (\<exists>n j' ch actor at row. n < length (fst T) \<and> fst T' = (fst T)[n := j']
        \<and> row_step (fst T ! n) j' \<and> version j' = version (fst T ! n) + 1
        \<and> snd T' = snd T @ [row] \<and> announces c j' ch actor at row \<and> ch \<in> changes)"

lemma update_where_at:
  assumes "distinct (map job_id xs)" and "n < length xs" and "p (xs ! n)"
    and "\<And>j. p j \<Longrightarrow> job_id j = i"
  shows "update_where p f xs = xs[n := f (xs ! n)]"
proof (rule nth_equalityI)
  fix m assume m: "m < length (update_where p f xs)"
  have "\<not> p (xs ! m)" if "m \<noteq> n"
  proof
    assume "p (xs ! m)"
    with assms(3,4) have "map job_id xs ! m = map job_id xs ! n" using m assms(2) by simp
    with assms(1,2) m that show False by (auto simp: distinct_conv_nth)
  qed
  with assms(3) m show "update_where p f xs ! m = xs[n := f (xs ! n)] ! m"
    by (cases "m = n") (auto simp: update_where_def)
qed simp

lemma published_one_change:
  assumes "published_update p f k c ch actor at T r T'"
    and "\<And>j. p j \<Longrightarrow> row_step j (f j)" and "\<And>j. version (f j) = version j + 1"
    and "\<And>j. job_id (f j) = job_id j" and "\<And>j. p j \<Longrightarrow> job_id j = snd (snd k)" and "ch \<in> changes"
  shows "one_change c changes T T'"
  using assms(1)
proof (cases rule: published_cases)
  case (undone e)
  then show ?thesis by (simp add: one_change_def)
next
  case (stored j row)
  from stored(1) obtain n where n: "n < length (fst T)" "j = fst T ! n" by (auto simp: find_Some_iff)
  from stored(3,4) assms(4) have "distinct (map job_id (fst T))"
    by (simp add: constraints_ok_def map_update_where_same)
  with n stored(2) assms(5) have "fst T' = (fst T)[n := f (fst T ! n)]"
    unfolding stored(3) by (intro update_where_at) auto
  moreover from stored(2) assms(2) have "row_step j (f j)" by blast
  ultimately show ?thesis using n stored assms(3,6) unfolding one_change_def by blast
qed

lemma published_step:
  assumes "published_update p f k c ch actor at T r T'"
    and "\<And>rows. rows = update_where p f (fst T) \<Longrightarrow> constraints_ok rows \<Longrightarrow> table_step (fst T) rows"
  shows "table_step\<^sup>*\<^sup>* (fst T) (fst T')"
  using assms(1) by (cases rule: published_cases) (auto intro!: r_into_rtranclp assms(2))

lemma one_change_refl [simp]: "one_change c changes T T"
  by (simp add: one_change_def)

section \<open>The operations, one by one\<close>

text \<open>Rules for the calls that the operations make.\<close>

lemma post_authorize_scope [wp]:
  "(\<And>e v. tables v = tables w \<Longrightarrow> Q (Inl e) v) \<Longrightarrow>
   (\<And>actor v. authorize p t = Inr actor \<Longrightarrow> clean t \<noteq> [] \<Longrightarrow> clean a \<noteq> [] \<Longrightarrow>
      f (clean t) (clean a) w = None \<Longrightarrow> tables v = tables w \<Longrightarrow> Q (Inr actor) v) \<Longrightarrow>
   post (authorize_scope f p t a w) Q"
  by (auto simp: authorize_scope_def ask_def split: sum.splits option.splits)

lemma post_repo_get [wp]:
  "(\<And>e v. tables v = tables w \<Longrightarrow> Q (Inl e) v) \<Longrightarrow>
   (\<And>j v. tables v = tables w \<Longrightarrow> find (is_key t a i) (fst (tables w)) = Some j \<Longrightarrow> Q (Inr j) v) \<Longrightarrow>
   post (repo_get t a i w) Q"
  unfolding repo_get_def
  by (rule postI) (metis fst_tables get_one_ok get_one_tables sum.exhaust)

lemma post_translated [wp]:
  "post r (\<lambda>x v. (\<forall>e. x = Inl e \<longrightarrow> Q (Inl (translate e)) v) \<and> (\<forall>y. x = Inr y \<longrightarrow> Q (Inr y) v)) \<Longrightarrow>
   post (translated r) Q"
  by (cases r; cases "fst r") (auto simp: post_def)

lemma post_create_upload [wp]:
  "(\<And>r v. tables v = tables w \<Longrightarrow> Q r v) \<Longrightarrow> post (create_upload s j w) Q"
  unfolding create_upload_def
  by (intro wp) (auto simp: time_now_def post_def split: prod.splits)

lemma post_validate_dataset [wp]:
  "(\<And>r v. tables v = tables w \<Longrightarrow> Q r v) \<Longrightarrow> post (validate_dataset s i w) Q"
  unfolding validate_dataset_def by (intro wp) auto

lemma post_within [wp]: "(\<And>x v. within f w = (x, v) \<Longrightarrow> Q x v) \<Longrightarrow> post (within f w) Q"
  by (rule postI)

text \<open>An operation that writes has either failed with the tables as they were, or run its
  transaction on behalf of an authorized actor.\<close>

lemma service_cancel_published:
  "post (service_cancel s p t a i n w) (\<lambda>r w'. (\<exists>e. r = Inl e) \<and> tables w' = tables w
    \<or> (\<exists>actor now. authorize p t = Inr actor \<and>
         published_update (cancel_where (clean t) (clean a) (clean i) n) (cancel_set actor now)
           (clean t, clean a, clean i) (sv_codec s) ''canceled'' (\<lambda>_. actor) now (tables w) r (tables w')))"
  unfolding service_cancel_def
  by (intro wp conjI allI impI) (auto dest!: cancel_published simp: published_error)

lemma service_complete_upload_published:
  "post (service_complete_upload s p t a i n b cs w) (\<lambda>r w'. (\<exists>e. r = Inl e) \<and> tables w' = tables w
    \<or> (\<exists>actor now j v. authorize p t = Inr actor \<and> 1 \<le> n \<and> 1 \<le> b \<and> clean cs \<noteq> []
         \<and> find (is_key (clean t) (clean a) (clean i)) (fst (tables w)) = Some j
         \<and> v = j\<lparr>source_bytes := b, source_checksum := clean cs, updated_at := now, updated_by := actor\<rparr>
         \<and> published_update (complete_upload_where v n) (complete_upload_set v) (key_of v)
             (sv_codec s) ''requested'' (\<lambda>_. actor) now (tables w) r (tables w')))"
  unfolding service_complete_upload_def
  by (intro wp conjI allI impI)
    (auto dest!: complete_upload_published simp: not_less published_error)

lemma service_retry_published:
  "post (service_retry s p t a i n k w) (\<lambda>r w'.
      tables w' = tables w \<and> (\<forall>y. r = Inr y \<longrightarrow>
        find (is_key (clean t) (clean a) (clean i)) (fst (tables w)) = Some (fst y) \<and> snd (snd y)
        \<and> status (fst y) = StatusUploading \<and> idempotency_key (fst y) = clean k)
    \<or> (\<exists>actor now expires j v r'. authorize p t = Inr actor \<and> 1 \<le> n \<and> clean k \<noteq> []
         \<and> find (is_key (clean t) (clean a) (clean i)) (fst (tables w)) = Some j
         \<and> \<not> (status j = StatusUploading \<and> idempotency_key j = clean k)
         \<and> v = retry_input j k expires now actor
         \<and> published_update (retry_where v n) (retry_set v) (key_of v)
             (sv_codec s) ''retried'' (\<lambda>_. actor) now (tables w) r' (tables w')
         \<and> (\<forall>y. r = Inr y \<longrightarrow> r' = Inr (fst y) \<and> \<not> snd (snd y))))"
  unfolding service_retry_def
  by (intro wp conjI allI impI) (auto dest!: retry_published simp: not_less, blast+)

text \<open>\<open>Create\<close>: the repository inserts the row unless one with the same idempotency key is there.\<close>

lemma stmt_insert:
  assumes "stmt (exec_insert v) w = (r, w')"
  shows "outbox w' = outbox w"
    and "jobs w' = jobs w \<and> (\<exists>e. r = Inl e) \<or> jobs w' = jobs w @ [v] \<and> constraints_ok (jobs w')"
  using assms
  by (auto simp: stmt_def tick_def exec_insert_def fail_tx_def
      split: if_splits option.splits fault.splits)

lemma find_append_idem:
  assumes "find (is_idem (tenant_id v) (application_id v) (idempotency_key v)) (rows @ [v]) = Some x"
    and "constraints_ok (rows @ [v])"
  shows "x = v"
proof -
  from find_SomeD [OF assms(1)] have "x \<in> set (rows @ [v])" "idem_columns x = idem_columns v"
    by (auto simp: is_idem_def idem_columns_def)
  with assms(2) show ?thesis by (auto simp: constraints_ok_def image_iff)
qed

lemma post_get_by_idempotency [wp]:
  "(\<And>e v. tables v = tables w \<Longrightarrow> Q (Inl e) v) \<Longrightarrow>
   (\<And>j v. tables v = tables w \<Longrightarrow> find (is_idem t a k) (fst (tables w)) = Some j \<Longrightarrow> Q (Inr j) v) \<Longrightarrow>
   post (repo_get_by_idempotency t a k w) Q"
  unfolding repo_get_by_idempotency_def
  by (rule postI) (metis fst_tables get_one_ok get_one_tables sum.exhaust)

lemma post_insert [wp]:
  "(\<And>e x. tables x = tables w \<Longrightarrow> Q (Inl e) x) \<Longrightarrow>
   (\<And>r x. outbox x = outbox w \<Longrightarrow> jobs x = jobs w @ [v] \<Longrightarrow> constraints_ok (jobs w @ [v]) \<Longrightarrow> Q r x) \<Longrightarrow>
   post (stmt (exec_insert v) w) Q"
proof (rule postI)
  fix r x
  assume err: "\<And>e x. tables x = tables w \<Longrightarrow> Q (Inl e) x"
    and ok: "\<And>r x. outbox x = outbox w \<Longrightarrow> jobs x = jobs w @ [v] \<Longrightarrow> constraints_ok (jobs w @ [v]) \<Longrightarrow> Q r x"
    and st: "stmt (exec_insert v) w = (r, x)"
  from stmt_insert [OF st] show "Q r x" by (auto simp: tables_def intro: err ok)
qed

lemma repo_create_run:
  "post (repo_create v w) (\<lambda>r w'. outbox w' = outbox w
     \<and> (jobs w' = jobs w \<and> (\<forall>x c. r = Inr (x, c) \<longrightarrow> \<not> c
          \<and> find (is_idem (tenant_id v) (application_id v) (idempotency_key v)) (jobs w) = Some x)
      \<or> jobs w' = jobs w @ [v] \<and> constraints_ok (jobs w') \<and> (\<forall>x c. r = Inr (x, c) \<longrightarrow> x = v)))"
  unfolding repo_create_def
  by (intro wp conjI allI impI) (auto dest: find_append_idem simp: tables_def)


lemma within_create:
  assumes "within (repo_create v) w = (r, w')"
  shows "tables w' = tables w \<and> (\<forall>y. r = Inr y \<longrightarrow> \<not> snd y
          \<and> find (is_idem (tenant_id v) (application_id v) (idempotency_key v)) (fst (tables w)) = Some (fst y))
      \<or> tables w' = (fst (tables w) @ [v], snd (tables w)) \<and> constraints_ok (fst (tables w) @ [v])
          \<and> (\<forall>y. r = Inr y \<longrightarrow> fst y = v)"
  using assms
  by (cases rule: within_cases) (use postD [OF repo_create_run] in \<open>fastforce simp: tables_def\<close>)+

lemma new_job_ok_new_job:
  assumes "input_ok i"
  shows "new_job_ok (new_job i uid now expires actor)"
  using assms by (simp add: input_ok_def new_job_ok_def new_job_def Let_def zero_job_def)

lemma new_job_fields [simp]:
  "tenant_id (new_job i uid now expires actor) = ci_tenant_id i"
  "application_id (new_job i uid now expires actor) = ci_application_id i"
  "idempotency_key (new_job i uid now expires actor) = ci_idempotency_key i"
  "job_id (new_job i uid now expires actor) = uid"
  "dataset_code (new_job i uid now expires actor) = ci_dataset_code i"
  "provider_service (new_job i uid now expires actor) = ci_provider_service i"
  "file_format (new_job i uid now expires actor) = ci_format i"
  "status (new_job i uid now expires actor) = StatusUploading"
  "version (new_job i uid now expires actor) = 1"
  by (simp_all add: new_job_def Let_def)

lemma clean_input_fields [simp]:
  "ci_tenant_id (clean_input i) = clean (ci_tenant_id i)"
  "ci_application_id (clean_input i) = clean (ci_application_id i)"
  "ci_dataset_code (clean_input i) = clean (ci_dataset_code i)"
  "ci_provider_service (clean_input i) = clean (ci_provider_service i)"
  "ci_format (clean_input i) = clean (ci_format i)"
  "ci_idempotency_key (clean_input i) = clean (ci_idempotency_key i)"
  by (simp_all add: clean_input_def)

lemma service_create_effect:
  "post (service_create s p raw w) (\<lambda>r w'. 
      tables w' = tables w \<and> (\<forall>y. r = Inr y \<longrightarrow> snd (snd y) 
        \<and> find (is_idem (clean (ci_tenant_id raw)) (clean (ci_application_id raw)) (clean (ci_idempotency_key raw)))
             (fst (tables w)) = Some (fst y)
        \<and> dataset_code (fst y) = clean (ci_dataset_code raw)
        \<and> provider_service (fst y) = clean (ci_provider_service raw)
        \<and> file_format (fst y) = clean (ci_format raw))
    \<or> (\<exists>actor uid now v. authorize p (ci_tenant_id raw) = Inr actor \<and> input_ok (clean_input raw)
        \<and> v = new_job (clean_input raw) uid now (now + sv_upload_ttl s) actor
        \<and> tables w' = (fst (tables w) @ [v], snd (tables w)) \<and> constraints_ok (fst (tables w) @ [v])
        \<and> (\<forall>y. r = Inr y \<longrightarrow> fst y = v)))"
  unfolding service_create_def
  by (intro wp conjI allI impI) (auto dest!: within_create)


text \<open>\<open>Confirm\<close>: a confirmation with the key that the job already has changes nothing.\<close>

lemma confirm_body_run:
  assumes "confirm_body c v n actor now w = (Inr y, w')"
  shows "tables w' = tables w \<and> \<not> snd y \<and> find (is_key (tenant_id v) (application_id v) (job_id v)) (fst (tables w)) = Some (fst y)
      \<and> confirm_key (fst y) \<noteq> [] \<and> confirm_key (fst y) = confirm_key v
    \<or> snd y \<and> published_update (confirm_where v n) (confirm_set v) (key_of v) c ''apply-requested''
        (\<lambda>_. actor) now (tables w) (Inr (fst y)) (tables w')
      \<and> (\<forall>j. find (is_key (tenant_id v) (application_id v) (job_id v)) (fst (tables w)) = Some j \<longrightarrow>
           confirm_key j = confirm_key v \<longrightarrow> confirm_key v = [])"
proof -
  let ?up = "\<lambda>w. after_update (tenant_id v) (application_id v) (job_id v)
    (stmt (exec_update (confirm_where v n) (confirm_set v)) w)"
  obtain r w1 where g: "repo_get (tenant_id v) (application_id v) (job_id v) w = (r, w1)" by fastforce
  have t1: "tables w1 = tables w" using g by (simp add: repo_get_def get_one_tables)
  from assms g obtain j where r: "r = Inr j"
    by (cases r) (auto simp: confirm_body_def repo_confirm_def)
  have j: "find (is_key (tenant_id v) (application_id v) (job_id v)) (fst (tables w)) = Some j"
    using g r by (auto simp: repo_get_def fst_tables dest: get_one_ok)
  show ?thesis
  proof (cases "confirm_key j \<noteq> [] \<and> confirm_key j = confirm_key v")
    case True
    with assms g r j t1 show ?thesis by (auto simp: confirm_body_def repo_confirm_def)
  next
    case False
    obtain r2 w2 where u: "?up w1 = (r2, w2)" by fastforce
    with assms g r False obtain j' where r2: "r2 = Inr j'"
      by (cases r2) (auto simp: confirm_body_def repo_confirm_def)
    with assms g r False u have
      "and_then (add_event c j' ''apply-requested'' actor now w2) (\<lambda>_ w. (Inr (j', True), w)) = (Inr y, w')"
      by (auto simp: confirm_body_def repo_confirm_def)
    then have y: "y = (j', True)" and "add_event c j' ''apply-requested'' actor now w2 = (Inr (), w')"
      by (auto elim: and_then_ok)
    with u r2 have "changed ?up c ''apply-requested'' (\<lambda>_. actor) now w1 = (Inr j', w')"
      by (simp add: changed_def)
    then have "published_update (confirm_where v n) (confirm_set v) (key_of v) c ''apply-requested''
        (\<lambda>_. actor) now (tables w1) (Inr j') (tables w')"
      using confirm_up.changed_run [of "tenant_id v" "application_id v" "job_id v" "(v, n)" c
          "''apply-requested''" "\<lambda>_. actor" now w1 j' w']
      by (fastforce simp: key_of_def published_update_def tables_def)
    with y t1 j False show ?thesis by auto
  qed
qed

lemma within_confirm:
  assumes "within (confirm_body c v n actor now) w = (r, w')"
  shows "tables w' = tables w \<and> (\<forall>y. r = Inr y \<longrightarrow> \<not> snd y
      \<and> find (is_key (tenant_id v) (application_id v) (job_id v)) (fst (tables w)) = Some (fst y)
      \<and> confirm_key (fst y) \<noteq> [] \<and> confirm_key (fst y) = confirm_key v)
    \<or> (\<exists>r'. published_update (confirm_where v n) (confirm_set v) (key_of v) c ''apply-requested''
        (\<lambda>_. actor) now (tables w) r' (tables w') \<and> (\<forall>y. r = Inr y \<longrightarrow> r' = Inr (fst y) \<and> snd y))
      \<and> (\<forall>j. find (is_key (tenant_id v) (application_id v) (job_id v)) (fst (tables w)) = Some j \<longrightarrow>
           confirm_key j = confirm_key v \<longrightarrow> confirm_key v = [])"
  using assms
proof (cases rule: within_cases)
  case (undone e)
  then show ?thesis by simp
next
  case (committed x w2)
  from confirm_body_run [OF committed(2)] committed(1,3) show ?thesis by auto
next
  case (lost x e w2)
  from confirm_body_run [OF lost(2)] lost(1,3) show ?thesis by auto
qed

lemma service_confirm_published:
  "post (service_confirm s p t a i n k w) (\<lambda>r w'.
      tables w' = tables w \<and> (\<forall>y. r = Inr y \<longrightarrow>
        find (is_key (clean t) (clean a) (clean i)) (fst (tables w)) = Some (fst y) \<and> snd y
        \<and> confirm_key (fst y) = clean k)
    \<or> (\<exists>actor now r'. authorize p t = Inr actor \<and> 1 \<le> n \<and> clean k \<noteq> []
         \<and> published_update (confirm_where (confirm_input t a i k now actor) n)
             (confirm_set (confirm_input t a i k now actor)) (clean t, clean a, clean i)
             (sv_codec s) ''apply-requested'' (\<lambda>_. actor) now (tables w) r' (tables w')
         \<and> (\<forall>y. r = Inr y \<longrightarrow> r' = Inr (fst y) \<and> \<not> snd y)
         \<and> (\<forall>j. find (is_key (clean t) (clean a) (clean i)) (fst (tables w)) = Some j \<longrightarrow>
              confirm_key j \<noteq> clean k)))"
proof -
  have [simp]: "tenant_id (confirm_input t a i k now actor) = clean t"
    "application_id (confirm_input t a i k now actor) = clean a"
    "job_id (confirm_input t a i k now actor) = clean i"
    "confirm_key (confirm_input t a i k now actor) = clean k"
    "key_of (confirm_input t a i k now actor) = (clean t, clean a, clean i)" for now actor
    by (simp_all add: confirm_input_def key_of_def)
  show ?thesis
    unfolding service_confirm_def
    by (intro wp conjI allI impI) (auto dest!: within_confirm simp: not_less, blast)
qed

section \<open>Reading\<close>

lemma post_stmt_page [wp]:
  "(\<And>e v. tables v = tables w \<Longrightarrow> Q (Inl e) v) \<Longrightarrow>
   (\<And>v. tables v = tables w \<Longrightarrow> 0 \<le> limit \<Longrightarrow> 0 \<le> offset \<Longrightarrow>
      Q (Inr (take (nat limit) (drop (nat offset) (f (fst (tables w)))))) v) \<Longrightarrow>
   post (stmt (page_query limit offset f) w) Q"
  by (rule postI) (auto simp: stmt_def tick_def page_query_def tables_def fail_tx_def
      split: if_splits option.splits fault.splits)

text \<open>The page that \<open>List\<close> answers, from all jobs that match, newest first.\<close>

definition matching :: "list_filter \<Rightarrow> job list \<Rightarrow> job list" where
  "matching f rows = newest_first (filter (list_where f) rows)"

lemma set_matching: "set (matching f rows) = {j \<in> set rows. list_where f j}"
  by (simp add: matching_def newest_first_def)

lemma length_matching: "length (matching f rows) = length (filter (list_where f) rows)"
  by (simp add: matching_def newest_first_def)

definition list_page :: "list_filter \<Rightarrow> job list \<Rightarrow> job list" where
  "list_page f rows = take (nat (sint (lf_page_size f))) (drop (nat (sint (list_offset f))) (matching f rows))"

lemma repo_list_effect:
  "post (repo_list f w) (\<lambda>r w'. tables w' = tables w \<and> (\<forall>pg. r = Inr pg \<longrightarrow>
      0 \<le> sint (list_offset f) \<and> page_items pg = list_page f (fst (tables w))
      \<and> page_total pg = int (length (matching f (fst (tables w))))))"
  unfolding repo_list_def
  by (intro wp) (auto simp: list_page_def length_matching matching_def [symmetric])

lemma service_list_effect:
  "post (service_list s p f w) (\<lambda>r w'. tables w' = tables w \<and> (\<forall>pg. r = Inr pg \<longrightarrow>
      (\<exists>actor. authorize p (lf_tenant_id f) = Inr actor)
      \<and> 0 \<le> sint (list_offset (clean_filter f))
      \<and> page_items pg = list_page (clean_filter f) (fst (tables w))
      \<and> page_total pg = int (length (matching (clean_filter f) (fst (tables w))))))"
  unfolding service_list_def
  by (intro wp conjI allI impI post_mono [OF repo_list_effect]) auto

lemma service_get_effect:
  "post (service_get s p t a i w) (\<lambda>r w'. tables w' = tables w \<and> (\<forall>j. r = Inr j \<longrightarrow>
      (\<exists>actor. authorize p t = Inr actor)
      \<and> find (is_key (clean t) (clean a) (clean i)) (fst (tables w)) = Some j))"
  unfolding service_get_def by (intro wp conjI allI impI) auto

lemma service_error_report_effect:
  "post (service_error_report_url s p t a i d w) (\<lambda>r w'. tables w' = tables w \<and> (\<forall>y. r = Inr y \<longrightarrow>
      (\<exists>actor. authorize p t = Inr actor)
      \<and> find (is_key (clean t) (clean a) (clean i)) (fst (tables w)) = Some (snd (snd y))
      \<and> 0 < invalid_rows (snd (snd y))
      \<and> (\<exists>x. result_expires_at (snd (snd y)) = Some x \<and> fst (snd y) \<le> x)))"
  unfolding service_error_report_url_def
  by (intro wp post_mono [OF service_get_effect] conjI allI impI) auto

section \<open>Every request\<close>

definition foreign :: "string \<Rightarrow> string \<Rightarrow> job \<Rightarrow> bool" where
  "foreign t a j \<longleftrightarrow> \<not> (tenant_id j = t \<and> application_id j = a)"

text \<open>What a request of the application \<open>a\<close> of tenant \<open>t\<close> may do to the tables: at most one
  change, a path of the concrete steps, and nothing to the jobs of others.\<close>

definition own_change ::
  "'env event_codec \<Rightarrow> string set \<Rightarrow> string \<Rightarrow> string \<Rightarrow> job list \<times> outbox_row list \<Rightarrow>
   job list \<times> outbox_row list \<Rightarrow> bool" where
  "own_change c changes t a T T' \<longleftrightarrow> one_change c changes T T' \<and> table_step\<^sup>*\<^sup>* (fst T) (fst T')
     \<and> filter (foreign t a) (fst T') = filter (foreign t a) (fst T)"

lemma own_change_refl [simp]: "own_change c changes t a T T"
  by (simp add: own_change_def)

lemma filter_update_where_other:
  "(\<And>j. p j \<Longrightarrow> \<not> q j \<and> \<not> q (f j)) \<Longrightarrow> filter q (update_where p f xs) = filter q xs"
  by (induction xs) auto

lemma published_own_change:
  assumes "published_update p f (t, a, i) c ch actor at T r T'"
    and "\<And>j. p j \<Longrightarrow> row_step j (f j)" and "\<And>j. version (f j) = version j + 1"
    and "\<And>j. is_key t a i (f j) = is_key t a i j" and "\<And>j. job_id (f j) = job_id j"
    and "\<And>j. p j \<Longrightarrow> is_key t a i j" and "ch \<in> changes"
    and "\<And>rows. rows = update_where p f (fst T) \<Longrightarrow> constraints_ok rows \<Longrightarrow> table_step (fst T) rows"
  shows "own_change c changes t a T T'"
  unfolding own_change_def
proof (intro conjI)
  show "one_change c changes T T'"
    using assms(1,2,3,5) by (rule published_one_change) (use assms(6,7) in \<open>auto simp: is_key_def\<close>)
  show "table_step\<^sup>*\<^sup>* (fst T) (fst T')" using assms(1,8) by (rule published_step)
  have "\<not> foreign t a j \<and> \<not> foreign t a (f j)" if "p j" for j
    using assms(4) [of j] assms(6) [OF that] by (auto simp: is_key_def foreign_def)
  then have other: "filter (foreign t a) (update_where p f xs) = filter (foreign t a) xs" for xs
    by (rule filter_update_where_other)
  from assms(1) show "filter (foreign t a) (fst T') = filter (foreign t a) (fst T)"
    by (cases rule: published_cases) (simp_all add: other)
qed

definition service_changes :: "string set" where
  "service_changes = {''requested'', ''canceled'', ''retried'', ''apply-requested''}"

lemma cancel_own_change:
  assumes "published_update (cancel_where t a i n) (cancel_set actor now) (t, a, i) c ''canceled'' f at T r T'"
  shows "own_change c service_changes t a T T'"
  using assms
  by (rule published_own_change, elim row_step_set_defs)
    (auto simp: where_defs set_defs service_changes_def
      intro: table_step.cancel)

lemma complete_upload_own_change:
  assumes "published_update (complete_upload_where v n) (complete_upload_set v) (t, a, i) c ''requested'' f at T r T'"
    and "key_of v = (t, a, i)" and "1 \<le> source_bytes v" and "source_checksum v \<noteq> []"
  shows "own_change c service_changes t a T T'"
  using assms(1)
  by (rule published_own_change, elim row_step_set_defs)
    (use assms(2-) in \<open>auto simp: where_defs set_defs service_changes_def key_of_def
       intro: table_step.complete_upload\<close>)

lemma retry_own_change:
  assumes "published_update (retry_where v n) (retry_set v) (t, a, i) c ''retried'' f at T r T'"
    and "key_of v = (t, a, i)" and "upload_expires_at v \<noteq> None" and "idempotency_key v \<noteq> []"
  shows "own_change c service_changes t a T T'"
  using assms(1)
  by (rule published_own_change, elim row_step_set_defs)
    (use assms(2-) in \<open>auto simp: where_defs set_defs service_changes_def key_of_def
       intro: table_step.retry\<close>)

lemma confirm_own_change:
  assumes "published_update (confirm_where v n) (confirm_set v) (t, a, i) c ''apply-requested'' f at T r T'"
    and "key_of v = (t, a, i)" and "confirm_key v \<noteq> []"
  shows "own_change c service_changes t a T T'"
  using assms(1)
  by (rule published_own_change, elim row_step_set_defs)
    (use assms(2-) in \<open>auto simp: where_defs set_defs service_changes_def key_of_def
       intro: table_step.confirm\<close>)

lemma create_own_change:
  assumes "new_job_ok v" and "constraints_ok (fst T @ [v])" and "T' = (fst T @ [v], snd T)"
    and "tenant_id v = t" and "application_id v = a"
  shows "own_change c changes t a T T'"
  using assms by (auto simp: own_change_def one_change_def foreign_def intro: table_step.insert)

lemma complete_upload_own:
  "post (service_complete_upload s p t a i n b cs w) (\<lambda>_ w'.
     own_change (sv_codec s) service_changes (clean t) (clean a) (tables w) (tables w'))"
proof (rule post_mono [OF service_complete_upload_published], elim disjE exE conjE)
  fix r w' actor now j v
  assume f: "find (is_key (clean t) (clean a) (clean i)) (fst (tables w)) = Some j"
    and v: "v = j\<lparr>source_bytes := b, source_checksum := clean cs, updated_at := now, updated_by := actor\<rparr>"
    and u: "published_update (complete_upload_where v n) (complete_upload_set v) (key_of v)
      (sv_codec s) ''requested'' (\<lambda>_. actor) now (tables w) r (tables w')"
    and ok: "1 \<le> b" "clean cs \<noteq> []"
  from find_SomeD [OF f] v have k: "key_of v = (clean t, clean a, clean i)"
    by (simp add: key_of_def is_key_def)
  from complete_upload_own_change [OF u [unfolded k] k] ok v
  show "own_change (sv_codec s) service_changes (clean t) (clean a) (tables w) (tables w')" by simp
qed simp

lemma retry_own:
  "post (service_retry s p t a i n k w) (\<lambda>_ w'.
     own_change (sv_codec s) service_changes (clean t) (clean a) (tables w) (tables w'))"
proof (rule post_mono [OF service_retry_published], elim disjE exE conjE)
  fix r r' w' actor now expires j v
  assume f: "find (is_key (clean t) (clean a) (clean i)) (fst (tables w)) = Some j"
    and v: "v = retry_input j k expires now actor" and ok: "clean k \<noteq> []"
    and u: "published_update (retry_where v n) (retry_set v) (key_of v)
      (sv_codec s) ''retried'' (\<lambda>_. actor) now (tables w) r' (tables w')"
  from find_SomeD [OF f] v have k: "key_of v = (clean t, clean a, clean i)"
    by (simp add: key_of_def is_key_def retry_input_def)
  from retry_own_change [OF u [unfolded k] k] ok v
  show "own_change (sv_codec s) service_changes (clean t) (clean a) (tables w) (tables w')"
    by (simp add: retry_input_def)
qed simp

lemma confirm_own:
  "post (service_confirm s p t a i n k w) (\<lambda>_ w'.
     own_change (sv_codec s) service_changes (clean t) (clean a) (tables w) (tables w'))"
proof (rule post_mono [OF service_confirm_published], elim disjE exE conjE)
  fix r r' w' actor now
  let ?v = "confirm_input t a i k now actor"
  assume ok: "clean k \<noteq> []"
    and u: "published_update (confirm_where ?v n) (confirm_set ?v) (clean t, clean a, clean i)
      (sv_codec s) ''apply-requested'' (\<lambda>_. actor) now (tables w) r' (tables w')"
  show "own_change (sv_codec s) service_changes (clean t) (clean a) (tables w) (tables w')"
    by (rule confirm_own_change [OF u]) (use ok in \<open>simp_all add: key_of_def confirm_input_def\<close>)
qed simp

text \<open>Whatever the caller, the arguments and the failures: a request makes at most one change, of
  its own tenant and application.\<close>

lemma serve_own_change:
  assumes "serve s p req w = (r, w')"
  shows "own_change (sv_codec s) service_changes (clean (request_tenant req))
    (clean (request_application req)) (tables w) (tables w')"
proof (cases req)
  case (ReqCreate i)
  with assms answered_world have "snd (service_create s p i w) = w'" by fastforce
  then show ?thesis using postD [OF service_create_effect [of s p i w] surjective_pairing] ReqCreate
    by (auto intro: create_own_change new_job_ok_new_job)
next
  case (ReqCompleteUpload t a i n b cs)
  with assms answered_world have w': "snd (service_complete_upload s p t a i n b cs w) = w'" by fastforce
  show ?thesis using postD [OF complete_upload_own [of s p t a i n b cs w] surjective_pairing] ReqCompleteUpload
    unfolding w' by simp
next
  case (ReqGet t a i)
  with assms answered_world have "snd (service_get s p t a i w) = w'" by fastforce
  then show ?thesis using postD [OF service_get_effect [of s p t a i w] surjective_pairing] by simp
next
  case (ReqList f)
  with assms answered_world have "snd (service_list s p f w) = w'" by fastforce
  then show ?thesis using postD [OF service_list_effect [of s p f w] surjective_pairing] by simp
next
  case (ReqCancel t a i n)
  with assms answered_world have w': "snd (service_cancel s p t a i n w) = w'" by fastforce
  show ?thesis using postD [OF service_cancel_published [of s p t a i n w] surjective_pairing] ReqCancel
    unfolding w' by (auto intro: cancel_own_change)
next
  case (ReqRetry t a i n k)
  with assms answered_world have w': "snd (service_retry s p t a i n k w) = w'" by fastforce
  show ?thesis using postD [OF retry_own [of s p t a i n k w] surjective_pairing] ReqRetry
    unfolding w' by simp
next
  case (ReqConfirm t a i n k)
  with assms answered_world have w': "snd (service_confirm s p t a i n k w) = w'" by fastforce
  show ?thesis using postD [OF confirm_own [of s p t a i n k w] surjective_pairing] ReqConfirm
    unfolding w' by simp
next
  case (ReqErrorReport t a i d)
  with assms answered_world have "snd (service_error_report_url s p t a i d w) = w'" by fastforce
  then show ?thesis using postD [OF service_error_report_effect [of s p t a i d w] surjective_pairing] by simp
qed

section \<open>What each request changes\<close>

text \<open>A request moves the one job it names, at the version it names, from one of the statuses
  \<open>from\<close> to \<open>to\<close>, and stores the event of the change \<open>ch\<close>; the row and the event carry the same
  actor and the same time.\<close>

definition requested_move ::
  "'env event_codec \<Rightarrow> string \<Rightarrow> string \<Rightarrow> string \<Rightarrow> int \<Rightarrow> string set \<Rightarrow> string \<Rightarrow> string \<Rightarrow> string \<Rightarrow> time \<Rightarrow>
   job list \<times> outbox_row list \<Rightarrow> job list \<times> outbox_row list \<Rightarrow> bool" where
  "requested_move c t a i n from to ch actor now T T' \<longleftrightarrow> (\<exists>m j' row. m < length (fst T)
     \<and> is_key (clean t) (clean a) (clean i) (fst T ! m) \<and> version (fst T ! m) = n
     \<and> status (fst T ! m) \<in> from \<and> fst T' = (fst T)[m := j']
     \<and> is_key (clean t) (clean a) (clean i) j' \<and> status j' = to \<and> version j' = n + 1
     \<and> updated_by j' = actor \<and> updated_at j' = now
     \<and> snd T' = snd T @ [row] \<and> announces c j' ch actor now row)"

text \<open>The change that each kind of request asks for. \<open>Create\<close> inserts the job without an event; the
  requests that read change nothing.\<close>

fun requested_change ::
  "'env event_codec \<Rightarrow> request \<Rightarrow> string \<Rightarrow> time \<Rightarrow> job list \<times> outbox_row list \<Rightarrow>
   job list \<times> outbox_row list \<Rightarrow> bool" where
  "requested_change c (ReqCreate i) actor now T T' \<longleftrightarrow> (\<exists>v. T' = (fst T @ [v], snd T) \<and> new_job_ok v
     \<and> tenant_id v = clean (ci_tenant_id i) \<and> application_id v = clean (ci_application_id i)
     \<and> dataset_code v = clean (ci_dataset_code i) \<and> idempotency_key v = clean (ci_idempotency_key i)
     \<and> created_by v = actor \<and> created_at v = now)"
| "requested_change c (ReqCompleteUpload t a i n b cs) actor now T T' \<longleftrightarrow>
     requested_move c t a i n {StatusUploading} StatusQueued ''requested'' actor now T T'"
| "requested_change c (ReqCancel t a i n) actor now T T' \<longleftrightarrow>
     requested_move c t a i n (set cancelable) StatusCanceled ''canceled'' actor now T T'"
| "requested_change c (ReqRetry t a i n k) actor now T T' \<longleftrightarrow>
     requested_move c t a i n (set retryable) StatusUploading ''retried'' actor now T T'"
| "requested_change c (ReqConfirm t a i n k) actor now T T' \<longleftrightarrow>
     requested_move c t a i n {StatusReady} StatusApplyQueued ''apply-requested'' actor now T T'"
| "requested_change c (ReqGet t a i) actor now T T' \<longleftrightarrow> False"
| "requested_change c (ReqList f) actor now T T' \<longleftrightarrow> False"
| "requested_change c (ReqErrorReport t a i d) actor now T T' \<longleftrightarrow> False"

definition attributed_change ::
  "'env event_codec \<Rightarrow> principal option \<Rightarrow> request \<Rightarrow> job list \<times> outbox_row list \<Rightarrow>
   job list \<times> outbox_row list \<Rightarrow> bool" where
  "attributed_change c p req T T' \<longleftrightarrow> T' = T
     \<or> (\<exists>actor now. authorize p (request_tenant req) = Inr actor \<and> requested_change c req actor now T T')"

lemma attributed_same [simp]: "attributed_change c p req T T"
  by (simp add: attributed_change_def)

lemma published_requested_move:
  assumes "published_update p f (clean t, clean a, clean i) c ch (\<lambda>_. actor) now T r T'"
    and "\<And>j. p j \<Longrightarrow> is_key (clean t) (clean a) (clean i) j \<and> version j = n \<and> status j \<in> from"
    and "\<And>j. status (f j) = to \<and> version (f j) = version j + 1 \<and> updated_by (f j) = actor
      \<and> updated_at (f j) = now"
    and "\<And>j. tenant_id (f j) = tenant_id j \<and> application_id (f j) = application_id j \<and> job_id (f j) = job_id j"
  shows "T' = T \<or> requested_move c t a i n from to ch actor now T T'"
  using assms(1)
proof (cases rule: published_cases)
  case (stored j row)
  from stored(1) obtain m where m: "m < length (fst T)" "j = fst T ! m" by (auto simp: find_Some_iff)
  from stored(3,4) assms(4) have "distinct (map job_id (fst T))"
    by (simp add: constraints_ok_def map_update_where_same)
  with m stored(2,3) assms(2) have "fst T' = (fst T)[m := f (fst T ! m)]"
    by (auto simp: is_key_def intro!: update_where_at [where i = "clean i"])
  with m stored(2,5,6) assms(2) [of j] assms(3,4) [of j] have
    "requested_move c t a i n from to ch actor now T T'"
    unfolding requested_move_def by (intro exI [of _ m] exI [of _ "f j"] exI [of _ row]) (auto simp: is_key_def)
  then show ?thesis ..
qed simp

lemma complete_upload_attributed:
  "post (service_complete_upload s p t a i n b cs w) (\<lambda>_ w'.
     attributed_change (sv_codec s) p (ReqCompleteUpload t a i n b cs) (tables w) (tables w'))"
proof (rule post_mono [OF service_complete_upload_published], elim disjE exE conjE)
  fix r w' actor now j v
  assume f: "find (is_key (clean t) (clean a) (clean i)) (fst (tables w)) = Some j"
    and v: "v = j\<lparr>source_bytes := b, source_checksum := clean cs, updated_at := now, updated_by := actor\<rparr>"
    and u: "published_update (complete_upload_where v n) (complete_upload_set v) (key_of v)
      (sv_codec s) ''requested'' (\<lambda>_. actor) now (tables w) r (tables w')"
    and auth: "authorize p t = Inr actor"
  from find_SomeD [OF f] v have k: "key_of v = (clean t, clean a, clean i)"
    by (simp add: key_of_def is_key_def)
  from published_requested_move [OF u [unfolded k]] k v auth
  show "attributed_change (sv_codec s) p (ReqCompleteUpload t a i n b cs) (tables w) (tables w')"
    by (fastforce simp: attributed_change_def complete_upload_where_def complete_upload_set_def key_of_def)
qed simp

lemma retry_attributed:
  "post (service_retry s p t a i n k w) (\<lambda>_ w'.
     attributed_change (sv_codec s) p (ReqRetry t a i n k) (tables w) (tables w'))"
proof (rule post_mono [OF service_retry_published], elim disjE exE conjE)
  fix r r' w' actor now expires j v
  assume f: "find (is_key (clean t) (clean a) (clean i)) (fst (tables w)) = Some j"
    and v: "v = retry_input j k expires now actor" and auth: "authorize p t = Inr actor"
    and u: "published_update (retry_where v n) (retry_set v) (key_of v)
      (sv_codec s) ''retried'' (\<lambda>_. actor) now (tables w) r' (tables w')"
  from find_SomeD [OF f] v have k: "key_of v = (clean t, clean a, clean i)"
    by (simp add: key_of_def is_key_def retry_input_def)
  have "updated_by v = actor" "updated_at v = now" by (simp_all add: v retry_input_def)
  with published_requested_move [OF u [unfolded k]] k auth
  show "attributed_change (sv_codec s) p (ReqRetry t a i n k) (tables w) (tables w')"
    by (fastforce simp: attributed_change_def retry_where_def retry_set_def key_of_def)
qed simp

lemma confirm_attributed:
  "post (service_confirm s p t a i n k w) (\<lambda>_ w'.
     attributed_change (sv_codec s) p (ReqConfirm t a i n k) (tables w) (tables w'))"
proof (rule post_mono [OF service_confirm_published], elim disjE exE conjE)
  fix r r' w' actor now
  let ?v = "confirm_input t a i k now actor"
  assume auth: "authorize p t = Inr actor"
    and u: "published_update (confirm_where ?v n) (confirm_set ?v) (clean t, clean a, clean i)
      (sv_codec s) ''apply-requested'' (\<lambda>_. actor) now (tables w) r' (tables w')"
  from published_requested_move [OF u] auth
  show "attributed_change (sv_codec s) p (ReqConfirm t a i n k) (tables w) (tables w')"
    by (fastforce simp: attributed_change_def confirm_where_def confirm_set_def confirm_input_def)
qed simp

lemma cancel_attributed:
  "post (service_cancel s p t a i n w) (\<lambda>_ w'.
     attributed_change (sv_codec s) p (ReqCancel t a i n) (tables w) (tables w'))"
proof (rule post_mono [OF service_cancel_published], elim disjE exE conjE)
  fix r w' actor now
  assume auth: "authorize p t = Inr actor"
    and u: "published_update (cancel_where (clean t) (clean a) (clean i) n) (cancel_set actor now)
      (clean t, clean a, clean i) (sv_codec s) ''canceled'' (\<lambda>_. actor) now (tables w) r (tables w')"
  from published_requested_move [OF u] auth
  show "attributed_change (sv_codec s) p (ReqCancel t a i n) (tables w) (tables w')"
    by (fastforce simp: attributed_change_def cancel_where_def cancel_set_def)
qed simp

lemma create_attributed:
  "post (service_create s p i w) (\<lambda>_ w'.
     attributed_change (sv_codec s) p (ReqCreate i) (tables w) (tables w'))"
proof (rule post_mono [OF service_create_effect], elim disjE exE conjE)
  fix r w' actor uid now v
  assume "authorize p (ci_tenant_id i) = Inr actor" and ok: "input_ok (clean_input i)"
    and v: "v = new_job (clean_input i) uid now (now + sv_upload_ttl s) actor"
    and "tables w' = (fst (tables w) @ [v], snd (tables w))"
  moreover have "created_by v = actor" "created_at v = now" by (simp_all add: v new_job_def Let_def)
  ultimately show "attributed_change (sv_codec s) p (ReqCreate i) (tables w) (tables w')"
    using new_job_ok_new_job [OF ok] by (auto simp: attributed_change_def)
qed simp

text \<open>Whatever the failures, a request makes the change of its own kind or none.\<close>

lemma serve_attributed:
  "attributed_change (sv_codec s) p req (tables w) (tables (snd (serve s p req w)))"
proof -
  have by_post: "Q (snd (answered f r))" if "post r (\<lambda>_. Q)" for Q f and r :: "(gerr + 'x) \<times> world"
    using that by (cases r; cases "fst r") (auto simp: post_def answered_def)
  show ?thesis
  proof (cases req)
    case (ReqCreate i)
    show ?thesis unfolding ReqCreate serve.simps by (rule by_post [OF create_attributed])
  next
    case (ReqCompleteUpload t a i n b cs)
    show ?thesis unfolding ReqCompleteUpload serve.simps by (rule by_post [OF complete_upload_attributed])
  next
    case (ReqCancel t a i n)
    show ?thesis unfolding ReqCancel serve.simps by (rule by_post [OF cancel_attributed])
  next
    case (ReqRetry t a i n k)
    show ?thesis unfolding ReqRetry serve.simps by (rule by_post [OF retry_attributed])
  next
    case (ReqConfirm t a i n k)
    show ?thesis unfolding ReqConfirm serve.simps by (rule by_post [OF confirm_attributed])
  next
    case (ReqGet t a i)
    show ?thesis unfolding ReqGet serve.simps
      by (rule by_post, rule post_mono [OF service_get_effect]) simp
  next
    case (ReqList f)
    show ?thesis unfolding ReqList serve.simps
      by (rule by_post, rule post_mono [OF service_list_effect]) simp
  next
    case (ReqErrorReport t a i d)
    show ?thesis unfolding ReqErrorReport serve.simps
      by (rule by_post, rule post_mono [OF service_error_report_effect]) simp
  qed
qed

section \<open>Answers\<close>

definition own_job :: "request \<Rightarrow> job \<Rightarrow> bool" where
  "own_job req j \<longleftrightarrow> tenant_id j = clean (request_tenant req)
     \<and> application_id j = clean (request_application req)"

lemma published_answer:
  assumes "published_update p f (t, a, i) c ch actor at T (Inr x) T'"
    and "\<And>j. is_key t a i (f j) = is_key t a i j" and "\<And>j. p j \<Longrightarrow> is_key t a i j"
  shows "x \<in> set (fst T') \<and> is_key t a i x"
  using assms(1)
proof (cases rule: published_cases)
  case (stored j row)
  with find_SomeD [OF stored(1)] assms(2,3) show ?thesis by (auto simp: set_update_where)
qed simp

lemma serve_answer:
  assumes "serve s p req w = (Inr js, w')" and "j \<in> set js"
  shows "j \<in> set (jobs w') \<and> own_job req j"
proof (cases req)
  case (ReqCreate i)
  with assms(1) obtain y where "service_create s p i w = (Inr y, w')" "js = [fst y]"
    by (auto dest!: answered_ok)
  with postD [OF service_create_effect this(1)] assms(2) ReqCreate show ?thesis
    by (auto simp: own_job_def is_idem_def fst_tables [symmetric] dest: find_SomeD)
next
  case (ReqCompleteUpload t a i n b cs)
  with assms(1) have r: "service_complete_upload s p t a i n b cs w = (Inr j, w')"
    using assms(2) by (auto dest!: answered_ok)
  from postD [OF service_complete_upload_published r] obtain actor now u v
    where f: "find (is_key (clean t) (clean a) (clean i)) (fst (tables w)) = Some u"
      and v: "v = u\<lparr>source_bytes := b, source_checksum := clean cs, updated_at := now, updated_by := actor\<rparr>"
      and pub: "published_update (complete_upload_where v n) (complete_upload_set v) (key_of v)
             (sv_codec s) ''requested'' (\<lambda>_. actor) now (tables w) (Inr j) (tables w')" by auto
  from find_SomeD [OF f] v have k: "key_of v = (clean t, clean a, clean i)"
    by (simp add: key_of_def is_key_def)
  with published_answer [OF pub [unfolded k]] show ?thesis using ReqCompleteUpload
    by (simp add: where_defs set_defs key_of_def own_job_def fst_tables)
next
  case (ReqGet t a i)
  with assms have "service_get s p t a i w = (Inr j, w')" by (auto dest!: answered_ok)
  with postD [OF service_get_effect this] ReqGet show ?thesis
    by (auto simp: own_job_def is_key_def fst_tables [symmetric] dest: find_SomeD)
next
  case (ReqList f)
  with assms(1) obtain pg where "service_list s p f w = (Inr pg, w')" "js = page_items pg"
    by (auto dest!: answered_ok)
  with postD [OF service_list_effect this(1)] assms(2)
  have "j \<in> set (matching (clean_filter f) (jobs w))" "tables w' = tables w"
    by (auto simp: list_page_def fst_tables dest: in_set_takeD in_set_dropD)
  with ReqList show ?thesis
    by (auto simp: set_matching list_where_def clean_filter_def own_job_def tables_def)
next
  case (ReqCancel t a i n)
  with assms have "service_cancel s p t a i n w = (Inr j, w')" by (auto dest!: answered_ok)
  with postD [OF service_cancel_published this] obtain actor now where
    "published_update (cancel_where (clean t) (clean a) (clean i) n) (cancel_set actor now)
      (clean t, clean a, clean i) (sv_codec s) ''canceled'' (\<lambda>_. actor) now (tables w) (Inr j) (tables w')"
    by auto
  from published_answer [OF this] show ?thesis using ReqCancel
    by (simp add: where_defs set_defs own_job_def fst_tables)
next
  case (ReqRetry t a i n k)
  with assms obtain y where r: "service_retry s p t a i n k w = (Inr y, w')" "j = fst y"
    by (auto dest!: answered_ok)
  from postD [OF service_retry_published r(1)] show ?thesis
  proof (elim disjE exE conjE)
    fix actor now expires u v r'
    assume f: "find (is_key (clean t) (clean a) (clean i)) (fst (tables w)) = Some u"
      and v: "v = retry_input u k expires now actor"
      and pub: "published_update (retry_where v n) (retry_set v) (key_of v)
        (sv_codec s) ''retried'' (\<lambda>_. actor) now (tables w) r' (tables w')"
      and r': "\<forall>z. (Inr y :: gerr + _) = Inr z \<longrightarrow> r' = Inr (fst z) \<and> \<not> snd (snd z)"
    from r' r have r'': "r' = Inr j" by auto
    from find_SomeD [OF f] v have k: "key_of v = (clean t, clean a, clean i)"
      by (simp add: key_of_def is_key_def retry_input_def)
    with published_answer [OF pub [unfolded k r'']] show ?thesis using ReqRetry
      by (simp add: where_defs set_defs key_of_def own_job_def fst_tables)
  next
    assume "tables w' = tables w"
      and "\<forall>z. (Inr y :: gerr + _) = Inr z \<longrightarrow> find (is_key (clean t) (clean a) (clean i)) (fst (tables w)) = Some (fst z)
        \<and> snd (snd z) \<and> status (fst z) = StatusUploading \<and> idempotency_key (fst z) = clean k"
    with r show ?thesis using ReqRetry
      by (auto simp: own_job_def is_key_def fst_tables [symmetric] dest: find_SomeD)
  qed
next
  case (ReqConfirm t a i n k)
  with assms obtain y where r: "service_confirm s p t a i n k w = (Inr y, w')" "j = fst y"
    by (auto dest!: answered_ok)
  from postD [OF service_confirm_published r(1)] show ?thesis
  proof (elim disjE exE conjE)
    fix actor now r'
    let ?v = "confirm_input t a i k now actor"
    assume pub: "published_update (confirm_where ?v n) (confirm_set ?v) (clean t, clean a, clean i)
        (sv_codec s) ''apply-requested'' (\<lambda>_. actor) now (tables w) r' (tables w')"
      and r': "\<forall>z. (Inr y :: gerr + _) = Inr z \<longrightarrow> r' = Inr (fst z) \<and> \<not> snd z"
    from r' r have r'': "r' = Inr j" by auto
    show ?thesis using published_answer [OF pub [unfolded r'']] ReqConfirm
      by (simp add: where_defs set_defs confirm_input_def own_job_def fst_tables)
  next
    assume "tables w' = tables w"
      and "\<forall>z. (Inr y :: gerr + _) = Inr z \<longrightarrow> find (is_key (clean t) (clean a) (clean i)) (fst (tables w)) = Some (fst z)
        \<and> snd z \<and> confirm_key (fst z) = clean k"
    with r show ?thesis using ReqConfirm
      by (auto simp: own_job_def is_key_def fst_tables [symmetric] dest: find_SomeD)
  qed
next
  case (ReqErrorReport t a i d)
  with assms obtain y where "service_error_report_url s p t a i d w = (Inr y, w')" "j = snd (snd y)"
    by (auto dest!: answered_ok)
  with postD [OF service_error_report_effect this(1)] ReqErrorReport show ?thesis
    by (auto simp: own_job_def is_key_def fst_tables [symmetric] dest: find_SomeD)
qed

text \<open>A request that the caller may not make is refused before anything is read.\<close>

lemma serve_unauthorized:
  "authorize p (request_tenant req) = Inl e \<Longrightarrow> serve s p req w = (Inl e, w)"
  by (cases req) (simp_all add: service_create_def service_complete_upload_def service_get_def
    service_list_def service_cancel_def service_retry_def service_confirm_def
    service_error_report_url_def authorize_scope_def answered_def)

section \<open>Versions\<close>

fun request_version :: "request \<Rightarrow> (string \<times> int) option" where
  "request_version (ReqCompleteUpload t a i n b cs) = Some (i, n)"
| "request_version (ReqCancel t a i n) = Some (i, n)"
| "request_version (ReqRetry t a i n k) = Some (i, n)"
| "request_version (ReqConfirm t a i n k) = Some (i, n)"
| "request_version _ = None"

text \<open>The row of the job that a request names.\<close>

definition named_job :: "request \<Rightarrow> string \<Rightarrow> job list \<Rightarrow> job option" where
  "named_job req i rows =
     find (is_key (clean (request_tenant req)) (clean (request_application req)) (clean i)) rows"

lemma published_version:
  assumes "published_update p f (t, a, i) c ch actor at T r T'" and "T' \<noteq> T"
    and "\<And>j. is_key t a i (f j) = is_key t a i j" and "\<And>j. p j \<Longrightarrow> version j = n"
    and "\<And>j. version (f j) = version j + 1"
  shows "\<exists>j j'. find (is_key t a i) (fst T) = Some j \<and> version j = n
    \<and> find (is_key t a i) (fst T') = Some j' \<and> version j' = n + 1"
  using assms(1)
proof (cases rule: published_cases)
  case (undone e)
  with assms(2) show ?thesis by simp
next
  case (stored j row)
  then have "find (is_key t a i) (fst T') = Some (f j)"
    using find_update_where [of "is_key t a i" f p "fst T"] assms(3) by simp
  with stored(1,2) assms(4,5) show ?thesis by auto
qed

lemma serve_version:
  assumes "serve s p req w = (r, w')" and "request_version req = Some (i, n)"
    and "tables w' \<noteq> tables w"
  shows "\<exists>j j'. named_job req i (jobs w) = Some j \<and> version j = n
    \<and> named_job req i (jobs w') = Some j' \<and> version j' = n + 1"
proof (cases req)
  case (ReqCompleteUpload t a i' n' b cs)
  with assms(1) have "snd (service_complete_upload s p t a i' n' b cs w) = w'"
    by (auto dest: answered_world)
  with postD [OF service_complete_upload_published [of s p t a i' n' b cs w] surjective_pairing] assms(3)
  obtain actor now u v r' where f: "find (is_key (clean t) (clean a) (clean i')) (fst (tables w)) = Some u"
    and v: "v = u\<lparr>source_bytes := b, source_checksum := clean cs, updated_at := now, updated_by := actor\<rparr>"
    and pub: "published_update (complete_upload_where v n') (complete_upload_set v) (key_of v)
      (sv_codec s) ''requested'' (\<lambda>_. actor) now (tables w) r' (tables w')" by blast
  from find_SomeD [OF f] v have k: "key_of v = (clean t, clean a, clean i')"
    by (simp add: key_of_def is_key_def)
  show ?thesis using published_version [OF pub [unfolded k] assms(3), of n'] assms(2) ReqCompleteUpload
    by (simp add: where_defs set_defs named_job_def fst_tables)
next
  case (ReqCancel t a i' n')
  with assms(1) have "snd (service_cancel s p t a i' n' w) = w'" by (auto dest: answered_world)
  with postD [OF service_cancel_published [of s p t a i' n' w] surjective_pairing] assms(3)
  obtain actor now r' where
    pub: "published_update (cancel_where (clean t) (clean a) (clean i') n') (cancel_set actor now)
      (clean t, clean a, clean i') (sv_codec s) ''canceled'' (\<lambda>_. actor) now (tables w) r' (tables w')"
    by blast
  show ?thesis using published_version [OF pub assms(3), of n'] assms(2) ReqCancel
    by (simp add: where_defs set_defs named_job_def fst_tables)
next
  case (ReqRetry t a i' n' key)
  with assms(1) have "snd (service_retry s p t a i' n' key w) = w'" by (auto dest: answered_world)
  with postD [OF service_retry_published [of s p t a i' n' key w] surjective_pairing] assms(3)
  obtain actor now expires u v r' where f: "find (is_key (clean t) (clean a) (clean i')) (fst (tables w)) = Some u"
    and v: "v = retry_input u key expires now actor"
    and pub: "published_update (retry_where v n') (retry_set v) (key_of v)
      (sv_codec s) ''retried'' (\<lambda>_. actor) now (tables w) r' (tables w')" by blast
  from find_SomeD [OF f] v have k: "key_of v = (clean t, clean a, clean i')"
    by (simp add: key_of_def is_key_def retry_input_def)
  show ?thesis using published_version [OF pub [unfolded k] assms(3), of n'] assms(2) ReqRetry
    by (simp add: where_defs set_defs named_job_def fst_tables)
next
  case (ReqConfirm t a i' n' key)
  with assms(1) have "snd (service_confirm s p t a i' n' key w) = w'" by (auto dest: answered_world)
  with postD [OF service_confirm_published [of s p t a i' n' key w] surjective_pairing] assms(3)
  obtain actor now r' where
    pub: "published_update (confirm_where (confirm_input t a i' key now actor) n')
      (confirm_set (confirm_input t a i' key now actor)) (clean t, clean a, clean i')
      (sv_codec s) ''apply-requested'' (\<lambda>_. actor) now (tables w) r' (tables w')"
    by blast
  show ?thesis using published_version [OF pub assms(3), of n'] assms(2) ReqConfirm
    by (simp add: where_defs set_defs named_job_def fst_tables)
qed (use assms(2) in simp_all)

section \<open>Repeated requests\<close>

lemma idem_inserted_twice:
  assumes "find (is_idem (tenant_id v) (application_id v) (idempotency_key v)) rows = Some j"
  shows "\<not> constraints_ok (rows @ [v])"
proof -
  from find_SomeD [OF assms] have "idem_columns v \<in> idem_columns ` set rows"
    by (intro image_eqI [of _ _ j]) (simp_all add: is_idem_def idem_columns_def)
  then show ?thesis by (auto simp: constraints_ok_def)
qed

lemma create_again:
  assumes "find (is_idem (clean (ci_tenant_id i)) (clean (ci_application_id i)) (clean (ci_idempotency_key i)))
      (jobs w) = Some j"
    and "service_create s p i w = (r, w')"
  shows "tables w' = tables w \<and> (\<forall>j' u replayed. r = Inr (j', u, replayed) \<longrightarrow> j' = j \<and> replayed)"
  using postD [OF service_create_effect assms(2)]
proof (elim disjE exE conjE)
  fix actor uid now v
  assume v: "v = new_job (clean_input i) uid now (now + sv_upload_ttl s) actor"
    and c: "constraints_ok (fst (tables w) @ [v])"
  from assms(1) v idem_inserted_twice [of v "jobs w" j] have "\<not> constraints_ok (jobs w @ [v])" by simp
  with c show ?thesis by (simp add: fst_tables)
qed (use assms(1) in \<open>auto simp: fst_tables\<close>)

lemma confirm_again:
  assumes "find (is_key (clean t) (clean a) (clean i)) (jobs w) = Some j"
    and "confirm_key j = clean k"
    and "service_confirm s p t a i n k w = (r, w')"
  shows "tables w' = tables w \<and> (\<forall>j' replayed. r = Inr (j', replayed) \<longrightarrow> j' = j \<and> replayed)"
  using postD [OF service_confirm_published assms(3)]
proof (elim disjE exE conjE)
  assume "\<forall>u. find (is_key (clean t) (clean a) (clean i)) (fst (tables w)) = Some u \<longrightarrow> confirm_key u \<noteq> clean k"
  with assms(1,2) show ?thesis by (auto simp: fst_tables)
qed (use assms(1) in \<open>auto simp: fst_tables\<close>)

end
