(* ===== verification/Limit_Reader.thy ===== *)
theory Limit_Reader
  imports Errors
begin

text \<open>
  The \<open>limitReader\<close> of \<open>internal/importjob/parser.go\<close>: at most \<open>remaining\<close> bytes of the wrapped
  reader go through; a byte beyond them is an error and is remembered in \<open>exceeded\<close>. And the
  \<open>boundedWriter\<close> of \<open>internal/importjob/worker.go\<close>, which refuses a write that would pass its
  limit before any byte of it is written.

  A reader is the list of chunks that its \<open>Read\<close> calls return if their buffers are large enough,
  the error that comes after the last one, and whether it comes together with the last bytes
  (\<open>io.Reader\<close> allows both). The lemmas hold for every chunking and for every
  sequence of buffers that a caller passes.
\<close>

section \<open>Readers\<close>

record reader =
  rd_chunks :: "string list"
  rd_error :: gerr
  rd_eager :: bool

definition rd_bytes :: "reader \<Rightarrow> string" where
  "rd_bytes r = concat (rd_chunks r)"

text \<open>\<open>Read\<close> with a buffer of \<open>n\<close> bytes.\<close>

fun reader_read :: "nat \<Rightarrow> reader \<Rightarrow> (string \<times> gerr option) \<times> reader" where
  "reader_read n r = (case rd_chunks r of
       [] \<Rightarrow> (([], Some (rd_error r)), r)
     | c # cs \<Rightarrow> if length c \<le> n
         then ((c, if cs = [] \<and> rd_eager r then Some (rd_error r) else None), r\<lparr>rd_chunks := cs\<rparr>)
         else ((take n c, None), r\<lparr>rd_chunks := drop n c # cs\<rparr>))"

record limit_reader =
  lr_reader :: reader
  lr_remaining :: int
  lr_read :: int
  lr_exceeded :: bool

definition limit_read :: "nat \<Rightarrow> limit_reader \<Rightarrow> (string \<times> gerr option) \<times> limit_reader" where
  "limit_read n r =
     (if lr_remaining r \<le> 0 then
        case reader_read 1 (lr_reader r) of ((bs, e), rd) \<Rightarrow>
          if 0 < length bs
          then (([], Some (Sentinel ErrByteLimitExceeded)), r\<lparr>lr_reader := rd, lr_exceeded := True\<rparr>)
          else (([], e), r\<lparr>lr_reader := rd\<rparr>)
      else let m = (if int n > lr_remaining r then nat (lr_remaining r) else n) in
        case reader_read m (lr_reader r) of ((bs, e), rd) \<Rightarrow>
          ((bs, e), r\<lparr>lr_reader := rd, lr_remaining := lr_remaining r - int (length bs),
                     lr_read := lr_read r + int (length bs)\<rparr>))"

text \<open>A caller that reads with the buffers \<open>ns\<close> until an error, or until it stops asking.\<close>

fun read_all :: "nat list \<Rightarrow> limit_reader \<Rightarrow> (string \<times> gerr option) \<times> limit_reader" where
  "read_all [] r = (([], None), r)"
| "read_all (n # ns) r = (case limit_read n r of
       ((bs, Some e), r1) \<Rightarrow> ((bs, Some e), r1)
     | ((bs, None), r1) \<Rightarrow> (case read_all ns r1 of ((bs', e), r2) \<Rightarrow> ((bs @ bs', e), r2)))"

definition limited :: "reader \<Rightarrow> int \<Rightarrow> limit_reader" where
  "limited rd n = \<lparr>lr_reader = rd, lr_remaining = n, lr_read = 0, lr_exceeded = False\<rparr>"

lemma reader_read_bytes:
  assumes "reader_read n rd = ((bs, e), rd')"
  shows "rd_bytes rd = bs @ rd_bytes rd'" and "length bs \<le> n" and "rd_error rd' = rd_error rd"
    and "e = Some x \<Longrightarrow> x = rd_error rd \<and> rd_bytes rd' = []"
  using assms by (auto simp: rd_bytes_def split: list.splits if_splits)

text \<open>What the calls keep: the bytes of the source are those delivered so far and those still to
  come, the counters agree with them, and the flag means that the source is longer.\<close>

definition lr_inv :: "string \<Rightarrow> int \<Rightarrow> gerr \<Rightarrow> string \<Rightarrow> limit_reader \<Rightarrow> bool" where
  "lr_inv src limit err sent r \<longleftrightarrow> lr_read r = int (length sent)
     \<and> lr_remaining r = limit - int (length sent) \<and> 0 \<le> lr_remaining r
     \<and> rd_error (lr_reader r) = err
     \<and> (if lr_exceeded r
        then limit < int (length src) \<and> sent = take (nat limit) src
        else src = sent @ rd_bytes (lr_reader r))"

lemma lr_inv_limited: "0 \<le> limit \<Longrightarrow> lr_inv (rd_bytes rd) limit (rd_error rd) [] (limited rd limit)"
  by (simp add: lr_inv_def limited_def)

text \<open>One call on a reader that has not failed yet: it keeps the invariant; when it fails, either
  the source is longer than the limit, or all of it has been delivered.\<close>

lemma limit_read_inv:
  assumes "lr_inv src limit err sent r" and "\<not> lr_exceeded r" and "limit_read n r = ((bs, e), r')"
  shows "lr_inv src limit err (sent @ bs) r'"
    and "e = None \<Longrightarrow> \<not> lr_exceeded r'"
    and "e = Some x \<Longrightarrow> if lr_exceeded r' then x = Sentinel ErrByteLimitExceeded
      else x = err \<and> src = sent @ bs"
proof -
  have src: "src = sent @ rd_bytes (lr_reader r)" and rem: "lr_remaining r = limit - int (length sent)"
    "0 \<le> lr_remaining r" and err: "rd_error (lr_reader r) = err" and lrr: "lr_read r = int (length sent)"
    using assms(1,2) by (auto simp: lr_inv_def)
  have "lr_inv src limit err (sent @ bs) r' \<and> (e = None \<longrightarrow> \<not> lr_exceeded r')
    \<and> (\<forall>x. e = Some x \<longrightarrow> (if lr_exceeded r' then x = Sentinel ErrByteLimitExceeded
         else x = err \<and> src = sent @ bs))"
  proof (cases "lr_remaining r \<le> 0")
    case True
    with rem have len: "limit = int (length sent)" by simp
    obtain cs ce rd where rd: "reader_read 1 (lr_reader r) = ((cs, ce), rd)" by (metis surj_pair)
    note rdb = reader_read_bytes [OF rd]
    show ?thesis
    proof (cases "cs = []")
      case True
      with rd \<open>lr_remaining r \<le> 0\<close> assms(3) have "bs = []" "e = ce" "r' = r\<lparr>lr_reader := rd\<rparr>"
        by (auto simp: limit_read_def split: prod.splits)
      with rdb True src rem err lrr assms(2) show ?thesis by (auto simp: lr_inv_def)
    next
      case False
      with rd \<open>lr_remaining r \<le> 0\<close> assms(3) have "bs = []" "e = Some (Sentinel ErrByteLimitExceeded)"
        "r' = r\<lparr>lr_reader := rd, lr_exceeded := True\<rparr>"
        by (auto simp: limit_read_def split: prod.splits)
      moreover have "length sent < length src" using False src rdb(1) by (cases cs) auto
      ultimately show ?thesis using len src rem err lrr rdb(3) by (simp add: lr_inv_def)
    qed
  next
    case False
    define m where "m = (if int n > lr_remaining r then nat (lr_remaining r) else n)"
    obtain cs ce rd where rd: "reader_read m (lr_reader r) = ((cs, ce), rd)" by (metis surj_pair)
    note rdb = reader_read_bytes [OF rd]
    from rd False assms(3) have r': "bs = cs" "e = ce"
      "r' = r\<lparr>lr_reader := rd, lr_remaining := lr_remaining r - int (length cs),
              lr_read := lr_read r + int (length cs)\<rparr>"
      by (auto simp: limit_read_def m_def Let_def split: prod.splits)
    have "int (length cs) \<le> lr_remaining r" using rdb(2) False by (auto simp: m_def split: if_splits)
    with r' rdb src rem err lrr assms(2) show ?thesis by (auto simp: lr_inv_def)
  qed
  then show "lr_inv src limit err (sent @ bs) r'" "e = None \<Longrightarrow> \<not> lr_exceeded r'"
    "e = Some x \<Longrightarrow> if lr_exceeded r' then x = Sentinel ErrByteLimitExceeded else x = err \<and> src = sent @ bs"
    by blast+
qed

lemma read_all_inv:
  assumes "lr_inv src limit err sent r" and "\<not> lr_exceeded r" and "read_all ns r = ((bs, e), r')"
  shows "lr_inv src limit err (sent @ bs) r' \<and> (e = None \<longrightarrow> \<not> lr_exceeded r')
    \<and> (\<forall>x. e = Some x \<longrightarrow> (if lr_exceeded r' then x = Sentinel ErrByteLimitExceeded
        else x = err \<and> src = sent @ bs))"
  using assms
proof (induction ns arbitrary: sent r bs e r')
  case (Cons n ns)
  obtain cs ce r1 where r1: "limit_read n r = ((cs, ce), r1)" by (metis surj_pair)
  note step = limit_read_inv [OF Cons.prems(1,2) r1]
  show ?case
  proof (cases ce)
    case None
    obtain ds de r2 where r2: "read_all ns r1 = ((ds, de), r2)" by (metis surj_pair)
    with None r1 Cons.prems(3) have "bs = cs @ ds" "e = de" "r' = r2" by auto
    with Cons.IH [OF step(1) step(2) [OF None] r2] show ?thesis by simp
  next
    case (Some x)
    with r1 Cons.prems(3) have "bs = cs" "e = Some x" "r' = r1" by auto
    with step Some show ?thesis by auto
  qed
qed simp

text \<open>The parser's source, whatever its chunks and the buffers of the library that reads it: at
  most \<open>limit\<close> bytes go through; reading to the end gives all of a source that is within the
  limit, and the first \<open>limit\<close> bytes with the flag set of one that is not.\<close>

lemma limited_reads:
  assumes "0 \<le> limit" and "read_all ns (limited rd limit) = ((bs, e), r)"
  shows "prefix bs (rd_bytes rd)" and "int (length bs) \<le> limit" and "lr_read r = int (length bs)"
    and "lr_exceeded r \<Longrightarrow> limit < int (length (rd_bytes rd))"
    and "e = Some x \<Longrightarrow> (x, bs, lr_exceeded r) =
      (if limit < int (length (rd_bytes rd))
       then (Sentinel ErrByteLimitExceeded, take (nat limit) (rd_bytes rd), True)
       else (rd_error rd, rd_bytes rd, False))"
proof -
  have "\<not> lr_exceeded (limited rd limit)" by (simp add: limited_def)
  from read_all_inv [OF lr_inv_limited [OF assms(1)] this assms(2)]
  have inv: "lr_inv (rd_bytes rd) limit (rd_error rd) bs r"
    and fin: "\<And>x. e = Some x \<Longrightarrow> (if lr_exceeded r then x = Sentinel ErrByteLimitExceeded
        else x = rd_error rd \<and> rd_bytes rd = bs)" by auto
  show "prefix bs (rd_bytes rd)"
    using inv by (cases "lr_exceeded r") (simp_all add: lr_inv_def take_is_prefix)
  from inv show "int (length bs) \<le> limit" "lr_read r = int (length bs)"
    "lr_exceeded r \<Longrightarrow> limit < int (length (rd_bytes rd))"
    by (auto simp: lr_inv_def split: if_splits)
  show "(x, bs, lr_exceeded r) =
      (if limit < int (length (rd_bytes rd))
       then (Sentinel ErrByteLimitExceeded, take (nat limit) (rd_bytes rd), True)
       else (rd_error rd, rd_bytes rd, False))" if "e = Some x"
    using fin [OF that] inv by (auto simp: lr_inv_def split: if_splits)
qed

section \<open>Bounded output\<close>

text \<open>The wrapped writer is a file: \<open>fw_room\<close> is how many more bytes it takes before it fails.\<close>

record file_writer =
  fw_data :: string
  fw_room :: nat
  fw_full :: gerr

definition file_write :: "string \<Rightarrow> file_writer \<Rightarrow> (nat \<times> gerr option) \<times> file_writer" where
  "file_write value f =
     (if length value \<le> fw_room f
      then ((length value, None), f\<lparr>fw_data := fw_data f @ value, fw_room := fw_room f - length value\<rparr>)
      else ((fw_room f, Some (fw_full f)), f\<lparr>fw_data := fw_data f @ take (fw_room f) value, fw_room := 0\<rparr>))"

record bounded_writer =
  bw_writer :: file_writer
  bw_limit :: int
  bw_written :: int

definition bounded_write :: "string \<Rightarrow> bounded_writer \<Rightarrow> (nat \<times> gerr option) \<times> bounded_writer" where
  "bounded_write value w =
     (if int (length value) > bw_limit w - bw_written w
      then ((0, Some (Sentinel ErrOutputLimitExceeded)), w)
      else case file_write value (bw_writer w) of ((written, e), f) \<Rightarrow>
        ((written, e), w\<lparr>bw_writer := f, bw_written := bw_written w + int written\<rparr>))"

definition bw_inv :: "bounded_writer \<Rightarrow> bool" where
  "bw_inv w \<longleftrightarrow> bw_written w = int (length (fw_data (bw_writer w))) \<and> bw_written w \<le> bw_limit w"

lemma bounded_write_inv:
  assumes "bw_inv w" and "bounded_write v w = ((n, e), w')"
  shows "bw_inv w'" and "bw_limit w' = bw_limit w"
    and "\<exists>d. fw_data (bw_writer w') = fw_data (bw_writer w) @ d \<and> prefix d v \<and> (e = None \<longrightarrow> d = v)"
  using assms by (auto simp: bounded_write_def file_write_def bw_inv_def take_is_prefix
      split: if_splits)

end
