(* ===== verification/Row_Parser.thy ===== *)
theory Row_Parser
  imports Limit_Reader Provider_Types
begin

text \<open>
  The streaming parser (\<open>internal/importjob/parser.go\<close>): \<open>StreamRows\<close> and the three formats.

  The decoders of the libraries are the fields of \<open>decoders\<close>: a CSV reader turns the bytes it is
  given, and the error at their end, into records and a final error; \<open>json.Unmarshal\<close> turns a line
  into a row (\<open>None\<close> for the value null); an XLSX book is its sheets, each with its rows. The lines
  of JSONL are those of \<open>bufio.Scanner\<close>, which is modelled. What the libraries read ahead matters
  in one place: whether the byte limit has been passed when parsing stops early. \<open>src_ahead n\<close>
  tells whether the library has asked for more than the limit when parsing stops with \<open>n\<close> items of
  the source still unread (the end of the input counts as one, so 0 is after the end).

  The callback \<open>consume\<close> is a function on a state of any type. The locale \<open>row_stream\<close> is the
  contract of the three loops; the lemma \<open>loop_feeds\<close> in it says that each of them feeds its rows
  in batches of equal size, and rests on nothing of the formats but the equations of the loop.
\<close>

section \<open>Data\<close>

record parsed_batch =
  pb_number :: int
  pb_first_row_number :: int
  pb_rows :: "import_row list"

record parse_result =
  ps_rows :: int
  ps_bytes :: int
  ps_checksum :: string

record source =
  src_bytes :: string
  src_err :: gerr
  src_ahead :: "nat \<Rightarrow> bool"

record xlsx_rows =
  xr_rows :: "(gerr + string list) list"
  xr_error :: "gerr option"

record decoders =
  dec_csv :: "string \<Rightarrow> gerr \<Rightarrow> string list list \<times> gerr"
  dec_json :: "string \<Rightarrow> gerr + import_row option"
  dec_xlsx :: "string \<Rightarrow> gerr \<Rightarrow> gerr + (string \<times> (gerr + xlsx_rows)) list"
  dec_sha256_hex :: "string \<Rightarrow> string"

text \<open>What the limited reader delivers of a source, read to the end (lemma \<open>limited_reads\<close>).\<close>

definition delivered :: "source \<Rightarrow> int \<Rightarrow> string" where
  "delivered src limit = take (nat limit) (src_bytes src)"

definition delivered_err :: "source \<Rightarrow> int \<Rightarrow> gerr" where
  "delivered_err src limit =
     (if limit < int (length (src_bytes src)) then Sentinel ErrByteLimitExceeded else src_err src)"

definition exceeded :: "source \<Rightarrow> int \<Rightarrow> nat \<Rightarrow> bool" where
  "exceeded src limit left \<longleftrightarrow> limit < int (length (src_bytes src)) \<and> src_ahead src left"

section \<open>Headers\<close>

fun check_headers :: "string set \<Rightarrow> string list \<Rightarrow> gerr + string list" where
  "check_headers seen [] = Inr []"
| "check_headers seen (v # vs) = (let h = trim_space v in
     if h = [] then Inl (Sentinel ErrInvalidHeader)
     else if h \<in> seen then Inl (Wrapped [] (Sentinel ErrInvalidHeader) ('': duplicate column '' @ go_quote h))
     else case check_headers (insert h seen) vs of Inl e \<Rightarrow> Inl e | Inr hs \<Rightarrow> Inr (h # hs))"

text \<open>\<open>validateHeaders\<close> trims the headers in place: the result is the trimmed slice.\<close>

definition validate_headers :: "string list \<Rightarrow> gerr + string list" where
  "validate_headers values =
     (if values = [] then Inl (Sentinel ErrInvalidHeader) else check_headers {} values)"

section \<open>The loops\<close>

text \<open>Each loop returns its error, the state of the callback, and how many items it left unread.\<close>

definition csv_row :: "string list \<Rightarrow> string list \<Rightarrow> import_row" where
  "csv_row headers values = foldl (\<lambda>row (h, v). row(h \<mapsto> GoString v)) Map.empty (zip headers values)"

fun csv_loop :: "string list \<Rightarrow> nat \<Rightarrow> (import_row list \<Rightarrow> 's \<Rightarrow> gerr option \<times> 's) \<Rightarrow> gerr \<Rightarrow>
    string list list \<Rightarrow> import_row list \<Rightarrow> 's \<Rightarrow> gerr option \<times> 's \<times> nat" where
  "csv_loop headers n emit final [] batch s =
     (if err_is final IoEOF then (case emit batch s of (e, s) \<Rightarrow> (e, s, 0))
      else (Some (Wrapped ''read CSV row: '' final []), s, 0))"
| "csv_loop headers n emit final (values # rest) batch s =
     (if length values \<noteq> length headers
      then (Some (ErrText (''CSV row has '' @ itoa (int (length values)) @ '' columns, want ''
              @ itoa (int (length headers)))), s, Suc (length rest))
      else let batch = batch @ [csv_row headers values] in
        if length batch = n
        then (case emit batch s of
                (Some e, s) \<Rightarrow> (Some e, s, Suc (length rest))
              | (None, s) \<Rightarrow> csv_loop headers n emit final rest [] s)
        else csv_loop headers n emit final rest batch s)"

definition stream_csv :: "decoders \<Rightarrow> source \<Rightarrow> int \<Rightarrow> nat \<Rightarrow> (import_row list \<Rightarrow> 's \<Rightarrow> gerr option \<times> 's) \<Rightarrow>
    's \<Rightarrow> gerr option \<times> 's \<times> nat" where
  "stream_csv dec src limit n emit s = (case dec_csv dec (delivered src limit) (delivered_err src limit) of
       ([], final) \<Rightarrow> (Some (Wrapped ''read CSV header: '' final []), s, 0)
     | (first # records, final) \<Rightarrow> (case validate_headers first of
           Inl e \<Rightarrow> (Some e, s, Suc (length records))
         | Inr headers \<Rightarrow> csv_loop headers n emit final records [] s))"

text \<open>\<open>bufio.Scanner\<close> with lines: the carriage return before a line feed is dropped, the text after
  the last line feed is a line if there is any, and a line that does not fit in the buffer of
  16 MiB ends the scan.\<close>

definition scan_limit :: nat where
  "scan_limit = 16 * 1024 * 1024"

definition drop_cr :: "string \<Rightarrow> string" where
  "drop_cr l = (if l \<noteq> [] \<and> last l = CHR 0x0D then butlast l else l)"

function scan_lines :: "string \<Rightarrow> string list \<times> bool" where
  "scan_lines s =
     (if s = [] then ([], False)
      else let line = takeWhile (\<lambda>c. c \<noteq> CHR 0x0A) s; rest = dropWhile (\<lambda>c. c \<noteq> CHR 0x0A) s in
        if scan_limit \<le> length line then ([], True)
        else if rest = [] then ([drop_cr line], False)
        else case scan_lines (tl rest) of (lines, long) \<Rightarrow> (drop_cr line # lines, long))"
  by pat_completeness auto
termination
proof (relation "measure length")
  fix s :: string and x y
  assume "s \<noteq> []" "y = dropWhile (\<lambda>c. c \<noteq> CHR 0x0A) s" "y \<noteq> []"
  then have "length (tl y) < length y" "length y \<le> length s"
    by (simp_all add: length_dropWhile_le)
  then show "(tl y, s) \<in> measure length" by simp
qed simp

declare scan_lines.simps [simp del]

text \<open>For evaluation: compare with the limit in binary.\<close>

lemma scan_limit_le [code_unfold]: "scan_limit \<le> n \<longleftrightarrow> (16777216 :: int) \<le> int n"
  by (auto simp: scan_limit_def)

text \<open>\<open>scanner.Err()\<close>: nil at the end of the input.\<close>

definition scan_err :: "bool \<Rightarrow> gerr \<Rightarrow> gerr option" where
  "scan_err long e = (if long then Some (Sentinel BufioErrTooLong)
     else if e = Sentinel IoEOF then None else Some e)"

fun jsonl_loop :: "decoders \<Rightarrow> nat \<Rightarrow> (import_row list \<Rightarrow> 's \<Rightarrow> gerr option \<times> 's) \<Rightarrow> gerr option \<Rightarrow>
    string list \<Rightarrow> import_row list \<Rightarrow> 's \<Rightarrow> gerr option \<times> 's \<times> nat" where
  "jsonl_loop dec n emit final [] batch s = (case final of
       Some e \<Rightarrow> (Some (Wrapped ''scan JSONL: '' e []), s, 0)
     | None \<Rightarrow> (case emit batch s of (e, s) \<Rightarrow> (e, s, 0)))"
| "jsonl_loop dec n emit final (line # rest) batch s =
     (if trim_space line = [] then jsonl_loop dec n emit final rest batch s
      else case dec_json dec line of
        Inl e \<Rightarrow> (Some (Wrapped ''decode JSONL row: '' e []), s, Suc (length rest))
      | Inr None \<Rightarrow> (Some (ErrText ''JSONL row must be an object''), s, Suc (length rest))
      | Inr (Some row) \<Rightarrow> let batch = batch @ [row] in
          if length batch = n
          then (case emit batch s of
                  (Some e, s) \<Rightarrow> (Some e, s, Suc (length rest))
                | (None, s) \<Rightarrow> jsonl_loop dec n emit final rest [] s)
          else jsonl_loop dec n emit final rest batch s)"

definition stream_jsonl :: "decoders \<Rightarrow> source \<Rightarrow> int \<Rightarrow> nat \<Rightarrow> (import_row list \<Rightarrow> 's \<Rightarrow> gerr option \<times> 's) \<Rightarrow>
    's \<Rightarrow> gerr option \<times> 's \<times> nat" where
  "stream_jsonl dec src limit n emit s = (case scan_lines (delivered src limit) of
       (lines, long) \<Rightarrow> jsonl_loop dec n emit (scan_err long (delivered_err src limit)) lines [] s)"

definition xlsx_row :: "string list \<Rightarrow> string list \<Rightarrow> import_row" where
  "xlsx_row headers values = foldl (\<lambda>row i. row(headers ! i \<mapsto>
       GoString (if i < length values then values ! i else []))) Map.empty [0..<length headers]"

fun xlsx_loop :: "string list \<Rightarrow> nat \<Rightarrow> (import_row list \<Rightarrow> 's \<Rightarrow> gerr option \<times> 's) \<Rightarrow> gerr option \<Rightarrow>
    (gerr + string list) list \<Rightarrow> import_row list \<Rightarrow> 's \<Rightarrow> gerr option \<times> 's \<times> nat" where
  "xlsx_loop headers n emit final [] batch s = (case final of
       Some e \<Rightarrow> (Some (Wrapped ''iterate XLSX rows: '' e []), s, 0)
     | None \<Rightarrow> (case emit batch s of (e, s) \<Rightarrow> (e, s, 0)))"
| "xlsx_loop headers n emit final (Inl e # rest) batch s =
     (Some (Wrapped ''read XLSX row: '' e []), s, Suc (length rest))"
| "xlsx_loop headers n emit final (Inr values # rest) batch s =
     (let batch = batch @ [xlsx_row headers values] in
      if length batch = n
      then (case emit batch s of
              (Some e, s) \<Rightarrow> (Some e, s, Suc (length rest))
            | (None, s) \<Rightarrow> xlsx_loop headers n emit final rest [] s)
      else xlsx_loop headers n emit final rest batch s)"

text \<open>\<open>excelize.OpenReader\<close> reads its source to the end before anything else.\<close>

definition stream_xlsx :: "decoders \<Rightarrow> source \<Rightarrow> int \<Rightarrow> nat \<Rightarrow> (import_row list \<Rightarrow> 's \<Rightarrow> gerr option \<times> 's) \<Rightarrow>
    's \<Rightarrow> gerr option \<times> 's \<times> nat" where
  "stream_xlsx dec src limit n emit s =
     (case dec_xlsx dec (delivered src limit) (delivered_err src limit) of
        Inl e \<Rightarrow> (Some (Wrapped ''open XLSX: '' e []), s, 0)
      | Inr [] \<Rightarrow> (Some (Sentinel ErrInvalidHeader), s, 0)
      | Inr ((name, Inl e) # _) \<Rightarrow> (Some (Wrapped ''read XLSX sheet: '' e []), s, 0)
      | Inr ((name, Inr rows) # _) \<Rightarrow> (case xr_rows rows of
          [] \<Rightarrow> (Some (Sentinel ErrInvalidHeader), s, 0)
        | Inl e # _ \<Rightarrow> (Some (Wrapped ''read XLSX header: '' e []), s, 0)
        | Inr first # rest \<Rightarrow> (case validate_headers first of
            Inl e \<Rightarrow> (Some e, s, 0)
          | Inr headers \<Rightarrow> (case xlsx_loop headers n emit (xr_error rows) rest [] s of
              (e, s, _) \<Rightarrow> (e, s, 0)))))"

section \<open>StreamRows\<close>

text \<open>The closure \<open>emit\<close>; its captured variable \<open>rows\<close> is part of the state. \<open>ctx\<close> is what
  \<open>ctx.Err()\<close> returns after so many rows.\<close>

definition emit_rows :: "nat \<Rightarrow> int \<Rightarrow> (int \<Rightarrow> gerr option) \<Rightarrow> (parsed_batch \<Rightarrow> 's \<Rightarrow> gerr option \<times> 's) \<Rightarrow>
    import_row list \<Rightarrow> int \<times> 's \<Rightarrow> gerr option \<times> int \<times> 's" where
  "emit_rows n max_rows ctx consume values st = (case st of (rows, s) \<Rightarrow>
     if values = [] then (None, rows, s)
     else case ctx rows of Some e \<Rightarrow> (Some e, rows, s)
     | None \<Rightarrow>
       if rows + int (length values) > max_rows then (Some (Sentinel ErrRowLimitExceeded), rows, s)
       else case consume \<lparr>pb_number = rows div int n + 1, pb_first_row_number = rows + 2, pb_rows = values\<rparr> s of
         (Some e, s) \<Rightarrow> (Some e, rows, s)
       | (None, s) \<Rightarrow> (None, rows + int (length values), s))"

definition stream_rows :: "decoders \<Rightarrow> source \<Rightarrow> string \<Rightarrow> int \<Rightarrow> int \<Rightarrow> int \<Rightarrow> (int \<Rightarrow> gerr option) \<Rightarrow>
    (parsed_batch \<Rightarrow> 's \<Rightarrow> gerr option \<times> 's) \<Rightarrow> 's \<Rightarrow> (gerr + parse_result) \<times> 's" where
  "stream_rows dec src format batch_size max_rows max_bytes ctx consume s =
     (if batch_size < 1 \<or> max_rows < 1 \<or> max_bytes < 1
      then (Inl (ErrText ''parser limits must be positive''), s)
      else if format \<notin> {FormatCSV, FormatJSONL, FormatXLSX}
      then (Inl (ErrText (''unsupported import format '' @ go_quote format)), s)
      else let n = nat batch_size; emit = emit_rows n max_rows ctx consume in
        case (if format = FormatCSV then stream_csv dec src max_bytes n emit (0, s)
              else if format = FormatJSONL then stream_jsonl dec src max_bytes n emit (0, s)
              else stream_xlsx dec src max_bytes n emit (0, s))
        of (err, (rows, s), left) \<Rightarrow>
          if exceeded src max_bytes left then (Inl (Sentinel ErrByteLimitExceeded), s)
          else (case err of
              Some e \<Rightarrow> (Inl e, s)
            | None \<Rightarrow> (Inr \<lparr>ps_rows = rows, ps_bytes = int (length (delivered src max_bytes)),
                ps_checksum = dec_sha256_hex dec (delivered src max_bytes)\<rparr>, s)))"

section \<open>What the loops have in common\<close>

text \<open>The reference: feeding the rows \<open>xs\<close>, followed by the error \<open>final\<close> or a regular end, to a
  callback, \<open>n\<close> at a time, with \<open>batch\<close> already collected.\<close>

fun feed :: "nat \<Rightarrow> (import_row list \<Rightarrow> 's \<Rightarrow> gerr option \<times> 's) \<Rightarrow> gerr option \<Rightarrow>
    import_row list \<Rightarrow> import_row list \<Rightarrow> 's \<Rightarrow> gerr option \<times> 's" where
  "feed n emit final [] batch s = (case final of Some e \<Rightarrow> (Some e, s) | None \<Rightarrow> emit batch s)"
| "feed n emit final (x # xs) batch s =
     (if length batch + 1 = n
      then (case emit (batch @ [x]) s of
              (Some e, s) \<Rightarrow> (Some e, s)
            | (None, s) \<Rightarrow> feed n emit final xs [] s)
      else feed n emit final xs (batch @ [x]) s)"

text \<open>A decoding step of a loop: an error, an item that is no row, or a row. \<open>decode_all\<close> collects
  the rows before the first error, and that error or the one at the end.\<close>

fun decode_all :: "('item \<Rightarrow> gerr + import_row option) \<Rightarrow> gerr option \<Rightarrow> 'item list \<Rightarrow>
    import_row list \<times> gerr option" where
  "decode_all step final [] = ([], final)"
| "decode_all step final (x # xs) = (case step x of
       Inl e \<Rightarrow> ([], Some e)
     | Inr None \<Rightarrow> decode_all step final xs
     | Inr (Some row) \<Rightarrow> (case decode_all step final xs of (rows, e) \<Rightarrow> (row # rows, e)))"

definition outcome :: "gerr option \<times> 's \<times> nat \<Rightarrow> gerr option \<times> 's" where
  "outcome r = (case r of (e, s, left) \<Rightarrow> (e, s))"

lemma outcome_simps [simp]: "outcome (e, s, left) = (e, s)"
  by (simp add: outcome_def)

locale row_stream =
  fixes loop :: "nat \<Rightarrow> (import_row list \<Rightarrow> 's \<Rightarrow> gerr option \<times> 's) \<Rightarrow> 'item list \<Rightarrow> import_row list \<Rightarrow>
      's \<Rightarrow> gerr option \<times> 's \<times> nat"
    and step :: "'item \<Rightarrow> gerr + import_row option"
    and final :: "gerr option"
  assumes loop_Nil: "loop n emit [] batch s = (case final of
        Some e \<Rightarrow> (Some e, s, 0) | None \<Rightarrow> (case emit batch s of (e, s) \<Rightarrow> (e, s, 0)))"
    and loop_Cons: "loop n emit (x # xs) batch s = (case step x of
        Inl e \<Rightarrow> (Some e, s, Suc (length xs))
      | Inr None \<Rightarrow> loop n emit xs batch s
      | Inr (Some row) \<Rightarrow>
          if length batch + 1 = n
          then (case emit (batch @ [row]) s of
                  (Some e, s) \<Rightarrow> (Some e, s, Suc (length xs))
                | (None, s) \<Rightarrow> loop n emit xs [] s)
          else loop n emit xs (batch @ [row]) s)"
begin

text \<open>Every loop is the reference on the rows that its items decode to.\<close>

lemma loop_feeds:
  "outcome (loop n emit xs batch s) =
     feed n emit (snd (decode_all step final xs)) (fst (decode_all step final xs)) batch s"
proof (induction xs arbitrary: batch s)
  case Nil
  show ?case by (simp add: loop_Nil split: option.split prod.split)
next
  case (Cons x xs)
  show ?case
    by (auto simp: loop_Cons Cons.IH split: sum.split option.split prod.split)
qed

text \<open>A loop that ends without an error has left nothing unread.\<close>

lemma loop_reads_all:
  "fst (loop n emit xs batch s) = None \<Longrightarrow> snd (snd (loop n emit xs batch s)) = 0"
  by (induction xs arbitrary: batch s)
    (auto simp: loop_Nil loop_Cons split: sum.splits option.splits prod.splits if_splits)

end

definition csv_step :: "string list \<Rightarrow> string list \<Rightarrow> gerr + import_row option" where
  "csv_step headers values = (if length values \<noteq> length headers
     then Inl (ErrText (''CSV row has '' @ itoa (int (length values)) @ '' columns, want ''
            @ itoa (int (length headers))))
     else Inr (Some (csv_row headers values)))"

definition csv_final :: "gerr \<Rightarrow> gerr option" where
  "csv_final e = (if err_is e IoEOF then None else Some (Wrapped ''read CSV row: '' e []))"

definition jsonl_step :: "decoders \<Rightarrow> string \<Rightarrow> gerr + import_row option" where
  "jsonl_step dec line = (if trim_space line = [] then Inr None
     else case dec_json dec line of
       Inl e \<Rightarrow> Inl (Wrapped ''decode JSONL row: '' e [])
     | Inr None \<Rightarrow> Inl (ErrText ''JSONL row must be an object'')
     | Inr (Some row) \<Rightarrow> Inr (Some row))"

definition xlsx_step :: "string list \<Rightarrow> gerr + string list \<Rightarrow> gerr + import_row option" where
  "xlsx_step headers item = (case item of
       Inl e \<Rightarrow> Inl (Wrapped ''read XLSX row: '' e [])
     | Inr values \<Rightarrow> Inr (Some (xlsx_row headers values)))"

definition wrap_opt :: "string \<Rightarrow> gerr option \<Rightarrow> gerr option" where
  "wrap_opt text e = (case e of None \<Rightarrow> None | Some x \<Rightarrow> Some (Wrapped text x []))"

interpretation csv: row_stream "\<lambda>n emit xs. csv_loop headers n emit final xs" "csv_step headers" "csv_final final"
  for headers final
  by unfold_locales (auto simp: csv_step_def csv_final_def Let_def split: prod.split option.split)

interpretation jsonl: row_stream "\<lambda>n emit xs. jsonl_loop dec n emit final xs" "jsonl_step dec" "wrap_opt ''scan JSONL: '' final"
  for dec final
  by unfold_locales (auto simp: jsonl_step_def wrap_opt_def Let_def split: prod.split option.split sum.split)

interpretation xlsx: row_stream "\<lambda>n emit xs. xlsx_loop headers n emit final xs" "xlsx_step headers" "wrap_opt ''iterate XLSX rows: '' final"
  for headers final
proof unfold_locales
  show "xlsx_loop headers n emit final (x # xs) batch s = (case xlsx_step headers x of
        Inl e \<Rightarrow> (Some e, s, Suc (length xs))
      | Inr None \<Rightarrow> xlsx_loop headers n emit final xs batch s
      | Inr (Some row) \<Rightarrow>
          if length batch + 1 = n
          then (case emit (batch @ [row]) s of
                  (Some e, s) \<Rightarrow> (Some e, s, Suc (length xs))
                | (None, s) \<Rightarrow> xlsx_loop headers n emit final xs [] s)
          else xlsx_loop headers n emit final xs (batch @ [row]) s)"
    for n emit x xs batch s
    by (cases x) (auto simp: xlsx_step_def Let_def split: prod.split option.split)
qed (auto simp: wrap_opt_def split: prod.split option.split)

section \<open>Batches\<close>

text \<open>The specification of the batches: consecutive slices of \<open>n\<close> rows, the last one shorter,
  numbered from 1, each with the number of its first row in the file (whose first line is the
  header).\<close>

function batches_from :: "int \<Rightarrow> nat \<Rightarrow> import_row list \<Rightarrow> parsed_batch list" where
  "batches_from r n xs = (if xs = [] \<or> n = 0 then []
     else \<lparr>pb_number = r div int n + 1, pb_first_row_number = r + 2, pb_rows = take n xs\<rparr>
          # batches_from (r + int (length (take n xs))) n (drop n xs))"
  by pat_completeness auto
termination by (relation "measure (\<lambda>(r, n, xs). length xs)") auto

declare batches_from.simps [simp del]

fun consume_all :: "(parsed_batch \<Rightarrow> 's \<Rightarrow> gerr option \<times> 's) \<Rightarrow> parsed_batch list \<Rightarrow> 's \<Rightarrow> gerr option \<times> 's" where
  "consume_all consume [] s = (None, s)"
| "consume_all consume (b # bs) s = (case consume b s of
       (Some e, s) \<Rightarrow> (Some e, s) | (None, s) \<Rightarrow> consume_all consume bs s)"

definition row_count :: "parsed_batch list \<Rightarrow> int" where
  "row_count bs = (\<Sum>b\<leftarrow>bs. int (length (pb_rows b)))"

lemma row_count_simps [simp]: "row_count [] = 0" "row_count (b # bs) = int (length (pb_rows b)) + row_count bs"
  by (simp_all add: row_count_def)

lemma batches_Nil [simp]: "batches_from r n [] = []"
  by (simp add: batches_from.simps)

lemma batches_full: "length b = n \<Longrightarrow> 0 < n \<Longrightarrow> batches_from r n (b @ xs) =
    \<lparr>pb_number = r div int n + 1, pb_first_row_number = r + 2, pb_rows = b\<rparr> # batches_from (r + int n) n xs"
  by (subst batches_from.simps) auto

lemma batches_last: "b \<noteq> [] \<Longrightarrow> length b < n \<Longrightarrow> batches_from r n b =
    [\<lparr>pb_number = r div int n + 1, pb_first_row_number = r + 2, pb_rows = b\<rparr>]"
  by (subst batches_from.simps) auto

lemma batches_concat: "0 < n \<Longrightarrow> concat (map pb_rows (batches_from r n xs)) = xs"
  by (induction r n xs rule: batches_from.induct) (subst batches_from.simps, auto)

lemma row_count_batches: "0 < n \<Longrightarrow> row_count (batches_from r n xs) = int (length xs)"
  by (induction r n xs rule: batches_from.induct) (subst batches_from.simps, auto)

lemma batches_sizes:
  "b \<in> set (batches_from r n xs) \<Longrightarrow> pb_rows b \<noteq> [] \<and> length (pb_rows b) \<le> n \<and> r + 2 \<le> pb_first_row_number b
     \<and> pb_first_row_number b + int (length (pb_rows b)) \<le> r + 2 + int (length xs)"
proof (induction r n xs rule: batches_from.induct)
  case (1 r n xs)
  show ?case
  proof (cases "xs = [] \<or> n = 0")
    case True
    with "1.prems" show ?thesis by (auto simp: batches_from.simps [of r n xs])
  next
    case False
    with "1.prems" consider "b = \<lparr>pb_number = r div int n + 1, pb_first_row_number = r + 2, pb_rows = take n xs\<rparr>"
      | "b \<in> set (batches_from (r + int (length (take n xs))) n (drop n xs))"
      by (auto simp: batches_from.simps [of r n xs])
    then show ?thesis using "1.IH" [OF False] False by cases auto
  qed
qed

text \<open>The numbers of the batches: 1, 2, 3, and so on when the file is read from its start.\<close>

lemma batches_numbers:
  "0 < n \<Longrightarrow> r = int n * int m \<Longrightarrow>
    map pb_number (batches_from r n xs) = map int [m + 1 ..< m + 1 + length (batches_from r n xs)]"
proof (induction r n xs arbitrary: m rule: batches_from.induct)
  case (1 r n xs)
  show ?case
  proof (cases "xs = [] \<or> n = 0")
    case True
    then show ?thesis by (auto simp: batches_from.simps [of r n xs])
  next
    case False
    show ?thesis
    proof (cases "length xs \<le> n")
      case True
      with False have "batches_from r n xs = [\<lparr>pb_number = r div int n + 1, pb_first_row_number = r + 2, pb_rows = xs\<rparr>]"
        by (simp add: batches_from.simps [of r n xs])
      with "1.prems" show ?thesis by simp
    next
      case le: False
      then have "r + int (length (take n xs)) = int n * int (Suc m)"
        using "1.prems" by (simp add: algebra_simps)
      note ih = "1.IH" [OF False "1.prems"(1) this]
      obtain t where t: "t = batches_from (r + int (length (take n xs))) n (drop n xs)" by simp
      have "batches_from r n xs =
          \<lparr>pb_number = r div int n + 1, pb_first_row_number = r + 2, pb_rows = take n xs\<rparr> # t"
        using False by (simp add: batches_from.simps [of r n xs] t)
      with ih [folded t] "1.prems" show ?thesis
        by (simp add: upt_conv_Cons del: upt_Suc)
    qed
  qed
qed

text \<open>What the callback of the caller gets to see: a prefix of the batches, and no more rows than
  the limit; all of them when there is no error.\<close>

lemma emit_rows_cases:
  assumes "emit_rows n max_rows ctx consume b (rows, s) = (e, rows', s')" and "b \<noteq> []"
  obtains "e \<noteq> None" "rows' = rows" "s' = s"
  | e' where "rows + int (length b) \<le> max_rows" "e = Some e'" "rows' = rows"
      "consume \<lparr>pb_number = rows div int n + 1, pb_first_row_number = rows + 2, pb_rows = b\<rparr> s = (Some e', s')"
  | "rows + int (length b) \<le> max_rows" "e = None" "rows' = rows + int (length b)"
      "consume \<lparr>pb_number = rows div int n + 1, pb_first_row_number = rows + 2, pb_rows = b\<rparr> s = (None, s')"
proof (cases "ctx rows = None \<and> rows + int (length b) \<le> max_rows")
  case False
  with assms show thesis by (intro that(1)) (cases "ctx rows"; auto simp: emit_rows_def)+
next
  case True
  obtain ce cs where c: "consume \<lparr>pb_number = rows div int n + 1, pb_first_row_number = rows + 2, pb_rows = b\<rparr> s
      = (ce, cs)" by fastforce
  show thesis
  proof (cases ce)
    case None
    with True c assms show thesis by (intro that(3)) (simp_all add: emit_rows_def)
  next
    case (Some x)
    with True c assms show thesis by (intro that(2) [of x]) (simp_all add: emit_rows_def)
  qed
qed

lemma emit_rows_Nil [simp]: "emit_rows n max_rows ctx consume [] (rows, s) = (None, rows, s)"
  by (simp add: emit_rows_def)

lemma feed_batches:
  assumes "feed n (emit_rows n max_rows ctx consume) final xs batch (rows, s) = (e, rows', s')"
    and "length batch < n" and "rows \<le> max_rows"
  shows "\<exists>bs. prefix bs (batches_from rows n (batch @ xs)) \<and> snd (consume_all consume bs s) = s'
      \<and> rows + row_count bs \<le> max_rows
      \<and> (\<forall>x. fst (consume_all consume bs s) = Some x \<longrightarrow> e = Some x)
      \<and> (e = None \<longrightarrow> final = None \<and> bs = batches_from rows n (batch @ xs)
           \<and> rows' = rows + int (length (batch @ xs)) \<and> fst (consume_all consume bs s) = None)"
  using assms
proof (induction xs arbitrary: batch rows s)
  case Nil
  show ?case
  proof (cases "final = None \<and> batch \<noteq> []")
    case False
    with Nil.prems show ?thesis by (intro exI [of _ "[]"]) (auto split: option.splits)
  next
    case True
    with Nil.prems(1) have em: "emit_rows n max_rows ctx consume batch (rows, s) = (e, rows', s')" by simp
    have b: "batches_from rows n (batch @ []) =
      [\<lparr>pb_number = rows div int n + 1, pb_first_row_number = rows + 2, pb_rows = batch\<rparr>]"
      using batches_last [of batch n rows] True Nil.prems(2) by simp
    from em True show ?thesis unfolding b
      by (cases rule: emit_rows_cases [OF em])
        (use True Nil.prems(3) in \<open>auto intro: exI [of _ "[]"] exI [of _ "[b]" for b]\<close>)
  qed
next
  case (Cons x xs)
  show ?case
  proof (cases "length batch + 1 = n")
    case False
    with Cons.prems Cons.IH [of "batch @ [x]" rows s] show ?thesis by simp
  next
    case True
    let ?b = "\<lparr>pb_number = rows div int n + 1, pb_first_row_number = rows + 2, pb_rows = batch @ [x]\<rparr>"
    have b: "batches_from rows n (batch @ x # xs) = ?b # batches_from (rows + int n) n xs"
      using batches_full [of "batch @ [x]" n rows xs] True by simp
    obtain e1 r1 s1 where em: "emit_rows n max_rows ctx consume (batch @ [x]) (rows, s) = (e1, r1, s1)"
      by (metis surj_pair)
    show ?thesis
    proof (cases rule: emit_rows_cases [OF em])
      case 2
      with Cons.prems(1) True em Cons.prems(3) show ?thesis
        by (auto intro!: exI [of _ "[]"] split: option.splits)
    next
      case (3 e')
      with Cons.prems(1) True em show ?thesis unfolding b by (intro exI [of _ "[?b]"]) auto
    next
      case 4
      from True have n: "1 + int (length batch) = int n" by simp
      from 4 Cons.prems(1) True em n have rest:
        "feed n (emit_rows n max_rows ctx consume) final xs [] (rows + int n, s1) = (e, rows', s')" by simp
      have "length ([] :: import_row list) < n" "rows + int n \<le> max_rows" using 4(1) n by simp_all
      from Cons.IH [OF rest this] obtain bs where
        pre: "prefix bs (batches_from (rows + int n) n xs)" and st: "snd (consume_all consume bs s1) = s'"
        and le: "rows + int n + row_count bs \<le> max_rows"
        and no: "\<forall>x. fst (consume_all consume bs s1) = Some x \<longrightarrow> e = Some x"
        and ok: "e = None \<longrightarrow> final = None \<and> bs = batches_from (rows + int n) n xs
           \<and> rows' = rows + int n + int (length xs) \<and> fst (consume_all consume bs s1) = None"
        unfolding append_Nil by blast
      from 4(4) have all: "consume_all consume (?b # bs) s = consume_all consume bs s1" by simp
      have len: "rows + int (length (batch @ x # xs)) = rows + int n + int (length xs)" using True by simp
      have count: "row_count (?b # bs) = int n + row_count bs" using True by simp
      show ?thesis unfolding b
      proof (intro exI [of _ "?b # bs"] conjI)
        show "prefix (?b # bs) (?b # batches_from (rows + int n) n xs)" using pre by simp
        show "snd (consume_all consume (?b # bs) s) = s'" unfolding all by (rule st)
        show "rows + row_count (?b # bs) \<le> max_rows" using le unfolding count by simp
        show "\<forall>x. fst (consume_all consume (?b # bs) s) = Some x \<longrightarrow> e = Some x" unfolding all by (rule no)
        show "e = None \<longrightarrow> final = None \<and> ?b # bs = ?b # batches_from (rows + int n) n xs
            \<and> rows' = rows + int (length (batch @ x # xs))
            \<and> fst (consume_all consume (?b # bs) s) = None"
          using ok unfolding all len by blast
      qed
    qed simp
  qed
qed

section \<open>What a file holds\<close>

text \<open>The specification of the formats: the rows of a source up to the first error, and that error
  if there is one.\<close>

definition csv_rows :: "decoders \<Rightarrow> source \<Rightarrow> int \<Rightarrow> import_row list \<times> gerr option" where
  "csv_rows dec src limit = (case dec_csv dec (delivered src limit) (delivered_err src limit) of
       ([], final) \<Rightarrow> ([], Some (Wrapped ''read CSV header: '' final []))
     | (first # records, final) \<Rightarrow> (case validate_headers first of
           Inl e \<Rightarrow> ([], Some e)
         | Inr headers \<Rightarrow> decode_all (csv_step headers) (csv_final final) records))"

definition jsonl_rows :: "decoders \<Rightarrow> source \<Rightarrow> int \<Rightarrow> import_row list \<times> gerr option" where
  "jsonl_rows dec src limit = (case scan_lines (delivered src limit) of
       (lines, long) \<Rightarrow> decode_all (jsonl_step dec)
          (wrap_opt ''scan JSONL: '' (scan_err long (delivered_err src limit))) lines)"

definition xlsx_file_rows :: "decoders \<Rightarrow> source \<Rightarrow> int \<Rightarrow> import_row list \<times> gerr option" where
  "xlsx_file_rows dec src limit =
     (case dec_xlsx dec (delivered src limit) (delivered_err src limit) of
        Inl e \<Rightarrow> ([], Some (Wrapped ''open XLSX: '' e []))
      | Inr [] \<Rightarrow> ([], Some (Sentinel ErrInvalidHeader))
      | Inr ((name, Inl e) # _) \<Rightarrow> ([], Some (Wrapped ''read XLSX sheet: '' e []))
      | Inr ((name, Inr rows) # _) \<Rightarrow> (case xr_rows rows of
          [] \<Rightarrow> ([], Some (Sentinel ErrInvalidHeader))
        | Inl e # _ \<Rightarrow> ([], Some (Wrapped ''read XLSX header: '' e []))
        | Inr first # rest \<Rightarrow> (case validate_headers first of
            Inl e \<Rightarrow> ([], Some e)
          | Inr headers \<Rightarrow> decode_all (xlsx_step headers)
              (wrap_opt ''iterate XLSX rows: '' (xr_error rows)) rest)))"

definition file_rows :: "decoders \<Rightarrow> source \<Rightarrow> string \<Rightarrow> int \<Rightarrow> import_row list \<times> gerr option" where
  "file_rows dec src format limit =
     (if format = FormatCSV then csv_rows dec src limit
      else if format = FormatJSONL then jsonl_rows dec src limit
      else xlsx_file_rows dec src limit)"

lemma stream_csv_feeds:
  "outcome (stream_csv dec src limit n emit s) =
     feed n emit (snd (csv_rows dec src limit)) (fst (csv_rows dec src limit)) [] s"
  by (simp add: stream_csv_def csv_rows_def csv.loop_feeds split: prod.split list.split sum.split)

lemma stream_jsonl_feeds:
  "outcome (stream_jsonl dec src limit n emit s) =
     feed n emit (snd (jsonl_rows dec src limit)) (fst (jsonl_rows dec src limit)) [] s"
  by (simp add: stream_jsonl_def jsonl_rows_def jsonl.loop_feeds split: prod.split)

lemma outcome_drop_left: "outcome (case r of (e, s, left) \<Rightarrow> (e, s, left')) = outcome r"
  by (cases r) simp

lemma stream_xlsx_feeds:
  "outcome (stream_xlsx dec src limit n emit s) =
     feed n emit (snd (xlsx_file_rows dec src limit)) (fst (xlsx_file_rows dec src limit)) [] s"
  by (simp add: stream_xlsx_def xlsx_file_rows_def outcome_drop_left xlsx.loop_feeds
      split: prod.split list.split sum.split)

text \<open>Documented behaviour of the libraries: \<open>csv.Reader\<close> reports the end of the input only when
  its source does, and \<open>excelize.OpenReader\<close> opens a book only when it could read all of it.\<close>

definition honest :: "decoders \<Rightarrow> bool" where
  "honest dec \<longleftrightarrow> (\<forall>bytes e. err_is (snd (dec_csv dec bytes e)) IoEOF \<longrightarrow> e = Sentinel IoEOF)
     \<and> (\<forall>bytes e book. dec_xlsx dec bytes e = Inr book \<longrightarrow> e = Sentinel IoEOF)"

lemma decode_all_final: "snd (decode_all step final xs) = None \<Longrightarrow> final = None"
  by (induction xs) (auto split: sum.splits option.splits prod.splits)

lemma file_rows_complete:
  assumes "honest dec" and "snd (file_rows dec src format limit) = None"
  shows "delivered_err src limit = Sentinel IoEOF" and "int (length (src_bytes src)) \<le> limit"
proof -
  have final: "delivered_err src limit = Sentinel IoEOF"
  proof (cases "format = FormatCSV")
    case True
    with assms show ?thesis
      by (auto simp: file_rows_def csv_rows_def honest_def csv_final_def
          split: prod.splits list.splits sum.splits if_splits dest!: decode_all_final)
        (metis snd_conv)
  next
    case csv: False
    show ?thesis
    proof (cases "format = FormatJSONL")
      case True
      with assms show ?thesis
        by (auto simp: file_rows_def jsonl_rows_def scan_err_def wrap_opt_def
            split: prod.splits if_splits dest!: decode_all_final)
    next
      case False
      with csv assms obtain book where "dec_xlsx dec (delivered src limit) (delivered_err src limit) = Inr book"
        by (cases "dec_xlsx dec (delivered src limit) (delivered_err src limit)")
          (auto simp: file_rows_def xlsx_file_rows_def)
      with assms(1) show ?thesis unfolding honest_def by blast
    qed
  qed
  then show "delivered_err src limit = Sentinel IoEOF" .
  then show "int (length (src_bytes src)) \<le> limit" by (auto simp: delivered_err_def split: if_splits)
qed

text \<open>\<open>StreamRows\<close> as the reference: the batches of the file go to the callback in order.\<close>

lemma stream_rows_feed:
  assumes "stream_rows dec src format n max_rows max_bytes ctx consume s = (r, s')"
    and "1 \<le> n" "1 \<le> max_rows" "1 \<le> max_bytes" "format \<in> {FormatCSV, FormatJSONL, FormatXLSX}"
  obtains e rows' where
    "feed (nat n) (emit_rows (nat n) max_rows ctx consume) (snd (file_rows dec src format max_bytes))
      (fst (file_rows dec src format max_bytes)) [] (0, s) = (e, rows', s')"
    "\<And>res. r = Inr res \<Longrightarrow> e = None \<and> res = \<lparr>ps_rows = rows',
        ps_bytes = int (length (delivered src max_bytes)),
        ps_checksum = dec_sha256_hex dec (delivered src max_bytes)\<rparr>"
    "\<And>x. e = Some x \<Longrightarrow> r = Inl x \<or> r = Inl (Sentinel ErrByteLimitExceeded)"
proof -
  let ?st = "if format = FormatCSV then stream_csv dec src max_bytes (nat n) (emit_rows (nat n) max_rows ctx consume) (0, s)
      else if format = FormatJSONL then stream_jsonl dec src max_bytes (nat n) (emit_rows (nat n) max_rows ctx consume) (0, s)
      else stream_xlsx dec src max_bytes (nat n) (emit_rows (nat n) max_rows ctx consume) (0, s)"
  obtain e rows' s1 left where st: "?st = (e, (rows', s1), left)" by (metis surj_pair)
  have "outcome ?st = feed (nat n) (emit_rows (nat n) max_rows ctx consume)
      (snd (file_rows dec src format max_bytes)) (fst (file_rows dec src format max_bytes)) [] (0, s)"
    by (simp add: file_rows_def stream_csv_feeds stream_jsonl_feeds stream_xlsx_feeds)
  moreover from assms st have "s1 = s'" and
    "\<And>res. r = Inr res \<Longrightarrow> e = None \<and> res = \<lparr>ps_rows = rows',
        ps_bytes = int (length (delivered src max_bytes)),
        ps_checksum = dec_sha256_hex dec (delivered src max_bytes)\<rparr>"
    and "\<And>x. e = Some x \<Longrightarrow> r = Inl x \<or> r = Inl (Sentinel ErrByteLimitExceeded)"
    by (auto simp: stream_rows_def Let_def split: if_splits option.splits)
  ultimately show thesis using that [of e rows'] st by simp
qed

lemma stream_rows_batches:
  assumes "stream_rows dec src format n max_rows max_bytes ctx consume s = (r, s')"
    and "1 \<le> n" "1 \<le> max_rows" "1 \<le> max_bytes" "format \<in> {FormatCSV, FormatJSONL, FormatXLSX}"
  shows "\<exists>bs. prefix bs (batches_from 0 (nat n) (fst (file_rows dec src format max_bytes)))
      \<and> row_count bs \<le> max_rows \<and> snd (consume_all consume bs s) = s'
      \<and> (\<forall>x. fst (consume_all consume bs s) = Some x \<longrightarrow> r = Inl x \<or> r = Inl (Sentinel ErrByteLimitExceeded))
      \<and> (\<forall>res. r = Inr res \<longrightarrow> snd (file_rows dec src format max_bytes) = None
           \<and> bs = batches_from 0 (nat n) (fst (file_rows dec src format max_bytes))
           \<and> fst (consume_all consume bs s) = None
           \<and> res = \<lparr>ps_rows = int (length (fst (file_rows dec src format max_bytes))),
               ps_bytes = int (length (delivered src max_bytes)),
               ps_checksum = dec_sha256_hex dec (delivered src max_bytes)\<rparr>)"
proof -
  from assms obtain e rows' where
    f: "feed (nat n) (emit_rows (nat n) max_rows ctx consume) (snd (file_rows dec src format max_bytes))
      (fst (file_rows dec src format max_bytes)) [] (0, s) = (e, rows', s')"
    and ok: "\<And>res. r = Inr res \<Longrightarrow> e = None \<and> res = \<lparr>ps_rows = rows',
        ps_bytes = int (length (delivered src max_bytes)),
        ps_checksum = dec_sha256_hex dec (delivered src max_bytes)\<rparr>"
    and no: "\<And>x. e = Some x \<Longrightarrow> r = Inl x \<or> r = Inl (Sentinel ErrByteLimitExceeded)"
    by (rule stream_rows_feed) blast
  have "length ([] :: import_row list) < nat n" "0 \<le> max_rows" using assms(2,3) by simp_all
  from feed_batches [OF f this] obtain bs where
    bs: "prefix bs (batches_from 0 (nat n) (fst (file_rows dec src format max_bytes)))"
    "row_count bs \<le> max_rows" "snd (consume_all consume bs s) = s'"
    and fst_bs: "\<forall>x. fst (consume_all consume bs s) = Some x \<longrightarrow> e = Some x"
    and complete: "e = None \<longrightarrow> snd (file_rows dec src format max_bytes) = None
       \<and> bs = batches_from 0 (nat n) (fst (file_rows dec src format max_bytes))
       \<and> rows' = int (length (fst (file_rows dec src format max_bytes)))
       \<and> fst (consume_all consume bs s) = None"
    unfolding append_Nil add_0 by blast
  have refused: "\<forall>x. fst (consume_all consume bs s) = Some x \<longrightarrow> r = Inl x \<or> r = Inl (Sentinel ErrByteLimitExceeded)"
    using fst_bs no by blast
  from complete have "r = Inr res \<longrightarrow> snd (file_rows dec src format max_bytes) = None
      \<and> bs = batches_from 0 (nat n) (fst (file_rows dec src format max_bytes))
      \<and> fst (consume_all consume bs s) = None
      \<and> res = \<lparr>ps_rows = int (length (fst (file_rows dec src format max_bytes))),
          ps_bytes = int (length (delivered src max_bytes)),
          ps_checksum = dec_sha256_hex dec (delivered src max_bytes)\<rparr>" for res
    using ok [of res] by blast
  with bs refused show ?thesis by blast
qed

lemma stream_rows_positive:
  "stream_rows dec src format n max_rows max_bytes ctx consume s = (Inr res, s') \<Longrightarrow>
   1 \<le> n \<and> 1 \<le> max_rows \<and> 1 \<le> max_bytes \<and> format \<in> {FormatCSV, FormatJSONL, FormatXLSX}"
  by (auto simp: stream_rows_def split: if_splits)

lemma stream_rows_ok:
  assumes "stream_rows dec src format n max_rows max_bytes ctx consume s = (Inr res, s')"
  shows "snd (file_rows dec src format max_bytes) = None"
    and "consume_all consume (batches_from 0 (nat n) (fst (file_rows dec src format max_bytes))) s = (None, s')"
    and "int (length (fst (file_rows dec src format max_bytes))) \<le> max_rows"
    and "res = \<lparr>ps_rows = int (length (fst (file_rows dec src format max_bytes))),
        ps_bytes = int (length (delivered src max_bytes)),
        ps_checksum = dec_sha256_hex dec (delivered src max_bytes)\<rparr>"
proof -
  note pos = stream_rows_positive [OF assms]
  from stream_rows_batches [OF assms] pos obtain bs where bs:
    "row_count bs \<le> max_rows" "snd (consume_all consume bs s) = s'"
    "snd (file_rows dec src format max_bytes) = None"
    "bs = batches_from 0 (nat n) (fst (file_rows dec src format max_bytes))"
    "fst (consume_all consume bs s) = None"
    "res = \<lparr>ps_rows = int (length (fst (file_rows dec src format max_bytes))),
        ps_bytes = int (length (delivered src max_bytes)),
        ps_checksum = dec_sha256_hex dec (delivered src max_bytes)\<rparr>" by blast
  from bs(3,6) show "snd (file_rows dec src format max_bytes) = None"
    "res = \<lparr>ps_rows = int (length (fst (file_rows dec src format max_bytes))),
        ps_bytes = int (length (delivered src max_bytes)),
        ps_checksum = dec_sha256_hex dec (delivered src max_bytes)\<rparr>" by simp_all
  from bs(2,4,5) show "consume_all consume (batches_from 0 (nat n) (fst (file_rows dec src format max_bytes))) s = (None, s')"
    by (simp add: prod_eq_iff)
  from bs(1,4) pos show "int (length (fst (file_rows dec src format max_bytes))) \<le> max_rows"
    by (simp add: row_count_batches)
qed

text \<open>A result says that the source was read to its end: every loop leaves nothing unread without an
  error, so the check of the byte limit has seen whatever the decoder has read ahead; and with
  decoders that report the end of the input only when their source does, what was read is the
  whole source.\<close>

definition read_whole :: "decoders \<Rightarrow> source \<Rightarrow> int \<Rightarrow> bool" where
  "read_whole dec src limit \<longleftrightarrow> \<not> exceeded src limit 0
     \<and> (honest dec \<longrightarrow> src_err src = Sentinel IoEOF \<and> int (length (src_bytes src)) \<le> limit
          \<and> delivered src limit = src_bytes src)"

lemma streams_leave_nothing:
  "fst (stream_csv dec src limit n emit s) = None \<Longrightarrow> snd (snd (stream_csv dec src limit n emit s)) = 0"
  "fst (stream_jsonl dec src limit n emit s) = None \<Longrightarrow> snd (snd (stream_jsonl dec src limit n emit s)) = 0"
  "fst (stream_xlsx dec src limit n emit s) = None \<Longrightarrow> snd (snd (stream_xlsx dec src limit n emit s)) = 0"
  by (auto simp: stream_csv_def stream_jsonl_def stream_xlsx_def csv.loop_reads_all jsonl.loop_reads_all
      split: prod.splits list.splits sum.splits)

lemma stream_rows_whole:
  assumes "stream_rows dec src format n max_rows max_bytes ctx consume s = (Inr res, s')"
  shows "read_whole dec src max_bytes"
proof -
  let ?emit = "emit_rows (nat n) max_rows ctx consume"
  let ?st = "if format = FormatCSV then stream_csv dec src max_bytes (nat n) ?emit (0, s)
      else if format = FormatJSONL then stream_jsonl dec src max_bytes (nat n) ?emit (0, s)
      else stream_xlsx dec src max_bytes (nat n) ?emit (0, s)"
  obtain e rows' s1 left where st: "?st = (e, (rows', s1), left)" by (metis surj_pair)
  from assms st stream_rows_positive [OF assms] have e: "e = None" and x: "\<not> exceeded src max_bytes left"
    by (auto simp: stream_rows_def Let_def split: if_splits option.splits)
  have "fst ?st = None" using st e by simp
  then have "snd (snd ?st) = 0" by (auto intro: streams_leave_nothing split: if_splits)
  with st x have no: "\<not> exceeded src max_bytes 0" by simp
  have "src_err src = Sentinel IoEOF \<and> int (length (src_bytes src)) \<le> max_bytes
      \<and> delivered src max_bytes = src_bytes src" if h: "honest dec"
    using file_rows_complete [OF h stream_rows_ok(1) [OF assms]]
    by (auto simp: delivered_err_def delivered_def)
  with no show ?thesis by (simp add: read_whole_def)
qed

text \<open>The other direction: a file without an error, within the limits, is parsed when the callback accepts
  its slices.\<close>

lemma feed_complete:
  assumes "0 < n" and "length batch < n" and "\<And>r. ctx r = None"
    and "rows + int (length (batch @ xs)) \<le> max_rows"
    and "consume_all consume (batches_from rows n (batch @ xs)) s = (None, s')"
  shows "feed n (emit_rows n max_rows ctx consume) None xs batch (rows, s) = (None, rows + int (length (batch @ xs)), s')"
  using assms(2,4,5)
proof (induction xs arbitrary: batch rows s)
  case Nil
  then show ?case
    by (cases "batch = []") (auto simp: batches_last emit_rows_def assms(3) split: prod.splits option.splits)
next
  case (Cons x xs)
  show ?case
  proof (cases "length batch + 1 = n")
    case True
    then have full: "length (batch @ [x]) = n" by simp
    from batches_full [OF full assms(1), of rows xs] Cons.prems(3) obtain s1 where
      head: "consume \<lparr>pb_number = rows div int n + 1, pb_first_row_number = rows + 2, pb_rows = batch @ [x]\<rparr> s = (None, s1)"
      and rest: "consume_all consume (batches_from (rows + int n) n xs) s1 = (None, s')"
      by (auto split: prod.splits option.splits)
    from head Cons.prems(2) full have "emit_rows n max_rows ctx consume (batch @ [x]) (rows, s) = (None, rows + int n, s1)"
      by (simp add: emit_rows_def assms(3))
    with Cons.IH [of "[]" "rows + int n" s1] rest Cons.prems(2) assms(1) full True show ?thesis by simp
  next
    case False
    with Cons.IH [of "batch @ [x]" rows s] Cons.prems show ?thesis by simp
  qed
qed

lemma stream_rows_complete:
  assumes "1 \<le> n" "1 \<le> max_rows" "1 \<le> max_bytes" "format \<in> {FormatCSV, FormatJSONL, FormatXLSX}"
    and "file_rows dec src format max_bytes = (rows, None)" and "int (length rows) \<le> max_rows"
    and "int (length (src_bytes src)) \<le> max_bytes" and "\<And>r. ctx r = None"
    and "consume_all consume (batches_from 0 (nat n) rows) s = (None, s')"
  shows "stream_rows dec src format n max_rows max_bytes ctx consume s
    = (Inr \<lparr>ps_rows = int (length rows), ps_bytes = int (length (src_bytes src)), ps_checksum = dec_sha256_hex dec (src_bytes src)\<rparr>, s')"
proof -
  let ?emit = "emit_rows (nat n) max_rows ctx consume"
  let ?st = "if format = FormatCSV then stream_csv dec src max_bytes (nat n) ?emit (0, s)
      else if format = FormatJSONL then stream_jsonl dec src max_bytes (nat n) ?emit (0, s)
      else stream_xlsx dec src max_bytes (nat n) ?emit (0, s)"
  have "outcome ?st = feed (nat n) ?emit (snd (file_rows dec src format max_bytes)) (fst (file_rows dec src format max_bytes)) [] (0, s)"
    by (simp add: file_rows_def stream_csv_feeds stream_jsonl_feeds stream_xlsx_feeds)
  also have "\<dots> = (None, int (length rows), s')"
    using feed_complete [of "nat n" "[]" ctx 0 rows max_rows consume s s'] assms by simp
  finally have st: "outcome ?st = (None, int (length rows), s')" .
  obtain e rows' s1 left where run: "?st = (e, (rows', s1), left)" by (metis surj_pair)
  with st have "?st = (None, (int (length rows), s'), left)" by simp
  moreover have "\<not> exceeded src max_bytes left" "delivered src max_bytes = src_bytes src"
    using assms(7) by (simp_all add: exceeded_def delivered_def)
  ultimately show ?thesis using assms(1-4) unfolding stream_rows_def by (simp only: Let_def if_False not_less) simp
qed

text \<open>The limits are checked first, and an unknown format reads nothing.\<close>

lemma stream_rows_refused:
  "n < 1 \<or> max_rows < 1 \<or> max_bytes < 1 \<or> format \<notin> {FormatCSV, FormatJSONL, FormatXLSX} \<Longrightarrow>
   \<exists>e. stream_rows dec src format n max_rows max_bytes ctx consume s = (Inl e, s)"
  by (auto simp: stream_rows_def)

text \<open>The headers that come out: as many, trimmed, none empty, none twice.\<close>

lemma check_headers_ok:
  "check_headers seen vs = Inr hs \<Longrightarrow>
    hs = map trim_space vs \<and> distinct hs \<and> [] \<notin> set hs \<and> set hs \<inter> seen = {}"
proof (induction vs arbitrary: seen hs)
  case (Cons v vs)
  from Cons.prems obtain hs' where "check_headers (insert (trim_space v) seen) vs = Inr hs'"
    "hs = trim_space v # hs'" "trim_space v \<noteq> []" "trim_space v \<notin> seen"
    by (auto simp: Let_def split: if_splits sum.splits)
  moreover from Cons.IH [OF this(1)] have "hs' = map trim_space vs" "distinct hs'" "[] \<notin> set hs'"
    "set hs' \<inter> insert (trim_space v) seen = {}" by blast+
  moreover from this have "trim_space v \<notin> set hs'" "set hs' \<inter> seen = {}" by blast+
  ultimately show ?case by simp
qed simp

lemma check_headers_error:
  "check_headers seen vs = Inl e \<Longrightarrow> err_is e ErrInvalidHeader"
  by (induction vs arbitrary: seen) (auto simp: Let_def split: if_splits sum.splits)

lemma check_headers_complete:
  "distinct (map trim_space vs) \<Longrightarrow> [] \<notin> set (map trim_space vs) \<Longrightarrow> set (map trim_space vs) \<inter> seen = {} \<Longrightarrow>
   check_headers seen vs = Inr (map trim_space vs)"
  by (induction vs arbitrary: seen) (auto simp: Let_def)

lemma validate_headers_spec:
  "(case validate_headers vs of
      Inr hs \<Rightarrow> vs \<noteq> [] \<and> hs = map trim_space vs \<and> distinct hs \<and> [] \<notin> set hs
    | Inl e \<Rightarrow> err_is e ErrInvalidHeader
        \<and> (vs = [] \<or> [] \<in> set (map trim_space vs) \<or> \<not> distinct (map trim_space vs)))"
proof (cases "vs = []")
  case False
  show ?thesis
  proof (cases "check_headers {} vs")
    case (Inl e)
    with False check_headers_complete [of vs "{}"] show ?thesis
      by (auto simp: validate_headers_def dest: check_headers_error)
  next
    case (Inr hs)
    with False show ?thesis by (auto simp: validate_headers_def dest: check_headers_ok)
  qed
qed (simp add: validate_headers_def)

end
