(* ===== verification/Worker.thy ===== *)
theory Worker
  imports Service_Correct Row_Parser
begin

text \<open>
  The background worker (\<open>internal/importjob/worker.go\<close>): \<open>Validate\<close>, \<open>Apply\<close>, \<open>CleanupExpired\<close>,
  \<open>PurgeExpiredMetadata\<close>, \<open>fail\<close> and their helpers. The record \<open>worker\<close> holds the limits and, as
  functions, what is outside the repository: the decoders, the provider's sessions, the encoder
  of rows, the object reader, the room on the disk for temporary files, the deadline of the run.

  Go's \<open>return w.fail(ctx, job, status, code, err)\<close> in the middle of a run is \<open>Inl (code, err)\<close> as
  the result of \<open>validate_run\<close> or \<open>apply_run\<close>, which the caller hands to \<open>worker_fail\<close>.
\<close>

section \<open>The report: \<open>encoding/csv\<close> over \<open>bufio\<close>\<close>

record csv_writer =
  cw_buffer :: string
  cw_sink :: bounded_writer
  cw_err :: "gerr option"

definition csv_buffer_size :: nat where
  "csv_buffer_size = 4096"

lemma csv_buffer_size_le [code_unfold]: "csv_buffer_size \<le> n \<longleftrightarrow> (4096 :: int) \<le> int n"
  by (auto simp: csv_buffer_size_def)

definition csv_flush :: "csv_writer \<Rightarrow> csv_writer" where
  "csv_flush w = (case cw_err w of Some _ \<Rightarrow> w
     | None \<Rightarrow> if cw_buffer w = [] then w
       else case bounded_write (cw_buffer w) (cw_sink w) of ((n, e), sink) \<Rightarrow>
         w\<lparr>cw_buffer := drop n (cw_buffer w), cw_sink := sink, cw_err := e\<rparr>)"

definition csv_put :: "char \<Rightarrow> csv_writer \<Rightarrow> csv_writer" where
  "csv_put c w = (let w1 = (if csv_buffer_size \<le> length (cw_buffer w) then csv_flush w else w) in
     if cw_err w1 \<noteq> None then w1 else w1\<lparr>cw_buffer := cw_buffer w1 @ [c]\<rparr>)"

definition needs_quotes :: "string \<Rightarrow> bool" where
  "needs_quotes field \<longleftrightarrow> field \<noteq> [] \<and> (field = [CHR 0x5C, CHR ''.'']
     \<or> (\<exists>c \<in> set field. c \<in> {CHR 0x0A, CHR 0x0D, CHR 0x22, CHR '',''})
     \<or> 0 < lead space_encodings field)"

definition csv_field :: "string \<Rightarrow> string" where
  "csv_field f = (if needs_quotes f
     then CHR 0x22 # concat (map (\<lambda>c. if c = CHR 0x22 then [c, c] else [c]) f) @ [CHR 0x22] else f)"

fun csv_fields :: "string list \<Rightarrow> string" where
  "csv_fields [] = [CHR 0x0A]"
| "csv_fields [f] = csv_field f @ [CHR 0x0A]"
| "csv_fields (f # fs) = csv_field f @ CHR '','' # csv_fields fs"

definition csv_write :: "string list \<Rightarrow> csv_writer \<Rightarrow> gerr option \<times> csv_writer" where
  "csv_write fs w = (let w1 = fold csv_put (csv_fields fs) w in (cw_err w1, w1))"

section \<open>The worker\<close>

record 'env worker =
  wk_batch_size :: int
  wk_max_rows :: int
  wk_max_bytes :: int
  wk_result_ttl :: duration
  wk_decoders :: decoders
  wk_open :: "string \<Rightarrow> world \<Rightarrow> gerr + source"
  wk_open_validation :: "string \<Rightarrow> string \<Rightarrow> string \<Rightarrow> string \<Rightarrow> world \<Rightarrow> gerr option"
  wk_validate :: "validate_batch_request \<Rightarrow> world \<Rightarrow> gerr + validate_batch_result"
  wk_open_apply :: "string \<Rightarrow> string \<Rightarrow> string \<Rightarrow> string \<Rightarrow> world \<Rightarrow> gerr option"
  wk_apply :: "apply_batch_request \<Rightarrow> world \<Rightarrow> gerr + apply_batch_result"
  wk_encode :: "import_row \<Rightarrow> gerr + string"
  wk_ctx :: "world \<Rightarrow> int \<Rightarrow> gerr option"
  wk_disk :: "world \<Rightarrow> nat \<times> gerr"
  wk_codec :: "'env event_codec"

definition truncate_text :: "string \<Rightarrow> nat \<Rightarrow> string" where
  "truncate_text value limit = (if length value \<le> limit then value else take limit value)"

definition validation_error_code :: "gerr \<Rightarrow> string" where
  "validation_error_code e =
     (if err_is e ErrRowLimitExceeded then ''row_limit_exceeded''
      else if err_is e ErrByteLimitExceeded then ''byte_limit_exceeded''
      else if err_is e ErrOutputLimitExceeded then ''output_limit_exceeded''
      else if err_is e ErrInvalidHeader \<or> err_is e ErrInvalidProviderResponse then ''invalid_input''
      else if contains (err_text e) ''checksum'' then ''checksum_mismatch''
      else ''validation_failed'')"

definition apply_error_code :: "gerr \<Rightarrow> string" where
  "apply_error_code e = (if err_is e CtxDeadlineExceeded then ''timeout'' else ''apply_failed'')"

definition failed_job :: "job \<Rightarrow> string \<Rightarrow> gerr \<Rightarrow> time \<Rightarrow> time \<Rightarrow> job" where
  "failed_job j code cause now expires = j\<lparr>error_code := code,
     error_message := truncate_text (err_text cause) 2000, completed_at := Some now,
     result_expires_at := Some expires, updated_at := now, updated_by := ''import-worker''\<rparr>"

definition error_of :: "(gerr + 'a) \<times> world \<Rightarrow> gerr option \<times> world" where
  "error_of r = (case r of (Inl e, w) \<Rightarrow> (Some e, w) | (Inr _, w) \<Rightarrow> (None, w))"

definition worker_fail :: "'env worker \<Rightarrow> job \<Rightarrow> string \<Rightarrow> string \<Rightarrow> gerr \<Rightarrow> world \<Rightarrow> gerr option \<times> world" where
  "worker_fail k j expected code cause w = (case time_now w of (now, w) \<Rightarrow>
     let j = failed_job j code cause now (now + wk_result_ttl k) in
     case error_of (within (changed (repo_fail j expected) (wk_codec k) ''failed'' updated_by now) w) of
       (e, w) \<Rightarrow> (errors_join (Some cause) e, w))"

text \<open>One call of the operating system or of the object store that only succeeds or fails.\<close>

definition attempt :: "world \<Rightarrow> gerr option \<times> world" where
  "attempt w = (case tick w of (f, w) \<Rightarrow> (map_option fault_err f, w))"

definition storage_put :: "string \<Rightarrow> string \<Rightarrow> world \<Rightarrow> gerr option \<times> world" where
  "storage_put key data w = (case tick w of
       (Some (Fault e), w) \<Rightarrow> (Some e, w)
     | (Some (Lost e), w) \<Rightarrow> (Some e, w\<lparr>objects := (objects w)(key \<mapsto> data)\<rparr>)
     | (None, w) \<Rightarrow> (None, w\<lparr>objects := (objects w)(key \<mapsto> data)\<rparr>))"

definition storage_delete :: "string \<Rightarrow> world \<Rightarrow> gerr option \<times> world" where
  "storage_delete key w = (case tick w of
       (Some (Fault e), w) \<Rightarrow> (Some e, w)
     | (Some (Lost e), w) \<Rightarrow> (Some e, w\<lparr>objects := (objects w)(key := None)\<rparr>)
     | (None, w) \<Rightarrow> (None, w\<lparr>objects := (objects w)(key := None)\<rparr>))"

definition close_and_upload :: "string \<Rightarrow> string \<Rightarrow> world \<Rightarrow> gerr option \<times> world" where
  "close_and_upload data key w =
     (case attempt w of (Some e, w) \<Rightarrow> (Some e, w) | (None, w) \<Rightarrow>
      (case attempt w of (Some e, w) \<Rightarrow> (Some e, w) | (None, w) \<Rightarrow>
       (case storage_put key data w of (Some e, w) \<Rightarrow> (Some e, w) | (None, w) \<Rightarrow> attempt w)))"

section \<open>Validate\<close>

record validation =
  va_world :: world
  va_report :: csv_writer
  va_normalized :: bounded_writer
  va_valid :: int
  va_invalid :: int

fun report_issues :: "int \<Rightarrow> int \<Rightarrow> row_issue list \<Rightarrow> int set \<Rightarrow> csv_writer \<Rightarrow> (gerr + int set) \<times> csv_writer" where
  "report_issues first_row last_row [] invalid report = (Inr invalid, report)"
| "report_issues first_row last_row (i # issues) invalid report =
     (if ri_row_number i < first_row \<or> ri_row_number i > last_row \<or> trim_space (ri_code i) = []
      then (Inl (Sentinel ErrInvalidProviderResponse), report)
      else case csv_write [itoa (ri_row_number i), ri_column_key i, ri_code i, ri_message i] report of
        (Some e, report) \<Rightarrow> (Inl e, report)
      | (None, report) \<Rightarrow> report_issues first_row last_row issues (insert (ri_row_number i) invalid) report)"

fun write_normalized :: "(import_row \<Rightarrow> gerr + string) \<Rightarrow> import_row list \<Rightarrow> bounded_writer \<Rightarrow> gerr option \<times> bounded_writer" where
  "write_normalized encode [] out = (None, out)"
| "write_normalized encode (row # rows) out = (case encode row of
       Inl e \<Rightarrow> (Some (Wrapped ''encode normalized row: '' e []), out)
     | Inr encoded \<Rightarrow> (case bounded_write (encoded @ [CHR 0x0A]) out of
         ((_, Some e), out) \<Rightarrow> (Some e, out)
       | ((_, None), out) \<Rightarrow> write_normalized encode rows out))"

definition validate_request :: "job \<Rightarrow> parsed_batch \<Rightarrow> validate_batch_request" where
  "validate_request j b = \<lparr>vb_tenant_id = tenant_id j, vb_application_id = application_id j,
     vb_dataset_code = dataset_code j, vb_job_id = job_id j, vb_batch_number = pb_number b,
     vb_first_row_number = pb_first_row_number b, vb_rows = pb_rows b\<rparr>"

definition validate_batch :: "'env worker \<Rightarrow> job \<Rightarrow> parsed_batch \<Rightarrow> validation \<Rightarrow> gerr option \<times> validation" where
  "validate_batch k j b s = (case ask (wk_validate k (validate_request j b)) (va_world s) of
       (Inl e, w) \<Rightarrow> (Some e, s\<lparr>va_world := w\<rparr>)
     | (Inr result, w) \<Rightarrow>
         let s = s\<lparr>va_world := w\<rparr>; first = pb_first_row_number b;
           last_row = first + int (length (pb_rows b)) - 1 in
         (case report_issues first last_row (vr_issues result) {} (va_report s) of
            (Inl e, report) \<Rightarrow> (Some e, s\<lparr>va_report := report\<rparr>)
          | (Inr invalid, report) \<Rightarrow>
              let s = s\<lparr>va_report := report\<rparr>; batch_invalid = int (card invalid);
                batch_valid = int (length (pb_rows b)) - batch_invalid in
              if int (length (vr_normalized_rows result)) \<noteq> batch_valid
              then (Some (Sentinel ErrInvalidProviderResponse), s)
              else (case write_normalized (wk_encode k) (vr_normalized_rows result) (va_normalized s) of
                  (Some e, out) \<Rightarrow> (Some e, s\<lparr>va_normalized := out\<rparr>)
                | (None, out) \<Rightarrow> (None, s\<lparr>va_normalized := out, va_valid := va_valid s + batch_valid,
                    va_invalid := va_invalid s + batch_invalid\<rparr>))))"

definition temp_file :: "'env worker \<Rightarrow> world \<Rightarrow> bounded_writer" where
  "temp_file k w = \<lparr>bw_writer = \<lparr>fw_data = [], fw_room = fst (wk_disk k w), fw_full = snd (wk_disk k w)\<rparr>,
     bw_limit = wk_max_bytes k, bw_written = 0\<rparr>"

definition report_header :: "string list" where
  "report_header = [''row_number'', ''column'', ''code'', ''message'']"

text \<open>The run from the claimed job to the uploaded results: the error code and the error, or the
  number of rows with those that are valid and invalid.\<close>

definition upload_results :: "job \<Rightarrow> validation \<Rightarrow> world \<Rightarrow> ((string \<times> gerr) + unit) \<times> world" where
  "upload_results j s w =
     (case close_and_upload (fw_data (bw_writer (va_normalized s))) (normalized_object_key j) w of
        (Some e, w) \<Rightarrow> (Inl (''normalized_upload_failed'', e), w)
      | (None, w) \<Rightarrow>
          if va_invalid s > 0
          then (case close_and_upload (fw_data (bw_writer (cw_sink (va_report s)))) (error_report_object_key j) w of
                  (Some e, w) \<Rightarrow> (Inl (''error_report_upload_failed'', e), w)
                | (None, w) \<Rightarrow> (Inr (), w))
          else (case attempt w of
                  (Some e, w) \<Rightarrow> (Inl (''temporary_storage_unavailable'', e), w)
                | (None, w) \<Rightarrow> (Inr (), w)))"

text \<open>\<open>if err == nil { err = next }\<close>.\<close>

definition or_else :: "gerr option \<Rightarrow> gerr option \<Rightarrow> gerr option" where
  "or_else e f = (case e of None \<Rightarrow> f | Some x \<Rightarrow> Some x)"

definition validate_source :: "'env worker \<Rightarrow> job \<Rightarrow> source \<Rightarrow> csv_writer \<Rightarrow> bounded_writer \<Rightarrow> world \<Rightarrow>
    ((string \<times> gerr) + int \<times> int \<times> int) \<times> world" where
  "validate_source k j src report normalized w =
     (case stream_rows (wk_decoders k) src (file_format j) (wk_batch_size k) (wk_max_rows k) (wk_max_bytes k)
            (wk_ctx k w) (validate_batch k j)
            \<lparr>va_world = w, va_report = report, va_normalized = normalized, va_valid = 0, va_invalid = 0\<rparr> of
        (parsed, s) \<Rightarrow>
          let s = s\<lparr>va_report := csv_flush (va_report s)\<rparr>;
            e = (case parsed of Inl e \<Rightarrow> Some e | Inr _ \<Rightarrow> None);
            e = or_else e (cw_err (va_report s)) in
          case attempt (va_world s) of (close_err, w) \<Rightarrow>
          let e = or_else e close_err;
            e = or_else e (case parsed of Inl _ \<Rightarrow> None | Inr res \<Rightarrow>
              if equal_fold (ps_checksum res) (source_checksum j) then None
              else Some (ErrText ''source checksum mismatch'')) in
          (case (e, parsed) of
             (None, Inr res) \<Rightarrow> (case upload_results j s w of
                 (Inl f, w) \<Rightarrow> (Inl f, w)
               | (Inr _, w) \<Rightarrow> (Inr (ps_rows res, va_valid s, va_invalid s), w))
           | (Some err, _) \<Rightarrow> (Inl (validation_error_code err, err), w)
           | (None, Inl err) \<Rightarrow> (Inl (validation_error_code err, err), w)))"

definition validate_run :: "'env worker \<Rightarrow> job \<Rightarrow> world \<Rightarrow> ((string \<times> gerr) + int \<times> int \<times> int) \<times> world" where
  "validate_run k j w = (case ask (wk_open k (source_object_key j)) w of
       (Inl e, w) \<Rightarrow> (Inl (''source_unavailable'', e), w)
     | (Inr src, w) \<Rightarrow> (case attempt w of
         (Some e, w) \<Rightarrow> (Inl (''temporary_storage_unavailable'', e), w)
       | (None, w) \<Rightarrow> (case attempt w of
           (Some e, w) \<Rightarrow> (Inl (''temporary_storage_unavailable'', e), w)
         | (None, w) \<Rightarrow>
           (case csv_write report_header \<lparr>cw_buffer = [], cw_sink = temp_file k w, cw_err = None\<rparr> of
             (Some e, report) \<Rightarrow> (Inl (''temporary_storage_unavailable'', e), w)
           | (None, report) \<Rightarrow>
             (case ask (wk_open_validation k (provider_service j) (tenant_id j) (application_id j) (dataset_code j)) w of
                (Some e, w) \<Rightarrow> (Inl (''provider_unavailable'', e), w)
              | (None, w) \<Rightarrow> validate_source k j src report (temp_file k w) w)))))"

definition validated_job :: "job \<Rightarrow> int \<Rightarrow> int \<Rightarrow> int \<Rightarrow> time \<Rightarrow> time \<Rightarrow> job" where
  "validated_job j rows valid invalid now expires = j\<lparr>total_rows := rows, valid_rows := valid,
     invalid_rows := invalid, status := (if invalid > 0 then StatusValidationFailed else StatusReady),
     completed_at := Some now, result_expires_at := Some expires, updated_at := now,
     updated_by := ''import-worker''\<rparr>"

definition validate_claimed :: "'env worker \<Rightarrow> job \<Rightarrow> world \<Rightarrow> gerr option \<times> world" where
  "validate_claimed k j w = (case validate_run k j w of
      (Inl (code, e), w) \<Rightarrow> worker_fail k j StatusValidating code e w
    | (Inr (rows, valid, invalid), w) \<Rightarrow> (case time_now w of (completed, w) \<Rightarrow>
        let expires = completed + wk_result_ttl k;
          change = (if invalid > 0 then ''validation-failed'' else ''validated'');
          j = validated_job j rows valid invalid completed expires in
        error_of (within (changed (repo_finish_validation j) (wk_codec k) change updated_by completed) w)))"

definition worker_validate :: "'env worker \<Rightarrow> string \<Rightarrow> string \<Rightarrow> string \<Rightarrow> world \<Rightarrow> gerr option \<times> world" where
  "worker_validate k t a i w = (case time_now w of (now, w) \<Rightarrow>
     (case repo_claim_validation t a i now w of
        (Inl e, w) \<Rightarrow> (Some e, w)
      | (Inr None, w) \<Rightarrow> (None, w)
      | (Inr (Some j), w) \<Rightarrow> validate_claimed k j w))"

section \<open>Apply\<close>

definition apply_request :: "job \<Rightarrow> parsed_batch \<Rightarrow> apply_batch_request" where
  "apply_request j b = \<lparr>ab_tenant_id = tenant_id j, ab_application_id = application_id j,
     ab_dataset_code = dataset_code j, ab_job_id = job_id j,
     ab_idempotency_key = job_id j @ '':'' @ itoa (pb_number b), ab_batch_number = pb_number b,
     ab_rows = pb_rows b\<rparr>"

definition apply_batch :: "'env worker \<Rightarrow> job \<Rightarrow> parsed_batch \<Rightarrow> int \<times> world \<Rightarrow> gerr option \<times> int \<times> world" where
  "apply_batch k j b s = (case s of (applied, w) \<Rightarrow> (case ask (wk_apply k (apply_request j b)) w of
       (Inl e, w) \<Rightarrow> (Some e, applied, w)
     | (Inr result, w) \<Rightarrow>
         if ar_issues result \<noteq> [] \<or> ar_applied_rows result \<noteq> int (length (pb_rows b))
         then (Some (Sentinel ErrInvalidProviderResponse), applied, w)
         else (None, applied + ar_applied_rows result, w)))"

definition apply_run :: "'env worker \<Rightarrow> job \<Rightarrow> world \<Rightarrow> ((string \<times> gerr) + int) \<times> world" where
  "apply_run k j w = (case ask (wk_open k (normalized_object_key j)) w of
       (Inl e, w) \<Rightarrow> (Inl (''normalized_source_unavailable'', e), w)
     | (Inr src, w) \<Rightarrow>
       (case ask (wk_open_apply k (provider_service j) (tenant_id j) (application_id j) (dataset_code j)) w of
          (Some e, w) \<Rightarrow> (Inl (''provider_unavailable'', e), w)
        | (None, w) \<Rightarrow>
          (case stream_rows (wk_decoders k) src FormatJSONL (wk_batch_size k) (wk_max_rows k) (wk_max_bytes k)
                 (wk_ctx k w) (apply_batch k j) (0, w) of
             (Inl e, (applied, w)) \<Rightarrow> (Inl (apply_error_code e, e), w)
           | (Inr _, (applied, w)) \<Rightarrow> (Inr applied, w))))"

definition applied_job :: "job \<Rightarrow> int \<Rightarrow> time \<Rightarrow> time \<Rightarrow> job" where
  "applied_job j applied now expires = j\<lparr>applied_rows := applied, completed_at := Some now,
     result_expires_at := Some expires, updated_at := now, updated_by := ''import-worker''\<rparr>"

definition apply_claimed :: "'env worker \<Rightarrow> job \<Rightarrow> world \<Rightarrow> gerr option \<times> world" where
  "apply_claimed k j w = (case apply_run k j w of
      (Inl (code, e), w) \<Rightarrow> worker_fail k j StatusApplying code e w
    | (Inr applied, w) \<Rightarrow> (case time_now w of (completed, w) \<Rightarrow>
        let j = applied_job j applied completed (completed + wk_result_ttl k) in
        error_of (within (changed (repo_finish_apply j) (wk_codec k) ''succeeded'' updated_by completed) w)))"

definition worker_apply :: "'env worker \<Rightarrow> string \<Rightarrow> string \<Rightarrow> string \<Rightarrow> world \<Rightarrow> gerr option \<times> world" where
  "worker_apply k t a i w = (case time_now w of (now, w) \<Rightarrow>
     (case repo_claim_apply t a i now w of
        (Inl e, w) \<Rightarrow> (Some e, w)
      | (Inr None, w) \<Rightarrow> (None, w)
      | (Inr (Some j), w) \<Rightarrow> apply_claimed k j w))"

section \<open>Cleaning\<close>

fun delete_objects :: "string list \<Rightarrow> world \<Rightarrow> gerr option \<times> world" where
  "delete_objects [] w = (None, w)"
| "delete_objects (key # keys) w = (if key = [] then delete_objects keys w
     else case storage_delete key w of (Some e, w) \<Rightarrow> (Some e, w) | (None, w) \<Rightarrow> delete_objects keys w)"

fun cleanup_jobs :: "'env worker \<Rightarrow> time \<Rightarrow> job list \<Rightarrow> nat \<Rightarrow> world \<Rightarrow> (nat \<times> gerr option) \<times> world" where
  "cleanup_jobs k now [] cleaned w = ((cleaned, None), w)"
| "cleanup_jobs k now (j # js) cleaned w =
     (case delete_objects [source_object_key j, normalized_object_key j, error_report_object_key j] w of
        (Some e, w) \<Rightarrow> ((cleaned, Some e), w)
      | (None, w) \<Rightarrow>
          let j = j\<lparr>updated_at := now, updated_by := ''import-cleaner''\<rparr> in
          (case error_of (within (changed (repo_expire j now) (wk_codec k) ''expired'' updated_by now) w) of
             (None, w) \<Rightarrow> cleanup_jobs k now js (cleaned + 1) w
           | (Some e, w) \<Rightarrow> if err_is e ErrStaleVersion then cleanup_jobs k now js cleaned w
               else ((cleaned, Some e), w)))"

definition worker_cleanup_expired :: "'env worker \<Rightarrow> int \<Rightarrow> world \<Rightarrow> (nat \<times> gerr option) \<times> world" where
  "worker_cleanup_expired k limit w =
     (if limit < 1 then ((0, Some (ErrText ''cleanup limit must be positive'')), w)
      else case time_now w of (now, w) \<Rightarrow> (case repo_list_expired now limit w of
          (Inl e, w) \<Rightarrow> ((0, Some e), w)
        | (Inr js, w) \<Rightarrow> cleanup_jobs k now js 0 w))"

fun purge_jobs :: "time \<Rightarrow> job list \<Rightarrow> nat \<Rightarrow> world \<Rightarrow> (nat \<times> gerr option) \<times> world" where
  "purge_jobs before [] purged w = ((purged, None), w)"
| "purge_jobs before (j # js) purged w =
     (case within (repo_delete_expired_metadata j before) w of
        (Inl e, w) \<Rightarrow> ((purged, Some e), w)
      | (Inr deleted, w) \<Rightarrow> purge_jobs before js (if deleted then purged + 1 else purged) w)"

definition worker_purge_expired_metadata :: "duration \<Rightarrow> int \<Rightarrow> world \<Rightarrow> (nat \<times> gerr option) \<times> world" where
  "worker_purge_expired_metadata retention limit w =
     (if retention \<le> 0 \<or> limit \<le> 0
      then ((0, Some (ErrText ''metadata retention and cleanup limit must be positive'')), w)
      else case time_now w of (now, w) \<Rightarrow> (case repo_list_expired_metadata_before (now - retention) limit w of
          (Inl e, w) \<Rightarrow> ((0, Some e), w)
        | (Inr js, w) \<Rightarrow> purge_jobs (now - retention) js 0 w))"

end
