(* ===== verification/Worker_Correct.thy ===== *)
theory Worker_Correct
  imports Worker
begin

text \<open>
  What the worker does: a run touches the tables only in its claim and in its last transaction,
  the counts it reports agree with the file, the outputs stay within their limit, a job that has
  been claimed is not run again, and every path of the worker is a path of \<open>table_step\<close> with at most
  one event.
\<close>

section \<open>Calls that leave the tables alone\<close>

lemma post_attempt [wp]:
  "(\<And>e v. tables v = tables w \<Longrightarrow> objects v = objects w \<Longrightarrow> Q (Some e) v) \<Longrightarrow>
   (\<And>v. tables v = tables w \<Longrightarrow> objects v = objects w \<Longrightarrow> Q None v) \<Longrightarrow> post (attempt w) Q"
  by (cases "faults w (calls w)") (auto simp: attempt_def tick_def)

lemma post_storage_put [wp]:
  "(\<And>e v. tables v = tables w \<Longrightarrow> Q (Some e) v) \<Longrightarrow>
   (\<And>v. tables v = tables w \<Longrightarrow> objects v = (objects w)(key \<mapsto> data) \<Longrightarrow> Q None v) \<Longrightarrow>
   post (storage_put key data w) Q"
  by (auto simp: storage_put_def tick_def split: option.splits fault.splits)

lemma post_storage_delete [wp]:
  "(\<And>r v. tables v = tables w \<Longrightarrow> objects v = objects w \<or> objects v = (objects w)(key := None) \<Longrightarrow>
      (r = None \<longrightarrow> objects v = (objects w)(key := None)) \<Longrightarrow> Q r v) \<Longrightarrow>
   post (storage_delete key w) Q"
  by (auto simp: storage_delete_def tick_def split: option.splits fault.splits)

lemma post_close_and_upload [wp]:
  "(\<And>e v. tables v = tables w \<Longrightarrow> Q (Some e) v) \<Longrightarrow>
   (\<And>v. tables v = tables w \<Longrightarrow> objects v = (objects w)(key \<mapsto> data) \<Longrightarrow> Q None v) \<Longrightarrow>
   post (close_and_upload data key w) Q"
  unfolding close_and_upload_def by (intro wp) auto

lemma post_upload_results [wp]:
  "(\<And>e v. tables v = tables w \<Longrightarrow> Q (Inl e) v) \<Longrightarrow>
   (\<And>v. tables v = tables w \<Longrightarrow> objects v = (if 0 < va_invalid s
        then ((objects w)(normalized_object_key j \<mapsto> fw_data (bw_writer (va_normalized s))))
          (error_report_object_key j \<mapsto> fw_data (bw_writer (cw_sink (va_report s))))
        else (objects w)(normalized_object_key j \<mapsto> fw_data (bw_writer (va_normalized s)))) \<Longrightarrow> Q (Inr ()) v) \<Longrightarrow>
   post (upload_results j s w) Q"
  unfolding upload_results_def by (intro wp) auto

lemma delete_objects_tables: "delete_objects keys w = (r, w') \<Longrightarrow> tables w' = tables w"
proof (induction keys arbitrary: w)
  case (Cons key keys)
  obtain e w1 where d: "storage_delete key w = (e, w1)" by fastforce
  have "tables w1 = tables w" by (rule postD [OF post_storage_delete d]) simp
  with Cons d show ?case by (auto split: if_splits option.splits)
qed simp

section \<open>The consumers of batches\<close>

lemma consume_all_state:
  assumes "\<And>b s. P s \<Longrightarrow> P (snd (consume b s))" and "P s"
  shows "P (snd (consume_all consume bs s))"
  using assms(2)
proof (induction bs arbitrary: s)
  case (Cons b bs)
  obtain e s1 where c: "consume b s = (e, s1)" by fastforce
  with assms(1) [OF Cons.prems, of b] have "P s1" by simp
  with Cons.IH c show ?case by (cases e) auto
qed simp

lemma stream_rows_state:
  assumes "stream_rows dec src format n max_rows max_bytes ctx consume s = (r, s')"
    and "\<And>b s. P s \<Longrightarrow> P (snd (consume b s))" and "P s"
  shows "P s'"
proof (cases "n < 1 \<or> max_rows < 1 \<or> max_bytes < 1 \<or> format \<notin> {FormatCSV, FormatJSONL, FormatXLSX}")
  case True
  with stream_rows_refused [OF this, of dec src ctx consume s] assms(1,3) show ?thesis by auto
next
  case False
  then obtain bs where "snd (consume_all consume bs s) = s'"
    using stream_rows_batches [OF assms(1)] by fastforce
  with consume_all_state [of P consume s bs] assms(2,3) show ?thesis by simp
qed

text \<open>The provider's issues: every one names a row of the batch, and the rows named are counted
  once.\<close>

lemma report_issues_range:
  "report_issues lo hi issues invalid report = (Inr invalid', report') \<Longrightarrow>
   invalid' = invalid \<union> ri_row_number ` set issues
     \<and> (\<forall>i \<in> set issues. lo \<le> ri_row_number i \<and> ri_row_number i \<le> hi \<and> trim_space (ri_code i) \<noteq> [])"
  by (induction issues arbitrary: invalid report)
    (auto split: if_splits prod.splits option.splits)

text \<open>The rows of a file that a completed validation accounts for.\<close>

lemma validate_batch_world: "tables (va_world (snd (validate_batch k j b s))) = tables (va_world s)"
  "objects (va_world (snd (validate_batch k j b s))) = objects (va_world s)"
  by (auto simp: validate_batch_def ask_def Let_def split: sum.splits prod.splits option.splits)

definition encoded_rows :: "(import_row \<Rightarrow> gerr + string) \<Rightarrow> import_row list \<Rightarrow> string \<Rightarrow> bool" where
  "encoded_rows encode rows data \<longleftrightarrow> (\<exists>lines. map encode rows = map Inr lines
     \<and> data = concat (map (\<lambda>l. l @ [CHR 0x0A]) lines))"

lemma encoded_rows_Nil [simp]: "encoded_rows encode [] []"
  by (simp add: encoded_rows_def)

lemma encoded_rows_append:
  assumes "encoded_rows encode xs a" and "encoded_rows encode ys b"
  shows "encoded_rows encode (xs @ ys) (a @ b)"
proof -
  from assms obtain l m where "map encode xs = map Inr l" "a = concat (map (\<lambda>l. l @ [CHR 0x0A]) l)"
    "map encode ys = map Inr m" "b = concat (map (\<lambda>l. l @ [CHR 0x0A]) m)"
    by (auto simp: encoded_rows_def)
  then show ?thesis unfolding encoded_rows_def by (intro exI [of _ "l @ m"]) simp
qed

lemma write_normalized_ok:
  assumes "write_normalized encode rows out = (None, out')" and "bw_inv out"
  shows "\<exists>d. fw_data (bw_writer out') = fw_data (bw_writer out) @ d \<and> encoded_rows encode rows d"
    and "bw_inv out'" and "bw_limit out' = bw_limit out"
  using assms
proof (induction rows arbitrary: out)
  case (Cons row rows)
  {
    case 1
    then obtain l n out1 where e: "encode row = Inr l" and b: "bounded_write (l @ [CHR 0x0A]) out = ((n, None), out1)"
      and r: "write_normalized encode rows out1 = (None, out')"
      by (auto split: sum.splits prod.splits option.splits)
    note bw = bounded_write_inv [OF 1(2) b]
    from bw(3) have "fw_data (bw_writer out1) = fw_data (bw_writer out) @ l @ [CHR 0x0A]" by auto
    moreover from Cons.IH(1) [OF r bw(1)] obtain d where
      "fw_data (bw_writer out') = fw_data (bw_writer out1) @ d" "encoded_rows encode rows d" by blast
    moreover have "encoded_rows encode [row] (l @ [CHR 0x0A])"
      using e by (auto simp: encoded_rows_def intro: exI [of _ "[l]"])
    ultimately show ?case
      using encoded_rows_append [of encode "[row]" "l @ [CHR 0x0A]" rows d] by auto
  next
    case 2
    then obtain l n out1 where b: "bounded_write (l @ [CHR 0x0A]) out = ((n, None), out1)"
      and r: "write_normalized encode rows out1 = (None, out')"
      by (auto split: sum.splits prod.splits option.splits)
    from Cons.IH(2) [OF r bounded_write_inv(1) [OF 2(2) b]] show ?case .
  next
    case 3
    then obtain l n out1 where b: "bounded_write (l @ [CHR 0x0A]) out = ((n, None), out1)"
      and r: "write_normalized encode rows out1 = (None, out')"
      by (auto split: sum.splits prod.splits option.splits)
    from Cons.IH(3) [OF r bounded_write_inv(1) [OF 3(2) b]] bounded_write_inv(2) [OF 3(2) b]
    show ?case by simp
  }
qed simp_all

text \<open>What the closure of \<open>Validate\<close> keeps, batch by batch.\<close>

definition va_inv :: "'env worker \<Rightarrow> int \<Rightarrow> validation \<Rightarrow> bool" where
  "va_inv k n s \<longleftrightarrow> 0 \<le> va_valid s \<and> 0 \<le> va_invalid s \<and> va_valid s + va_invalid s = n
     \<and> bw_inv (va_normalized s) \<and> bw_limit (va_normalized s) = wk_max_bytes k
     \<and> (\<exists>rows. encoded_rows (wk_encode k) rows (fw_data (bw_writer (va_normalized s)))
          \<and> int (length rows) = va_valid s)"

lemma validate_batch_inv:
  assumes "validate_batch k j b s = (None, s')" and "va_inv k n s"
  shows "va_inv k (n + int (length (pb_rows b))) s'"
proof -
  obtain result w where a: "ask (wk_validate k (validate_request j b)) (va_world s) = (Inr result, w)"
    using assms(1) by (cases "fst (ask (wk_validate k (validate_request j b)) (va_world s))")
      (auto simp: validate_batch_def split: prod.splits)
  let ?first = "pb_first_row_number b"
  let ?last = "?first + int (length (pb_rows b)) - 1"
  obtain invalid report where r: "report_issues ?first ?last (vr_issues result) {} (va_report s) = (Inr invalid, report)"
    using assms(1) a by (cases "fst (report_issues ?first ?last (vr_issues result) {} (va_report s))")
      (auto simp: validate_batch_def Let_def split: prod.splits)
  obtain out where len: "int (length (vr_normalized_rows result)) = int (length (pb_rows b)) - int (card invalid)"
    and wr: "write_normalized (wk_encode k) (vr_normalized_rows result) (va_normalized s) = (None, out)"
    and s': "s' = s\<lparr>va_world := w, va_report := report, va_normalized := out,
        va_valid := va_valid s + (int (length (pb_rows b)) - int (card invalid)),
        va_invalid := va_invalid s + int (card invalid)\<rparr>"
    using assms(1) a r by (auto simp: validate_batch_def Let_def split: if_splits prod.splits option.splits)
  from assms(2) obtain rows where inv: "bw_inv (va_normalized s)" "bw_limit (va_normalized s) = wk_max_bytes k"
    and rows: "encoded_rows (wk_encode k) rows (fw_data (bw_writer (va_normalized s)))"
    "int (length rows) = va_valid s" by (auto simp: va_inv_def)
  from write_normalized_ok [OF wr inv(1)] obtain d where
    "fw_data (bw_writer out) = fw_data (bw_writer (va_normalized s)) @ d"
    "encoded_rows (wk_encode k) (vr_normalized_rows result) d" by blast
  with rows encoded_rows_append have
    enc: "encoded_rows (wk_encode k) (rows @ vr_normalized_rows result) (fw_data (bw_writer out))" by metis
  have "int (card invalid) \<le> int (length (pb_rows b))" using len by linarith
  with assms(2) write_normalized_ok(2,3) [OF wr inv(1)] inv enc rows len show ?thesis
    unfolding va_inv_def s'
    by (auto intro!: exI [of _ "rows @ vr_normalized_rows result"])
qed

lemma validate_all_inv:
  assumes "consume_all (validate_batch k j) bs s = (None, s')" and "va_inv k n s"
  shows "va_inv k (n + row_count bs) s'"
  using assms
proof (induction bs arbitrary: s n)
  case (Cons b bs)
  then obtain s1 where b: "validate_batch k j b s = (None, s1)"
    and r: "consume_all (validate_batch k j) bs s1 = (None, s')"
    by (auto split: prod.splits option.splits)
  from Cons.IH [OF r validate_batch_inv [OF b Cons.prems(2)]] show ?case by (simp add: add.assoc)
qed simp

section \<open>The runs\<close>

text \<open>What a completed validation says of the source that it read: it could be read to its end,
  its checksum is the one the client announced, every row is counted once as valid or invalid,
  and the normalized object holds one line per valid row.\<close>

definition validated_from :: "'env worker \<Rightarrow> job \<Rightarrow> source \<Rightarrow> int \<Rightarrow> int \<Rightarrow> int \<Rightarrow> bool" where
  "validated_from k j src rows valid invalid \<longleftrightarrow>
     (let file = file_rows (wk_decoders k) src (file_format j) (wk_max_bytes k) in
        snd file = None \<and> rows = int (length (fst file)))
     \<and> rows \<le> wk_max_rows k \<and> 0 \<le> valid \<and> 0 \<le> invalid \<and> rows = valid + invalid
     \<and> equal_fold (dec_sha256_hex (wk_decoders k) (delivered src (wk_max_bytes k))) (source_checksum j)
     \<and> read_whole (wk_decoders k) src (wk_max_bytes k)"

definition normalized_stored :: "'env worker \<Rightarrow> job \<Rightarrow> int \<Rightarrow> world \<Rightarrow> bool" where
  "normalized_stored k j valid w \<longleftrightarrow> (\<exists>rows data. objects w (normalized_object_key j) = Some data
     \<and> encoded_rows (wk_encode k) rows data \<and> int (length rows) = valid
     \<and> int (length data) \<le> wk_max_bytes k)"

lemma validate_source_spec:
  assumes "validate_source k j src report (temp_file k w0) w = (r, w')"
  shows "tables w' = tables w"
    and "r = Inr (rows, valid, invalid) \<Longrightarrow> validated_from k j src rows valid invalid
      \<and> (invalid = 0 \<or> error_report_object_key j \<noteq> normalized_object_key j \<longrightarrow> normalized_stored k j valid w')"
proof -
  let ?start = "\<lparr>va_world = w, va_report = report, va_normalized = temp_file k w0, va_valid = 0, va_invalid = 0\<rparr>"
  let ?P = "\<lambda>s. tables (va_world s) = tables w"
  obtain parsed s where st: "stream_rows (wk_decoders k) src (file_format j) (wk_batch_size k) (wk_max_rows k)
      (wk_max_bytes k) (wk_ctx k w) (validate_batch k j) ?start = (parsed, s)" by fastforce
  have P: "?P s"
    using stream_rows_state [OF st, of ?P] by (simp add: validate_batch_world)
  let ?s = "s\<lparr>va_report := csv_flush (va_report s)\<rparr>"
  let ?e = "or_else (case parsed of Inl e \<Rightarrow> Some e | Inr _ \<Rightarrow> None) (cw_err (va_report ?s))"
  obtain ce w1 where at: "attempt (va_world s) = (ce, w1)" by fastforce
  have t1: "tables w1 = tables w"
    by (rule postD [OF _ at]) (rule post_attempt; simp add: P)
  let ?err = "or_else (or_else ?e ce) (case parsed of Inl _ \<Rightarrow> None | Inr res \<Rightarrow>
      if equal_fold (ps_checksum res) (source_checksum j) then None
      else Some (ErrText ''source checksum mismatch''))"
  have run: "(case (?err, parsed) of
             (None, Inr res) \<Rightarrow> (case upload_results j ?s w1 of
                 (Inl f, w) \<Rightarrow> (Inl f, w)
               | (Inr _, w) \<Rightarrow> (Inr (ps_rows res, va_valid ?s, va_invalid ?s), w))
           | (Some err, _) \<Rightarrow> (Inl (validation_error_code err, err), w1)
           | (None, Inl err) \<Rightarrow> (Inl (validation_error_code err, err), w1)) = (r, w')"
    using assms by (simp add: validate_source_def st at Let_def)
  have up: "post (upload_results j ?s w1) (\<lambda>u v. tables v = tables w \<and> (u = Inr () \<longrightarrow>
      objects v = (if 0 < va_invalid s
        then ((objects w1)(normalized_object_key j \<mapsto> fw_data (bw_writer (va_normalized s))))
          (error_report_object_key j \<mapsto> fw_data (bw_writer (cw_sink (va_report ?s))))
        else (objects w1)(normalized_object_key j \<mapsto> fw_data (bw_writer (va_normalized s))))))"
    by (rule post_upload_results) (auto simp: t1)
  obtain u w2 where u: "upload_results j ?s w1 = (u, w2)" by fastforce
  note up' = postD [OF up u]
  show "tables w' = tables w"
    using run u up' t1 by (auto split: option.splits sum.splits)
  assume r: "r = Inr (rows, valid, invalid)"
  with run u obtain res where ok: "?err = None" "parsed = Inr res" "u = Inr ()" "w' = w2"
    and res: "rows = ps_rows res" "valid = va_valid s" "invalid = va_invalid s"
    by (auto split: option.splits sum.splits)
  have sum: "equal_fold (ps_checksum res) (source_checksum j)"
    using ok(1,2) by (auto simp: or_else_def split: option.splits if_splits)
  note pos = stream_rows_positive [OF st [unfolded ok(2)]]
  note good = stream_rows_ok [OF st [unfolded ok(2)]]
  let ?rows = "fst (file_rows (wk_decoders k) src (file_format j) (wk_max_bytes k))"
  have count: "row_count (batches_from 0 (nat (wk_batch_size k)) ?rows) = rows"
    using pos by (simp add: row_count_batches res(1) good(4))
  have "va_inv k 0 ?start"
    using pos by (auto simp: va_inv_def temp_file_def bw_inv_def intro: exI [of _ "[]"])
  from validate_all_inv [OF good(2) this] count have inv: "va_inv k rows s" by simp
  have "validated_from k j src rows valid invalid"
    using inv good sum res stream_rows_whole [OF st [unfolded ok(2)]]
    by (auto simp: validated_from_def va_inv_def Let_def)
  moreover have "normalized_stored k j valid w'"
    if "invalid = 0 \<or> error_report_object_key j \<noteq> normalized_object_key j"
    using inv up' ok res that
    by (auto simp: normalized_stored_def va_inv_def bw_inv_def)
  ultimately show "validated_from k j src rows valid invalid
      \<and> (invalid = 0 \<or> error_report_object_key j \<noteq> normalized_object_key j \<longrightarrow> normalized_stored k j valid w')"
    by blast
qed

lemma post_validate_source [wp]:
  assumes "\<And>r v. tables v = tables w \<Longrightarrow> (\<And>rows valid invalid. r = Inr (rows, valid, invalid) \<Longrightarrow>
      validated_from k j src rows valid invalid
      \<and> (invalid = 0 \<or> error_report_object_key j \<noteq> normalized_object_key j \<longrightarrow> normalized_stored k j valid v)) \<Longrightarrow>
      Q r v"
  shows "post (validate_source k j src report (temp_file k w0) w) Q"
proof (rule postI)
  fix r v assume "validate_source k j src report (temp_file k w0) w = (r, v)"
  note spec = validate_source_spec [OF this]
  show "Q r v" using spec(1) by (rule assms) (rule spec(2))
qed

lemma post_csv_write [wp]: "(\<And>r w'. Q r w') \<Longrightarrow> post (csv_write fs report) Q"
  by (rule postI) blast

lemma validate_run_spec:
  "post (validate_run k j w) (\<lambda>r w'. tables w' = tables w \<and> (\<forall>rows valid invalid. r = Inr (rows, valid, invalid) \<longrightarrow>
     (\<exists>src v. wk_open k (source_object_key j) v = Inr src \<and> validated_from k j src rows valid invalid)
     \<and> (invalid = 0 \<or> error_report_object_key j \<noteq> normalized_object_key j \<longrightarrow> normalized_stored k j valid w')))"
  unfolding validate_run_def by (intro wp) auto

section \<open>Applying\<close>

text \<open>A completed application: every row of the normalized object was sent, batch by batch, and
  the provider reported each batch as applied in full.\<close>

lemma apply_batch_ok:
  "apply_batch k j b (applied, w) = (None, applied', w') \<Longrightarrow>
    applied' = applied + int (length (pb_rows b))
    \<and> (\<exists>result. wk_apply k (apply_request j b) w = Inr result \<and> ar_issues result = []
         \<and> ar_applied_rows result = int (length (pb_rows b)))"
  by (auto simp: apply_batch_def ask_def split: sum.splits if_splits)

lemma apply_all_ok:
  "consume_all (apply_batch k j) bs (applied, w) = (None, applied', w') \<Longrightarrow>
    applied' = applied + row_count bs
    \<and> (\<forall>b \<in> set bs. \<exists>v result. wk_apply k (apply_request j b) v = Inr result \<and> ar_issues result = []
         \<and> ar_applied_rows result = int (length (pb_rows b)))"
proof (induction bs arbitrary: applied w)
  case (Cons b bs)
  obtain e a1 w1 where b: "apply_batch k j b (applied, w) = (e, a1, w1)" by (metis prod_cases3)
  with Cons.prems have e: "e = None" and r: "consume_all (apply_batch k j) bs (a1, w1) = (None, applied', w')"
    by (auto split: option.splits)
  with Cons.IH [OF r] apply_batch_ok [OF b [unfolded e]] show ?case by auto
qed simp

lemma apply_batch_world: "tables (snd (snd (apply_batch k j b s))) = tables (snd s)"
  "objects (snd (snd (apply_batch k j b s))) = objects (snd s)"
  by (auto simp: apply_batch_def ask_def split: sum.splits prod.splits)

definition applied_from :: "'env worker \<Rightarrow> job \<Rightarrow> source \<Rightarrow> int \<Rightarrow> bool" where
  "applied_from k j src applied \<longleftrightarrow>
     (let file = file_rows (wk_decoders k) src FormatJSONL (wk_max_bytes k);
          bs = batches_from 0 (nat (wk_batch_size k)) (fst file) in
        snd file = None \<and> applied = int (length (fst file)) \<and> applied \<le> wk_max_rows k
        \<and> (\<forall>b \<in> set bs. \<exists>v result. wk_apply k (apply_request j b) v = Inr result \<and> ar_issues result = []
             \<and> ar_applied_rows result = int (length (pb_rows b))))"

lemma post_apply_stream [wp]:
  assumes "\<And>e a v. tables v = tables w \<Longrightarrow> Q (Inl e) (a, v)"
    and "\<And>res a v. tables v = tables w \<Longrightarrow> applied_from k j src a \<Longrightarrow> Q (Inr res) (a, v)"
  shows "post (stream_rows (wk_decoders k) src FormatJSONL (wk_batch_size k) (wk_max_rows k) (wk_max_bytes k)
      ctx (apply_batch k j) (0, w)) Q"
proof (rule postI)
  fix r s' assume st: "stream_rows (wk_decoders k) src FormatJSONL (wk_batch_size k) (wk_max_rows k)
      (wk_max_bytes k) ctx (apply_batch k j) (0, w) = (r, s')"
  obtain a v where s': "s' = (a, v)" by fastforce
  have t: "tables v = tables w"
    using stream_rows_state [OF st, of "\<lambda>s. tables (snd s) = tables w"] s' by (simp add: apply_batch_world)
  show "Q r s'"
  proof (cases r)
    case (Inl e)
    with assms(1) t s' show ?thesis by simp
  next
    case (Inr res)
    note pos = stream_rows_positive [OF st [unfolded Inr]]
    note good = stream_rows_ok [OF st [unfolded Inr]]
    have "applied_from k j src a"
      using apply_all_ok [OF good(2) [unfolded s']] good(1,3) pos
      by (simp add: applied_from_def Let_def row_count_batches)
    with assms(2) t s' Inr show ?thesis by simp
  qed
qed

lemma apply_run_spec:
  "post (apply_run k j w) (\<lambda>r w'. tables w' = tables w \<and> (\<forall>applied. r = Inr applied \<longrightarrow>
     (\<exists>src v. wk_open k (normalized_object_key j) v = Inr src \<and> applied_from k j src applied)))"
  unfolding apply_run_def by (intro wp) auto

section \<open>Database calls leave the object store alone\<close>

lemma stmt_objects:
  assumes "\<And>v. objects (snd (f v)) = objects v" and "stmt f w = (r, w')"
  shows "objects w' = objects w"
proof -
  obtain x v where f: "f (w\<lparr>calls := Suc (calls w)\<rparr>) = (x, v)" by fastforce
  with assms(1) [of "w\<lparr>calls := Suc (calls w)\<rparr>"] have "objects v = objects w" by simp
  with assms(2) f show ?thesis
    by (auto simp: stmt_def tick_def split: if_splits option.splits fault.splits sum.splits)
qed

lemma exec_objects [simp]:
  "objects (snd (exec_update p f w)) = objects w" "objects (snd (query g w)) = objects w"
  "objects (snd (exec_insert_outbox row w)) = objects w" "objects (snd (exec_delete p w)) = objects w"
  by (simp_all add: exec_update_def query_def exec_insert_outbox_def exec_delete_def Let_def)

lemma rows_affected_objects: "rows_affected n w = (r, w') \<Longrightarrow> objects w' = objects w"
  by (auto simp: rows_affected_def tick_def split: option.splits)

lemma repo_get_objects: "repo_get t a i w = (r, w') \<Longrightarrow> objects w' = objects w"
  by (auto simp: repo_get_def get_one_def split: prod.splits sum.splits list.splits
      dest!: stmt_objects [rotated])

lemma after_update_objects: "after_update t a i (r, w) = (r', w') \<Longrightarrow> objects w' = objects w"
  by (auto simp: after_update_def split: sum.splits prod.splits if_splits
      dest!: rows_affected_objects repo_get_objects)

lemma add_event_objects: "add_event c j ch actor at w = (r, w') \<Longrightarrow> objects w' = objects w"
  by (auto simp: add_event_def and_then_def job_changed_event_def new_uuid_def repo_add_outbox_def Let_def
      split: prod.splits sum.splits dest!: stmt_objects [rotated])

lemma within_objects:
  assumes "\<And>v. objects (snd (fn v)) = objects v" and "within fn w = (r, w')"
  shows "objects w' = objects w"
proof -
  let ?v = "w\<lparr>calls := Suc (calls w), in_tx := True, aborted := False\<rparr>"
  obtain x v where f: "fn ?v = (x, v)" by fastforce
  with assms(1) [of ?v] have "objects v = objects w" by simp
  with assms(2) f show ?thesis
    by (auto simp: within_def tick_def split: if_splits option.splits fault.splits sum.splits)
qed

lemma changed_objects:
  assumes "\<And>v. objects (snd (update v)) = objects v"
  shows "objects (snd (changed update c ch actor at w)) = objects w"
proof -
  obtain r w1 where u: "update w = (r, w1)" by fastforce
  with assms [of w] have w1: "objects w1 = objects w" by simp
  show ?thesis
  proof (cases r)
    case (Inr j)
    obtain e w2 where "add_event c j ch (actor j) at w1 = (e, w2)" by fastforce
    with add_event_objects [OF this] u Inr w1 show ?thesis
      by (cases e) (simp_all add: changed_def)
  qed (use u w1 in \<open>simp add: changed_def\<close>)
qed

lemma update_objects: "objects (snd (after_update t a i (stmt (exec_update p f) w))) = objects w"
proof -
  obtain s w1 r w2 where s: "stmt (exec_update p f) w = (s, w1)" and "after_update t a i (s, w1) = (r, w2)"
    by fastforce
  with after_update_objects [OF this(2)] stmt_objects [OF _ s] show ?thesis by simp
qed

lemma finish_objects:
  "within (changed (repo_finish_validation v) c ch actor at) w = (r, w') \<Longrightarrow> objects w' = objects w"
  "within (changed (repo_finish_apply v) c ch actor at) w = (r, w') \<Longrightarrow> objects w' = objects w"
  "within (changed (repo_fail v s) c ch actor at) w = (r, w') \<Longrightarrow> objects w' = objects w"
  "within (changed (repo_expire v now) c ch actor at) w = (r, w') \<Longrightarrow> objects w' = objects w"
  by (erule within_objects [rotated], rule changed_objects,
      simp add: repo_finish_validation_def repo_finish_apply_def repo_fail_def repo_expire_def update_objects)+

section \<open>The claim\<close>

lemma claim_tables:
  assumes "repo_claim t a i from to now w = (r, w')"
  shows "outbox w' = outbox w"
    and "jobs w' = jobs w \<or> jobs w' = update_where (claim_where t a i from) (claim_set to now) (jobs w)
      \<and> constraints_ok (jobs w')"
proof -
  obtain s w1 where s: "stmt (exec_update (claim_where t a i from) (claim_set to now)) w = (s, w1)" by fastforce
  from assms s have "tables w' = tables w1"
    by (auto simp: repo_claim_def split: sum.splits prod.splits if_splits
        dest!: rows_affected_tables repo_get_tables)
  with stmt_update_tables [OF s] show "outbox w' = outbox w"
    "jobs w' = jobs w \<or> jobs w' = update_where (claim_where t a i from) (claim_set to now) (jobs w)
      \<and> constraints_ok (jobs w')" by (auto simp: tables_def)
qed

lemma claim_ok:
  assumes "repo_claim t a i from to now w = (Inr (Some j), w')"
  obtains j0 where "find (is_key t a i) (jobs w) = Some j0" "status j0 = from" "j = claim_set to now j0"
    "jobs w' = update_where (claim_where t a i from) (claim_set to now) (jobs w)"
    "find (is_key t a i) (jobs w') = Some j" "constraints_ok (jobs w')"
proof -
  from assms have "after_update t a i (stmt (exec_update (claim_where t a i from) (claim_set to now)) w) = (Inr j, w')"
    by (auto simp: repo_claim_def after_update_def split: sum.splits prod.splits if_splits)
  then obtain j0 where j0: "find (is_key t a i) (jobs w) = Some j0" "claim_where t a i from j0" "j = claim_set to now j0"
    "jobs w' = update_where (claim_where t a i from) (claim_set to now) (jobs w)" "constraints_ok (jobs w')"
    using claim_up.update_ok [of t a i "((t, a, i), from, to, now)" w j w'] by auto
  then have "find (is_key t a i) (jobs w') = Some j"
    using claim_up.find_same [of t a i "((t, a, i), from, to, now)" "jobs w"] by simp
  with j0 that show thesis by (auto simp: claim_where_def)
qed

text \<open>A job that does not wait is not claimed: nothing happens, and there is nothing to do or an
  error of the database.\<close>

lemma claim_refused:
  assumes "find (is_key t a i) (jobs w) = None \<or> (\<exists>j. find (is_key t a i) (jobs w) = Some j \<and> status j \<noteq> from)"
    and "distinct (map job_id (jobs w))" and "repo_claim t a i from to now w = (r, w')"
  shows "tables w' = tables w" and "objects w' = objects w" and "\<nexists>j. r = Inr (Some j)"
proof -
  have none: "filter (claim_where t a i from) (jobs w) = []"
  proof (rule ccontr)
    assume "filter (claim_where t a i from) (jobs w) \<noteq> []"
    then obtain x where x: "x \<in> set (jobs w)" "is_key t a i x" "status x = from"
      by (auto simp: filter_empty_conv claim_where_def)
    with assms(1) obtain j where "find (is_key t a i) (jobs w) = Some j" "status j \<noteq> from"
      by (auto simp: find_None_iff)
    with find_SomeD [OF this(1)] x assms(2) show False
      by (auto simp: is_key_def distinct_map inj_on_def)
  qed
  then have same: "update_where (claim_where t a i from) (claim_set to now) (jobs w) = jobs w"
    by (rule update_where_none)
  with claim_tables [OF assms(3)] show "tables w' = tables w" by (auto simp: tables_def)
  show "\<nexists>j. r = Inr (Some j)"
  proof
    assume "\<exists>j. r = Inr (Some j)"
    with assms(3) obtain j where "repo_claim t a i from to now w = (Inr (Some j), w')" by blast
    then obtain j0 where "find (is_key t a i) (jobs w) = Some j0" "status j0 = from" by (rule claim_ok)
    with assms(1) show False by simp
  qed
  show "objects w' = objects w"
    using assms(3)
    by (auto simp: repo_claim_def split: sum.splits prod.splits if_splits
        dest!: stmt_objects [rotated] rows_affected_objects repo_get_objects)
qed

section \<open>Whole runs of the worker\<close>

definition worker_changes :: "string set" where
  "worker_changes = {''validated'', ''validation-failed'', ''succeeded'', ''failed'', ''expired''}"

text \<open>A run: at most one claim, which is announced to nobody, and then at most one change.\<close>

definition own_run ::
  "'env event_codec \<Rightarrow> string \<Rightarrow> string \<Rightarrow> job list \<times> outbox_row list \<Rightarrow> job list \<times> outbox_row list \<Rightarrow> bool" where
  "own_run c t a T T' \<longleftrightarrow> (\<exists>T1. (T1 = T \<or> snd T1 = snd T \<and> table_step (fst T) (fst T1)
       \<and> filter (foreign t a) (fst T1) = filter (foreign t a) (fst T))
     \<and> own_change c worker_changes t a T1 T')"

lemma finish_validation_own:
  assumes "published_update (finish_validation_where v) (finish_validation_set v) (t, a, i) c ch f at T r T'"
    and "key_of v = (t, a, i)" and "outcome_ok v" and "ch \<in> worker_changes"
  shows "own_change c worker_changes t a T T'"
  using assms(1)
  by (rule published_own_change, elim row_step_set_defs(7) [OF assms(3)])
    (use assms(2-) in \<open>auto simp: where_defs set_defs key_of_def intro: table_step.finish_validation\<close>)

lemma finish_apply_own:
  assumes "published_update (finish_apply_where v) (finish_apply_set v) (t, a, i) c ''succeeded'' f at T r T'"
    and "key_of v = (t, a, i)" and "0 \<le> applied_rows v" "completed_at v \<noteq> None" "result_expires_at v \<noteq> None"
  shows "own_change c worker_changes t a T T'"
  using assms(1)
  by (rule published_own_change, elim row_step_set_defs)
    (use assms(2-) in \<open>auto simp: where_defs set_defs key_of_def worker_changes_def intro: table_step.finish_apply\<close>)

lemma fail_own:
  assumes "published_update (fail_where v s) (fail_set v) (t, a, i) c ''failed'' f at T r T'"
    and "key_of v = (t, a, i)" and s: "s \<in> {StatusValidating, StatusApplying}"
    and "completed_at v \<noteq> None" "result_expires_at v \<noteq> None"
  shows "own_change c worker_changes t a T T'"
  using assms(1)
  by (rule published_own_change, elim row_step_set_defs(9) [OF s])
    (use assms(2-) in \<open>auto simp: where_defs set_defs key_of_def worker_changes_def intro: table_step.fail\<close>)

lemma expire_own:
  assumes "published_update (expire_where v) (expire_set now) (t, a, i) c ''expired'' f at T r T'"
    and "key_of v = (t, a, i)"
    and s: "status v \<in> set [StatusUploading, StatusValidationFailed, StatusSucceeded, StatusFailed, StatusCanceled]"
  shows "own_change c worker_changes t a T T'"
  using assms(1)
  by (rule published_own_change, elim row_step_set_defs(10) [OF s])
    (use assms(2-) in \<open>auto simp: where_defs set_defs key_of_def worker_changes_def intro: table_step.expire\<close>)

lemma post_error_of [wp]:
  "post r (\<lambda>x v. (\<forall>e. x = Inl e \<longrightarrow> Q (Some e) v) \<and> (\<forall>y. x = Inr y \<longrightarrow> Q None v)) \<Longrightarrow> post (error_of r) Q"
  by (cases r; cases "fst r") (auto simp: error_of_def post_def)

text \<open>\<open>fail\<close> always reports the error it was called for; the row keeps the code and at most 2000
  bytes of the text.\<close>

lemma worker_fail_spec:
  assumes s: "s \<in> {StatusValidating, StatusApplying}"
  shows "post (worker_fail k j s code cause w) (\<lambda>r w'.
    own_change (wk_codec k) worker_changes (tenant_id j) (application_id j) (tables w) (tables w')
    \<and> (r = Some cause \<or> (\<exists>e. r = Some (Joined cause e))) \<and> objects w' = objects w
    \<and> (r = Some cause \<longrightarrow> (\<exists>j0 j'. find (is_key (tenant_id j) (application_id j) (job_id j)) (fst (tables w)) = Some j0
         \<and> status j0 = s \<and> find (is_key (tenant_id j) (application_id j) (job_id j)) (fst (tables w')) = Some j'
         \<and> status j' = StatusFailed \<and> error_code j' = code \<and> length (error_message j') \<le> 2000)))"
proof (rule postI)
  fix r w' assume run: "worker_fail k j s code cause w = (r, w')"
  obtain now w1 where now: "time_now w = (now, w1)" by fastforce
  let ?j = "failed_job j code cause now (now + wk_result_ttl k)"
  obtain e w2 where tx: "within (changed (repo_fail ?j s) (wk_codec k) ''failed'' updated_by now) w1 = (e, w2)"
    by fastforce
  have t1: "tables w1 = tables w" and o1: "objects w1 = objects w"
    using now by (auto simp: time_now_def)
  have key: "key_of ?j = (tenant_id j, application_id j, job_id j)"
    by (simp add: key_of_def failed_job_def)
  from run now tx have r: "r = errors_join (Some cause) (case e of Inl x \<Rightarrow> Some x | Inr _ \<Rightarrow> None)" and w': "w' = w2"
    by (auto simp: worker_fail_def error_of_def Let_def split: sum.splits)
  note pub = fail_published [OF tx, unfolded key t1]
  have "own_change (wk_codec k) worker_changes (tenant_id j) (application_id j) (tables w) (tables w2)"
    by (rule fail_own [OF pub key s]) (simp_all add: failed_job_def)
  moreover have "objects w2 = objects w" using finish_objects(3) [OF tx] o1 by simp
  moreover have "r = Some cause \<or> (\<exists>x. r = Some (Joined cause x))" using r by (cases e) auto
  moreover have "\<exists>j0 j'. find (is_key (tenant_id j) (application_id j) (job_id j)) (fst (tables w)) = Some j0
      \<and> status j0 = s \<and> find (is_key (tenant_id j) (application_id j) (job_id j)) (fst (tables w2)) = Some j'
      \<and> status j' = StatusFailed \<and> error_code j' = code \<and> length (error_message j') \<le> 2000"
    if "r = Some cause"
  proof -
    have "Joined cause x \<noteq> cause" for x
      using size_neq_size_imp_neq [of "Joined cause x" cause] by simp
    with that r obtain y where e: "e = Inr y" by (cases e) (auto dest: sym)
    from pub [unfolded e] show ?thesis
    proof (cases rule: published_cases)
      case (stored j0 row)
      have "find (is_key (tenant_id j) (application_id j) (job_id j)) (fst (tables w2)) = Some (fail_set ?j j0)"
        unfolding stored(3) using stored(1,2) find_update_where [of "is_key (tenant_id j) (application_id j) (job_id j)" "fail_set ?j"]
        by (simp add: set_defs is_key_def)
      with stored(1,2) show ?thesis
        by (auto simp: fail_where_def set_defs failed_job_def truncate_text_def)
    qed simp
  qed
  ultimately show "own_change (wk_codec k) worker_changes (tenant_id j) (application_id j) (tables w) (tables w')
    \<and> (r = Some cause \<or> (\<exists>e. r = Some (Joined cause e))) \<and> objects w' = objects w
    \<and> (r = Some cause \<longrightarrow> (\<exists>j0 j'. find (is_key (tenant_id j) (application_id j) (job_id j)) (fst (tables w)) = Some j0
         \<and> status j0 = s \<and> find (is_key (tenant_id j) (application_id j) (job_id j)) (fst (tables w')) = Some j'
         \<and> status j' = StatusFailed \<and> error_code j' = code \<and> length (error_message j') \<le> 2000))"
    unfolding w' by blast
qed

lemma claim_own_run:
  assumes "repo_claim t a i from to now w = (r, w')" and "(from, to) \<in> {(StatusQueued, StatusValidating), (StatusApplyQueued, StatusApplying)}"
    and "own_change c worker_changes t a (tables w') T'"
  shows "own_run c t a (tables w) T'"
proof -
  have "filter (foreign t a) (update_where (claim_where t a i from) (claim_set to now) xs) = filter (foreign t a) xs" for xs
    by (rule filter_update_where_other) (auto simp: foreign_def where_defs set_defs)
  moreover have "table_step T (update_where (claim_where t a i from) (claim_set to now) T)"
    if "constraints_ok (update_where (claim_where t a i from) (claim_set to now) T)" for T
    using assms(2) table_step.claim_validation [OF refl] table_step.claim_apply [OF refl] that by auto
  ultimately have "tables w' = tables w \<or> snd (tables w') = snd (tables w)
      \<and> table_step (fst (tables w)) (fst (tables w'))
      \<and> filter (foreign t a) (fst (tables w')) = filter (foreign t a) (fst (tables w))"
    using claim_tables [OF assms(1)] by (auto simp: tables_def)
  with assms(3) show ?thesis unfolding own_run_def by blast
qed

lemma claim_keys:
  "repo_claim t a i from to now w = (Inr (Some j), w') \<Longrightarrow> tenant_id j = t \<and> application_id j = a \<and> job_id j = i"
  by (elim claim_ok) (auto simp: is_key_def dest: find_SomeD)

text \<open>What is left of \<open>Validate\<close> once the job is claimed.\<close>

lemma validate_claimed_spec:
  "post (validate_claimed k j w) (\<lambda>r w'.
     own_change (wk_codec k) worker_changes (tenant_id j) (application_id j) (tables w) (tables w')
   \<and> (r = None \<longrightarrow> (\<exists>src v rows valid invalid j0 j'. wk_open k (source_object_key j) v = Inr src
        \<and> validated_from k j src rows valid invalid
        \<and> (invalid = 0 \<or> error_report_object_key j \<noteq> normalized_object_key j \<longrightarrow> normalized_stored k j valid w')
        \<and> find (is_key (tenant_id j) (application_id j) (job_id j)) (fst (tables w)) = Some j0 \<and> status j0 = StatusValidating
        \<and> find (is_key (tenant_id j) (application_id j) (job_id j)) (fst (tables w')) = Some j'
        \<and> status j' = (if invalid > 0 then StatusValidationFailed else StatusReady)
        \<and> total_rows j' = rows \<and> valid_rows j' = valid \<and> invalid_rows j' = invalid
        \<and> version j' = version j0 + 1)))"
proof (rule postI)
  fix r w' assume run: "validate_claimed k j w = (r, w')"
  obtain x w1 where vr: "validate_run k j w = (x, w1)" by fastforce
  note spec = postD [OF validate_run_spec vr]
  let ?own = "own_change (wk_codec k) worker_changes (tenant_id j) (application_id j) (tables w) (tables w')"
  let ?done = "\<exists>src v rows valid invalid j0 j'. wk_open k (source_object_key j) v = Inr src
        \<and> validated_from k j src rows valid invalid
        \<and> (invalid = 0 \<or> error_report_object_key j \<noteq> normalized_object_key j \<longrightarrow> normalized_stored k j valid w')
        \<and> find (is_key (tenant_id j) (application_id j) (job_id j)) (fst (tables w)) = Some j0 \<and> status j0 = StatusValidating
        \<and> find (is_key (tenant_id j) (application_id j) (job_id j)) (fst (tables w')) = Some j'
        \<and> status j' = (if invalid > 0 then StatusValidationFailed else StatusReady)
        \<and> total_rows j' = rows \<and> valid_rows j' = valid \<and> invalid_rows j' = invalid
        \<and> version j' = version j0 + 1"
  show "?own \<and> (r = None \<longrightarrow> ?done)"
  proof (cases x)
    case (Inl y)
    obtain code e where y: "y = (code, e)" by fastforce
    with Inl vr run have "worker_fail k j StatusValidating code e w1 = (r, w')"
      by (simp add: validate_claimed_def)
    from postD [OF worker_fail_spec this] spec show ?thesis by auto
  next
    case (Inr y)
    obtain rows valid invalid where y: "y = (rows, valid, invalid)" by (metis prod_cases3)
    obtain now w2 where now: "time_now w1 = (now, w2)" by fastforce
    let ?v = "validated_job j rows valid invalid now (now + wk_result_ttl k)"
    let ?ch = "if invalid > 0 then ''validation-failed'' else ''validated''"
    obtain e w3 where tx: "within (changed (repo_finish_validation ?v) (wk_codec k) ?ch updated_by now) w2 = (e, w3)"
      by fastforce
    from run vr Inr y now tx have r: "r = (case e of Inl x \<Rightarrow> Some x | Inr _ \<Rightarrow> None)" and w': "w' = w3"
      by (auto simp: validate_claimed_def error_of_def Let_def split: sum.splits)
    have t2: "tables w2 = tables w" and o2: "objects w2 = objects w1"
      using now spec by (auto simp: time_now_def)
    from spec Inr y obtain src v where src: "wk_open k (source_object_key j) v = Inr src"
      and val: "validated_from k j src rows valid invalid"
      and nst: "invalid = 0 \<or> error_report_object_key j \<noteq> normalized_object_key j \<longrightarrow> normalized_stored k j valid w1"
      by blast
    have key: "key_of ?v = (tenant_id j, application_id j, job_id j)"
      by (simp add: key_of_def validated_job_def)
    note pub = finish_validation_published [OF tx, unfolded key t2]
    have "outcome_ok ?v" using val by (simp add: outcome_ok_def validated_job_def validated_from_def)
    then have own: ?own unfolding w'
      by (intro finish_validation_own [OF pub key]) (auto simp: worker_changes_def)
    have ?done if "r = None"
    proof -
      from that r obtain z where e: "e = Inr z" by (cases e) auto
      from pub [unfolded e] show ?thesis
      proof (cases rule: published_cases)
        case (stored j0 row)
        have "find (is_key (tenant_id j) (application_id j) (job_id j)) (fst (tables w3)) = Some (finish_validation_set ?v j0)"
          unfolding stored(3) using stored(1,2)
            find_update_where [of "is_key (tenant_id j) (application_id j) (job_id j)" "finish_validation_set ?v"]
          by (simp add: set_defs is_key_def)
        moreover have "normalized_stored k j valid w3 = normalized_stored k j valid w1"
          using finish_objects(1) [OF tx] o2 by (simp add: normalized_stored_def)
        ultimately show ?thesis using stored(1,2) src val nst unfolding w'
          by (intro exI [of _ src] exI [of _ v] exI [of _ rows] exI [of _ valid] exI [of _ invalid]
              exI [of _ j0] exI [of _ "finish_validation_set ?v j0"])
            (simp add: finish_validation_where_def set_defs validated_job_def)
      qed simp
    qed
    with own show ?thesis by blast
  qed
qed

lemma apply_claimed_spec:
  "post (apply_claimed k j w) (\<lambda>r w'.
     own_change (wk_codec k) worker_changes (tenant_id j) (application_id j) (tables w) (tables w')
   \<and> (r = None \<longrightarrow> (\<exists>src v applied j0 j'. wk_open k (normalized_object_key j) v = Inr src
        \<and> applied_from k j src applied
        \<and> find (is_key (tenant_id j) (application_id j) (job_id j)) (fst (tables w)) = Some j0 \<and> status j0 = StatusApplying
        \<and> find (is_key (tenant_id j) (application_id j) (job_id j)) (fst (tables w')) = Some j'
        \<and> status j' = StatusSucceeded \<and> applied_rows j' = applied \<and> version j' = version j0 + 1)))"
proof (rule postI)
  fix r w' assume run: "apply_claimed k j w = (r, w')"
  obtain x w1 where ar: "apply_run k j w = (x, w1)" by fastforce
  note spec = postD [OF apply_run_spec ar]
  let ?own = "own_change (wk_codec k) worker_changes (tenant_id j) (application_id j) (tables w) (tables w')"
  let ?done = "\<exists>src v applied j0 j'. wk_open k (normalized_object_key j) v = Inr src
        \<and> applied_from k j src applied
        \<and> find (is_key (tenant_id j) (application_id j) (job_id j)) (fst (tables w)) = Some j0 \<and> status j0 = StatusApplying
        \<and> find (is_key (tenant_id j) (application_id j) (job_id j)) (fst (tables w')) = Some j'
        \<and> status j' = StatusSucceeded \<and> applied_rows j' = applied \<and> version j' = version j0 + 1"
  show "?own \<and> (r = None \<longrightarrow> ?done)"
  proof (cases x)
    case (Inl y)
    obtain code e where y: "y = (code, e)" by fastforce
    with Inl ar run have "worker_fail k j StatusApplying code e w1 = (r, w')"
      by (simp add: apply_claimed_def)
    from postD [OF worker_fail_spec this] spec show ?thesis by auto
  next
    case (Inr applied)
    obtain now w2 where now: "time_now w1 = (now, w2)" by fastforce
    let ?v = "applied_job j applied now (now + wk_result_ttl k)"
    obtain e w3 where tx: "within (changed (repo_finish_apply ?v) (wk_codec k) ''succeeded'' updated_by now) w2 = (e, w3)"
      by fastforce
    from run ar Inr now tx have r: "r = (case e of Inl x \<Rightarrow> Some x | Inr _ \<Rightarrow> None)" and w': "w' = w3"
      by (auto simp: apply_claimed_def error_of_def Let_def split: sum.splits)
    have t2: "tables w2 = tables w" using now spec by (auto simp: time_now_def)
    from spec Inr obtain src v where src: "wk_open k (normalized_object_key j) v = Inr src"
      and ok: "applied_from k j src applied" by blast
    have key: "key_of ?v = (tenant_id j, application_id j, job_id j)"
      by (simp add: key_of_def applied_job_def)
    note pub = finish_apply_published [OF tx, unfolded key t2]
    have own: ?own unfolding w'
      by (rule finish_apply_own [OF pub key]) (use ok in \<open>auto simp: applied_job_def applied_from_def Let_def\<close>)
    have ?done if "r = None"
    proof -
      from that r obtain z where e: "e = Inr z" by (cases e) auto
      from pub [unfolded e] show ?thesis
      proof (cases rule: published_cases)
        case (stored j0 row)
        have "find (is_key (tenant_id j) (application_id j) (job_id j)) (fst (tables w3)) = Some (finish_apply_set ?v j0)"
          unfolding stored(3) using stored(1,2)
            find_update_where [of "is_key (tenant_id j) (application_id j) (job_id j)" "finish_apply_set ?v"]
          by (simp add: set_defs is_key_def)
        then show ?thesis using stored(1,2) src ok unfolding w'
          by (intro exI [of _ src] exI [of _ v] exI [of _ applied]
              exI [of _ j0] exI [of _ "finish_apply_set ?v j0"])
            (simp add: finish_apply_where_def set_defs applied_job_def)
      qed simp
    qed
    with own show ?thesis by blast
  qed
qed

lemma worker_validate_own_run:
  assumes "worker_validate k t a i w = (r, w')"
  shows "own_run (wk_codec k) t a (tables w) (tables w')"
proof -
  obtain now w1 where now: "time_now w = (now, w1)" by fastforce
  then have t1: "tables w1 = tables w" by (auto simp: time_now_def)
  obtain x w2 where c: "repo_claim t a i StatusQueued StatusValidating now w1 = (x, w2)" by fastforce
  have "own_change (wk_codec k) worker_changes t a (tables w2) (tables w')"
  proof (cases "\<exists>j. x = Inr (Some j)")
    case True
    then obtain j where j: "x = Inr (Some j)" ..
    with assms now c have "validate_claimed k j w2 = (r, w')"
      by (simp add: worker_validate_def repo_claim_validation_def)
    from postD [OF validate_claimed_spec this] claim_keys [OF c [unfolded j]] show ?thesis by simp
  next
    case False
    with assms now c have "w' = w2"
      by (auto simp: worker_validate_def repo_claim_validation_def split: sum.splits option.splits)
    then show ?thesis by simp
  qed
  from claim_own_run [OF c _ this] t1 show ?thesis by simp
qed

lemma worker_apply_own_run:
  assumes "worker_apply k t a i w = (r, w')"
  shows "own_run (wk_codec k) t a (tables w) (tables w')"
proof -
  obtain now w1 where now: "time_now w = (now, w1)" by fastforce
  then have t1: "tables w1 = tables w" by (auto simp: time_now_def)
  obtain x w2 where c: "repo_claim t a i StatusApplyQueued StatusApplying now w1 = (x, w2)" by fastforce
  have "own_change (wk_codec k) worker_changes t a (tables w2) (tables w')"
  proof (cases "\<exists>j. x = Inr (Some j)")
    case True
    then obtain j where j: "x = Inr (Some j)" ..
    with assms now c have "apply_claimed k j w2 = (r, w')"
      by (simp add: worker_apply_def repo_claim_apply_def)
    from postD [OF apply_claimed_spec this] claim_keys [OF c [unfolded j]] show ?thesis by simp
  next
    case False
    with assms now c have "w' = w2"
      by (auto simp: worker_apply_def repo_claim_apply_def split: sum.splits option.splits)
    then show ?thesis by simp
  qed
  from claim_own_run [OF c _ this] t1 show ?thesis by simp
qed

lemma own_run_steps: "own_run c t a T T' \<Longrightarrow> table_step\<^sup>*\<^sup>* (fst T) (fst T')"
  by (auto simp: own_run_def own_change_def intro: converse_rtranclp_into_rtranclp)

text \<open>The cleaner and the purger.\<close>

lemma cleanup_jobs_steps:
  assumes "cleanup_jobs k now js n w = (r, w')"
    and "\<forall>j \<in> set js. status j \<in> set [StatusUploading, StatusValidationFailed, StatusSucceeded, StatusFailed, StatusCanceled]"
  shows "table_step\<^sup>*\<^sup>* (jobs w) (jobs w')"
  using assms
proof (induction js arbitrary: n w)
  case (Cons j js)
  obtain e w1 where d: "delete_objects [source_object_key j, normalized_object_key j, error_report_object_key j] w = (e, w1)"
    by fastforce
  have t1: "tables w1 = tables w" using delete_objects_tables [OF d] .
  show ?case
  proof (cases e)
    case (Some x)
    with d Cons.prems(1) t1 show ?thesis by (simp add: tables_def)
  next
    case None
    let ?j = "j\<lparr>updated_at := now, updated_by := ''import-cleaner''\<rparr>"
    obtain y w2 where tx: "within (changed (repo_expire ?j now) (wk_codec k) ''expired'' updated_by now) w1 = (y, w2)"
      by fastforce
    have key: "key_of ?j = (tenant_id j, application_id j, job_id j)" by (simp add: key_of_def)
    have "own_change (wk_codec k) worker_changes (tenant_id j) (application_id j) (tables w1) (tables w2)"
      by (rule expire_own [OF expire_published [OF tx, unfolded key] key])
        (use Cons.prems(2) in simp)
    then have s2: "table_step\<^sup>*\<^sup>* (jobs w) (jobs w2)"
      using t1 by (simp add: own_change_def fst_tables tables_def)
    have "w' = w2 \<or> (\<exists>m. cleanup_jobs k now js m w2 = (r, w'))"
      using Cons.prems(1) d None tx by (auto simp: error_of_def Let_def split: sum.splits if_splits)
    with Cons.IH Cons.prems(2) s2 show ?thesis by (auto intro: rtranclp_trans)
  qed
qed simp

lemma stmt_page_ok:
  assumes "stmt (page_query limit offset f) w = (Inr js, w')"
  shows "js = take (nat limit) (drop (nat offset) (f (jobs w)))" and "tables w' = tables w"
proof -
  have "post (stmt (page_query limit offset f) w)
      (\<lambda>r v. tables v = tables w \<and> (\<forall>x. r = Inr x \<longrightarrow> x = take (nat limit) (drop (nat offset) (f (fst (tables w))))))"
    by (rule post_stmt_page) simp_all
  from postD [OF this assms] show "js = take (nat limit) (drop (nat offset) (f (jobs w)))" "tables w' = tables w"
    by (simp_all add: fst_tables)
qed

lemma cleanup_steps:
  assumes "worker_cleanup_expired k limit w = (r, w')"
  shows "table_step\<^sup>*\<^sup>* (jobs w) (jobs w')"
proof -
  obtain now w1 where now: "time_now w = (now, w1)" by fastforce
  obtain x w2 where l: "repo_list_expired now limit w1 = (x, w2)" by fastforce
  have t1: "tables w1 = tables w" using now by (auto simp: time_now_def)
  have t2: "tables w2 = tables w1"
    by (rule postD [OF post_stmt_page l [unfolded repo_list_expired_def]]) simp_all
  show ?thesis
  proof (cases x)
    case (Inr js)
    have "set js \<subseteq> {j. expired_where now j}"
      using stmt_page_ok(1) [OF l [unfolded repo_list_expired_def Inr]]
      by (auto dest: in_set_takeD)
    then have "\<forall>j \<in> set js. status j \<in> set [StatusUploading, StatusValidationFailed, StatusSucceeded, StatusFailed, StatusCanceled]"
      by (auto simp: expired_where_def)
    moreover have "limit < 1 \<and> w' = w \<or> cleanup_jobs k now js 0 w2 = (r, w')"
      using assms now l Inr by (auto simp: worker_cleanup_expired_def split: if_splits)
    ultimately show ?thesis using cleanup_jobs_steps [of k now js 0 w2 r w'] t1 t2 by (auto simp: tables_def)
  next
    case (Inl e)
    with assms now l t1 t2 show ?thesis
      by (auto simp: worker_cleanup_expired_def tables_def split: if_splits)
  qed
qed

lemma delete_body:
  assumes "repo_delete_expired_metadata j before w = (r, w')"
  shows "outbox w' = outbox w" and "jobs w' = jobs w \<or> table_step (jobs w) (jobs w')"
proof -
  obtain s w1 where s: "stmt (exec_delete (delete_where j before)) w = (s, w1)" by fastforce
  from assms s have "tables w' = tables w1"
    by (auto simp: repo_delete_expired_metadata_def split: sum.splits prod.splits dest!: rows_affected_tables)
  moreover from stmt_tables [OF s] have "tables w1 = tables w
      \<or> tables w1 = (filter (\<lambda>x. \<not> delete_where j before x) (jobs w), outbox w)"
    by (auto simp: exec_delete_def tables_def)
  ultimately show "outbox w' = outbox w" "jobs w' = jobs w \<or> table_step (jobs w) (jobs w')"
    by (auto simp: tables_def intro: table_step.delete)
qed

lemma purge_jobs_steps:
  "purge_jobs before js n w = (r, w') \<Longrightarrow> table_step\<^sup>*\<^sup>* (jobs w) (jobs w') \<and> outbox w' = outbox w"
proof (induction js arbitrary: n w)
  case (Cons j js)
  obtain x w1 where tx: "within (repo_delete_expired_metadata j before) w = (x, w1)" by fastforce
  have "table_step\<^sup>*\<^sup>* (fst (tables w)) (fst (tables w1)) \<and> snd (tables w1) = snd (tables w)"
  proof (rule within_rel [OF tx], simp)
    fix v y v2 assume "repo_delete_expired_metadata j before v = (Inr y, v2)"
    from delete_body [OF this]
    show "table_step\<^sup>*\<^sup>* (fst (tables v)) (fst (tables v2)) \<and> snd (tables v2) = snd (tables v)"
      by (auto simp: tables_def)
  qed
  moreover have "w' = w1 \<or> (\<exists>m. purge_jobs before js m w1 = (r, w'))"
    using Cons.prems tx by (auto split: sum.splits)
  ultimately show ?case using Cons.IH by (auto simp: tables_def intro: rtranclp_trans)
qed simp

lemma purge_steps:
  assumes "worker_purge_expired_metadata retention limit w = (r, w')"
  shows "table_step\<^sup>*\<^sup>* (jobs w) (jobs w') \<and> outbox w' = outbox w"
proof -
  obtain now w1 where now: "time_now w = (now, w1)" by fastforce
  obtain x w2 where l: "repo_list_expired_metadata_before (now - retention) limit w1 = (x, w2)" by fastforce
  have "tables w2 = tables w"
    using postD [OF post_stmt_page l [unfolded repo_list_expired_metadata_before_def], of "\<lambda>_ v. tables v = tables w1"] now
    by (auto simp: time_now_def)
  then have t: "jobs w2 = jobs w" "outbox w2 = outbox w" by (simp_all add: tables_def)
  show ?thesis
  proof (cases "w' = w \<or> w' = w2")
    case False
    with assms now l obtain js where "purge_jobs (now - retention) js 0 w2 = (r, w')"
      by (auto simp: worker_purge_expired_metadata_def split: if_splits sum.splits)
    from purge_jobs_steps [OF this] t show ?thesis by simp
  qed (use t in auto)
qed

end
