(* ===== verification/History.thy ===== *)
theory History
  imports Worker_Correct
begin

text \<open>
  The service and the worker together: \<open>action\<close> is one call to either of them, \<open>perform\<close> runs it.
  Every action is a path of \<open>table_step\<close>, so that what holds of reachable tables holds after every
  history of actions, with every pattern of failures. The second half collects what the
  properties need on claims, on pages and on the last states of a job.
\<close>

section \<open>Histories\<close>

datatype 'env action =
    Request "'env service" "principal option" request
  | RunValidate "'env worker" string string string
  | RunApply "'env worker" string string string
  | RunCleanup "'env worker" int
  | RunPurge duration int

fun perform :: "'env action \<Rightarrow> world \<Rightarrow> world" where
  "perform (Request s p req) w = snd (serve s p req w)"
| "perform (RunValidate k t a i) w = snd (worker_validate k t a i w)"
| "perform (RunApply k t a i) w = snd (worker_apply k t a i w)"
| "perform (RunCleanup k limit) w = snd (worker_cleanup_expired k limit w)"
| "perform (RunPurge retention limit) w = snd (worker_purge_expired_metadata retention limit w)"

lemma perform_steps: "table_step\<^sup>*\<^sup>* (jobs w) (jobs (perform act w))"
proof (cases act)
  case (Request s p req)
  have "own_change (sv_codec s) service_changes (clean (request_tenant req))
      (clean (request_application req)) (tables w) (tables (snd (serve s p req w)))"
    by (rule serve_own_change) (rule surjective_pairing)
  then show ?thesis using Request by (simp add: own_change_def fst_tables)
next
  case (RunValidate k t a i)
  show ?thesis
    using own_run_steps [OF worker_validate_own_run [of k t a i w, OF surjective_pairing]] RunValidate
    by (simp add: fst_tables)
next
  case (RunApply k t a i)
  show ?thesis
    using own_run_steps [OF worker_apply_own_run [of k t a i w, OF surjective_pairing]] RunApply
    by (simp add: fst_tables)
next
  case (RunCleanup k limit)
  then show ?thesis using cleanup_steps [OF surjective_pairing] by simp
next
  case (RunPurge retention limit)
  then show ?thesis using purge_steps [OF surjective_pairing] by simp
qed

lemma history_steps: "table_step\<^sup>*\<^sup>* (jobs w) (jobs (fold perform acts w))"
  by (induction acts arbitrary: w) (auto intro: rtranclp_trans perform_steps)

lemma history_reachable: "reachable (jobs w) \<Longrightarrow> reachable (jobs (fold perform acts w))"
  by (rule reachable_steps [OF _ history_steps])

lemma reachable_Nil [simp]: "reachable []"
  by (simp add: reachable_def)

section \<open>Claims\<close>

lemma after_update_None:
  assumes "repo_claim t a i from to now w = (Inr None, w')"
  shows "filter (claim_where t a i from) (jobs w) = []"
proof -
  obtain r w1 where s: "stmt (exec_update (claim_where t a i from) (claim_set to now)) w = (r, w1)" by fastforce
  with assms obtain n where r: "r = Inr n" by (cases r) (auto simp: repo_claim_def)
  with assms s have "n = 0"
    by (auto simp: repo_claim_def split: sum.splits prod.splits if_splits dest!: rows_affected_ok)
  with stmt_ok(1) [OF s [unfolded r]] show ?thesis
    by (auto simp: exec_update_def Let_def split: if_splits)
qed

lemma claim_waiting:
  assumes "repo_claim t a i from to now w = (Inr x, w')" and "find (is_key t a i) (jobs w) = Some j"
    and "status j = from"
  shows "x = Some (claim_set to now j) \<and> find (is_key t a i) (jobs w') = Some (claim_set to now j)"
proof (cases x)
  case None
  with after_update_None assms(1) have "filter (claim_where t a i from) (jobs w) = []" by blast
  with find_SomeD [OF assms(2)] assms(3) show ?thesis
    by (auto simp: filter_empty_conv claim_where_def)
next
  case (Some y)
  from claim_ok [OF assms(1) [unfolded Some]] assms(2) Some show ?thesis by (metis option.inject)
qed

lemma claim_set_fields [simp]:
  "status (claim_set to now j) = to" "version (claim_set to now j) = version j + 1"
  "source_object_key (claim_set to now j) = source_object_key j"
  "normalized_object_key (claim_set to now j) = normalized_object_key j"
  "error_report_object_key (claim_set to now j) = error_report_object_key j"
  by (simp_all add: claim_set_def)

lemma validated_from_claimed [simp]:
  "validated_from k (claim_set to now j) src rows valid invalid = validated_from k j src rows valid invalid"
  "normalized_stored k (claim_set to now j) valid w = normalized_stored k j valid w"
  by (simp_all add: validated_from_def normalized_stored_def claim_set_def)

lemma applied_from_claimed [simp]:
  "applied_from k (claim_set to now j) src n = applied_from k j src n"
  by (simp add: applied_from_def apply_request_def claim_set_def)

lemma worker_validate_done:
  assumes "worker_validate k t a i w = (None, w')" and "find (is_key t a i) (jobs w) = Some j"
    and "status j = StatusQueued"
  shows "\<exists>src v rows valid invalid j'. wk_open k (source_object_key j) v = Inr src
     \<and> validated_from k j src rows valid invalid
     \<and> (invalid = 0 \<or> error_report_object_key j \<noteq> normalized_object_key j \<longrightarrow> normalized_stored k j valid w')
     \<and> find (is_key t a i) (jobs w') = Some j'
     \<and> status j' = (if invalid > 0 then StatusValidationFailed else StatusReady)
     \<and> total_rows j' = rows \<and> valid_rows j' = valid \<and> invalid_rows j' = invalid
     \<and> version j' = version j + 2"
proof -
  obtain now w1 where now: "time_now w = (now, w1)" by fastforce
  then have t1: "jobs w1 = jobs w" by (auto simp: time_now_def)
  obtain x w2 where c: "repo_claim t a i StatusQueued StatusValidating now w1 = (x, w2)" by fastforce
  from assms(1) now c obtain y where x: "x = Inr y"
    by (cases x) (auto simp: worker_validate_def repo_claim_validation_def)
  let ?j = "claim_set StatusValidating now j"
  from claim_waiting [OF c [unfolded x]] assms(2,3) t1
  have y: "y = Some ?j" and f: "find (is_key t a i) (jobs w2) = Some ?j" by auto
  from find_SomeD [OF assms(2)] have key: "tenant_id ?j = t" "application_id ?j = a" "job_id ?j = i"
    by (simp_all add: is_key_def claim_set_def)
  from assms(1) now c x y have "validate_claimed k ?j w2 = (None, w')"
    by (simp add: worker_validate_def repo_claim_validation_def)
  from conjunct2 [OF postD [OF validate_claimed_spec this, unfolded key], rule_format, OF refl]
  obtain src v rows valid invalid j0 j' where run: "wk_open k (source_object_key j) v = Inr src"
      "validated_from k j src rows valid invalid"
      "invalid = 0 \<or> error_report_object_key j \<noteq> normalized_object_key j \<longrightarrow> normalized_stored k j valid w'"
    and j0: "find (is_key t a i) (jobs w2) = Some j0"
    and j': "find (is_key t a i) (jobs w') = Some j'"
      "status j' = (if invalid > 0 then StatusValidationFailed else StatusReady)"
      "total_rows j' = rows" "valid_rows j' = valid" "invalid_rows j' = invalid" "version j' = version j0 + 1"
    unfolding fst_tables claim_set_fields validated_from_claimed by blast
  from j0 f j'(6) have "version j' = version j + 2" by auto
  with run j' show ?thesis by blast
qed

lemma worker_apply_done:
  assumes "worker_apply k t a i w = (None, w')" and "find (is_key t a i) (jobs w) = Some j"
    and "status j = StatusApplyQueued"
  shows "\<exists>src v applied j'. wk_open k (normalized_object_key j) v = Inr src
     \<and> applied_from k j src applied
     \<and> find (is_key t a i) (jobs w') = Some j'
     \<and> status j' = StatusSucceeded \<and> applied_rows j' = applied \<and> version j' = version j + 2"
proof -
  obtain now w1 where now: "time_now w = (now, w1)" by fastforce
  then have t1: "jobs w1 = jobs w" by (auto simp: time_now_def)
  obtain x w2 where c: "repo_claim t a i StatusApplyQueued StatusApplying now w1 = (x, w2)" by fastforce
  from assms(1) now c obtain y where x: "x = Inr y"
    by (cases x) (auto simp: worker_apply_def repo_claim_apply_def)
  let ?j = "claim_set StatusApplying now j"
  from claim_waiting [OF c [unfolded x]] assms(2,3) t1
  have y: "y = Some ?j" and f: "find (is_key t a i) (jobs w2) = Some ?j" by auto
  from find_SomeD [OF assms(2)] have key: "tenant_id ?j = t" "application_id ?j = a" "job_id ?j = i"
    by (simp_all add: is_key_def claim_set_def)
  from assms(1) now c x y have "apply_claimed k ?j w2 = (None, w')"
    by (simp add: worker_apply_def repo_claim_apply_def)
  from conjunct2 [OF postD [OF apply_claimed_spec this, unfolded key], rule_format, OF refl]
  obtain src v n j0 j' where run: "wk_open k (normalized_object_key j) v = Inr src"
      "applied_from k j src n"
    and j0: "find (is_key t a i) (jobs w2) = Some j0"
    and j': "find (is_key t a i) (jobs w') = Some j'" "status j' = StatusSucceeded" "applied_rows j' = n"
      "version j' = version j0 + 1"
    unfolding fst_tables claim_set_fields applied_from_claimed by blast
  from j0 f j'(4) have "version j' = version j + 2" by auto
  with run j' show ?thesis by blast
qed

text \<open>A second delivery of a message: the job does not wait any more, and nothing happens.\<close>

lemma validate_idle:
  assumes "find (is_key t a i) (jobs w) = None \<or> (\<exists>j. find (is_key t a i) (jobs w) = Some j \<and> status j \<noteq> StatusQueued)"
    and "distinct (map job_id (jobs w))"
  shows "tables (snd (worker_validate k t a i w)) = tables w
    \<and> objects (snd (worker_validate k t a i w)) = objects w"
proof -
  obtain now w1 where now: "time_now w = (now, w1)" by fastforce
  then have t1: "jobs w1 = jobs w" "tables w1 = tables w" "objects w1 = objects w" by (auto simp: time_now_def)
  obtain x w2 where c: "repo_claim t a i StatusQueued StatusValidating now w1 = (x, w2)" by fastforce
  note idle = claim_refused [OF assms [folded t1(1)] c]
  from idle(3) now c have "snd (worker_validate k t a i w) = w2"
    by (auto simp: worker_validate_def repo_claim_validation_def split: sum.split option.split)
  with idle(1,2) t1 show ?thesis by simp
qed

lemma apply_idle:
  assumes "find (is_key t a i) (jobs w) = None \<or> (\<exists>j. find (is_key t a i) (jobs w) = Some j \<and> status j \<noteq> StatusApplyQueued)"
    and "distinct (map job_id (jobs w))"
  shows "tables (snd (worker_apply k t a i w)) = tables w
    \<and> objects (snd (worker_apply k t a i w)) = objects w"
proof -
  obtain now w1 where now: "time_now w = (now, w1)" by fastforce
  then have t1: "jobs w1 = jobs w" "tables w1 = tables w" "objects w1 = objects w" by (auto simp: time_now_def)
  obtain x w2 where c: "repo_claim t a i StatusApplyQueued StatusApplying now w1 = (x, w2)" by fastforce
  note idle = claim_refused [OF assms [folded t1(1)] c]
  from idle(3) now c have "snd (worker_apply k t a i w) = w2"
    by (auto simp: worker_apply_def repo_claim_apply_def split: sum.split option.split)
  with idle(1,2) t1 show ?thesis by simp
qed

end
