(* ===== verification/Scenario.thy ===== *)
theory Scenario
  imports Worker_Correct
begin

text \<open>
  One concrete run of the system, on which the properties are tried: a service and a worker with
  small stand-ins for what is outside the repository (an envelope codec, a CSV reader without
  quotes, a row encoder that writes one column, a provider that rejects one value), a world with
  empty tables, and the worlds after each operation on one job, from its creation to its success.
  No definition here models code, and no property of the program rests on this theory.
\<close>

section \<open>Stand-ins\<close>

definition demo_codec :: "(event_metadata \<times> job_changed) event_codec" where
  "demo_codec = \<lparr>ec_timestamp = (\<lambda>t. (t div 1000000000, t mod 1000000000)),
     ec_envelope = (\<lambda>m p. Inr (m, p)),
     ec_marshal = (\<lambda>(m, p). Inr (em_event_id m @ '':'' @ jc_change_type p)),
     ec_event_id = (\<lambda>(m, p). em_event_id m)\<rparr>"

definition demo_service :: "(event_metadata \<times> job_changed) service" where
  "demo_service = \<lparr>sv_upload_ttl = 3600000000000, sv_verify = (\<lambda>t a w. None),
     sv_describe = Some (\<lambda>t a p d w. Inr \<lparr>dd_code = d, dd_title = ''Demo'', dd_columns = [],
       dd_formats = [''csv'', ''jsonl''], dd_max_batch_size = 100, dd_supports_dry_run = True\<rparr>),
     sv_presign_upload = (\<lambda>key ttl w. Inr (''put:'' @ key, [])),
     sv_presign_download = (\<lambda>key ttl w. Inr (''get:'' @ key)),
     sv_stat = (\<lambda>key w. case objects w key of
         None \<Rightarrow> Inl (ErrText ''no such object'')
       | Some data \<Rightarrow> Inr \<lparr>oi_size = int (length data), oi_checksum = []\<rparr>),
     sv_codec = demo_codec\<rparr>"

definition demo_caller :: "principal option" where
  "demo_caller = Some \<lparr>pr_id = ''ann'', pr_type = OtherType ''user'', pr_tenant_id = ''t1''\<rparr>"

definition demo_input :: create_input where
  "demo_input = \<lparr>ci_tenant_id = ''t1'', ci_application_id = '' a1 '', ci_dataset_code = ''people'',
     ci_provider_service = ''crm'', ci_format = ''csv'', ci_filename = ''x/p.txt'',
     ci_idempotency_key = ''k1''\<rparr>"

text \<open>Lines and columns without quoting, the row encoder and its inverse.\<close>

fun demo_split :: "char \<Rightarrow> string \<Rightarrow> string list" where
  "demo_split c [] = [[]]"
| "demo_split c (a # s) = (if a = c then [] # demo_split c s
     else case demo_split c s of [] \<Rightarrow> [[a]] | l # ls \<Rightarrow> (a # l) # ls)"

definition demo_csv :: "string \<Rightarrow> gerr \<Rightarrow> string list list \<times> gerr" where
  "demo_csv bytes e = (map (demo_split CHR '','') (filter (\<lambda>l. l \<noteq> []) (demo_split CHR 0x0A bytes)),
     if e = Sentinel IoEOF then e else ErrText ''unreadable'')"

definition demo_encode :: "import_row \<Rightarrow> gerr + string" where
  "demo_encode row = (case row ''name'' of Some (GoString s) \<Rightarrow> Inr s | _ \<Rightarrow> Inl (ErrText ''no name''))"

definition demo_row :: "string \<Rightarrow> import_row" where
  "demo_row s = [''name'' \<mapsto> GoString s]"

definition demo_decoders :: decoders where
  "demo_decoders = \<lparr>dec_csv = demo_csv, dec_json = (\<lambda>line. Inr (Some (demo_row line))),
     dec_xlsx = (\<lambda>bytes e. Inl (ErrText ''not a book'')), dec_sha256_hex = (\<lambda>s. show_nat (length s))\<rparr>"

definition demo_bad :: "import_row \<Rightarrow> bool" where
  "demo_bad row \<longleftrightarrow> (case row ''name'' of Some (GoString s) \<Rightarrow> s = ''bad'' | _ \<Rightarrow> True)"

definition demo_validate :: "validate_batch_request \<Rightarrow> world \<Rightarrow> gerr + validate_batch_result" where
  "demo_validate r w = Inr \<lparr>vr_normalized_rows = filter (\<lambda>row. \<not> demo_bad row) (vb_rows r),
     vr_issues = map (\<lambda>(n, row). \<lparr>ri_row_number = n, ri_column_key = ''name'', ri_code = ''bad_name'', ri_message = ''no''\<rparr>)
       (filter (\<lambda>(n, row). demo_bad row) (zip [vb_first_row_number r ..
          vb_first_row_number r + int (length (vb_rows r)) - 1] (vb_rows r)))\<rparr>"

definition demo_worker :: "(event_metadata \<times> job_changed) worker" where
  "demo_worker = \<lparr>wk_batch_size = 2, wk_max_rows = 10, wk_max_bytes = 100, wk_result_ttl = 7200000000000,
     wk_decoders = demo_decoders,
     wk_open = (\<lambda>key w. case objects w key of
         None \<Rightarrow> Inl (ErrText ''no such object'')
       | Some data \<Rightarrow> Inr \<lparr>src_bytes = data, src_err = Sentinel IoEOF, src_ahead = (\<lambda>_. True)\<rparr>),
     wk_open_validation = (\<lambda>p t a d w. None), wk_validate = demo_validate,
     wk_open_apply = (\<lambda>p t a d w. None),
     wk_apply = (\<lambda>r w. Inr \<lparr>ar_applied_rows = int (length (ab_rows r)), ar_issues = []\<rparr>),
     wk_encode = demo_encode, wk_ctx = (\<lambda>w rows. None), wk_disk = (\<lambda>w. (1000, ErrText ''disk full'')),
     wk_codec = demo_codec\<rparr>"

section \<open>The run\<close>

definition demo_key :: string where "demo_key = ''t1/a1/0/source.csv''"

definition demo_world :: world where
  "demo_world = \<lparr>jobs = [], outbox = [], objects = [demo_key \<mapsto> ''name'' @ CHR 0x0A # ''ann'' @ CHR 0x0A # ''bob'' @ CHR 0x0A # ''eve''],
     dialect = Postgres, db_enabled = True, in_tx = False, aborted = False, faults = (\<lambda>_. None),
     calls = 0, clock = (\<lambda>n. int n * 1000000000), readings = 0, uuids = show_nat, uuids_used = 0,
     driver_text = ''driver error''\<rparr>"

text \<open>The job that \<open>Create\<close> makes of the input, and the same job later in its life.\<close>

definition new_demo_job :: job where
  "new_demo_job = zero_job\<lparr>job_id := ''0'', tenant_id := ''t1'', application_id := ''a1'', dataset_code := ''people'',
     provider_service := ''crm'', file_format := ''csv'', filename := ''p.csv'', status := ''uploading'',
     source_object_key := demo_key, normalized_object_key := ''t1/a1/0/normalized.jsonl'',
     error_report_object_key := ''t1/a1/0/errors.csv'', idempotency_key := ''k1'',
     upload_expires_at := Some 3600000000000, version := 1, created_at := 0, updated_at := 0,
     created_by := ''ann'', updated_by := ''ann''\<rparr>"

definition queued_job :: job where
  "queued_job = new_demo_job\<lparr>status := ''queued'', source_bytes := 16, source_checksum := ''16'', version := 2\<rparr>"

definition ready_job :: job where
  "ready_job = queued_job\<lparr>status := ''ready'', total_rows := 3, valid_rows := 3, progress_percent := 100,
     started_at := Some 1, completed_at := Some 1, result_expires_at := Some 7200000000001, version := 4\<rparr>"

definition confirmed_job :: job where
  "confirmed_job = ready_job\<lparr>status := ''apply_queued'', confirm_key := ''c1'', version := 5\<rparr>"

definition holding :: "job list \<Rightarrow> world" where
  "holding js = demo_world\<lparr>jobs := js, objects := [demo_key \<mapsto> ''name'' @ CHR 0x0A # ''ann'' @ CHR 0x0A # ''bob'' @ CHR 0x0A # ''eve'',
     ''t1/a1/0/normalized.jsonl'' \<mapsto> ''ann'' @ CHR 0x0A # ''bob'' @ CHR 0x0A # ''eve'' @ [CHR 0x0A]]\<rparr>"

end
