(* ===== verification/Job_Properties.thy ===== *)
theory Job_Properties
  imports History Scenario
begin

text \<open>
  The properties of the service, of the worker and of their common tables. Each is stated over the
  operations as the clients and the message handlers call them; those with a hypothesis are
  applied to the concrete run of theory \<open>Scenario\<close>.
\<close>

section \<open>The tables\<close>

text \<open>C1: From empty tables, after any history of requests, validations, applications, cleanups
  and purges, with every pattern of failures, every job is well formed (its counters agree with
  its status, a confirmed job has its key, a finished one its times) and the constraints of
  the tables hold.\<close>

theorem history_jobs_ok:
  assumes "jobs w = []"
  shows "list_all job_ok (jobs (fold perform acts w)) \<and> constraints_ok (jobs (fold perform acts w))"
proof -
  have "reachable (jobs (fold perform acts w))"
    by (rule history_reachable) (simp add: assms)
  then show ?thesis by (simp add: reachable_job_ok reachable_constraints)
qed

theorem history_jobs_ok_witness:
  "list_all job_ok (jobs (fold perform [Request demo_service demo_caller (ReqCreate demo_input),
     RunValidate demo_worker ''t1'' ''a1'' ''0''] demo_world))"
  using history_jobs_ok [of demo_world "[Request demo_service demo_caller (ReqCreate demo_input),
     RunValidate demo_worker ''t1'' ''a1'' ''0'']"]
  by (simp add: demo_world_def)

text \<open>C7: Each step of the table refines the abstract state machine: it creates one new job, or
  every job stays as it is or moves along one edge of the machine with its version raised by one
  and its identity kept, or it deletes expired jobs only.\<close>

theorem table_step_refines:
  assumes "table_step T T'"
  shows "(\<exists>v. new_job_ok v \<and> T' = T @ [v]) \<or> list_all2 row_step T T'
    \<or> (\<exists>d. T' = filter (\<lambda>j. \<not> d j) T \<and> (\<forall>j. d j \<longrightarrow> status j = StatusExpired))"
  using assms by (rule table_step_rows)

theorem table_step_refines_witness:
  "(\<exists>v. new_job_ok v \<and> [claim_set StatusValidating 5 queued_job] = [queued_job] @ [v])
    \<or> list_all2 row_step [queued_job] [claim_set StatusValidating 5 queued_job]
    \<or> (\<exists>d. [claim_set StatusValidating 5 queued_job] = filter (\<lambda>j. \<not> d j) [queued_job]
         \<and> (\<forall>j. d j \<longrightarrow> status j = StatusExpired))"
proof (rule table_step_refines)
  have "constraints_ok [claim_set StatusValidating 5 queued_job]" by code_simp
  moreover have "claim_where ''t1'' ''a1'' ''0'' StatusQueued queued_job" by code_simp
  ultimately show "table_step [queued_job] [claim_set StatusValidating 5 queued_job]"
    by (intro table_step.claim_validation [of _ "''t1''" "''a1''" "''0''"]) simp_all
qed

text \<open>C28: A job that has succeeded stays exactly as it is until it expires, whatever happens to the
  tables in between.\<close>

theorem succeeded_until_expired:
  assumes "table_step T T'" and "j \<in> set T" and "status j = StatusSucceeded"
  shows "j \<in> set T' \<or> (\<exists>now. expire_set now j \<in> set T')"
  using assms(1)
proof cases
  case (expire v now)
  have "(if expire_where v j then expire_set now j else j) \<in> set T'"
    unfolding expire(2) using assms(2) by (rule update_where_mem)
  then show ?thesis by (auto split: if_splits)
next
  case (fail s v)
  from fail(1) assms(2,3) show ?thesis unfolding fail(4)
    by (intro disjI1 update_where_kept) (auto simp: where_defs)
qed (use assms(2,3) in \<open>auto intro!: update_where_kept
       simp: where_defs cancelable_def retryable_def delete_where_def\<close>)

theorem succeeded_until_expired_witness:
  "confirmed_job\<lparr>status := StatusSucceeded\<rparr> \<in> set [expire_set 7 (confirmed_job\<lparr>status := StatusSucceeded\<rparr>)]
   \<or> (\<exists>now. expire_set now (confirmed_job\<lparr>status := StatusSucceeded\<rparr>)
        \<in> set [expire_set 7 (confirmed_job\<lparr>status := StatusSucceeded\<rparr>)])"
proof (rule succeeded_until_expired)
  let ?j = "confirmed_job\<lparr>status := StatusSucceeded\<rparr>"
  have "constraints_ok [expire_set 7 ?j]" by code_simp
  then show "table_step [?j] [expire_set 7 ?j]"
    by (intro table_step.expire [of ?j]) (simp_all add: where_defs)
qed simp_all

section \<open>Requests\<close>

text \<open>C2: A request, whatever its arguments and failures, makes at most one change to the tables,
  for an authorized caller and of its own kind. \<open>Create\<close> inserts one job of the tenant, application,
  dataset and key it names, created by the caller, and stores no event. Completing an upload,
  canceling, retrying and confirming move the one job they name, from the version they name and a
  status they allow to their status and the next version, and store in the same transaction the one
  event of that change (\<open>requested\<close>, \<open>canceled\<close>, \<open>retried\<close>, \<open>apply-requested\<close>) with the new row,
  the caller as its actor and the time of the update. Reading changes nothing; and the jobs of
  every other tenant or application stay as they are.\<close>

theorem request_changes:
  "own_change (sv_codec s) service_changes (clean (request_tenant req)) (clean (request_application req))
     (tables w) (tables (snd (serve s p req w)))
   \<and> attributed_change (sv_codec s) p req (tables w) (tables (snd (serve s p req w)))"
  by (rule conjI [OF serve_own_change serve_attributed]) (rule surjective_pairing)

text \<open>C24: A request of a caller who is not authorized for its tenant is refused with the error of
  the authorization, before anything is called or read.\<close>

theorem request_refused:
  assumes "authorize p (request_tenant req) = Inl e"
  shows "serve s p req w = (Inl e, w)"
  using assms by (rule serve_unauthorized)

theorem request_refused_witness:
  "serve demo_service demo_caller (ReqCancel ''t2'' ''a1'' ''0'' 1) demo_world
     = (Inl (app_new CodeForbidden ''tenant access denied'' 403 None), demo_world)"
proof (rule request_refused)
  show "authorize demo_caller (request_tenant (ReqCancel ''t2'' ''a1'' ''0'' 1))
      = Inl (app_new CodeForbidden ''tenant access denied'' 403 None)" by code_simp
qed

text \<open>C25: Every job that the answer of a request shows is a row of the table it leaves, and belongs
  to the tenant and the application the request names.\<close>

theorem request_answers_own:
  assumes "fst (serve s p req w) = Inr js" and "j \<in> set js"
  shows "j \<in> set (jobs (snd (serve s p req w))) \<and> own_job req j"
  by (rule serve_answer [OF _ assms(2), of s p req w])
    (simp add: assms(1) [symmetric])

theorem request_answers_own_witness:
  "queued_job \<in> set (jobs (snd (serve demo_service demo_caller (ReqGet ''t1'' ''a1'' ''0'') (holding [queued_job]))))
   \<and> own_job (ReqGet ''t1'' ''a1'' ''0'') queued_job"
proof (rule request_answers_own)
  show "fst (serve demo_service demo_caller (ReqGet ''t1'' ''a1'' ''0'') (holding [queued_job])) = Inr [queued_job]"
    by code_simp
qed simp

text \<open>A request with a version changes the tables only when the row it names has that version,
  and leaves the row with the next one.\<close>

lemma request_needs_version:
  assumes "request_version req = Some (i, n)" and "tables (snd (serve s p req w)) \<noteq> tables w"
  shows "\<exists>j j'. named_job req i (jobs w) = Some j \<and> version j = n
    \<and> named_job req i (jobs (snd (serve s p req w))) = Some j' \<and> version j' = n + 1"
  by (rule serve_version [OF surjective_pairing assms])

lemma request_needs_version_witness:
  "\<exists>j j'. named_job (ReqCancel ''t1'' ''a1'' ''0'' 2) ''0'' (jobs (holding [queued_job])) = Some j \<and> version j = 2
    \<and> named_job (ReqCancel ''t1'' ''a1'' ''0'' 2) ''0''
        (jobs (snd (serve demo_service demo_caller (ReqCancel ''t1'' ''a1'' ''0'' 2) (holding [queued_job])))) = Some j'
    \<and> version j' = 2 + 1"
proof (rule request_needs_version)
  have "map status (jobs (snd (serve demo_service demo_caller (ReqCancel ''t1'' ''a1'' ''0'' 2) (holding [queued_job]))))
      \<noteq> map status (jobs (holding [queued_job]))" by code_simp
  then show "tables (snd (serve demo_service demo_caller (ReqCancel ''t1'' ''a1'' ''0'' 2) (holding [queued_job])))
      \<noteq> tables (holding [queued_job])" by (auto simp: tables_def)
qed simp

text \<open>C8: No update is lost: of two requests with the same version on the same job, run one after the
  other, the second changes nothing if the first changed something.\<close>

theorem second_writer_loses:
  assumes "request_version req = Some (i, n)" and "request_version req' = Some (i', n)"
    and "clean (request_tenant req) = clean (request_tenant req')"
      "clean (request_application req) = clean (request_application req')" "clean i = clean i'"
    and "tables (snd (serve s p req w)) \<noteq> tables w"
  shows "tables (snd (serve s' p' req' (snd (serve s p req w)))) = tables (snd (serve s p req w))"
proof (rule ccontr)
  let ?w = "snd (serve s p req w)"
  assume "tables (snd (serve s' p' req' ?w)) \<noteq> tables ?w"
  from serve_version [OF surjective_pairing assms(2) this]
  obtain j where "named_job req' i' (jobs ?w) = Some j" "version j = n" by blast
  moreover from serve_version [OF surjective_pairing assms(1,6)]
  obtain j' where "named_job req i (jobs ?w) = Some j'" "version j' = n + 1" by blast
  ultimately show False using assms(3-5) by (simp add: named_job_def)
qed

theorem second_writer_loses_witness:
  "tables (snd (serve demo_service demo_caller (ReqRetry ''t1'' ''a1'' ''0'' 2 ''k2'')
      (snd (serve demo_service demo_caller (ReqCancel ''t1'' ''a1'' ''0'' 2) (holding [queued_job])))))
   = tables (snd (serve demo_service demo_caller (ReqCancel ''t1'' ''a1'' ''0'' 2) (holding [queued_job])))"
proof (rule second_writer_loses)
  have "map status (jobs (snd (serve demo_service demo_caller (ReqCancel ''t1'' ''a1'' ''0'' 2) (holding [queued_job]))))
      \<noteq> map status (jobs (holding [queued_job]))" by code_simp
  then show "tables (snd (serve demo_service demo_caller (ReqCancel ''t1'' ''a1'' ''0'' 2) (holding [queued_job])))
      \<noteq> tables (holding [queued_job])" by (auto simp: tables_def)
qed simp_all

text \<open>C26: \<open>Create\<close> with an idempotency key that a job of the application already has never changes
  the tables, and when it succeeds it answers that job, as a replay.\<close>

theorem create_is_idempotent:
  assumes "find (is_idem (clean (ci_tenant_id i)) (clean (ci_application_id i)) (clean (ci_idempotency_key i)))
      (jobs w) = Some j"
  shows "tables (snd (service_create s p i w)) = tables w
    \<and> (\<forall>j' u replayed. fst (service_create s p i w) = Inr (j', u, replayed) \<longrightarrow> j' = j \<and> replayed)"
  by (rule create_again [OF assms surjective_pairing])

theorem create_is_idempotent_witness:
  "tables (snd (service_create demo_service demo_caller demo_input (holding [new_demo_job])))
     = tables (holding [new_demo_job])"
proof -
  have "find (is_idem (clean (ci_tenant_id demo_input)) (clean (ci_application_id demo_input))
      (clean (ci_idempotency_key demo_input))) (jobs (holding [new_demo_job])) = Some new_demo_job"
    by code_simp
  from create_is_idempotent [OF this] show ?thesis by blast
qed

text \<open>C27: \<open>Confirm\<close> with the key by which the job is already confirmed never changes the tables,
  in whatever state the job is by then, and when it succeeds it answers the job, as a replay.\<close>

theorem confirm_is_idempotent:
  assumes "find (is_key (clean t) (clean a) (clean i)) (jobs w) = Some j" and "confirm_key j = clean k"
  shows "tables (snd (service_confirm s p t a i n k w)) = tables w
    \<and> (\<forall>j' replayed. fst (service_confirm s p t a i n k w) = Inr (j', replayed) \<longrightarrow> j' = j \<and> replayed)"
  by (rule confirm_again [OF assms surjective_pairing])

theorem confirm_is_idempotent_witness:
  "tables (snd (service_confirm demo_service demo_caller ''t1'' ''a1'' ''0'' 4 ''c1'' (holding [confirmed_job])))
     = tables (holding [confirmed_job])"
proof -
  have "find (is_key (clean ''t1'') (clean ''a1'') (clean ''0'')) (jobs (holding [confirmed_job])) = Some confirmed_job"
    "confirm_key confirmed_job = clean ''c1''" by code_simp+
  from confirm_is_idempotent [OF this] show ?thesis by blast
qed

text \<open>\<open>Retry\<close> with the idempotency key of an upload that is already waiting never changes the
  tables, and when it succeeds it answers the job, as a replay.\<close>

lemma retry_is_idempotent:
  assumes "find (is_key (clean t) (clean a) (clean i)) (jobs w) = Some j"
    and "status j = StatusUploading" and "idempotency_key j = clean k"
  shows "tables (snd (service_retry s p t a i n k w)) = tables w
    \<and> (\<forall>j' u replayed. fst (service_retry s p t a i n k w) = Inr (j', u, replayed) \<longrightarrow> j' = j \<and> replayed)"
  using postD [OF service_retry_published surjective_pairing, of s p t a i n k w] assms
  by (auto simp: fst_tables)

lemma retry_is_idempotent_witness:
  "tables (snd (service_retry demo_service demo_caller ''t1'' ''a1'' ''0'' 1 ''k1'' (holding [new_demo_job])))
     = tables (holding [new_demo_job])"
proof -
  have "find (is_key (clean ''t1'') (clean ''a1'') (clean ''0'')) (jobs (holding [new_demo_job])) = Some new_demo_job"
    "status new_demo_job = StatusUploading" "idempotency_key new_demo_job = clean ''k1''" by code_simp+
  from retry_is_idempotent [OF this] show ?thesis by blast
qed

section \<open>Transactions and pages\<close>

text \<open>C23: A transaction is all or nothing, whatever fails in it: either it reports an error and the
  tables are as before, or its body ran to its end without an error and exactly its writes are in
  the tables. In the second case the only error is that the answer to the commit was lost.\<close>

theorem within_all_or_nothing:
  "(\<exists>e. fst (within fn w) = Inl e) \<and> tables (snd (within fn w)) = tables w
   \<or> (\<exists>x v. fn (w\<lparr>calls := Suc (calls w), in_tx := True, aborted := False\<rparr>) = (Inr x, v)
        \<and> tables (snd (within fn w)) = tables v
        \<and> (fst (within fn w) = Inr x
           \<or> (\<exists>e. fst (within fn w) = Inl (Wrapped ''commit transaction: '' e []))))"
proof -
  obtain r w' where run: "within fn w = (r, w')" by fastforce
  then show ?thesis by (cases rule: within_cases) (simp_all add: run)
qed

text \<open>C32: The page of \<open>List\<close> is the slice of the matching jobs, newest first, that its number and
  its size name, with the number of all matching jobs, as long as the offset fits into 32 bits.\<close>

theorem list_answers_page:
  assumes "fst (service_list s p (f\<lparr>lf_page := of_nat q, lf_page_size := of_nat n\<rparr>) w) = Inr pg"
    and "1 \<le> q" and "1 \<le> n" and "n \<le> 100" and "q * n < 2 ^ 31"
  shows "page_items pg = take n (drop ((q - 1) * n) (matching (clean_filter f) (jobs w)))
    \<and> page_total pg = int (length (matching (clean_filter f) (jobs w)))"
proof -
  let ?f = "f\<lparr>lf_page := of_nat q, lf_page_size := of_nat n\<rparr>"
  have "q \<le> q * n" "(q - 1) * n \<le> q * n" using assms(3) by auto
  with assms(5) have "q < 2 ^ 31" "(q - 1) * n < 2 ^ 31" by (blast intro: order.strict_trans1)+
  moreover have "n < 2 ^ 31" using assms(4) by simp
  ultimately have small: "n < 2 ^ 31" "q < 2 ^ 31" "(q - 1) * n < 2 ^ 31" by blast+
  note sints = sint_i32_of_nat [OF small(1)] sint_i32_of_nat [OF small(2)]
  have page: "lf_page (clean_filter ?f) = of_nat q" "lf_page_size (clean_filter ?f) = of_nat n"
    using assms(2-4) sints by (simp_all add: clean_filter_def word_sless_alt)
  have offset: "list_offset (clean_filter ?f) = of_nat ((q - 1) * n)"
    using assms(2) by (simp add: list_offset_def page of_nat_diff)
  have "list_where (clean_filter ?f) = list_where (clean_filter f)"
    by (intro ext) (simp add: list_where_def clean_filter_def)
  then have same: "matching (clean_filter ?f) = matching (clean_filter f)"
    by (intro ext) (simp add: matching_def)
  define d where "d = (q - 1) * n"
  have d: "sint (of_nat d :: i32) = int d" unfolding d_def by (rule sint_i32_of_nat [OF small(3)])
  from postD [OF service_list_effect surjective_pairing, of s p ?f w] assms(1)
  show ?thesis unfolding d_def [symmetric]
    by (auto simp: list_page_def page offset [folded d_def] same fst_tables sints(1) d)
qed

theorem list_answers_page_witness:
  "page_items \<lparr>page_items = [new_demo_job], page_total = 1\<rparr>
     = take 20 (drop ((1 - 1) * 20) (matching (clean_filter \<lparr>lf_tenant_id = ''t1'', lf_application_id = ''a1'',
         lf_status = [], lf_dataset_code = [], lf_created_from = None, lf_created_to = None, lf_page = 1,
         lf_page_size = 20\<rparr>) (jobs (holding [new_demo_job]))))"
proof -
  let ?f = "\<lparr>lf_tenant_id = ''t1'', lf_application_id = ''a1'', lf_status = [], lf_dataset_code = [],
    lf_created_from = None, lf_created_to = None, lf_page = 1, lf_page_size = 20\<rparr> :: list_filter"
  have "fst (service_list demo_service demo_caller (?f\<lparr>lf_page := of_nat 1, lf_page_size := of_nat 20\<rparr>)
      (holding [new_demo_job])) = Inr \<lparr>page_items = [new_demo_job], page_total = 1\<rparr>"
    by code_simp
  from list_answers_page [OF this] show ?thesis by simp
qed

text \<open>When the offset does not fit into 32 bits and wraps around to a negative number, \<open>List\<close>
  fails, whatever the table holds.\<close>

lemma list_offset_wraps:
  assumes "sint (list_offset (clean_filter f)) < 0"
  shows "\<exists>e. fst (service_list s p f w) = Inl e"
proof (cases "fst (service_list s p f w)")
  case (Inr pg)
  with postD [OF service_list_effect surjective_pairing, of s p f w] assms show ?thesis by auto
qed simp

lemma list_offset_wraps_witness:
  "\<exists>e. fst (service_list demo_service demo_caller \<lparr>lf_tenant_id = ''t1'', lf_application_id = ''a1'',
     lf_status = [], lf_dataset_code = [], lf_created_from = None, lf_created_to = None,
     lf_page = 21474838, lf_page_size = 100\<rparr> (holding [])) = Inl e"
  by (rule list_offset_wraps) (simp add: clean_filter_def list_offset_def word_sless_alt)

section \<open>The worker\<close>

text \<open>C3: When \<open>Validate\<close> of a queued job reports no error, a source was opened, the limited reader
  had not noticed more bytes than the limit when the parser was done, every row up to the end of
  what it delivers is counted once as valid or as invalid, within the limit of rows, the checksum
  of what it delivers is the one the client announced, the normalized object holds one encoded
  line per valid row, and the job is ready, or has failed the validation if a row is invalid.
  With decoders that report the end of the input only when their source does (\<open>honest\<close>, documented
  behaviour of \<open>encoding/csv\<close> and \<open>excelize\<close>), what was delivered, counted and summed is the whole
  source: it ends regularly and is not longer than the limit.\<close>

theorem validate_accounts_for_every_row:
  assumes "fst (worker_validate k t a i w) = None" and "find (is_key t a i) (jobs w) = Some j"
    and "status j = StatusQueued" and "error_report_object_key j \<noteq> normalized_object_key j"
  shows "\<exists>src v rows valid invalid j'. wk_open k (source_object_key j) v = Inr src
     \<and> validated_from k j src rows valid invalid
     \<and> \<not> exceeded src (wk_max_bytes k) 0
     \<and> (honest (wk_decoders k) \<longrightarrow> src_err src = Sentinel IoEOF
          \<and> int (length (src_bytes src)) \<le> wk_max_bytes k
          \<and> equal_fold (dec_sha256_hex (wk_decoders k) (src_bytes src)) (source_checksum j))
     \<and> normalized_stored k j valid (snd (worker_validate k t a i w))
     \<and> find (is_key t a i) (jobs (snd (worker_validate k t a i w))) = Some j'
     \<and> status j' = (if invalid > 0 then StatusValidationFailed else StatusReady)
     \<and> total_rows j' = rows \<and> valid_rows j' = valid \<and> invalid_rows j' = invalid
     \<and> version j' = version j + 2"
proof -
  have "worker_validate k t a i w = (None, snd (worker_validate k t a i w))"
    using assms(1) by (simp add: prod_eq_iff)
  from worker_validate_done [OF this assms(2,3)] assms(4) obtain src v rows valid invalid j' where
    "wk_open k (source_object_key j) v = Inr src" and val: "validated_from k j src rows valid invalid"
    and "normalized_stored k j valid (snd (worker_validate k t a i w))"
    "find (is_key t a i) (jobs (snd (worker_validate k t a i w))) = Some j'"
    "status j' = (if invalid > 0 then StatusValidationFailed else StatusReady)"
    "total_rows j' = rows" "valid_rows j' = valid" "invalid_rows j' = invalid" "version j' = version j + 2"
    by blast
  moreover from val have "\<not> exceeded src (wk_max_bytes k) 0"
    and "honest (wk_decoders k) \<longrightarrow> src_err src = Sentinel IoEOF
      \<and> int (length (src_bytes src)) \<le> wk_max_bytes k
      \<and> equal_fold (dec_sha256_hex (wk_decoders k) (src_bytes src)) (source_checksum j)"
    by (auto simp: validated_from_def read_whole_def)
  ultimately show ?thesis by blast
qed

theorem validate_accounts_for_every_row_witness:
  "\<exists>src v j'. wk_open demo_worker (source_object_key queued_job) v = Inr src \<and> int (length (src_bytes src)) \<le> 100
    \<and> find (is_key ''t1'' ''a1'' ''0'')
      (jobs (snd (worker_validate demo_worker ''t1'' ''a1'' ''0'' (holding [queued_job])))) = Some j'
    \<and> version j' = version queued_job + 2"
proof -
  have "honest (wk_decoders demo_worker)" and limit: "wk_max_bytes demo_worker = 100"
    by (auto simp: demo_worker_def demo_decoders_def demo_csv_def honest_def)
  moreover
  have "fst (worker_validate demo_worker ''t1'' ''a1'' ''0'' (holding [queued_job])) = None"
    "find (is_key ''t1'' ''a1'' ''0'') (jobs (holding [queued_job])) = Some queued_job"
    "status queued_job = StatusQueued"
    "error_report_object_key queued_job \<noteq> normalized_object_key queued_job" by code_simp+
  from validate_accounts_for_every_row [OF this] calculation limit show ?thesis by metis
qed

text \<open>C4: When \<open>Apply\<close> of a confirmed job reports no error, the normalized object was read to its
  end, every row of it was sent to the provider in exactly one batch, the provider reported each
  batch as applied in full and without an issue, and the job has succeeded with the number of
  the rows.\<close>

theorem apply_sends_every_row:
  assumes "fst (worker_apply k t a i w) = None" and "find (is_key t a i) (jobs w) = Some j"
    and "status j = StatusApplyQueued"
  shows "\<exists>src v applied j'. wk_open k (normalized_object_key j) v = Inr src
     \<and> applied_from k j src applied
     \<and> find (is_key t a i) (jobs (snd (worker_apply k t a i w))) = Some j'
     \<and> status j' = StatusSucceeded \<and> applied_rows j' = applied \<and> version j' = version j + 2"
proof -
  have "worker_apply k t a i w = (None, snd (worker_apply k t a i w))"
    using assms(1) by (simp add: prod_eq_iff)
  from worker_apply_done [OF this assms(2,3)] show ?thesis .
qed

theorem apply_sends_every_row_witness:
  "\<exists>j'. find (is_key ''t1'' ''a1'' ''0'')
      (jobs (snd (worker_apply demo_worker ''t1'' ''a1'' ''0'' (holding [confirmed_job])))) = Some j'
    \<and> status j' = StatusSucceeded"
proof -
  have "fst (worker_apply demo_worker ''t1'' ''a1'' ''0'' (holding [confirmed_job])) = None"
    "find (is_key ''t1'' ''a1'' ''0'') (jobs (holding [confirmed_job])) = Some confirmed_job"
    "status confirmed_job = StatusApplyQueued" by code_simp+
  from apply_sends_every_row [OF this] show ?thesis by blast
qed

text \<open>C21: A job is worked on once: a message that is delivered when its job does not wait (any
  more), or is delivered for no job, changes neither the tables nor the object store.\<close>

theorem redelivery_is_ignored:
  assumes "distinct (map job_id (jobs w))"
    and "\<forall>j. find (is_key t a i) (jobs w) = Some j \<longrightarrow> status j \<notin> {StatusQueued, StatusApplyQueued}"
  shows "tables (snd (worker_validate k t a i w)) = tables w
    \<and> objects (snd (worker_validate k t a i w)) = objects w
    \<and> tables (snd (worker_apply k' t a i w)) = tables w
    \<and> objects (snd (worker_apply k' t a i w)) = objects w"
proof -
  have "find (is_key t a i) (jobs w) = None
      \<or> (\<exists>j. find (is_key t a i) (jobs w) = Some j \<and> status j \<noteq> StatusQueued)"
    "find (is_key t a i) (jobs w) = None
      \<or> (\<exists>j. find (is_key t a i) (jobs w) = Some j \<and> status j \<noteq> StatusApplyQueued)"
    using assms(2) by auto
  from validate_idle [OF this(1) assms(1)] apply_idle [OF this(2) assms(1)] show ?thesis by blast
qed

theorem redelivery_is_ignored_witness:
  "tables (snd (worker_validate demo_worker ''t1'' ''a1'' ''0'' (holding [ready_job]))) = tables (holding [ready_job])"
proof -
  have "distinct (map job_id (jobs (holding [ready_job])))"
    "find (is_key ''t1'' ''a1'' ''0'') (jobs (holding [ready_job])) = Some ready_job"
    "status ready_job \<notin> {StatusQueued, StatusApplyQueued}" by code_simp+
  with redelivery_is_ignored [of "holding [ready_job]" "''t1''" "''a1''" "''0''" demo_worker demo_worker]
  show ?thesis by simp
qed

text \<open>C22: \<open>fail\<close> always reports the error for which it was called (joined with the one of its own
  transaction, if that failed), touches no object, and when its transaction succeeded the job,
  which was in the expected status, has failed with the given code and a message of at most 2000
  bytes.\<close>

theorem failure_is_recorded:
  assumes "s \<in> {StatusValidating, StatusApplying}"
  shows "\<exists>e. worker_fail k j s code cause w = (Some e, snd (worker_fail k j s code cause w))
    \<and> (e = cause \<or> (\<exists>x. e = Joined cause x))
    \<and> objects (snd (worker_fail k j s code cause w)) = objects w
    \<and> (e = cause \<longrightarrow> (\<exists>j0 j'. find (is_key (tenant_id j) (application_id j) (job_id j)) (jobs w) = Some j0
         \<and> status j0 = s
         \<and> find (is_key (tenant_id j) (application_id j) (job_id j)) (jobs (snd (worker_fail k j s code cause w))) = Some j'
         \<and> status j' = StatusFailed \<and> error_code j' = code \<and> length (error_message j') \<le> 2000))"
proof -
  have "post (worker_fail k j s code cause w) (\<lambda>r w'. \<exists>e. r = Some e \<and> (e = cause \<or> (\<exists>x. e = Joined cause x))
    \<and> objects w' = objects w
    \<and> (e = cause \<longrightarrow> (\<exists>j0 j'. find (is_key (tenant_id j) (application_id j) (job_id j)) (jobs w) = Some j0
         \<and> status j0 = s \<and> find (is_key (tenant_id j) (application_id j) (job_id j)) (jobs w') = Some j'
         \<and> status j' = StatusFailed \<and> error_code j' = code \<and> length (error_message j') \<le> 2000)))"
    using worker_fail_spec [OF assms] by (rule post_mono) (auto simp: fst_tables)
  then show ?thesis by (auto simp: post_def prod_eq_iff)
qed

theorem failure_is_recorded_witness:
  "objects (snd (worker_fail demo_worker (queued_job\<lparr>status := StatusValidating\<rparr>) StatusValidating ''x'' (ErrText ''boom'')
      (holding [queued_job\<lparr>status := StatusValidating\<rparr>]))) = objects (holding [queued_job\<lparr>status := StatusValidating\<rparr>])"
  using failure_is_recorded [of StatusValidating demo_worker "queued_job\<lparr>status := StatusValidating\<rparr>" "''x''"
      "ErrText ''boom''" "holding [queued_job\<lparr>status := StatusValidating\<rparr>]"] by blast

end
