(* ===== verification/Parser_Properties.thy ===== *)
theory Parser_Properties
  imports Scenario
begin

text \<open>
  The properties of the streaming parser, of the limited reader and the bounded writer, and of the
  normalized object between validation and application.
\<close>

section \<open>Lines\<close>

text \<open>Lines that were written with a line feed each are read back.\<close>

lemma scan_lines_line:
  assumes "CHR 0x0A \<notin> set l" and "length l < scan_limit"
  shows "scan_lines (l @ CHR 0x0A # s) = (case scan_lines s of (ls, long) \<Rightarrow> (drop_cr l # ls, long))"
proof -
  have "takeWhile (\<lambda>c. c \<noteq> CHR 0x0A) (l @ CHR 0x0A # s) = l"
    "dropWhile (\<lambda>c. c \<noteq> CHR 0x0A) (l @ CHR 0x0A # s) = CHR 0x0A # s"
    using assms(1) by (auto simp: takeWhile_append dropWhile_append takeWhile_eq_all_conv)
  with assms(2) show ?thesis by (subst scan_lines.simps) (simp add: Let_def)
qed

lemma scan_lines_lines:
  "\<forall>l \<in> set ls. CHR 0x0A \<notin> set l \<and> length l < scan_limit \<Longrightarrow>
   scan_lines (concat (map (\<lambda>l. l @ [CHR 0x0A]) ls)) = (map drop_cr ls, False)"
proof (induction ls)
  case Nil
  show ?case by (simp add: scan_lines.simps)
next
  case (Cons l ls)
  then show ?case using scan_lines_line [of l "concat (map (\<lambda>l. l @ [CHR 0x0A]) ls)"] by simp
qed

lemma decode_all_rows:
  "list_all2 (\<lambda>x r. step x = Inr (Some r)) xs rows \<Longrightarrow> decode_all step final xs = (rows, final)"
  by (induction xs rows rule: list_all2_induct) auto

text \<open>A row that survives: its encoding is one line that is not blank, short enough for the scanner,
  and decodes to the row.\<close>

definition survives :: "decoders \<Rightarrow> (import_row \<Rightarrow> gerr + string) \<Rightarrow> import_row \<Rightarrow> bool" where
  "survives dec encode r \<longleftrightarrow> (\<forall>l. encode r = Inr l \<longrightarrow> CHR 0x0A \<notin> set l \<and> length l < scan_limit
     \<and> drop_cr l = l \<and> trim_space l \<noteq> [] \<and> dec_json dec l = Inr (Some r))"

lemma encoded_rows_read:
  assumes "encoded_rows encode rows (src_bytes src)" and "src_err src = Sentinel IoEOF"
    and "int (length (src_bytes src)) \<le> limit" and "\<forall>r \<in> set rows. survives dec encode r"
  shows "file_rows dec src FormatJSONL limit = (rows, None)"
proof -
  from assms(1) obtain ls where ls: "map encode rows = map Inr ls"
    "src_bytes src = concat (map (\<lambda>l. l @ [CHR 0x0A]) ls)" by (auto simp: encoded_rows_def)
  have len: "length rows = length ls" using ls(1) by (rule map_eq_imp_length_eq)
  have "encode (rows ! m) = Inr (ls ! m) \<and> rows ! m \<in> set rows" if "m < length ls" for m
    using that len ls(1) by (metis nth_map nth_mem)
  then have each: "CHR 0x0A \<notin> set (ls ! m) \<and> length (ls ! m) < scan_limit \<and> drop_cr (ls ! m) = ls ! m
      \<and> trim_space (ls ! m) \<noteq> [] \<and> dec_json dec (ls ! m) = Inr (Some (rows ! m))" if "m < length ls" for m
    using assms(4) that by (auto simp: survives_def)
  then have lines: "\<forall>l \<in> set ls. CHR 0x0A \<notin> set l \<and> length l < scan_limit \<and> drop_cr l = l"
    by (metis in_set_conv_nth)
  then have "map drop_cr ls = ls" by (simp add: map_idI)
  with lines ls(2) scan_lines_lines [of ls] have "scan_lines (src_bytes src) = (ls, False)" by simp
  moreover have "list_all2 (\<lambda>l r. jsonl_step dec l = Inr (Some r)) ls rows"
    using len each by (simp add: list_all2_conv_all_nth jsonl_step_def)
  ultimately show ?thesis using assms(2,3)
    by (simp add: file_rows_def jsonl_rows_def delivered_def delivered_err_def scan_err_def wrap_opt_def
        decode_all_rows)
qed

text \<open>Two callbacks: one that keeps the batches it is given, and any other one with a log of the
  batches it was given.\<close>

definition collect :: "parsed_batch \<Rightarrow> parsed_batch list \<Rightarrow> gerr option \<times> parsed_batch list" where
  "collect b bs = (None, bs @ [b])"

lemma consume_collect: "consume_all collect bs acc = (None, acc @ bs)"
  by (induction bs arbitrary: acc) (simp_all add: collect_def)

definition logged :: "(parsed_batch \<Rightarrow> 's \<Rightarrow> gerr option \<times> 's) \<Rightarrow>
    parsed_batch \<Rightarrow> 's \<times> parsed_batch list \<Rightarrow> gerr option \<times> 's \<times> parsed_batch list" where
  "logged consume b st = (case consume b (fst st) of (e, s) \<Rightarrow> (e, s, snd st @ [b]))"

lemma logged_call: "consume b s = (e, s') \<Longrightarrow> logged consume b (s, l) = (e, s', l @ [b])"
  by (simp add: logged_def)

lemma logged_all:
  assumes "consume_all (logged consume) bs (s, l) = (e, s', l')"
  shows "\<exists>cs s1. l' = l @ cs \<and> prefix cs bs \<and> consume_all consume (butlast cs) s = (None, s1)
    \<and> (if cs = [] then s' = s \<and> s1 = s \<and> e = None else consume (last cs) s1 = (e, s'))"
  using assms
proof (induction bs arbitrary: s l)
  case Nil
  then show ?case by (intro exI [of _ "[]"]) simp
next
  case (Cons b bs)
  obtain e1 s2 where b: "consume b s = (e1, s2)" by fastforce
  note call = logged_call [where consume = consume and b = b and s = s, OF b]
  show ?case
  proof (cases e1)
    case (Some x)
    with b call Cons.prems show ?thesis by (intro exI [of _ "[b]"]) simp
  next
    case None
    with call Cons.prems have "consume_all (logged consume) bs (s2, l @ [b]) = (e, s', l')" by simp
    from Cons.IH [OF this] obtain cs s1 where cs: "l' = l @ b # cs" "prefix cs bs"
      "consume_all consume (butlast cs) s2 = (None, s1)"
      "if cs = [] then s' = s2 \<and> s1 = s2 \<and> e = None else consume (last cs) s1 = (e, s')" by auto
    show ?thesis
    proof (cases "cs = []")
      case True
      with cs b None show ?thesis by (intro exI [of _ "[b]"]) simp
    next
      case False
      with cs b None show ?thesis by (intro exI [of _ "b # cs"] exI [of _ s1]) simp
    qed
  qed
qed

lemma row_count_prefix: "prefix bs cs \<Longrightarrow> row_count bs \<le> row_count cs"
  by (auto simp: prefix_def row_count_def intro!: sum_list_nonneg)

section \<open>Properties\<close>

text \<open>C6: The normalized object is read back as it was written: if every row that a validation
  writes has an encoding without a line feed, that is not blank, is short enough for the scanner
  and decodes to the row (what \<open>encoding/json\<close> documents of its encoder and decoder), then
  \<open>StreamRows\<close> on the written bytes, within its limits and without the end of its context,
  succeeds, and the batches it hands out hold exactly these rows, in order, none left out.\<close>

theorem normalized_round_trip:
  assumes "write_normalized encode rows out = (None, out')" and "bw_inv out" and "fw_data (bw_writer out) = []"
    and "src_bytes src = fw_data (bw_writer out')" and "src_err src = Sentinel IoEOF"
    and "\<forall>r \<in> set rows. \<forall>l. encode r = Inr l \<longrightarrow> CHR 0x0A \<notin> set l \<and> length l < scan_limit
      \<and> drop_cr l = l \<and> trim_space l \<noteq> [] \<and> dec_json dec l = Inr (Some r)"
    and "1 \<le> n" and "1 \<le> max_rows" and "int (length rows) \<le> max_rows"
    and "1 \<le> max_bytes" and "int (length (src_bytes src)) \<le> max_bytes" and "\<forall>k. ctx k = None"
  shows "\<exists>bs. stream_rows dec src FormatJSONL n max_rows max_bytes ctx collect []
      = (Inr \<lparr>ps_rows = int (length rows), ps_bytes = int (length (src_bytes src)),
           ps_checksum = dec_sha256_hex dec (src_bytes src)\<rparr>, bs)
    \<and> concat (map pb_rows bs) = rows \<and> (\<forall>b \<in> set bs. int (length (pb_rows b)) \<le> n)"
proof (intro exI conjI)
  have "file_rows dec src FormatJSONL max_bytes = (rows, None)"
    using write_normalized_ok(1) [OF assms(1,2)] assms(3-6,11)
    by (intro encoded_rows_read) (auto simp: survives_def)
  then show "stream_rows dec src FormatJSONL n max_rows max_bytes ctx collect []
      = (Inr \<lparr>ps_rows = int (length rows), ps_bytes = int (length (src_bytes src)),
           ps_checksum = dec_sha256_hex dec (src_bytes src)\<rparr>, batches_from 0 (nat n) rows)"
    using assms(7-12) by (intro stream_rows_complete) (simp_all add: consume_collect)
  show "concat (map pb_rows (batches_from 0 (nat n) rows)) = rows"
    using assms(7) by (simp add: batches_concat)
  show "\<forall>b \<in> set (batches_from 0 (nat n) rows). int (length (pb_rows b)) \<le> n"
    using batches_sizes [of _ 0 "nat n" rows] assms(7) by (fastforce simp: le_nat_iff)
qed

theorem normalized_round_trip_witness:
  "\<exists>bs. stream_rows demo_decoders \<lparr>src_bytes = ''ann'' @ CHR 0x0A # ''bob'' @ [CHR 0x0A], src_err = Sentinel IoEOF,
     src_ahead = (\<lambda>_. True)\<rparr> FormatJSONL 5 10 100 (\<lambda>_. None) collect []
       = (Inr \<lparr>ps_rows = 2, ps_bytes = 8, ps_checksum = ''8''\<rparr>, bs)
     \<and> concat (map pb_rows bs) = [demo_row ''ann'', demo_row ''bob'']"
proof -
  let ?out = "temp_file demo_worker demo_world"
  let ?src = "\<lparr>src_bytes = ''ann'' @ CHR 0x0A # ''bob'' @ [CHR 0x0A], src_err = Sentinel IoEOF, src_ahead = (\<lambda>_. True)\<rparr>"
  have "write_normalized demo_encode [demo_row ''ann'', demo_row ''bob''] ?out
      = (None, ?out\<lparr>bw_writer := \<lparr>fw_data = ''ann'' @ CHR 0x0A # ''bob'' @ [CHR 0x0A], fw_room = 992,
          fw_full = ErrText ''disk full''\<rparr>, bw_written := 8\<rparr>)"
    by code_simp
  note read = normalized_round_trip [OF this]
  have "bw_inv ?out" "fw_data (bw_writer ?out) = []"
    by (simp_all add: temp_file_def bw_inv_def demo_worker_def)
  note read = read [OF this, where src = ?src and dec = demo_decoders and n = 5 and max_rows = 10
      and max_bytes = 100 and ctx = "\<lambda>_. None"]
  have "CHR 0x0A \<notin> set ''ann'' \<and> length ''ann'' < scan_limit \<and> drop_cr ''ann'' = ''ann'' \<and> trim_space ''ann'' \<noteq> []"
    "CHR 0x0A \<notin> set ''bob'' \<and> length ''bob'' < scan_limit \<and> drop_cr ''bob'' = ''bob'' \<and> trim_space ''bob'' \<noteq> []"
    by (simp add: scan_limit_def drop_cr_def, code_simp)+
  then have "\<exists>bs. stream_rows demo_decoders ?src FormatJSONL 5 10 100 (\<lambda>_. None) collect []
      = (Inr \<lparr>ps_rows = int (length [demo_row ''ann'', demo_row ''bob'']), ps_bytes = int (length (src_bytes ?src)),
           ps_checksum = dec_sha256_hex demo_decoders (src_bytes ?src)\<rparr>, bs)
    \<and> concat (map pb_rows bs) = [demo_row ''ann'', demo_row ''bob''] \<and> (\<forall>b \<in> set bs. int (length (pb_rows b)) \<le> 5)"
    by (intro read) (auto simp: demo_row_def demo_encode_def demo_decoders_def)
  moreover have "dec_sha256_hex demo_decoders (src_bytes ?src) = ''8''" by code_simp
  ultimately show ?thesis by auto
qed

text \<open>C29: \<open>StreamRows\<close>, in each of the three formats, equals the reference. When it succeeds the
  file has no error and no more rows than the limit, the callback has accepted the slices of its
  rows in order, and the result counts the rows and has the checksum of the bytes. And it succeeds
  like this on every such file that is within the byte limit, when the callback accepts its slices
  and the context does not end.\<close>

theorem stream_rows_reference:
  "(\<forall>res s'. stream_rows dec src format n max_rows max_bytes ctx consume s = (Inr res, s') \<longrightarrow>
      snd (file_rows dec src format max_bytes) = None
      \<and> consume_all consume (batches_from 0 (nat n) (fst (file_rows dec src format max_bytes))) s = (None, s')
      \<and> ps_rows res = int (length (fst (file_rows dec src format max_bytes))) \<and> ps_rows res \<le> max_rows
      \<and> ps_checksum res = dec_sha256_hex dec (delivered src max_bytes))
   \<and> (\<forall>rows s'. 1 \<le> n \<and> 1 \<le> max_rows \<and> format \<in> {FormatCSV, FormatJSONL, FormatXLSX} \<and> 1 \<le> max_bytes
      \<and> file_rows dec src format max_bytes = (rows, None) \<and> int (length rows) \<le> max_rows
      \<and> int (length (src_bytes src)) \<le> max_bytes \<and> (\<forall>r. ctx r = None)
      \<and> consume_all consume (batches_from 0 (nat n) rows) s = (None, s') \<longrightarrow>
      stream_rows dec src format n max_rows max_bytes ctx consume s
        = (Inr \<lparr>ps_rows = int (length rows), ps_bytes = int (length (src_bytes src)),
            ps_checksum = dec_sha256_hex dec (src_bytes src)\<rparr>, s'))"
proof (intro conjI allI impI, goal_cases)
  case (1 res s')
  from stream_rows_ok(1) [OF this] show ?case .
next
  case (2 res s')
  from stream_rows_ok(2) [OF this] show ?case .
next
  case (3 res s')
  from stream_rows_ok(4) [OF this] show ?case by simp
next
  case (4 res s')
  from stream_rows_ok(3,4) [OF this] show ?case by simp
next
  case (5 res s')
  from stream_rows_ok(4) [OF this] show ?case by simp
next
  case (6 rows s')
  then show ?case by (intro stream_rows_complete) auto
qed

definition demo_file :: source where
  "demo_file = \<lparr>src_bytes = ''name'' @ CHR 0x0A # ''ann'' @ CHR 0x0A # ''bob'' @ CHR 0x0A # ''eve'',
     src_err = Sentinel IoEOF, src_ahead = (\<lambda>_. True)\<rparr>"

theorem stream_rows_reference_witness:
  "snd (file_rows demo_decoders demo_file FormatCSV 100) = None
   \<and> stream_rows demo_decoders demo_file FormatCSV 2 10 100 (\<lambda>_. None) (\<lambda>b s. (None, s + length (pb_rows b))) 0
       = (Inr \<lparr>ps_rows = 3, ps_bytes = 16, ps_checksum = ''16''\<rparr>, 3)"
proof -
  have "stream_rows demo_decoders demo_file FormatCSV 2 10 100 (\<lambda>_. None) (\<lambda>b s. (None, s + length (pb_rows b))) 0
      = (Inr \<lparr>ps_rows = 3, ps_bytes = 16, ps_checksum = ''16''\<rparr>, 3)" by code_simp
  with conjunct1 [OF stream_rows_reference, rule_format, OF this] show ?thesis by blast
qed

lemma calls_are_slices:
  assumes "1 \<le> n"
    and "stream_rows dec src format n max_rows max_bytes ctx (logged consume) (s, []) = (r, s', bs)"
  shows "(\<exists>m. bs = take m (batches_from 0 (nat n) (fst (file_rows dec src format max_bytes))))
    \<and> row_count bs \<le> max max_rows 0
    \<and> (\<exists>s1 e. consume_all consume (butlast bs) s = (None, s1)
         \<and> (if bs = [] then s' = s else consume (last bs) s1 = (e, s')
              \<and> (\<forall>x. e = Some x \<longrightarrow> r = Inl x \<or> r = Inl (Sentinel ErrByteLimitExceeded))))"
proof (cases "1 \<le> max_rows \<and> 1 \<le> max_bytes \<and> format \<in> {FormatCSV, FormatJSONL, FormatXLSX}")
  case True
  let ?bs = "batches_from 0 (nat n) (fst (file_rows dec src format max_bytes))"
  from True stream_rows_batches [OF assms(2,1)] obtain cs where cs: "prefix cs ?bs" "row_count cs \<le> max_rows"
    "snd (consume_all (logged consume) cs (s, [])) = (s', bs)"
    "\<forall>x. fst (consume_all (logged consume) cs (s, [])) = Some x
       \<longrightarrow> r = Inl x \<or> r = Inl (Sentinel ErrByteLimitExceeded)" by blast
  then obtain e where all: "consume_all (logged consume) cs (s, []) = (e, s', bs)" by (metis prod.collapse)
  from logged_all [OF this] obtain s1 where log: "prefix bs cs" "consume_all consume (butlast bs) s = (None, s1)"
    "if bs = [] then s' = s else consume (last bs) s1 = (e, s')" by (auto split: if_splits)
  from cs(4) all log(2,3) have calls: "\<exists>s1 e. consume_all consume (butlast bs) s = (None, s1)
         \<and> (if bs = [] then s' = s else consume (last bs) s1 = (e, s')
              \<and> (\<forall>x. e = Some x \<longrightarrow> r = Inl x \<or> r = Inl (Sentinel ErrByteLimitExceeded)))"
    by (intro exI [of _ s1] exI [of _ e]) auto
  moreover from log(1) cs(1) have "prefix bs ?bs" by (rule prefix_order.trans)
  then have "\<exists>m. bs = take m ?bs" by (metis append_eq_conv_conj prefix_def)
  moreover from log(1) cs(2) have "row_count bs \<le> max max_rows 0"
    using row_count_prefix [of bs cs] by simp
  ultimately show ?thesis by blast
next
  case False
  with stream_rows_refused [of n max_rows max_bytes format dec src ctx "logged consume" "(s, [])"] assms
  have "s' = s \<and> bs = []" by (auto simp: not_le)
  then show ?thesis by (auto intro: exI [of _ 0])
qed

text \<open>C30: Whatever the callback answers and whatever stops the parser, \<open>StreamRows\<close> gives its
  callback consecutive batches from the start of the file: they are numbered 1, 2, 3 and so on,
  hold between one and \<open>batch_size\<close> rows each, and never more rows than the row limit in all. Every
  batch but the last was accepted, and when the last one was refused, nothing follows it and
  \<open>StreamRows\<close> fails with the error of the callback, or with the byte limit when the decoder had
  already read ahead beyond it. (The log \<open>bs\<close> of the calls is kept beside the state of the
  callback.)\<close>

theorem batches_are_slices:
  assumes "1 \<le> n"
    and "stream_rows dec src format n max_rows max_bytes ctx (logged consume) (s, []) = (r, s', bs)"
  shows "(\<exists>m. bs = take m (batches_from 0 (nat n) (fst (file_rows dec src format max_bytes))))
    \<and> prefix (concat (map pb_rows bs)) (fst (file_rows dec src format max_bytes))
    \<and> map pb_number bs = map int [1 ..< 1 + length bs]
    \<and> list_all (\<lambda>b. pb_rows b \<noteq> [] \<and> int (length (pb_rows b)) \<le> n) bs
    \<and> row_count bs \<le> max max_rows 0
    \<and> (\<exists>s1 e. consume_all consume (butlast bs) s = (None, s1)
         \<and> (if bs = [] then s' = s else consume (last bs) s1 = (e, s')
              \<and> (\<forall>x. e = Some x \<longrightarrow> r = Inl x \<or> r = Inl (Sentinel ErrByteLimitExceeded))))"
proof -
  let ?bs = "batches_from 0 (nat n) (fst (file_rows dec src format max_bytes))"
  from calls_are_slices [OF assms] obtain m where m: "bs = take m ?bs" "row_count bs \<le> max max_rows 0"
    and calls: "\<exists>s1 e. consume_all consume (butlast bs) s = (None, s1)
         \<and> (if bs = [] then s' = s else consume (last bs) s1 = (e, s')
              \<and> (\<forall>x. e = Some x \<longrightarrow> r = Inl x \<or> r = Inl (Sentinel ErrByteLimitExceeded)))" by blast
  have "concat (map pb_rows ?bs) = fst (file_rows dec src format max_bytes)"
    using assms(1) by (intro batches_concat) simp
  then have "prefix (concat (map pb_rows bs)) (fst (file_rows dec src format max_bytes))"
    unfolding m(1) prefix_def by (metis append_take_drop_id concat_append map_append)
  moreover have "map pb_number ?bs = map int [1 ..< 1 + length ?bs]"
    using batches_numbers [of "nat n" 0 0] assms(1) by simp
  then have "map pb_number bs = map int [1 ..< 1 + length bs]"
    unfolding m(1) take_map [symmetric]
    by (cases "m \<le> length ?bs") (simp_all add: take_map take_upt del: upt_Suc)
  moreover have "list_all (\<lambda>b. pb_rows b \<noteq> [] \<and> int (length (pb_rows b)) \<le> n) bs"
    unfolding m(1) list_all_iff
  proof
    fix b assume "b \<in> set (take m ?bs)"
    then have "b \<in> set ?bs" by (rule in_set_takeD)
    from batches_sizes [OF this] assms(1) show "pb_rows b \<noteq> [] \<and> int (length (pb_rows b)) \<le> n"
      by (simp add: le_nat_iff)
  qed
  ultimately show ?thesis using m calls by blast
qed

text \<open>A callback that counts rows and refuses the second batch.\<close>

definition demo_refusing :: "parsed_batch \<Rightarrow> int \<Rightarrow> gerr option \<times> int" where
  "demo_refusing b s = (if pb_number b = 2 then (Some (ErrText ''no''), s)
     else (None, s + int (length (pb_rows b))))"

theorem batches_are_slices_witness:
  "\<exists>bs. stream_rows demo_decoders demo_file FormatCSV 1 10 100 (\<lambda>_. None) (logged demo_refusing) (0, [])
      = (Inl (ErrText ''no''), 1, bs) \<and> map pb_number bs = [1, 2]
    \<and> prefix (concat (map pb_rows bs)) (fst (file_rows demo_decoders demo_file FormatCSV 100))"
proof -
  let ?run = "stream_rows demo_decoders demo_file FormatCSV 1 10 100 (\<lambda>_. None) (logged demo_refusing) (0, [])"
  obtain r s' bs where run: "?run = (r, s', bs)" by (metis surj_pair)
  have "fst ?run = Inl (ErrText ''no'')" "fst (snd ?run) = 1" "length (snd (snd ?run)) = 2" by code_simp+
  with run have r: "r = Inl (ErrText ''no'')" "s' = 1" and l: "length bs = 2" by simp_all
  have "(1::int) \<le> 1" by simp
  from batches_are_slices [OF this run] l
  have "map pb_number bs = [1, 2]" "prefix (concat (map pb_rows bs)) (fst (file_rows demo_decoders demo_file FormatCSV 100))"
    by (simp_all add: upt_rec)
  with run r show ?thesis by simp
qed

text \<open>\<open>validateHeaders\<close> accepts exactly the non-empty headers whose trimmed names are all
  different and none empty, and trims them; every other one is an invalid header.\<close>

lemma headers_accepted:
  "validate_headers vs = (if vs \<noteq> [] \<and> [] \<notin> set (map trim_space vs) \<and> distinct (map trim_space vs)
      then Inr (map trim_space vs) else Inl (projl (validate_headers vs)))
   \<and> (is_ok (validate_headers vs) \<or> err_is (projl (validate_headers vs)) ErrInvalidHeader)"
  using validate_headers_spec [of vs] by (cases "validate_headers vs") auto

lemma itoa_no_colon: "CHR '':'' \<notin> set (itoa x)"
proof
  assume "CHR '':'' \<in> set (itoa x)"
  then obtain n where "CHR '':'' \<in> set (show_nat n)" by (auto simp: itoa_def split: if_splits)
  then have "(of_char CHR '':'' :: nat) \<le> 57" by (blast dest: show_nat_digits)
  then show False by simp
qed

lemma colon_key_inject:
  assumes "CHR '':'' \<notin> set b" and "CHR '':'' \<notin> set b'"
  shows "a @ CHR '':'' # b = a' @ CHR '':'' # b' \<longleftrightarrow> a = a' \<and> b = b'"
proof
  have tail: "rev (takeWhile (\<lambda>c. c \<noteq> CHR '':'') (rev (x @ CHR '':'' # y))) = y"
    if "CHR '':'' \<notin> set y" for x y
    using that by (auto simp: takeWhile_append takeWhile_eq_all_conv)
  assume eq: "a @ CHR '':'' # b = a' @ CHR '':'' # b'"
  with tail [OF assms(1), of a] tail [OF assms(2), of a'] have "b = b'" by metis
  with eq show "a = a' \<and> b = b'" by simp
qed simp

text \<open>Two batches are applied under the same idempotency key only when they have the same
  number and belong to the same job.\<close>

lemma apply_keys_distinct:
  "ab_idempotency_key (apply_request j b) = ab_idempotency_key (apply_request j' b')
     \<longleftrightarrow> job_id j = job_id j' \<and> pb_number b = pb_number b'"
  by (simp add: apply_request_def colon_key_inject itoa_no_colon)

text \<open>C31: The limited reader, whatever the chunks of its source and the buffers of the library that
  reads it to its end: within the limit it delivers all of the source and its error; beyond it
  delivers the first \<open>limit\<close> bytes, the error \<open>ErrByteLimitExceeded\<close>, and remembers that the limit
  was exceeded.\<close>

theorem limit_reader_delivers:
  assumes "0 \<le> limit" and "read_all ns (limited rd limit) = ((bs, Some e), r)"
  shows "(e, bs, lr_exceeded r) =
      (if limit < int (length (rd_bytes rd))
       then (Sentinel ErrByteLimitExceeded, take (nat limit) (rd_bytes rd), True)
       else (rd_error rd, rd_bytes rd, False)) \<and> lr_read r = int (length bs)"
  using limited_reads(5) [OF assms refl] limited_reads(3) [OF assms] by simp

theorem limit_reader_delivers_witness:
  "(Sentinel ErrByteLimitExceeded, ''abc'', True) =
      (if 3 < int (length (rd_bytes \<lparr>rd_chunks = [''ab'', ''cd''], rd_error = Sentinel IoEOF, rd_eager = False\<rparr>))
       then (Sentinel ErrByteLimitExceeded,
         take (nat 3) (rd_bytes \<lparr>rd_chunks = [''ab'', ''cd''], rd_error = Sentinel IoEOF, rd_eager = False\<rparr>), True)
       else (Sentinel IoEOF, rd_bytes \<lparr>rd_chunks = [''ab'', ''cd''], rd_error = Sentinel IoEOF, rd_eager = False\<rparr>, False))"
proof -
  let ?rd = "\<lparr>rd_chunks = [''ab'', ''cd''], rd_error = Sentinel IoEOF, rd_eager = False\<rparr>"
  have "read_all [9, 9, 9] (limited ?rd 3) = ((''abc'', Some (Sentinel ErrByteLimitExceeded)),
      \<lparr>lr_reader = \<lparr>rd_chunks = [], rd_error = Sentinel IoEOF, rd_eager = False\<rparr>, lr_remaining = 0,
        lr_read = 3, lr_exceeded = True\<rparr>)" by code_simp
  from limit_reader_delivers [OF _ this] show ?thesis by simp
qed

text \<open>The bounded writer never lets more than its limit through, however it is called, and
  counts what it wrote: after any writes the file holds at most \<open>limit\<close> bytes.\<close>

lemma bounded_writer_bounds:
  assumes "0 \<le> limit"
  shows "int (length (fw_data (bw_writer (fold (\<lambda>v w. snd (bounded_write v w)) vs
      \<lparr>bw_writer = \<lparr>fw_data = [], fw_room = room, fw_full = e\<rparr>, bw_limit = limit, bw_written = 0\<rparr>)))) \<le> limit"
proof -
  have "bw_inv (fold (\<lambda>v w. snd (bounded_write v w)) vs w) \<and>
      bw_limit (fold (\<lambda>v w. snd (bounded_write v w)) vs w) = bw_limit w" if "bw_inv w" for w
    using that
  proof (induction vs arbitrary: w)
    case (Cons v vs)
    obtain n e w' where b: "bounded_write v w = ((n, e), w')" by (metis surj_pair)
    from Cons.IH [OF bounded_write_inv(1) [OF Cons.prems b]] bounded_write_inv(2) [OF Cons.prems b] b
    show ?case by simp
  qed simp
  from this [of "\<lparr>bw_writer = \<lparr>fw_data = [], fw_room = room, fw_full = e\<rparr>, bw_limit = limit, bw_written = 0\<rparr>"]
  show ?thesis using assms by (auto simp: bw_inv_def)
qed

lemma bounded_writer_bounds_witness:
  "int (length (fw_data (bw_writer (fold (\<lambda>v w. snd (bounded_write v w)) [''ab'', ''cd'', ''e'']
      \<lparr>bw_writer = \<lparr>fw_data = [], fw_room = 9, fw_full = ErrText ''full''\<rparr>, bw_limit = 3, bw_written = 0\<rparr>)))) \<le> 3"
  by (rule bounded_writer_bounds) simp

end
