(* ===== verification/Progress.thy ===== *)
theory Progress
  imports History Parser_Properties
begin

text \<open>
  That the worker gets on with its jobs: when no call fails, the provider answers as it promises and
  there is room for the temporary files, a delivered message takes its job all the way to the next
  resting state. The other theories show what holds whatever fails; this one shows that the error
  paths are not the only ones.
\<close>

section \<open>Statements that do not fail\<close>

definition calm :: "world \<Rightarrow> bool" where
  "calm w \<longleftrightarrow> (\<forall>n. faults w n = None) \<and> \<not> aborted w"

lemma calm_frame [simp]:
  "calm (w\<lparr>calls := n\<rparr>) = calm w" "calm (w\<lparr>readings := n\<rparr>) = calm w" "calm (w\<lparr>uuids_used := n\<rparr>) = calm w"
  "calm (w\<lparr>jobs := js\<rparr>) = calm w" "calm (w\<lparr>outbox := ox\<rparr>) = calm w" "calm (w\<lparr>objects := ob\<rparr>) = calm w"
  "calm w \<Longrightarrow> calm (w\<lparr>in_tx := True, aborted := False\<rparr>)"
  by (simp_all add: calm_def)

lemma calm_tick: "calm w \<Longrightarrow> tick w = (None, w\<lparr>calls := Suc (calls w)\<rparr>)"
  by (simp add: tick_def calm_def)

lemma calm_stmt: "calm w \<Longrightarrow> f (w\<lparr>calls := Suc (calls w)\<rparr>) = (Inr x, w') \<Longrightarrow> stmt f w = (Inr x, w')"
  by (simp add: stmt_def calm_tick) (simp add: calm_def)

lemma calm_rows_affected: "calm w \<Longrightarrow> rows_affected n w = (Inr n, w\<lparr>calls := Suc (calls w)\<rparr>)"
  by (simp add: rows_affected_def calm_tick)

lemma calm_get_one:
  assumes "calm w" and "find p (jobs w) = Some j"
  shows "get_one p w = (Inr j, w\<lparr>calls := Suc (calls w)\<rparr>)"
proof -
  from assms(2) obtain js where "filter p (jobs w) = j # js"
    by (auto simp: find_key_filter split: list.splits)
  with calm_stmt [OF assms(1), of "query (filter p)"] show ?thesis
    by (simp add: get_one_def query_def)
qed

lemma calm_update:
  assumes "calm w" and "constraints_ok (update_where p f (jobs w))"
  shows "stmt (exec_update p f) w = (Inr (length (filter p (jobs w))),
    w\<lparr>jobs := update_where p f (jobs w), calls := Suc (calls w)\<rparr>)"
  using assms by (intro calm_stmt) (simp_all add: exec_update_def Let_def)

text \<open>An update keeps the constraints when it keeps the keys of the rows and their checks.\<close>

lemma constraints_update:
  assumes "constraints_ok rows"
    and "\<And>j. p j \<Longrightarrow> job_id (f j) = job_id j \<and> idem_columns (f j) = idem_columns j \<and> (row_checks j \<longrightarrow> row_checks (f j))"
  shows "constraints_ok (update_where p f rows)"
  using assms by (simp add: constraints_ok_def map_update_where_same list_all_update_where)

text \<open>The envelope takes the id of the event, and everything can be encoded.\<close>

definition codec_works :: "'env event_codec \<Rightarrow> bool" where
  "codec_works c \<longleftrightarrow> (\<forall>m p. \<exists>env bytes. ec_envelope c m p = Inr env \<and> ec_event_id c env = em_event_id m
     \<and> ec_marshal c env = Inr bytes)"

text \<open>The ids to come are new: no two are the same, and none has been used for an event.\<close>

definition fresh_ids :: "world \<Rightarrow> bool" where
  "fresh_ids w \<longleftrightarrow> inj (uuids w) \<and> (\<forall>n \<ge> uuids_used w. uuids w n \<notin> oe_id ` set (outbox w))"

lemma fresh_ids_used: "fresh_ids w \<Longrightarrow> oe_id row = uuids w (uuids_used w) \<Longrightarrow>
    fresh_ids (w\<lparr>outbox := outbox w @ [row], uuids_used := Suc (uuids_used w)\<rparr>)"
  by (auto simp: fresh_ids_def inj_def) (metis Suc_n_not_le_n)

lemma calm_add_event:
  assumes "calm w" and "codec_works c" and "fresh_ids w"
  shows "\<exists>row. oe_id row = uuids w (uuids_used w) \<and> add_event c j change actor at w = (Inr (),
    w\<lparr>outbox := outbox w @ [row], uuids_used := Suc (uuids_used w), calls := Suc (calls w)\<rparr>)"
proof -
  let ?m = "job_metadata (uuids w (uuids_used w)) j actor at"
  let ?p = "\<lparr>jc_job = to_proto (ec_timestamp c) j, jc_change_type = change\<rparr>"
  let ?w = "w\<lparr>uuids_used := Suc (uuids_used w)\<rparr>"
  from assms(2) obtain env bytes where env: "ec_envelope c ?m ?p = Inr env" "ec_marshal c env = Inr bytes"
    "ec_event_id c env = uuids w (uuids_used w)" unfolding codec_works_def job_metadata_def by force
  then obtain ev where ev: "job_changed_event c j change actor at w = (Inr ev, ?w)" "oe_id ev = uuids w (uuids_used w)"
    by (simp add: job_changed_event_def new_uuid_def)
  have row: "oe_id (outbox_row_of ev) = uuids w (uuids_used w)" using ev(2) by (simp add: outbox_row_of_def)
  have "stmt (exec_insert_outbox (outbox_row_of ev)) ?w
      = (Inr 1, ?w\<lparr>outbox := outbox w @ [outbox_row_of ev], calls := Suc (calls w)\<rparr>)"
    using assms(1,3) row by (intro calm_stmt) (auto simp: exec_insert_outbox_def fresh_ids_def)
  with ev(1) row show ?thesis by (intro exI [of _ "outbox_row_of ev"]) (simp add: add_event_def repo_add_outbox_def)
qed

text \<open>The world after a transaction that stored these rows and this event.\<close>

definition stored :: "job list \<Rightarrow> outbox_row \<Rightarrow> nat \<Rightarrow> world \<Rightarrow> world" where
  "stored rows row n w = w\<lparr>jobs := rows, outbox := outbox w @ [row], calls := n, uuids_used := Suc (uuids_used w),
     in_tx := False, aborted := False\<rparr>"

lemma stored_simps [simp]: "jobs (stored rows row n w) = rows" "objects (stored rows row n w) = objects w"
  by (simp_all add: stored_def)

context guarded_update
begin

lemma calm_after_update:
  assumes "calm w" and "key u = (t, a, i)" and "find (is_key t a i) (jobs w) = Some j" and "guard u j"
    and "constraints_ok (update_where (guard u) (change u) (jobs w))"
  shows "after_update t a i (stmt (exec_update (guard u) (change u)) w)
    = (Inr (change u j), w\<lparr>jobs := update_where (guard u) (change u) (jobs w), calls := calls w + 3\<rparr>)"
proof -
  have "filter (guard u) (jobs w) \<noteq> []" using assms(3,4) by (auto simp: filter_empty_conv dest: find_SomeD)
  with calm_update [OF assms(1,5)] show ?thesis
    using assms by (simp add: after_update_def calm_rows_affected repo_get_def calm_get_one find_same numeral_3_eq_3)
qed

text \<open>A guarded update with its event goes through.\<close>

lemma calm_changed:
  assumes "calm w" and "key u = (t, a, i)" and "find (is_key t a i) (jobs w) = Some j" and "guard u j"
    and "constraints_ok (update_where (guard u) (change u) (jobs w))" and "codec_works c" and "fresh_ids w"
  shows "\<exists>row. oe_id row = uuids w (uuids_used w)
    \<and> changed (\<lambda>v. after_update t a i (stmt (exec_update (guard u) (change u)) v)) c ch actor at w = (Inr (change u j),
      w\<lparr>jobs := update_where (guard u) (change u) (jobs w), outbox := outbox w @ [row], calls := calls w + 4,
        uuids_used := Suc (uuids_used w)\<rparr>)"
proof -
  let ?v = "w\<lparr>jobs := update_where (guard u) (change u) (jobs w), calls := calls w + 3\<rparr>"
  note up = calm_after_update [OF assms(1-5)]
  have "calm ?v" "fresh_ids ?v" using assms(1,7) by (simp_all add: fresh_ids_def)
  from calm_add_event [OF this(1) assms(6) this(2), of "change u j" ch "actor (change u j)" at] obtain row where
    "oe_id row = uuids w (uuids_used w)" "add_event c (change u j) ch (actor (change u j)) at ?v = (Inr (),
      ?v\<lparr>outbox := outbox w @ [row], uuids_used := Suc (uuids_used w), calls := calls w + 4\<rparr>)" by auto
  with up show ?thesis by (intro exI [of _ row]) (simp add: changed_def)
qed

lemma calm_published:
  assumes "calm w" and "db_enabled w" and "key u = (t, a, i)" and "find (is_key t a i) (jobs w) = Some j" and "guard u j"
    and "constraints_ok (update_where (guard u) (change u) (jobs w))" and "codec_works c" and "fresh_ids w"
  shows "\<exists>row n. oe_id row = uuids w (uuids_used w)
    \<and> within (changed (\<lambda>v. after_update t a i (stmt (exec_update (guard u) (change u)) v)) c ch actor at) w
      = (Inr (change u j), stored (update_where (guard u) (change u) (jobs w)) row n w)"
proof -
  let ?w = "w\<lparr>calls := Suc (calls w), in_tx := True, aborted := False\<rparr>"
  have calm: "calm ?w" "fresh_ids ?w" using assms(1,8) by (simp_all add: fresh_ids_def calm_def)
  from calm_changed [OF calm(1) assms(3), of j c ch actor at] assms(4-7) calm(2) obtain row where row: "oe_id row = uuids w (uuids_used w)"
    "changed (\<lambda>v. after_update t a i (stmt (exec_update (guard u) (change u)) v)) c ch actor at ?w = (Inr (change u j),
      ?w\<lparr>jobs := update_where (guard u) (change u) (jobs w), outbox := outbox w @ [row], calls := calls w + 5,
        uuids_used := Suc (uuids_used w)\<rparr>)" by auto
  with assms(1,2) show ?thesis
    by (intro exI [of _ row] exI [of _ "calls w + 6"]) (simp add: within_def tick_def stored_def leave_tx_def calm_def)
qed

end

section \<open>A run of the worker\<close>

text \<open>A worker with usable limits whose deadline does not pass, and a database that is there.\<close>

definition able :: "'env worker \<Rightarrow> bool" where
  "able k \<longleftrightarrow> 1 \<le> wk_batch_size k \<and> 1 \<le> wk_max_rows k \<and> 1 \<le> wk_max_bytes k
     \<and> (\<forall>v r. wk_ctx k v r = None) \<and> codec_works (wk_codec k)"

definition healthy :: "world \<Rightarrow> bool" where
  "healthy w \<longleftrightarrow> calm w \<and> db_enabled w \<and> constraints_ok (jobs w) \<and> fresh_ids w"

lemma claim_constraints:
  "constraints_ok rows \<Longrightarrow> to \<in> set all_statuses \<Longrightarrow> constraints_ok (update_where (claim_where t a i from) (claim_set to now) rows)"
  by (rule constraints_update) (simp_all add: claim_set_def idem_columns_def row_checks_def)

lemma calm_claim:
  assumes "healthy w" and "find (is_key t a i) (jobs w) = Some j" and "status j = from" and "to \<in> set all_statuses"
  shows "repo_claim t a i from to now w = (Inr (Some (claim_set to now j)),
    w\<lparr>jobs := update_where (claim_where t a i from) (claim_set to now) (jobs w), calls := calls w + 3\<rparr>)"
proof -
  have ok: "constraints_ok (update_where (claim_where t a i from) (claim_set to now) (jobs w))"
    using assms(1,4) by (simp add: claim_constraints healthy_def)
  have guard: "claim_where t a i from j" using assms(2,3) by (auto simp: claim_where_def dest: find_SomeD)
  have calm: "calm w" using assms(1) by (simp add: healthy_def)
  from guard assms(2) have "filter (claim_where t a i from) (jobs w) \<noteq> []" by (auto simp: filter_empty_conv dest: find_SomeD)
  moreover have "find (is_key t a i) (update_where (claim_where t a i from) (claim_set to now) (jobs w)) = Some (claim_set to now j)"
    using claim_up.find_same [of t a i "((t, a, i), from, to, now)" "jobs w"] assms(2) guard by simp
  ultimately show ?thesis using calm_update [OF calm ok] calm
    by (simp add: repo_claim_def calm_rows_affected repo_get_def calm_get_one numeral_3_eq_3)
qed

text \<open>A claimed job is found in the table, and the world is as healthy as before.\<close>

lemma claimed_healthy:
  assumes "healthy w" and "to \<in> set all_statuses"
  shows "healthy (w\<lparr>jobs := update_where (claim_where t a i from) (claim_set to now) (jobs w), calls := n\<rparr>)"
  using assms claim_constraints by (simp add: healthy_def fresh_ids_def)

lemma healthy_frame [simp]: "healthy (w\<lparr>calls := n\<rparr>) = healthy w" "healthy (w\<lparr>readings := n\<rparr>) = healthy w"
  "healthy (w\<lparr>objects := ob\<rparr>) = healthy w"
  by (simp_all add: healthy_def fresh_ids_def)

lemma claimed_found:
  assumes "find (is_key t a i) rows = Some j" and "status j = from"
  shows "find (is_key t a i) (update_where (claim_where t a i from) (claim_set to now) rows) = Some (claim_set to now j)"
  using claim_up.find_same [of t a i "((t, a, i), from, to, now)" rows] assms by (auto simp: claim_where_def dest: find_SomeD)

subsection \<open>Apply\<close>

lemma apply_all_complete:
  assumes "\<And>b v. b \<in> set bs \<Longrightarrow> wk_apply k (apply_request j b) v = Inr \<lparr>ar_applied_rows = int (length (pb_rows b)), ar_issues = []\<rparr>"
  shows "consume_all (apply_batch k j) bs (m, w) = (None, m + row_count bs, w\<lparr>calls := calls w + length bs\<rparr>)"
  using assms
proof (induction bs arbitrary: m w)
  case (Cons b bs)
  have "apply_batch k j b (m, w) = (None, m + int (length (pb_rows b)), w\<lparr>calls := Suc (calls w)\<rparr>)"
    by (simp add: apply_batch_def ask_def Cons.prems)
  with Cons show ?case by simp
qed simp

lemma apply_run_complete:
  assumes "able k" and "\<And>v. objects v = objects w \<Longrightarrow> wk_open k (normalized_object_key j) v = Inr src"
    and "\<And>v. wk_open_apply k (provider_service j) (tenant_id j) (application_id j) (dataset_code j) v = None"
    and "\<And>r v. ab_job_id r = job_id j \<Longrightarrow> wk_apply k r v = Inr \<lparr>ar_applied_rows = int (length (ab_rows r)), ar_issues = []\<rparr>"
    and "file_rows (wk_decoders k) src FormatJSONL (wk_max_bytes k) = (rows, None)"
    and "int (length rows) \<le> wk_max_rows k" and "int (length (src_bytes src)) \<le> wk_max_bytes k"
  shows "\<exists>n. apply_run k j w = (Inr (int (length rows)), w\<lparr>calls := n\<rparr>)"
proof -
  let ?bs = "batches_from 0 (nat (wk_batch_size k)) rows"
  let ?w = "w\<lparr>calls := Suc (Suc (calls w))\<rparr>"
  have "row_count ?bs = int (length rows)" using assms(1) by (simp add: row_count_batches able_def)
  then have all: "consume_all (apply_batch k j) ?bs (0, ?w) = (None, int (length rows), ?w\<lparr>calls := Suc (Suc (calls w)) + length ?bs\<rparr>)"
    using apply_all_complete [of ?bs k j 0 ?w] assms(4) by (simp add: apply_request_def)
  have "stream_rows (wk_decoders k) src FormatJSONL (wk_batch_size k) (wk_max_rows k) (wk_max_bytes k) (wk_ctx k ?w)
      (apply_batch k j) (0, ?w) = (Inr \<lparr>ps_rows = int (length rows), ps_bytes = int (length (src_bytes src)),
        ps_checksum = dec_sha256_hex (wk_decoders k) (src_bytes src)\<rparr>, (int (length rows), ?w\<lparr>calls := Suc (Suc (calls w)) + length ?bs\<rparr>))"
    using assms(1) by (intro stream_rows_complete [OF _ _ _ _ assms(5-7) _ all]) (simp_all add: able_def)
  then show ?thesis by (intro exI [of _ "Suc (Suc (calls w + length ?bs))"]) (simp add: apply_run_def ask_def assms(2,3))
qed

lemma finish_apply_constraints: "constraints_ok rows \<Longrightarrow> constraints_ok (update_where (finish_apply_where v) (finish_apply_set v) rows)"
  by (rule constraints_update) (simp_all add: finish_apply_set_def idem_columns_def row_checks_def all_statuses_def)

lemma stored_healthy:
  assumes "healthy w" and "constraints_ok rows" and "oe_id row = uuids w (uuids_used w)"
  shows "healthy (stored rows row n w)"
  using assms fresh_ids_used [of w row] by (simp add: healthy_def calm_def stored_def fresh_ids_def)

lemma finish_apply_succeeds:
  assumes "healthy w" and "codec_works c" and "find (is_key (tenant_id v) (application_id v) (job_id v)) (jobs w) = Some j"
    and "status j = StatusApplying"
  shows "\<exists>w'. within (changed (repo_finish_apply v) c ch actor at) w = (Inr (finish_apply_set v j), w') \<and> healthy w'
    \<and> find (is_key (tenant_id v) (application_id v) (job_id v)) (jobs w') = Some (finish_apply_set v j)"
proof -
  have guard: "finish_apply_where v j" using assms(3,4) by (auto simp: finish_apply_where_def dest: find_SomeD)
  note ok = finish_apply_constraints [of "jobs w" v]
  from finish_apply_up.calm_published [of w v "tenant_id v" "application_id v" "job_id v" j c ch actor at] assms guard ok
  obtain row n where "oe_id row = uuids w (uuids_used w)" "within (changed (repo_finish_apply v) c ch actor at) w
      = (Inr (finish_apply_set v j), stored (update_where (finish_apply_where v) (finish_apply_set v) (jobs w)) row n w)"
    by (auto simp: healthy_def key_of_def repo_finish_apply_def [abs_def])
  with stored_healthy [OF assms(1) ok] finish_apply_up.find_same [of _ _ _ v "jobs w"] assms(1,3) guard
  show ?thesis by (auto simp: healthy_def)
qed

lemma worker_apply_completes:
  assumes "able k" and "healthy w" and "find (is_key t a i) (jobs w) = Some j" and "status j = StatusApplyQueued"
    and "\<And>v. objects v = objects w \<Longrightarrow> wk_open k (normalized_object_key j) v = Inr src"
    and "\<And>v. wk_open_apply k (provider_service j) t a (dataset_code j) v = None"
    and "\<And>r v. ab_job_id r = i \<Longrightarrow> wk_apply k r v = Inr \<lparr>ar_applied_rows = int (length (ab_rows r)), ar_issues = []\<rparr>"
    and "file_rows (wk_decoders k) src FormatJSONL (wk_max_bytes k) = (rows, None)"
    and "int (length rows) \<le> wk_max_rows k" and "int (length (src_bytes src)) \<le> wk_max_bytes k"
  shows "\<exists>w' j'. worker_apply k t a i w = (None, w') \<and> find (is_key t a i) (jobs w') = Some j'
    \<and> status j' = StatusSucceeded \<and> applied_rows j' = int (length rows) \<and> total_rows j' = total_rows j
    \<and> version j' = version j + 2"
proof -
  obtain now w1 where now: "time_now w = (now, w1)" "w1 = w\<lparr>readings := Suc (readings w)\<rparr>" by (simp add: time_now_def)
  let ?j = "claim_set StatusApplying now j"
  let ?w2 = "w1\<lparr>jobs := update_where (claim_where t a i StatusApplyQueued) (claim_set StatusApplying now) (jobs w1), calls := calls w1 + 3\<rparr>"
  have w1: "healthy w1" "find (is_key t a i) (jobs w1) = Some j" "StatusApplying \<in> set all_statuses"
    using assms(2,3) now by (simp_all add: all_statuses_def)
  note claim = calm_claim [OF w1(1,2) assms(4) w1(3), of now]
  from find_SomeD [OF assms(3)] have key: "tenant_id ?j = t" "application_id ?j = a" "job_id ?j = i"
    "provider_service ?j = provider_service j" "dataset_code ?j = dataset_code j"
    by (simp_all add: is_key_def claim_set_def)
  have "objects ?w2 = objects w" using now by simp
  with apply_run_complete [OF assms(1), of ?w2 ?j src rows] assms(5-10) key
  obtain n where run: "apply_run k ?j ?w2 = (Inr (int (length rows)), ?w2\<lparr>calls := n\<rparr>)" by auto
  obtain completed w3 where t3: "time_now (?w2\<lparr>calls := n\<rparr>) = (completed, w3)"
    "w3 = ?w2\<lparr>calls := n, readings := Suc (readings ?w2)\<rparr>" by (simp add: time_now_def)
  let ?v = "applied_job ?j (int (length rows)) completed (completed + wk_result_ttl k)"
  have "healthy w3" using claimed_healthy [OF w1(1,3)] t3(2) by simp
  moreover have "find (is_key t a i) (jobs w3) = Some ?j" using claimed_found [OF w1(2) assms(4)] t3(2) by simp
  moreover have "tenant_id ?v = t" "application_id ?v = a" "job_id ?v = i" using key by (simp_all add: applied_job_def)
  ultimately obtain w' where "within (changed (repo_finish_apply ?v) (wk_codec k) ''succeeded'' updated_by completed) w3
      = (Inr (finish_apply_set ?v ?j), w')" "find (is_key t a i) (jobs w') = Some (finish_apply_set ?v ?j)"
    using finish_apply_succeeds [of w3 "wk_codec k" ?v ?j "''succeeded''" updated_by completed] assms(1) by (auto simp: able_def)
  with now(1) claim run t3(1) show ?thesis
    by (simp add: worker_apply_def repo_claim_apply_def apply_claimed_def error_of_def Let_def finish_apply_set_def applied_job_def claim_set_def)
qed

subsection \<open>The temporary files of a validation\<close>

definition has_room :: "nat \<Rightarrow> bounded_writer \<Rightarrow> bool" where
  "has_room n out \<longleftrightarrow> bw_written out + int n \<le> bw_limit out \<and> n \<le> fw_room (bw_writer out)"

lemma bounded_write_fits:
  assumes "has_room (length v + n) out"
  shows "\<exists>out'. bounded_write v out = ((length v, None), out') \<and> has_room n out'
    \<and> fw_data (bw_writer out') = fw_data (bw_writer out) @ v"
  using assms by (auto simp: bounded_write_def file_write_def has_room_def)

definition report_room :: "nat \<Rightarrow> csv_writer \<Rightarrow> bool" where
  "report_room n r \<longleftrightarrow> cw_err r = None \<and> has_room (length (cw_buffer r) + n) (cw_sink r)"

lemma report_room_err: "report_room n r \<Longrightarrow> cw_err r = None"
  by (simp add: report_room_def)

lemma csv_flush_fits: "report_room n r \<Longrightarrow> report_room n (csv_flush r)"
  using bounded_write_fits [of "cw_buffer r" n "cw_sink r"]
  by (auto simp: report_room_def csv_flush_def)

lemma csv_put_fits: "report_room (Suc n) r \<Longrightarrow> report_room n (csv_put c r)"
  using csv_flush_fits [of "Suc n" r] by (auto simp: csv_put_def Let_def report_room_def)

lemma csv_puts_fit: "report_room (length s + n) r \<Longrightarrow> report_room n (fold csv_put s r)"
  by (induction s arbitrary: r) (auto intro: csv_put_fits)

lemma csv_write_fits:
  assumes "report_room (length (csv_fields fs) + n) r"
  shows "\<exists>r'. csv_write fs r = (None, r') \<and> report_room n r'"
  using csv_puts_fit [OF assms] by (auto simp: csv_write_def Let_def report_room_def)

text \<open>An answer that a validation accepts, and what it writes.\<close>

definition issue_line :: "row_issue \<Rightarrow> string" where
  "issue_line i = csv_fields [itoa (ri_row_number i), ri_column_key i, ri_code i, ri_message i]"

definition bad_rows :: "validate_batch_result \<Rightarrow> int" where
  "bad_rows res = int (card (ri_row_number ` set (vr_issues res)))"

definition accepted_answer :: "(import_row \<Rightarrow> gerr + string) \<Rightarrow> parsed_batch \<Rightarrow> validate_batch_result \<Rightarrow> bool" where
  "accepted_answer encode b res \<longleftrightarrow>
     (\<forall>i \<in> set (vr_issues res). pb_first_row_number b \<le> ri_row_number i
        \<and> ri_row_number i \<le> pb_first_row_number b + int (length (pb_rows b)) - 1 \<and> trim_space (ri_code i) \<noteq> [])
     \<and> int (length (vr_normalized_rows res)) = int (length (pb_rows b)) - bad_rows res
     \<and> (\<forall>r \<in> set (vr_normalized_rows res). is_ok (encode r))"

definition line_of :: "(import_row \<Rightarrow> gerr + string) \<Rightarrow> import_row \<Rightarrow> string" where
  "line_of encode r = (case encode r of Inl _ \<Rightarrow> [] | Inr l \<Rightarrow> l @ [CHR 0x0A])"

lemma report_issues_fit:
  assumes "report_room (length (concat (map issue_line issues)) + n) r"
    and "\<forall>i \<in> set issues. first \<le> ri_row_number i \<and> ri_row_number i \<le> last' \<and> trim_space (ri_code i) \<noteq> []"
  shows "\<exists>r'. report_issues first last' issues invalid r = (Inr (invalid \<union> ri_row_number ` set issues), r') \<and> report_room n r'"
  using assms
proof (induction issues arbitrary: invalid r)
  case (Cons i issues)
  let ?fs = "[itoa (ri_row_number i), ri_column_key i, ri_code i, ri_message i]"
  from Cons.prems(1) have "report_room (length (csv_fields ?fs) + (length (concat (map issue_line issues)) + n)) r"
    by (simp add: issue_line_def [of i, symmetric] add.assoc del: csv_fields.simps)
  from csv_write_fits [OF this] obtain r1 where "csv_write ?fs r = (None, r1)"
    "report_room (length (concat (map issue_line issues)) + n) r1" by blast
  with Cons.IH [of r1 "insert (ri_row_number i) invalid"] Cons.prems(2) show ?case by auto
qed simp

lemma write_normalized_fits:
  assumes "has_room (length (concat (map (line_of encode) rows)) + n) out" and "\<forall>r \<in> set rows. is_ok (encode r)"
  shows "\<exists>out'. write_normalized encode rows out = (None, out') \<and> has_room n out'
    \<and> fw_data (bw_writer out') = fw_data (bw_writer out) @ concat (map (line_of encode) rows)"
  using assms
proof (induction rows arbitrary: out)
  case (Cons row rows)
  from Cons.prems(2) obtain l where l: "encode row = Inr l" by (auto simp: is_ok_iff)
  then have line: "line_of encode row = l @ [CHR 0x0A]" by (simp add: line_of_def)
  with Cons.prems(1) have "has_room (length (l @ [CHR 0x0A]) + (length (concat (map (line_of encode) rows)) + n)) out"
    by (simp add: add.assoc)
  from bounded_write_fits [OF this] obtain out1 where "bounded_write (l @ [CHR 0x0A]) out = ((length (l @ [CHR 0x0A]), None), out1)"
    "has_room (length (concat (map (line_of encode) rows)) + n) out1"
    "fw_data (bw_writer out1) = fw_data (bw_writer out) @ l @ [CHR 0x0A]" by blast
  with Cons.IH [of out1] Cons.prems(2) l line show ?case by auto
qed simp

subsection \<open>Validate\<close>

text \<open>What the answers to these batches add to the two files.\<close>

definition report_text :: "(parsed_batch \<Rightarrow> validate_batch_result) \<Rightarrow> parsed_batch list \<Rightarrow> string" where
  "report_text answer bs = concat (map (\<lambda>b. concat (map issue_line (vr_issues (answer b)))) bs)"

definition normalized_text :: "(import_row \<Rightarrow> gerr + string) \<Rightarrow> (parsed_batch \<Rightarrow> validate_batch_result) \<Rightarrow> parsed_batch list \<Rightarrow> string" where
  "normalized_text encode answer bs = concat (map (\<lambda>b. concat (map (line_of encode) (vr_normalized_rows (answer b)))) bs)"

definition bad_count :: "(parsed_batch \<Rightarrow> validate_batch_result) \<Rightarrow> parsed_batch list \<Rightarrow> int" where
  "bad_count answer bs = (\<Sum>b\<leftarrow>bs. bad_rows (answer b))"

text \<open>The state after batches that were answered like this.\<close>

definition fed :: "validation \<Rightarrow> nat \<Rightarrow> csv_writer \<Rightarrow> bounded_writer \<Rightarrow> int \<Rightarrow> int \<Rightarrow> validation" where
  "fed s n report out valid invalid = s\<lparr>va_world := (va_world s)\<lparr>calls := n\<rparr>, va_report := report, va_normalized := out,
     va_valid := valid, va_invalid := invalid\<rparr>"

lemma fed_simps [simp]:
  "va_world (fed s n report out valid invalid) = (va_world s)\<lparr>calls := n\<rparr>" "va_report (fed s n report out valid invalid) = report"
  "va_normalized (fed s n report out valid invalid) = out" "va_valid (fed s n report out valid invalid) = valid"
  "va_invalid (fed s n report out valid invalid) = invalid"
  "fed (fed s n report out valid invalid) n' report' out' valid' invalid' = fed s n' report' out' valid' invalid'"
  by (simp_all add: fed_def)

lemma validate_batch_fits:
  assumes "\<And>v. wk_validate k (validate_request j b) v = Inr res" and "accepted_answer (wk_encode k) b res"
    and "report_room (length (concat (map issue_line (vr_issues res))) + m) (va_report s)"
    and "has_room (length (concat (map (line_of (wk_encode k)) (vr_normalized_rows res))) + n) (va_normalized s)"
  shows "\<exists>report out. validate_batch k j b s = (None, fed s (Suc (calls (va_world s))) report out
      (va_valid s + int (length (pb_rows b)) - bad_rows res) (va_invalid s + bad_rows res))
    \<and> report_room m report \<and> has_room n out
    \<and> fw_data (bw_writer out) = fw_data (bw_writer (va_normalized s)) @ concat (map (line_of (wk_encode k)) (vr_normalized_rows res))"
proof -
  let ?first = "pb_first_row_number b"
  from assms(2) report_issues_fit [OF assms(3), of ?first "?first + int (length (pb_rows b)) - 1" "{}"]
  obtain report where "report_issues ?first (?first + int (length (pb_rows b)) - 1) (vr_issues res) {} (va_report s)
      = (Inr (ri_row_number ` set (vr_issues res)), report)" "report_room m report" by (auto simp: accepted_answer_def)
  moreover from assms(2) write_normalized_fits [OF assms(4)] obtain out where
    "write_normalized (wk_encode k) (vr_normalized_rows res) (va_normalized s) = (None, out)" "has_room n out"
    "fw_data (bw_writer out) = fw_data (bw_writer (va_normalized s)) @ concat (map (line_of (wk_encode k)) (vr_normalized_rows res))"
    by (auto simp: accepted_answer_def)
  ultimately show ?thesis using assms(1,2)
    by (intro exI [of _ report] exI [of _ out])
      (simp add: validate_batch_def ask_def accepted_answer_def bad_rows_def fed_def Let_def)
qed

lemma validate_all_complete:
  assumes "\<And>b v. b \<in> set bs \<Longrightarrow> wk_validate k (validate_request j b) v = Inr (answer b)"
    and "\<And>b. b \<in> set bs \<Longrightarrow> accepted_answer (wk_encode k) b (answer b)"
    and "report_room (length (report_text answer bs)) (va_report s)"
    and "has_room (length (normalized_text (wk_encode k) answer bs)) (va_normalized s)"
  shows "\<exists>n report out. consume_all (validate_batch k j) bs s = (None, fed s n report out
      (va_valid s + row_count bs - bad_count answer bs) (va_invalid s + bad_count answer bs))
    \<and> report_room 0 report
    \<and> fw_data (bw_writer out) = fw_data (bw_writer (va_normalized s)) @ normalized_text (wk_encode k) answer bs"
  using assms
proof (induction bs arbitrary: s)
  case Nil
  have "s = fed s (calls (va_world s)) (va_report s) (va_normalized s) (va_valid s) (va_invalid s)" by (simp add: fed_def)
  with Nil show ?case
    by (intro exI [of _ "calls (va_world s)"] exI [of _ "va_report s"] exI [of _ "va_normalized s"])
      (simp add: report_text_def normalized_text_def bad_count_def)
next
  case (Cons b bs)
  from Cons.prems have "report_room (length (concat (map issue_line (vr_issues (answer b)))) + length (report_text answer bs)) (va_report s)"
    "has_room (length (concat (map (line_of (wk_encode k)) (vr_normalized_rows (answer b)))) + length (normalized_text (wk_encode k) answer bs)) (va_normalized s)"
    by (simp_all add: report_text_def normalized_text_def)
  from validate_batch_fits [OF _ _ this, of j b] Cons.prems(1,2) obtain report out where
    one: "validate_batch k j b s = (None, fed s (Suc (calls (va_world s))) report out
      (va_valid s + int (length (pb_rows b)) - bad_rows (answer b)) (va_invalid s + bad_rows (answer b)))"
    and room: "report_room (length (report_text answer bs)) report" "has_room (length (normalized_text (wk_encode k) answer bs)) out"
    and data: "fw_data (bw_writer out) = fw_data (bw_writer (va_normalized s)) @ concat (map (line_of (wk_encode k)) (vr_normalized_rows (answer b)))"
    by (metis list.set_intros(1))
  let ?s = "fed s (Suc (calls (va_world s))) report out
      (va_valid s + int (length (pb_rows b)) - bad_rows (answer b)) (va_invalid s + bad_rows (answer b))"
  from Cons.IH [of ?s] Cons.prems(1,2) room obtain n report' out' where
    "consume_all (validate_batch k j) bs ?s = (None, fed ?s n report' out'
      (va_valid ?s + row_count bs - bad_count answer bs) (va_invalid ?s + bad_count answer bs))" "report_room 0 report'"
    "fw_data (bw_writer out') = fw_data (bw_writer (va_normalized ?s)) @ normalized_text (wk_encode k) answer bs" by auto
  with one data show ?case
    by (intro exI [of _ n] exI [of _ report'] exI [of _ out']) (simp add: bad_count_def normalized_text_def algebra_simps)
qed

lemma calm_attempt: "calm w \<Longrightarrow> attempt w = (None, w\<lparr>calls := Suc (calls w)\<rparr>)"
  by (simp add: attempt_def calm_tick)

lemma calm_upload: "calm w \<Longrightarrow>
    close_and_upload data key w = (None, w\<lparr>objects := (objects w)(key \<mapsto> data), calls := calls w + 4\<rparr>)"
  by (simp add: close_and_upload_def calm_attempt storage_put_def calm_tick)

lemma upload_results_complete:
  assumes "calm w"
  shows "\<exists>n ob. upload_results j s w = (Inr (), w\<lparr>objects := ob, calls := n\<rparr>)
    \<and> (va_invalid s \<le> 0 \<longrightarrow> ob = (objects w)(normalized_object_key j \<mapsto> fw_data (bw_writer (va_normalized s))))"
proof -
  let ?ob = "(objects w)(normalized_object_key j \<mapsto> fw_data (bw_writer (va_normalized s)))"
  show ?thesis
  proof (cases "0 < va_invalid s")
    case True
    with assms show ?thesis
      by (intro exI [of _ "calls w + 8"] exI [of _ "?ob(error_report_object_key j \<mapsto> fw_data (bw_writer (cw_sink (va_report s))))"])
        (simp add: upload_results_def calm_upload)
  next
    case False
    with assms show ?thesis
      by (intro exI [of _ "calls w + 5"] exI [of _ ?ob]) (simp add: upload_results_def calm_upload calm_attempt)
  qed
qed

text \<open>The provider answers these batches like this, and the worker accepts the answers.\<close>

definition vouched :: "'env worker \<Rightarrow> job \<Rightarrow> (parsed_batch \<Rightarrow> validate_batch_result) \<Rightarrow> parsed_batch list \<Rightarrow> bool" where
  "vouched k j answer bs \<longleftrightarrow> (\<forall>b \<in> set bs. (\<forall>v. wk_validate k (validate_request j b) v = Inr (answer b))
     \<and> accepted_answer (wk_encode k) b (answer b))"

text \<open>The file can be parsed, within the limits, to these rows.\<close>

definition readable :: "'env worker \<Rightarrow> source \<Rightarrow> string \<Rightarrow> import_row list \<Rightarrow> bool" where
  "readable k src format rows \<longleftrightarrow> format \<in> {FormatCSV, FormatJSONL, FormatXLSX}
     \<and> file_rows (wk_decoders k) src format (wk_max_bytes k) = (rows, None)
     \<and> int (length rows) \<le> wk_max_rows k \<and> int (length (src_bytes src)) \<le> wk_max_bytes k"

abbreviation batches_of :: "'env worker \<Rightarrow> import_row list \<Rightarrow> parsed_batch list" where
  "batches_of k rows \<equiv> batches_from 0 (nat (wk_batch_size k)) rows"

lemma bad_count_nonneg: "0 \<le> bad_count answer bs"
  by (induction bs) (simp_all add: bad_count_def bad_rows_def)

lemma validate_source_complete:
  assumes "able k" and "calm w" and "readable k src (file_format j) rows" and "vouched k j answer (batches_of k rows)"
    and "equal_fold (dec_sha256_hex (wk_decoders k) (src_bytes src)) (source_checksum j)"
    and "report_room (length (report_text answer (batches_of k rows))) report"
    and "has_room (length (normalized_text (wk_encode k) answer (batches_of k rows))) normalized"
  shows "\<exists>n ob. validate_source k j src report normalized w = (Inr (int (length rows),
      int (length rows) - bad_count answer (batches_of k rows), bad_count answer (batches_of k rows)), w\<lparr>objects := ob, calls := n\<rparr>)
    \<and> (bad_count answer (batches_of k rows) = 0 \<longrightarrow> ob = (objects w)(normalized_object_key j \<mapsto>
        fw_data (bw_writer normalized) @ normalized_text (wk_encode k) answer (batches_of k rows)))"
proof -
  let ?bs = "batches_of k rows"
  let ?start = "\<lparr>va_world = w, va_report = report, va_normalized = normalized, va_valid = 0, va_invalid = 0\<rparr>"
  have count: "row_count ?bs = int (length rows)" using assms(1) by (simp add: row_count_batches able_def)
  from validate_all_complete [of ?bs k j answer ?start] assms(4,6,7) obtain m r out where
    all: "consume_all (validate_batch k j) ?bs ?start = (None, fed ?start m r out (row_count ?bs - bad_count answer ?bs) (bad_count answer ?bs))"
    and r: "report_room 0 r"
    and out: "fw_data (bw_writer out) = fw_data (bw_writer normalized) @ normalized_text (wk_encode k) answer ?bs"
    by (auto simp: vouched_def)
  let ?s = "fed ?start m r out (row_count ?bs - bad_count answer ?bs) (bad_count answer ?bs)"
  have parsed: "stream_rows (wk_decoders k) src (file_format j) (wk_batch_size k) (wk_max_rows k) (wk_max_bytes k) (wk_ctx k w)
      (validate_batch k j) ?start = (Inr \<lparr>ps_rows = int (length rows), ps_bytes = int (length (src_bytes src)),
        ps_checksum = dec_sha256_hex (wk_decoders k) (src_bytes src)\<rparr>, ?s)"
    using assms(1,3) by (intro stream_rows_complete [OF _ _ _ _ _ _ _ _ all]) (simp_all add: able_def readable_def)
  let ?t = "?s\<lparr>va_report := csv_flush r\<rparr>"
  have flushed: "cw_err (csv_flush r) = None" using csv_flush_fits [OF r] by (rule report_room_err)
  let ?w = "w\<lparr>calls := Suc m\<rparr>"
  from upload_results_complete [of ?w j ?t] assms(2) obtain n ob where
    up: "upload_results j ?t ?w = (Inr (), w\<lparr>objects := ob, calls := n\<rparr>)"
      "bad_count answer ?bs \<le> 0 \<longrightarrow> ob = (objects w)(normalized_object_key j \<mapsto> fw_data (bw_writer out))"
    by (auto simp: fed_def)
  have "attempt (w\<lparr>calls := m\<rparr>) = (None, ?w)" using assms(2) by (simp add: calm_attempt)
  with parsed flushed up(1) assms(5) count show ?thesis
    using up(2) out by (intro exI [of _ n] exI [of _ ob]) (simp add: validate_source_def Let_def or_else_def)
qed

text \<open>There is room on the disk and within the limit for the report and the normalized rows.\<close>

definition files_fit :: "'env worker \<Rightarrow> (parsed_batch \<Rightarrow> validate_batch_result) \<Rightarrow> parsed_batch list \<Rightarrow> bool" where
  "files_fit k answer bs \<longleftrightarrow> (\<forall>data \<in> {csv_fields report_header @ report_text answer bs, normalized_text (wk_encode k) answer bs}.
     int (length data) \<le> wk_max_bytes k \<and> (\<forall>v. length data \<le> fst (wk_disk k v)))"

lemma validate_run_complete:
  assumes "able k" and "calm w" and "readable k src (file_format j) rows" and "vouched k j answer (batches_of k rows)"
    and "equal_fold (dec_sha256_hex (wk_decoders k) (src_bytes src)) (source_checksum j)"
    and "files_fit k answer (batches_of k rows)"
    and "\<And>v. objects v = objects w \<Longrightarrow> wk_open k (source_object_key j) v = Inr src"
    and "\<And>v. wk_open_validation k (provider_service j) (tenant_id j) (application_id j) (dataset_code j) v = None"
  shows "\<exists>n ob. validate_run k j w = (Inr (int (length rows),
      int (length rows) - bad_count answer (batches_of k rows), bad_count answer (batches_of k rows)), w\<lparr>objects := ob, calls := n\<rparr>)
    \<and> (bad_count answer (batches_of k rows) = 0 \<longrightarrow> ob = (objects w)(normalized_object_key j \<mapsto>
        normalized_text (wk_encode k) answer (batches_of k rows)))"
proof -
  let ?bs = "batches_of k rows"
  let ?w3 = "w\<lparr>calls := calls w + 3\<rparr>"
  let ?w4 = "w\<lparr>calls := calls w + 4\<rparr>"
  have "report_room (length (csv_fields report_header) + length (report_text answer ?bs))
      \<lparr>cw_buffer = [], cw_sink = temp_file k ?w3, cw_err = None\<rparr>"
    using assms(6) by (simp add: files_fit_def report_room_def has_room_def temp_file_def)
  from csv_write_fits [OF this] obtain report where head:
    "csv_write report_header \<lparr>cw_buffer = [], cw_sink = temp_file k ?w3, cw_err = None\<rparr> = (None, report)"
    "report_room (length (report_text answer ?bs)) report" by blast
  have out: "has_room (length (normalized_text (wk_encode k) answer ?bs)) (temp_file k ?w4)" "fw_data (bw_writer (temp_file k ?w4)) = []"
    using assms(6) by (simp_all add: files_fit_def has_room_def temp_file_def)
  from validate_source_complete [OF assms(1) _ assms(3-5) head(2) out(1), of ?w4] assms(2) out(2) obtain n ob where
    "validate_source k j src report (temp_file k ?w4) ?w4 = (Inr (int (length rows),
        int (length rows) - bad_count answer ?bs, bad_count answer ?bs), w\<lparr>objects := ob, calls := n\<rparr>)"
    "bad_count answer ?bs = 0 \<longrightarrow> ob = (objects w)(normalized_object_key j \<mapsto> normalized_text (wk_encode k) answer ?bs)"
    by auto
  with head(1) assms(2) show ?thesis
    by (intro exI [of _ n] exI [of _ ob])
      (simp add: validate_run_def ask_def assms(7,8) calm_attempt numeral_3_eq_3 eval_nat_numeral)
qed

lemma finish_validation_constraints:
  "constraints_ok rows \<Longrightarrow> status v \<in> set all_statuses \<Longrightarrow> constraints_ok (update_where (finish_validation_where v) (finish_validation_set v) rows)"
  by (rule constraints_update) (simp_all add: finish_validation_set_def idem_columns_def row_checks_def)

lemma finish_validation_succeeds:
  assumes "healthy w" and "codec_works c" and "find (is_key (tenant_id v) (application_id v) (job_id v)) (jobs w) = Some j"
    and "status j = StatusValidating" and "status v \<in> set all_statuses"
  shows "\<exists>w'. within (changed (repo_finish_validation v) c ch actor at) w = (Inr (finish_validation_set v j), w')
    \<and> healthy w' \<and> objects w' = objects w
    \<and> find (is_key (tenant_id v) (application_id v) (job_id v)) (jobs w') = Some (finish_validation_set v j)"
proof -
  have guard: "finish_validation_where v j" using assms(3,4) by (auto simp: finish_validation_where_def dest: find_SomeD)
  have ok: "constraints_ok (update_where (finish_validation_where v) (finish_validation_set v) (jobs w))"
    using assms(1,5) by (simp add: finish_validation_constraints healthy_def)
  from finish_validation_up.calm_published [of w v "tenant_id v" "application_id v" "job_id v" j c ch actor at] assms guard ok
  obtain row n where "oe_id row = uuids w (uuids_used w)" "within (changed (repo_finish_validation v) c ch actor at) w
      = (Inr (finish_validation_set v j), stored (update_where (finish_validation_where v) (finish_validation_set v) (jobs w)) row n w)"
    by (auto simp: healthy_def key_of_def repo_finish_validation_def [abs_def])
  with stored_healthy [OF assms(1) ok] finish_validation_up.find_same [of _ _ _ v "jobs w"] assms(3) guard
  show ?thesis by auto
qed

lemma vouched_claimed [simp]: "vouched k (claim_set to now j) answer bs = vouched k j answer bs"
  by (simp add: vouched_def validate_request_def claim_set_def)

lemma worker_validate_completes:
  assumes "able k" and "healthy w" and "find (is_key t a i) (jobs w) = Some j" and "status j = StatusQueued"
    and "readable k src (file_format j) rows" and "vouched k j answer (batches_of k rows)"
    and "equal_fold (dec_sha256_hex (wk_decoders k) (src_bytes src)) (source_checksum j)"
    and "files_fit k answer (batches_of k rows)"
    and "\<And>v. objects v = objects w \<Longrightarrow> wk_open k (source_object_key j) v = Inr src"
    and "\<And>v. wk_open_validation k (provider_service j) t a (dataset_code j) v = None"
  shows "\<exists>w' now fin. worker_validate k t a i w = (None, w') \<and> healthy w'
    \<and> find (is_key t a i) (jobs w') = Some (finish_validation_set (validated_job (claim_set StatusValidating now j) (int (length rows))
        (int (length rows) - bad_count answer (batches_of k rows)) (bad_count answer (batches_of k rows)) fin (fin + wk_result_ttl k))
        (claim_set StatusValidating now j))
    \<and> (bad_count answer (batches_of k rows) = 0 \<longrightarrow> objects w' = (objects w)(normalized_object_key j \<mapsto>
        normalized_text (wk_encode k) answer (batches_of k rows)))"
proof -
  let ?bad = "bad_count answer (batches_of k rows)"
  obtain now w1 where now: "time_now w = (now, w1)" "w1 = w\<lparr>readings := Suc (readings w)\<rparr>" by (simp add: time_now_def)
  let ?j = "claim_set StatusValidating now j"
  let ?w2 = "w1\<lparr>jobs := update_where (claim_where t a i StatusQueued) (claim_set StatusValidating now) (jobs w1), calls := calls w1 + 3\<rparr>"
  have w1: "healthy w1" "find (is_key t a i) (jobs w1) = Some j" "StatusValidating \<in> set all_statuses"
    using assms(2,3) now by (simp_all add: all_statuses_def)
  note claim = calm_claim [OF w1(1,2) assms(4) w1(3), of now]
  have healthy2: "healthy ?w2" using claimed_healthy [OF w1(1,3)] by simp
  from find_SomeD [OF assms(3)] have key: "tenant_id ?j = t" "application_id ?j = a" "job_id ?j = i"
    "provider_service ?j = provider_service j" "dataset_code ?j = dataset_code j" "file_format ?j = file_format j"
    "source_checksum ?j = source_checksum j"
    by (simp_all add: is_key_def claim_set_def)
  have "objects ?w2 = objects w" "calm ?w2" using now healthy2 by (simp_all add: healthy_def)
  with validate_run_complete [OF assms(1), of ?w2 src ?j rows answer] assms(5-10) key
  obtain n ob where run: "validate_run k ?j ?w2 = (Inr (int (length rows), int (length rows) - ?bad, ?bad), ?w2\<lparr>objects := ob, calls := n\<rparr>)"
    and ob: "?bad = 0 \<longrightarrow> ob = (objects w)(normalized_object_key j \<mapsto> normalized_text (wk_encode k) answer (batches_of k rows))" by auto
  obtain fin w3 where t3: "time_now (?w2\<lparr>objects := ob, calls := n\<rparr>) = (fin, w3)"
    "w3 = ?w2\<lparr>objects := ob, calls := n, readings := Suc (readings ?w2)\<rparr>" by (simp add: time_now_def)
  let ?v = "validated_job ?j (int (length rows)) (int (length rows) - ?bad) ?bad fin (fin + wk_result_ttl k)"
  let ?change = "if ?bad > 0 then ''validation-failed'' else ''validated''"
  have "healthy w3" using healthy2 t3(2) by simp
  moreover have "find (is_key t a i) (jobs w3) = Some ?j" using claimed_found [OF w1(2) assms(4)] t3(2) by simp
  moreover have "tenant_id ?v = t" "application_id ?v = a" "job_id ?v = i" "status ?v \<in> set all_statuses"
    using key by (simp_all add: validated_job_def all_statuses_def)
  ultimately obtain w' where fin: "within (changed (repo_finish_validation ?v) (wk_codec k) ?change updated_by fin) w3
      = (Inr (finish_validation_set ?v ?j), w')" "healthy w'" "objects w' = objects w3"
      "find (is_key t a i) (jobs w') = Some (finish_validation_set ?v ?j)"
    using finish_validation_succeeds [of w3 "wk_codec k" ?v ?j ?change updated_by fin] assms(1) by (auto simp: able_def)
  have "worker_validate k t a i w = (None, w')"
    using now(1) claim run t3(1) fin(1)
    by (simp add: worker_validate_def repo_claim_validation_def validate_claimed_def error_of_def Let_def)
  with fin(2-4) ob t3(2) show ?thesis by (intro exI [of _ w'] exI [of _ now] exI [of _ fin]) simp
qed

section \<open>Confirm\<close>

lemma calm_within:
  assumes "calm w" and "db_enabled w" and "fn (w\<lparr>calls := Suc (calls w), in_tx := True, aborted := False\<rparr>) = (Inr x, w2)" and "calm w2"
  shows "within fn w = (Inr x, leave_tx (w2\<lparr>calls := Suc (calls w2)\<rparr>))"
  using assms by (simp add: within_def calm_tick) (simp add: calm_def)

lemma confirm_constraints: "constraints_ok rows \<Longrightarrow> constraints_ok (update_where (confirm_where v n) (confirm_set v) rows)"
  by (rule constraints_update) (simp_all add: confirm_set_def idem_columns_def row_checks_def all_statuses_def)

lemma confirm_body_completes:
  assumes "calm w" and "constraints_ok (jobs w)" and "fresh_ids w" and "codec_works c"
    and "find (is_key (tenant_id v) (application_id v) (job_id v)) (jobs w) = Some j" and "status j = StatusReady"
    and "version j = n" and "confirm_key j \<noteq> confirm_key v"
  shows "\<exists>row m. oe_id row = uuids w (uuids_used w) \<and> confirm_body c v n actor now w = (Inr (confirm_set v j, True),
    w\<lparr>jobs := update_where (confirm_where v n) (confirm_set v) (jobs w), outbox := outbox w @ [row], calls := m,
      uuids_used := Suc (uuids_used w)\<rparr>)"
proof -
  let ?w1 = "w\<lparr>calls := Suc (calls w)\<rparr>"
  let ?w2 = "w\<lparr>jobs := update_where (confirm_where v n) (confirm_set v) (jobs w), calls := calls w + 4\<rparr>"
  have guard: "confirm_where v n j" using assms(5-7) by (auto simp: confirm_where_def dest: find_SomeD)
  have "after_update (tenant_id v) (application_id v) (job_id v) (stmt (exec_update (confirm_where v n) (confirm_set v)) ?w1)
      = (Inr (confirm_set v j), ?w2)"
    using confirm_up.calm_after_update [of ?w1 "(v, n)" "tenant_id v" "application_id v" "job_id v" j]
      assms(1,2,5) guard confirm_constraints by (simp add: key_of_def)
  moreover have "repo_get (tenant_id v) (application_id v) (job_id v) w = (Inr j, ?w1)"
    unfolding repo_get_def by (rule calm_get_one [OF assms(1,5)])
  moreover have "calm ?w2" "fresh_ids ?w2" using assms(1,3) by (simp_all add: fresh_ids_def)
  from calm_add_event [OF this(1) assms(4) this(2), of "confirm_set v j" "''apply-requested''" actor now]
  obtain row where "oe_id row = uuids w (uuids_used w)" "add_event c (confirm_set v j) ''apply-requested'' actor now ?w2 = (Inr (),
      ?w2\<lparr>outbox := outbox w @ [row], uuids_used := Suc (uuids_used w), calls := calls w + 5\<rparr>)"
    by (auto simp: add.commute)
  ultimately show ?thesis using assms(8)
    by (intro exI [of _ row] exI [of _ "calls w + 5"]) (simp add: confirm_body_def repo_confirm_def)
qed

text \<open>A caller who may act for the tenant, and an application that the verifier knows.\<close>

definition admitted :: "'env service \<Rightarrow> principal option \<Rightarrow> string \<Rightarrow> string \<Rightarrow> bool" where
  "admitted s caller t a \<longleftrightarrow> is_ok (authorize caller t) \<and> clean t \<noteq> [] \<and> clean a \<noteq> []
     \<and> (\<forall>v. sv_verify s (clean t) (clean a) v = None)"

lemma service_confirm_completes:
  assumes "healthy w" and "codec_works (sv_codec s)" and "admitted s caller t a"
    and "find (is_key (clean t) (clean a) (clean i)) (jobs w) = Some j" and "status j = StatusReady" and "1 \<le> version j"
    and "clean key \<noteq> []" and "confirm_key j \<noteq> clean key"
  shows "\<exists>w' j'. service_confirm s caller t a i (version j) key w = (Inr (j', False), w')
    \<and> healthy w' \<and> objects w' = objects w \<and> find (is_key (clean t) (clean a) (clean i)) (jobs w') = Some j'
    \<and> (\<exists>v. j' = confirm_set v j)"
proof -
  from assms(3) obtain actor where actor: "authorize caller t = Inr actor" by (auto simp: admitted_def is_ok_iff)
  let ?w1 = "w\<lparr>calls := Suc (calls w)\<rparr>"
  have scope: "authorize_scope (sv_verify s) caller t a w = (Inr actor, ?w1)"
    using actor assms(3) by (simp add: authorize_scope_def ask_def admitted_def)
  obtain now w2 where now: "time_now ?w1 = (now, w2)" "w2 = ?w1\<lparr>readings := Suc (readings w)\<rparr>" by (simp add: time_now_def)
  let ?v = "confirm_input t a i key now actor"
  have v: "tenant_id ?v = clean t" "application_id ?v = clean a" "job_id ?v = clean i" "confirm_key ?v = clean key"
    by (simp_all add: confirm_input_def)
  let ?rows = "update_where (confirm_where ?v (version j)) (confirm_set ?v) (jobs w)"
  have ok: "constraints_ok ?rows" using assms(1) confirm_constraints by (simp add: healthy_def)
  let ?tx = "w2\<lparr>calls := Suc (calls w2), in_tx := True, aborted := False\<rparr>"
  have "calm ?tx" "constraints_ok (jobs ?tx)" "fresh_ids ?tx" "jobs ?tx = jobs w"
    using assms(1) now(2) by (simp_all add: healthy_def fresh_ids_def)
  with confirm_body_completes [of ?tx "sv_codec s" ?v j "version j" actor now] assms(2,4,5,8) v
  obtain row m where row: "oe_id row = uuids w (uuids_used w)" and body: "confirm_body (sv_codec s) ?v (version j) actor now ?tx
      = (Inr (confirm_set ?v j, True), ?tx\<lparr>jobs := ?rows, outbox := outbox w @ [row], calls := m, uuids_used := Suc (uuids_used w)\<rparr>)"
    using now(2) by auto
  let ?w' = "stored ?rows row (Suc m) w2"
  have calm2: "calm w2" "db_enabled w2" "healthy w2" using assms(1) now(2) by (simp_all add: healthy_def fresh_ids_def)
  have "within (confirm_body (sv_codec s) ?v (version j) actor now) w2 = (Inr (confirm_set ?v j, True), ?w')"
    using calm_within [where fn = "confirm_body (sv_codec s) ?v (version j) actor now", OF calm2(1,2) body] calm2(1) now(2) by (simp add: stored_def leave_tx_def)
  with scope now(1) assms(6,7) have run: "service_confirm s caller t a i (version j) key w = (Inr (confirm_set ?v j, False), ?w')"
    by (simp add: service_confirm_def)
  have "healthy ?w'" using stored_healthy [OF calm2(3) ok] row now(2) by simp
  moreover have "find (is_key (clean t) (clean a) (clean i)) ?rows = Some (confirm_set ?v j)"
    using confirm_up.find_same [of "clean t" "clean a" "clean i" "(?v, version j)" "jobs w"] assms(4,5) v
    by (auto simp: confirm_where_def dest: find_SomeD)
  ultimately show ?thesis using run now(2) by (intro exI [of _ ?w'] exI [of _ "confirm_set ?v j"]) auto
qed

section \<open>From the upload to success\<close>

text \<open>The worker reads the store that it writes, and the provider opens its sessions for this job and
  applies what it is sent.\<close>

definition file_of :: "(string \<Rightarrow> nat \<Rightarrow> bool) \<Rightarrow> string \<Rightarrow> source" where
  "file_of ahead data = \<lparr>src_bytes = data, src_err = Sentinel IoEOF, src_ahead = ahead data\<rparr>"

definition reads_store :: "'env worker \<Rightarrow> (string \<Rightarrow> nat \<Rightarrow> bool) \<Rightarrow> bool" where
  "reads_store k ahead \<longleftrightarrow> (\<forall>v key data. objects v key = Some data \<longrightarrow> wk_open k key v = Inr (file_of ahead data))"

definition cooperative :: "'env worker \<Rightarrow> job \<Rightarrow> bool" where
  "cooperative k j \<longleftrightarrow>
     (\<forall>v. wk_open_validation k (provider_service j) (tenant_id j) (application_id j) (dataset_code j) v = None
        \<and> wk_open_apply k (provider_service j) (tenant_id j) (application_id j) (dataset_code j) v = None)
     \<and> (\<forall>r v. ab_job_id r = job_id j \<longrightarrow> wk_apply k r v = Inr \<lparr>ar_applied_rows = int (length (ab_rows r)), ar_issues = []\<rparr>)"

text \<open>The provider finds every row of these batches valid, and its normalized rows survive the file between.\<close>

definition all_valid :: "'env worker \<Rightarrow> (parsed_batch \<Rightarrow> validate_batch_result) \<Rightarrow> parsed_batch list \<Rightarrow> bool" where
  "all_valid k answer bs \<longleftrightarrow> (\<forall>b \<in> set bs. vr_issues (answer b) = []
     \<and> (\<forall>r \<in> set (vr_normalized_rows (answer b)). survives (wk_decoders k) (wk_encode k) r))"

definition normalized_rows :: "(parsed_batch \<Rightarrow> validate_batch_result) \<Rightarrow> parsed_batch list \<Rightarrow> import_row list" where
  "normalized_rows answer bs = concat (map (vr_normalized_rows \<circ> answer) bs)"

lemma all_valid_counts:
  assumes "vouched k j answer bs" and "all_valid k answer bs"
  shows "bad_count answer bs = 0" and "int (length (normalized_rows answer bs)) = row_count bs"
  using assms
  by (induction bs) (auto simp: bad_count_def bad_rows_def normalized_rows_def vouched_def all_valid_def accepted_answer_def)

lemma encoded_lines:
  assumes "\<forall>r \<in> set rows. is_ok (encode r)"
  shows "encoded_rows encode rows (concat (map (line_of encode) rows))"
  using assms
proof (induction rows)
  case (Cons r rows)
  then obtain l where l: "encode r = Inr l" by (auto simp: is_ok_iff)
  then have "encoded_rows encode [r] (line_of encode r)"
    by (auto simp: encoded_rows_def line_of_def intro: exI [of _ "[l]"])
  from encoded_rows_append [OF this Cons.IH] Cons.prems show ?case by simp
qed simp

lemma normalized_readable:
  assumes "vouched k j answer bs" and "all_valid k answer bs" and "files_fit k answer bs"
  shows "file_rows (wk_decoders k) (file_of ahead (normalized_text (wk_encode k) answer bs)) FormatJSONL (wk_max_bytes k)
    = (normalized_rows answer bs, None)"
proof (rule encoded_rows_read)
  have "normalized_text (wk_encode k) answer bs = concat (map (line_of (wk_encode k)) (normalized_rows answer bs))"
    by (induction bs) (simp_all add: normalized_text_def normalized_rows_def)
  moreover have "\<forall>r \<in> set (normalized_rows answer bs). is_ok (wk_encode k r)"
    using assms(1) by (auto simp: normalized_rows_def vouched_def accepted_answer_def)
  ultimately show "encoded_rows (wk_encode k) (normalized_rows answer bs) (src_bytes (file_of ahead (normalized_text (wk_encode k) answer bs)))"
    using encoded_lines [of "normalized_rows answer bs" "wk_encode k"] by (simp add: file_of_def)
  show "int (length (src_bytes (file_of ahead (normalized_text (wk_encode k) answer bs)))) \<le> wk_max_bytes k"
    using assms(3) by (simp add: files_fit_def file_of_def)
qed (use assms(2) in \<open>auto simp: file_of_def normalized_rows_def all_valid_def\<close>)

text \<open>C5: A good import goes through. When no call fails, the caller may act for the tenant, the disk and
  the limits have room, the source in the store can be parsed and has the announced checksum, and the
  provider finds every row valid and applies what it is sent, then a queued job is validated, can be
  confirmed at the version it then has, and is applied: it ends succeeded, every row of the file
  applied. What the worker validated and wrote to the store is what it reads back and sends.\<close>

theorem good_import_succeeds:
  assumes "able k" and "healthy w" and "reads_store k ahead" and "cooperative k j"
    and "find (is_key (clean t) (clean a) (clean i)) (jobs w) = Some j" and "status j = StatusQueued" and "1 \<le> version j"
    and "objects w (source_object_key j) = Some data" and "readable k (file_of ahead data) (file_format j) rows"
    and "equal_fold (dec_sha256_hex (wk_decoders k) data) (source_checksum j)"
    and "vouched k j answer (batches_of k rows)" and "all_valid k answer (batches_of k rows)"
    and "files_fit k answer (batches_of k rows)"
    and "admitted s caller t a" and "codec_works (sv_codec s)" and "clean key \<noteq> []" and "confirm_key j \<noteq> clean key"
  shows "\<exists>w1 w2 w3 j2 j3. worker_validate k (clean t) (clean a) (clean i) w = (None, w1)
    \<and> service_confirm s caller t a i (version j + 2) key w1 = (Inr (j2, False), w2)
    \<and> worker_apply k (clean t) (clean a) (clean i) w2 = (None, w3)
    \<and> find (is_key (clean t) (clean a) (clean i)) (jobs w3) = Some j3 \<and> status j3 = StatusSucceeded
    \<and> total_rows j3 = int (length rows) \<and> applied_rows j3 = int (length rows) \<and> version j3 = version j + 5"
proof -
  let ?bs = "batches_of k rows"
  let ?text = "normalized_text (wk_encode k) answer ?bs"
  note counts = all_valid_counts [OF assms(11,12)]
  have rows: "int (length (normalized_rows answer ?bs)) = int (length rows)"
    using counts(2) assms(1) by (simp add: row_count_batches able_def)
  from find_SomeD [OF assms(5)] have key: "tenant_id j = clean t" "application_id j = clean a" "job_id j = clean i"
    by (simp_all add: is_key_def)
  have source: "src_bytes (file_of ahead data) = data" by (simp add: file_of_def)
  have opens: "wk_open k (source_object_key j) v = Inr (file_of ahead data)" if "objects v = objects w" for v
    using assms(3,8) that by (simp add: reads_store_def)
  from worker_validate_completes [OF assms(1,2,5,6,9,11) _ assms(13) opens] assms(4,10) key source obtain w1 now fin where
    validated: "worker_validate k (clean t) (clean a) (clean i) w = (None, w1)" "healthy w1"
      "find (is_key (clean t) (clean a) (clean i)) (jobs w1) = Some (finish_validation_set (validated_job
        (claim_set StatusValidating now j) (int (length rows)) (int (length rows)) 0 fin (fin + wk_result_ttl k)) (claim_set StatusValidating now j))"
      "objects w1 = (objects w)(normalized_object_key j \<mapsto> ?text)"
    by (auto simp: counts(1) cooperative_def)
  let ?j1 = "finish_validation_set (validated_job (claim_set StatusValidating now j) (int (length rows))
      (int (length rows)) 0 fin (fin + wk_result_ttl k)) (claim_set StatusValidating now j)"
  have j1: "status ?j1 = StatusReady" "version ?j1 = version j + 2" "confirm_key ?j1 = confirm_key j"
    by (simp_all add: set_defs validated_job_def)
  from service_confirm_completes [OF validated(2) assms(15,14) validated(3) j1(1) _ assms(16)] assms(7,17) j1(2,3)
  obtain w2 j2 v where confirmed: "service_confirm s caller t a i (version j + 2) key w1 = (Inr (j2, False), w2)"
    "healthy w2" "objects w2 = objects w1" "find (is_key (clean t) (clean a) (clean i)) (jobs w2) = Some j2" "j2 = confirm_set v ?j1"
    by auto
  have j2: "status j2 = StatusApplyQueued" "normalized_object_key j2 = normalized_object_key j" "total_rows j2 = int (length rows)"
    "provider_service j2 = provider_service j" "dataset_code j2 = dataset_code j" "version j2 = version j + 3"
    unfolding confirmed(5) by (simp_all add: set_defs validated_job_def)
  have "wk_open k (normalized_object_key j2) u = Inr (file_of ahead ?text)" if "objects u = objects w2" for u
    using assms(3) that confirmed(3) validated(4) j2(2) by (simp add: reads_store_def)
  moreover have "int (length (src_bytes (file_of ahead ?text))) \<le> wk_max_bytes k"
    "int (length (normalized_rows answer ?bs)) \<le> wk_max_rows k"
    using assms(9,13) rows by (simp_all add: files_fit_def file_of_def readable_def)
  moreover note normalized_readable [OF assms(11-13), of ahead]
  ultimately obtain w3 j3 where "worker_apply k (clean t) (clean a) (clean i) w2 = (None, w3)"
    "find (is_key (clean t) (clean a) (clean i)) (jobs w3) = Some j3" "status j3 = StatusSucceeded"
    "applied_rows j3 = int (length rows)" "total_rows j3 = total_rows j2" "version j3 = version j2 + 2"
    using worker_apply_completes [OF assms(1) confirmed(2,4) j2(1), of "file_of ahead ?text" "normalized_rows answer ?bs"]
      assms(4) key j2(4,5) rows by (auto simp: cooperative_def)
  with validated(1) confirmed(1) j2(3,6) show ?thesis by auto
qed

text \<open>The three rows of the scenario's file, and a provider that returns them as they came.\<close>

definition demo_rows :: "import_row list" where
  "demo_rows = [demo_row ''ann'', demo_row ''bob'', demo_row ''eve'']"

definition demo_answer :: "parsed_batch \<Rightarrow> validate_batch_result" where
  "demo_answer b = \<lparr>vr_normalized_rows = pb_rows b, vr_issues = []\<rparr>"

definition demo_data :: string where
  "demo_data = ''name'' @ CHR 0x0A # ''ann'' @ CHR 0x0A # ''bob'' @ CHR 0x0A # ''eve''"

lemma demo_readable: "readable demo_worker (file_of (\<lambda>_ _. True) demo_data) FormatCSV demo_rows"
proof -
  have "demo_csv (delivered (file_of (\<lambda>_ _. True) demo_data) 100) (delivered_err (file_of (\<lambda>_ _. True) demo_data) 100)
      = ([[''name''], [''ann''], [''bob''], [''eve'']], Sentinel IoEOF)" by code_simp
  moreover have "validate_headers [''name''] = Inr [''name'']" by code_simp
  ultimately have "csv_rows demo_decoders (file_of (\<lambda>_ _. True) demo_data) 100 = (demo_rows, None)"
    by (simp add: csv_rows_def demo_decoders_def csv_step_def csv_final_def csv_row_def demo_rows_def demo_row_def)
  moreover have "length (src_bytes (file_of (\<lambda>_ _. True) demo_data)) = 16" by code_simp
  ultimately show ?thesis by (simp add: readable_def file_rows_def demo_worker_def demo_rows_def)
qed

lemma demo_batches: "batches_of demo_worker demo_rows =
    [\<lparr>pb_number = 1, pb_first_row_number = 2, pb_rows = [demo_row ''ann'', demo_row ''bob'']\<rparr>,
     \<lparr>pb_number = 2, pb_first_row_number = 4, pb_rows = [demo_row ''eve'']\<rparr>]"
  by (simp add: demo_worker_def demo_rows_def batches_from.simps)

lemma demo_valid:
  "vouched demo_worker j demo_answer (batches_of demo_worker demo_rows)"
  "all_valid demo_worker demo_answer (batches_of demo_worker demo_rows)"
  "files_fit demo_worker demo_answer (batches_of demo_worker demo_rows)"
proof -
  have line: "CHR 0x0A \<notin> set l \<and> length l < scan_limit \<and> drop_cr l = l \<and> trim_space l \<noteq> []"
    if "l \<in> {''ann'', ''bob'', ''eve''}" for l
    using that by (elim insertE emptyE) (simp add: scan_limit_def drop_cr_def, code_simp)+
  show "vouched demo_worker j demo_answer (batches_of demo_worker demo_rows)"
    unfolding demo_batches by (simp add: vouched_def demo_worker_def demo_validate_def demo_answer_def validate_request_def
        demo_bad_def demo_row_def accepted_answer_def bad_rows_def demo_encode_def)
  show "all_valid demo_worker demo_answer (batches_of demo_worker demo_rows)"
    unfolding demo_batches using line
    by (simp add: all_valid_def demo_answer_def survives_def demo_worker_def demo_decoders_def demo_encode_def demo_row_def)
  have "length (csv_fields report_header) = 31" by code_simp
  then show "files_fit demo_worker demo_answer (batches_of demo_worker demo_rows)"
    unfolding demo_batches by (simp add: files_fit_def demo_answer_def report_text_def normalized_text_def line_of_def
        demo_worker_def demo_encode_def demo_row_def)
qed

theorem good_import_succeeds_witness:
  "\<exists>w1 w2 w3 j2 j3. worker_validate demo_worker ''t1'' ''a1'' ''0'' (holding [queued_job]) = (None, w1)
    \<and> service_confirm demo_service demo_caller ''t1'' ''a1'' ''0'' 4 ''c1'' w1 = (Inr (j2, False), w2)
    \<and> worker_apply demo_worker ''t1'' ''a1'' ''0'' w2 = (None, w3)
    \<and> find (is_key ''t1'' ''a1'' ''0'') (jobs w3) = Some j3 \<and> status j3 = StatusSucceeded
    \<and> total_rows j3 = 3 \<and> applied_rows j3 = 3 \<and> version j3 = 7"
proof -
  have clean: "clean ''t1'' = ''t1''" "clean ''a1'' = ''a1''" "clean ''0'' = ''0''" "clean ''c1'' = ''c1''" by code_simp+
  have codec: "codec_works demo_codec" by (simp add: codec_works_def demo_codec_def)
  then have able: "able demo_worker" by (simp add: able_def demo_worker_def)
  have "constraints_ok [queued_job]" by code_simp
  then have healthy: "healthy (holding [queued_job])"
    by (simp add: healthy_def calm_def fresh_ids_def holding_def demo_world_def inj_def show_nat_inject)
  have store: "reads_store demo_worker (\<lambda>_ _. True)" by (simp add: reads_store_def demo_worker_def file_of_def)
  have coop: "cooperative demo_worker queued_job" by (simp add: cooperative_def demo_worker_def)
  have job: "find (is_key (clean ''t1'') (clean ''a1'') (clean ''0'')) (jobs (holding [queued_job])) = Some queued_job"
    "status queued_job = StatusQueued" "1 \<le> version queued_job" "version queued_job + 2 = 4" "version queued_job + 5 = 7"
    "file_format queued_job = FormatCSV" by code_simp+
  have data: "objects (holding [queued_job]) (source_object_key queued_job) = Some demo_data" by code_simp
  have checksum: "equal_fold (dec_sha256_hex (wk_decoders demo_worker) demo_data) (source_checksum queued_job)" by code_simp
  have caller: "admitted demo_service demo_caller ''t1'' ''a1''"
    using clean by (simp add: admitted_def demo_caller_def authorize_def demo_service_def)
  have key: "clean ''c1'' \<noteq> []" "confirm_key queued_job \<noteq> clean ''c1''" "codec_works (sv_codec demo_service)"
    using clean codec by (simp_all add: queued_job_def new_demo_job_def zero_job_def demo_service_def)
  have rows: "int (length demo_rows) = 3" by (simp add: demo_rows_def)
  from good_import_succeeds [OF able healthy store coop job(1-3) data demo_readable [folded job(6)] checksum demo_valid caller key(3,1,2)]
  show ?thesis unfolding clean rows job(4,5) .
qed

end
