(* ===== verification/Config_Types.thy ===== *)
theory Config_Types
  imports Errors
begin

text \<open>
  The configuration (\<open>internal/config/config.go\<close>): one record per struct, with its fields in the
  source's order. Integers and durations are \<open>int\<close>. A Go map is the list of its entries in the
  order in which a loop over it meets them, which Go leaves open. A \<open>float64\<close> is its exact value or
  one of the values that are no number.
\<close>

datatype go_float = FloatVal int int | FloatNaN | FloatPosInf | FloatNegInf

text \<open>\<open>FloatVal m e\<close> is \<open>m * 2 ^ e\<close>. A comparison with NaN is false.\<close>

fun float_below_zero :: "go_float \<Rightarrow> bool" where
  "float_below_zero (FloatVal m e) = (m < 0)"
| "float_below_zero FloatNaN = False"
| "float_below_zero FloatPosInf = False"
| "float_below_zero FloatNegInf = True"

fun float_above_one :: "go_float \<Rightarrow> bool" where
  "float_above_one (FloatVal m e) = (if 0 \<le> e then m * 2 ^ nat e > 1 else m > 2 ^ nat (- e))"
| "float_above_one FloatNaN = False"
| "float_above_one FloatPosInf = True"
| "float_above_one FloatNegInf = False"

record runtime_config =
  run_active_profile :: string
  run_config_files :: "string list"

record app_config =
  app_name :: string
  app_schema :: string
  app_env :: string
  app_shutdown_timeout :: duration

record cors_config =
  cors_enabled :: bool
  cors_allowed_origins :: "string list"
  cors_allowed_headers :: "string list"
  cors_exposed_headers :: "string list"
  cors_max_age :: duration

record http_config =
  http_address :: string
  http_read_timeout :: duration
  http_write_timeout :: duration
  http_idle_timeout :: duration
  http_request_timeout :: duration
  http_max_body_bytes :: int
  http_trusted_proxies :: "string list"
  http_cors :: cors_config

record grpc_tls_config =
  gtls_enabled :: bool
  gtls_cert_file :: string
  gtls_key_file :: string
  gtls_client_ca_file :: string

record grpc_config =
  grpc_enabled :: bool
  grpc_address :: string
  grpc_reflection_enabled :: bool
  grpc_max_receive_bytes :: int
  grpc_tls :: grpc_tls_config

record log_config =
  log_level :: string
  log_format :: string
  log_file :: string
  log_max_size :: int
  log_max_backups :: int
  log_max_age_days :: int
  log_compress :: bool

record database_config =
  dbc_enabled :: bool
  dbc_name :: string
  dbc_schema :: string
  dbc_type :: string
  dbc_dsn :: string
  dbc_max_open_conns :: int
  dbc_max_idle_conns :: int
  dbc_conn_max_lifetime :: duration
  dbc_conn_max_idle_time :: duration
  dbc_ping_timeout :: duration

record redis_config =
  redis_enabled :: bool
  redis_address :: string
  redis_username :: string
  redis_password :: string
  redis_db :: int
  redis_dial_timeout :: duration
  redis_read_timeout :: duration
  redis_write_timeout :: duration

record health_config =
  health_database_timeout :: duration
  health_redis_timeout :: duration

record rate_limit_rule =
  rule_rate :: int
  rule_burst :: int
  rule_period :: duration

record rate_limit_config =
  rl_enabled :: bool
  rl_fail_open :: bool
  rl_ip :: rate_limit_rule
  rl_api :: rate_limit_rule
  rl_user :: rate_limit_rule
  rl_login :: rate_limit_rule

record observability_config =
  obs_metrics_enabled :: bool
  obs_tracing_enabled :: bool
  obs_tracing_endpoint :: string
  obs_tracing_sample_ratio :: go_float
  obs_pprof_enabled :: bool
  obs_pprof_token :: string

record swagger_config =
  swagger_enabled :: bool
  swagger_require_auth :: bool

record jwt_config =
  jwt_issuer :: string
  jwt_secret :: string
  jwt_ttl :: duration

record psk_config =
  psk_enabled :: bool
  psk_key :: string
  psk_http_paths :: "string list"
  psk_grpc_methods :: "string list"

record auth_config =
  auth_jwks_url :: string
  auth_issuer :: string
  auth_audience :: string
  auth_client_id :: string
  auth_client_secret :: string
  auth_skip_http_paths :: "string list"
  auth_skip_grpc_methods :: "string list"
  auth_psk :: psk_config

record authorization_config =
  authz_enabled :: bool

record cron_config =
  cron_enabled :: bool
  cron_timezone :: string
  cron_import_cleanup_spec :: string
  cron_metadata_cleanup_spec :: string
  cron_metadata_retention :: duration
  cron_cleanup_batch_size :: int

record migration_config =
  mig_auto_up :: bool
  mig_create_schema :: bool
  mig_path :: string
  mig_database_url :: string
  mig_table :: string
  mig_schema :: string
  mig_database_name :: string

record user_config =
  user_cache_ttl :: duration
  user_lock_ttl :: duration
  user_lock_retry_delay :: duration

record idempotency_config =
  idem_enabled :: bool
  idem_http_paths :: "string list"
  idem_grpc_methods :: "string list"
  idem_processing_ttl :: duration
  idem_result_ttl :: duration
  idem_failure_ttl :: duration

record client_auth =
  ca_type :: string
  ca_token :: string

record retry_policy =
  retry_max_attempts :: int
  retry_initial_backoff :: duration
  retry_max_backoff :: duration
  retry_methods :: "string list"

record breaker_policy =
  brk_enabled :: bool
  brk_failure_threshold :: int
  brk_open_timeout :: duration

record client_tls =
  tls_enabled :: bool
  tls_allow_insecure :: bool
  tls_server_name :: string
  tls_ca_file :: string
  tls_cert_file :: string
  tls_key_file :: string

record http_upstream =
  hu_base_url :: string
  hu_timeout :: duration
  hu_auth :: client_auth
  hu_retry :: retry_policy
  hu_breaker :: breaker_policy
  hu_tls :: client_tls

record grpc_upstream =
  gu_target :: string
  gu_timeout :: duration
  gu_auth :: client_auth
  gu_retry :: retry_policy
  gu_breaker :: breaker_policy
  gu_tls :: client_tls

record outbound_config =
  out_http :: "(string \<times> http_upstream) list"
  out_grpc :: "(string \<times> grpc_upstream) list"

record event_bus_config =
  bus_enabled :: bool
  bus_urls :: "string list"
  bus_stream_name :: string
  bus_subjects :: "string list"
  bus_storage :: string
  bus_max_age :: duration
  bus_duplicate_window :: duration
  bus_connect_timeout :: duration
  bus_reconnect_wait :: duration
  bus_publish_timeout :: duration
  bus_consumer_ack_wait :: duration
  bus_consumer_max_deliver :: int
  bus_dispatch_interval :: duration
  bus_dispatch_batch_size :: int
  bus_dispatch_lease :: duration
  bus_dispatch_retry_delay :: duration
  bus_published_retention :: duration
  bus_cleanup_interval :: duration
  bus_cleanup_batch_size :: int

record import_config =
  imp_upload_ttl :: duration
  imp_result_ttl :: duration
  imp_job_timeout :: duration
  imp_batch_size :: int
  imp_max_rows :: int
  imp_max_bytes :: int

record object_storage_config =
  os_enabled :: bool
  os_endpoint :: string
  os_presign_endpoint :: string
  os_access_key :: string
  os_secret_key :: string
  os_bucket :: string
  os_region :: string
  os_use_ssl :: bool
  os_presign_use_ssl :: bool
  os_presign_ttl :: duration

record service_registry_config =
  reg_enabled :: bool
  reg_target :: string
  reg_psk :: string
  reg_max_stale :: duration
  reg_snapshot_directory :: string
  reg_allow_insecure :: bool
  reg_tls :: client_tls

record provider_client_config =
  pc_psk :: string
  pc_dns_suffixes :: "string list"
  pc_timeout :: duration
  pc_failure_cooldown :: duration
  pc_allow_insecure :: bool
  pc_retry :: retry_policy
  pc_breaker :: breaker_policy
  pc_tls :: client_tls

record config =
  cfg_runtime :: runtime_config
  cfg_app :: app_config
  cfg_http :: http_config
  cfg_grpc :: grpc_config
  cfg_log :: log_config
  cfg_database :: database_config
  cfg_redis :: redis_config
  cfg_health :: health_config
  cfg_rate_limit :: rate_limit_config
  cfg_observability :: observability_config
  cfg_swagger :: swagger_config
  cfg_jwt :: jwt_config
  cfg_auth :: auth_config
  cfg_authorization :: authorization_config
  cfg_cron :: cron_config
  cfg_migration :: migration_config
  cfg_user :: user_config
  cfg_idempotency :: idempotency_config
  cfg_outbound :: outbound_config
  cfg_event_bus :: event_bus_config
  cfg_import :: import_config
  cfg_object_storage :: object_storage_config
  cfg_service_registry :: service_registry_config
  cfg_provider_client :: provider_client_config

end
