(* ===== verification/Path_Match.thy ===== *)
theory Path_Match
  imports Errors
begin

text \<open>
  \<open>path.Match\<close> of Go's library, by which the service recognizes routes (\<open>internal/auth/pattern.go\<close>)
  and checks the patterns of its configuration, and \<open>MatchesAny\<close>. A pattern is cut into chunks,
  each with a star before it or not; a chunk matches without backtracking; a star skips any
  number of bytes but no slash. A malformed rest of the pattern is an error even when the match
  has already failed.
\<close>

section \<open>Runes\<close>

text \<open>\<open>utf8.DecodeRuneInString\<close> on a non-empty string: the rune and its width; \<open>RuneError\<close> and 1
  for a byte that begins no valid encoding.\<close>

definition rune_error :: nat where
  "rune_error = 65533"

definition continuation :: "char \<Rightarrow> bool" where
  "continuation c \<longleftrightarrow> 128 \<le> (of_char c :: nat) \<and> (of_char c :: nat) < 192"

definition decode_rune :: "string \<Rightarrow> nat \<times> nat" where
  "decode_rune s = (let b = (\<lambda>i. of_char (s ! i) :: nat) in
     if s = [] then (rune_error, 0)
     else if b 0 < 128 then (b 0, 1)
     else if 194 \<le> b 0 \<and> b 0 < 224 \<and> 2 \<le> length s \<and> continuation (s ! 1)
       then ((b 0 - 192) * 64 + (b 1 - 128), 2)
     else if 224 \<le> b 0 \<and> b 0 < 240 \<and> 3 \<le> length s \<and> continuation (s ! 1) \<and> continuation (s ! 2)
         \<and> (b 0 = 224 \<longrightarrow> 160 \<le> b 1) \<and> (b 0 = 237 \<longrightarrow> b 1 < 160)
       then ((b 0 - 224) * 4096 + (b 1 - 128) * 64 + (b 2 - 128), 3)
     else if 240 \<le> b 0 \<and> b 0 < 245 \<and> 4 \<le> length s \<and> continuation (s ! 1) \<and> continuation (s ! 2)
         \<and> continuation (s ! 3) \<and> (b 0 = 240 \<longrightarrow> 144 \<le> b 1) \<and> (b 0 = 244 \<longrightarrow> b 1 < 144)
       then ((b 0 - 240) * 262144 + (b 1 - 128) * 4096 + (b 2 - 128) * 64 + (b 3 - 128), 4)
     else (rune_error, 1))"

lemma decode_rune_width: "s \<noteq> [] \<Longrightarrow> 1 \<le> snd (decode_rune s) \<and> snd (decode_rune s) \<le> length s"
  by (simp add: decode_rune_def Let_def Suc_le_eq)

section \<open>Chunks\<close>

definition bad_pattern :: gerr where
  "bad_pattern = ErrText ''syntax error in pattern''"

text \<open>How long the chunk at the front of \<open>p\<close> is: up to the next star outside a class.\<close>

fun chunk_length :: "bool \<Rightarrow> string \<Rightarrow> nat" where
  "chunk_length inrange [] = 0"
| "chunk_length inrange (c # p) =
     (if c = CHR 0x5C then (case p of [] \<Rightarrow> 1 | _ # q \<Rightarrow> Suc (Suc (chunk_length inrange q)))
      else if c = CHR ''['' then Suc (chunk_length True p)
      else if c = CHR '']'' then Suc (chunk_length False p)
      else if c = CHR ''*'' \<and> \<not> inrange then 0
      else Suc (chunk_length inrange p))"

definition scan_chunk :: "string \<Rightarrow> bool \<times> string \<times> string" where
  "scan_chunk pattern = (let p = dropWhile (\<lambda>c. c = CHR ''*'') pattern; n = chunk_length False p in
     (p \<noteq> pattern, take n p, drop n p))"

text \<open>A possibly escaped character of a class.\<close>

definition get_esc :: "string \<Rightarrow> (nat \<times> string) option" where
  "get_esc chunk =
     (if chunk = [] \<or> hd chunk = CHR ''-'' \<or> hd chunk = CHR '']'' then None
      else let chunk = (if hd chunk = CHR 0x5C then tl chunk else chunk) in
        if chunk = [] then None
        else case decode_rune chunk of (r, n) \<Rightarrow>
          if r = rune_error \<and> n = 1 then None
          else if drop n chunk = [] then None
          else Some (r, drop n chunk))"

lemma get_esc_shorter: "get_esc chunk = Some (r, rest) \<Longrightarrow> length rest < length chunk"
proof -
  assume e: "get_esc chunk = Some (r, rest)"
  define c where "c = (if hd chunk = CHR 0x5C then tl chunk else chunk)"
  from e have "chunk \<noteq> []" "c \<noteq> []" "rest = drop (snd (decode_rune c)) c"
    by (auto simp: get_esc_def c_def Let_def split: if_splits prod.splits)
  moreover have "length c \<le> length chunk" by (simp add: c_def)
  ultimately show ?thesis using decode_rune_width [of c] by (cases c) auto
qed

text \<open>The ranges of a class up to its closing bracket: whether \<open>r\<close> is in one of them, and the rest.\<close>

function match_ranges :: "nat \<Rightarrow> bool \<Rightarrow> nat \<Rightarrow> string \<Rightarrow> (bool \<times> string) option" where
  "match_ranges r matched nrange chunk =
     (if chunk \<noteq> [] \<and> hd chunk = CHR '']'' \<and> 0 < nrange then Some (matched, tl chunk)
      else case get_esc chunk of
        None \<Rightarrow> None
      | Some (lo, rest) \<Rightarrow>
          if hd rest = CHR ''-''
          then (case get_esc (tl rest) of
                  None \<Rightarrow> None
                | Some (hi, rest2) \<Rightarrow> match_ranges r (matched \<or> lo \<le> r \<and> r \<le> hi) (Suc nrange) rest2)
          else match_ranges r (matched \<or> lo = r) (Suc nrange) rest)"
  by pat_completeness auto
termination
proof (relation "measure (\<lambda>(r, m, n, chunk). length chunk)")
  fix chunk :: string and x lo rest y hi rest2 and r m n
  assume "get_esc chunk = Some x" "(lo, rest) = x" "get_esc (tl rest) = Some y" "(hi, rest2) = y"
  then have "length rest < length chunk" "length rest2 < length (tl rest)"
    by (auto dest: get_esc_shorter)
  then show "((r, m', Suc n, rest2), r, m, n, chunk) \<in> measure (\<lambda>(r, m, n, chunk). length chunk)" for m'
    by simp
qed (auto dest: get_esc_shorter)

declare match_ranges.simps [simp del]

lemma match_ranges_shorter: "match_ranges r m n chunk = Some (b, rest) \<Longrightarrow> length rest < length chunk"
proof (induction r m n chunk rule: match_ranges.induct)
  case (1 r m n chunk)
  show ?case
  proof (cases "chunk \<noteq> [] \<and> hd chunk = CHR '']'' \<and> 0 < n")
    case True
    with "1.prems" show ?thesis by (subst (asm) match_ranges.simps) auto
  next
    case False
    with "1.prems" obtain lo r1 where e: "get_esc chunk = Some (lo, r1)"
      by (subst (asm) match_ranges.simps) (auto split: option.splits)
    note l1 = get_esc_shorter [OF e]
    show ?thesis
    proof (cases "hd r1 = CHR ''-''")
      case True
      with "1.prems" False e obtain hi r2 where e2: "get_esc (tl r1) = Some (hi, r2)"
        "match_ranges r (m \<or> lo \<le> r \<and> r \<le> hi) (Suc n) r2 = Some (b, rest)"
        by (subst (asm) match_ranges.simps) (auto split: option.splits)
      from "1.IH"(1) [OF False e refl True e2(1) refl e2(2)] get_esc_shorter [OF e2(1)] l1
      show ?thesis by (cases r1) auto
    next
      case other: False
      with "1.prems" False e have "match_ranges r (m \<or> lo = r) (Suc n) r1 = Some (b, rest)"
        by (subst (asm) match_ranges.simps) auto
      from "1.IH"(2) [OF False e refl other this] l1 show ?thesis by simp
    qed
  qed
qed

text \<open>\<open>matchChunk\<close>: \<open>None\<close> for a bad pattern, \<open>Some None\<close> for no match, else the rest of the name. The
  name is \<open>None\<close> once the match has failed.\<close>

definition name_drop :: "nat \<Rightarrow> string option \<Rightarrow> string option" where
  "name_drop n s = map_option (drop n) s"

function match_chunk :: "string \<Rightarrow> string option \<Rightarrow> string option option" where
  "match_chunk chunk name =
     (if chunk = [] then Some name
      else let name = (if name = Some [] then None else name); c = hd chunk in
        if c = CHR ''['' then
          (case (case name of None \<Rightarrow> (0, 0) | Some s \<Rightarrow> decode_rune s) of (r, n) \<Rightarrow>
             let rest = tl chunk;
               negated = (rest \<noteq> [] \<and> hd rest = CHR ''^'');
               rest = (if negated then tl rest else rest) in
             case match_ranges r False 0 rest of
               None \<Rightarrow> None
             | Some (matched, rest) \<Rightarrow>
                 match_chunk rest (if matched = negated then None else name_drop n name))
        else if c = CHR ''?'' then
          match_chunk (tl chunk) (case name of None \<Rightarrow> None
            | Some s \<Rightarrow> if hd s = CHR ''/'' then None else Some (drop (snd (decode_rune s)) s))
        else let chunk = (if c = CHR 0x5C then tl chunk else chunk) in
          if chunk = [] then None
          else match_chunk (tl chunk) (case name of None \<Rightarrow> None
            | Some s \<Rightarrow> if hd chunk \<noteq> hd s then None else Some (tl s)))"
  by pat_completeness auto
termination
proof (relation "measure (\<lambda>(chunk, name). length chunk)", goal_cases)
  case (2 chunk name x c r n rest negated rest2 y matched rest3)
  then have "length rest3 < length rest2" by (auto dest: match_ranges_shorter)
  moreover from 2 have "length rest2 < length chunk" by (auto split: if_splits)
  ultimately show ?case by simp
qed auto

declare match_chunk.simps [simp del]

section \<open>Match\<close>

text \<open>The star: the chunk is tried after each byte that is not behind a slash; the last chunk has to
  exhaust the name.\<close>

fun star_search :: "string \<Rightarrow> bool \<Rightarrow> string \<Rightarrow> string option option" where
  "star_search chunk last_chunk [] = Some None"
| "star_search chunk last_chunk (c # s) =
     (if c = CHR ''/'' then Some None
      else case match_chunk chunk (Some s) of
        None \<Rightarrow> None
      | Some None \<Rightarrow> star_search chunk last_chunk s
      | Some (Some t) \<Rightarrow> if last_chunk \<and> t \<noteq> [] then star_search chunk last_chunk s else Some (Some t))"

lemma chunk_length_le: "chunk_length b p \<le> length p"
  by (induction b p rule: chunk_length.induct) (auto split: list.split)

lemma chunk_length_pos: "p \<noteq> [] \<Longrightarrow> hd p \<noteq> CHR ''*'' \<Longrightarrow> 0 < chunk_length False p"
  by (cases p) (auto split: list.split)

lemma scan_chunk_shorter:
  assumes "scan_chunk pattern = (star, chunk, rest)" and "pattern \<noteq> []"
  shows "length rest < length pattern"
proof -
  let ?p = "dropWhile (\<lambda>c. c = CHR ''*'') pattern"
  have rest: "rest = drop (chunk_length False ?p) ?p" using assms(1) by (simp add: scan_chunk_def Let_def)
  have le: "length ?p \<le> length pattern" by (rule length_dropWhile_le)
  show ?thesis
  proof (cases "?p = []")
    case True
    with rest assms(2) show ?thesis by (cases pattern) auto
  next
    case False
    then have "hd ?p \<noteq> CHR ''*''" by (rule hd_dropWhile)
    with False have "0 < chunk_length False ?p" by (rule chunk_length_pos)
    with rest False le show ?thesis by (cases ?p) auto
  qed
qed

function well_formed_chunks :: "string \<Rightarrow> bool" where
  "well_formed_chunks pattern = (if pattern = [] then True
     else case scan_chunk pattern of (star, chunk, rest) \<Rightarrow>
       match_chunk chunk None \<noteq> None \<and> well_formed_chunks rest)"
  by pat_completeness auto
termination by (relation "measure length") (auto dest: scan_chunk_shorter [OF sym])

declare well_formed_chunks.simps [simp del]

definition no_match :: "string \<Rightarrow> gerr + bool" where
  "no_match rest = (if well_formed_chunks rest then Inr False else Inl bad_pattern)"

function path_match :: "string \<Rightarrow> string \<Rightarrow> gerr + bool" where
  "path_match pattern name =
     (if pattern = [] then Inr (name = [])
      else case scan_chunk pattern of (star, chunk, rest) \<Rightarrow>
        if star \<and> chunk = [] then Inr (CHR ''/'' \<notin> set name)
        else case match_chunk chunk (Some name) of
          None \<Rightarrow> Inl bad_pattern
        | Some (Some t) \<Rightarrow>
            if t = [] \<or> rest \<noteq> [] then path_match rest t
            else if star
              then (case star_search chunk (rest = []) name of
                  None \<Rightarrow> Inl bad_pattern
                | Some (Some u) \<Rightarrow> path_match rest u
                | Some None \<Rightarrow> no_match rest)
              else no_match rest
        | Some None \<Rightarrow>
            if star
            then (case star_search chunk (rest = []) name of
                None \<Rightarrow> Inl bad_pattern
              | Some (Some u) \<Rightarrow> path_match rest u
              | Some None \<Rightarrow> no_match rest)
            else no_match rest)"
  by pat_completeness auto
termination
  by (relation "measure (\<lambda>(pattern, name). length pattern)") (auto dest: scan_chunk_shorter [OF sym])

declare path_match.simps [simp del]

text \<open>\<open>MatchesAny\<close> of \<open>internal/auth/pattern.go\<close>: a malformed pattern matches nothing.\<close>

fun matches_any :: "string \<Rightarrow> string list \<Rightarrow> bool" where
  "matches_any value [] = False"
| "matches_any value (pattern # patterns) =
     (path_match pattern value = Inr True \<or> matches_any value patterns)"

section \<open>Plain patterns\<close>

text \<open>A pattern without special characters is a route of its own.\<close>

definition plain :: "string \<Rightarrow> bool" where
  "plain p \<longleftrightarrow> set p \<inter> {CHR ''*'', CHR ''?'', CHR ''['', CHR '']'', CHR 0x5C} = {}"

lemma plain_Cons [simp]:
  "plain (c # p) \<longleftrightarrow> c \<notin> {CHR ''*'', CHR ''?'', CHR ''['', CHR '']'', CHR 0x5C} \<and> plain p"
  by (auto simp: plain_def)

lemma chunk_length_plain: "plain p \<Longrightarrow> chunk_length False p = length p"
  by (induction p) auto

lemma scan_chunk_plain: "plain p \<Longrightarrow> scan_chunk p = (False, p, [])"
proof -
  assume p: "plain p"
  then have "dropWhile (\<lambda>c. c = CHR ''*'') p = p" by (cases p) auto
  with chunk_length_plain [OF p] show ?thesis by (simp add: scan_chunk_def Let_def)
qed

lemma match_chunk_failed_plain: "plain p \<Longrightarrow> match_chunk p None = Some None"
  by (induction p) (subst match_chunk.simps, auto)+

lemma match_chunk_plain:
  "plain p \<Longrightarrow> match_chunk p (Some s) = Some (if has_prefix s p then Some (drop (length p) s) else None)"
proof (induction p arbitrary: s)
  case Nil
  show ?case by (subst match_chunk.simps) (simp add: has_prefix_def)
next
  case (Cons c p)
  show ?case
  proof (cases s)
    case Nil
    with Cons.prems show ?thesis
      by (subst match_chunk.simps) (auto simp: has_prefix_def match_chunk_failed_plain)
  next
    case (Cons d t)
    with Cons.prems Cons.IH [of t] show ?thesis
      by (subst match_chunk.simps) (auto simp: has_prefix_def match_chunk_failed_plain)
  qed
qed

lemma path_match_plain: "plain p \<Longrightarrow> path_match p name = Inr (name = p)"
proof (cases "p = []")
  case False
  assume p: "plain p"
  have nil: "path_match [] t = Inr (t = [])" for t by (subst path_match.simps) simp
  have "no_match [] = Inr False" by (simp add: no_match_def well_formed_chunks.simps)
  with p False nil show ?thesis
    by (subst path_match.simps)
      (auto simp: scan_chunk_plain match_chunk_plain has_prefix_iff)
qed (subst path_match.simps, simp)

lemma matches_any_plain: "list_all plain patterns \<Longrightarrow> matches_any value patterns \<longleftrightarrow> value \<in> set patterns"
  by (induction patterns) (auto simp: path_match_plain)

end
