(* ===== verification/Grpc_Client.thy ===== *)
theory Grpc_Client
  imports Config_Types Path_Match
begin

text \<open>
  Clients of other gRPC services (\<open>internal/grpcclient/client.go\<close>): \<open>Dial\<close> with its checks and the
  interceptors it installs, the retries of a unary call, the metadata that goes with a call. The
  result of \<open>Dial\<close> is what it hands to \<open>grpc.NewClient\<close>. The files of TLS are read through the
  fields of \<open>tls_files\<close>. The circuit breaker is a library: its settings are part of the result.
\<close>

section \<open>Values of a context\<close>

record call_context =
  cc_deadline :: "time option"
  cc_request_id :: "string option"
  cc_idempotency_key :: "string option"
  cc_outgoing :: "(string \<times> string) list"

text \<open>\<open>requestid.FromContext\<close>: an empty id does not count.\<close>

definition request_id_from_context :: "call_context \<Rightarrow> string option" where
  "request_id_from_context ctx = (case cc_request_id ctx of
     Some rid \<Rightarrow> if rid \<noteq> [] then Some rid else None | None \<Rightarrow> None)"

definition request_id_with_context :: "call_context \<Rightarrow> string \<Rightarrow> call_context" where
  "request_id_with_context ctx rid = ctx\<lparr>cc_request_id := Some rid\<rparr>"

definition allowed_character :: "nat \<Rightarrow> bool" where
  "allowed_character r \<longleftrightarrow> 97 \<le> r \<and> r \<le> 122 \<or> 65 \<le> r \<and> r \<le> 90 \<or> 48 \<le> r \<and> r \<le> 57
     \<or> r \<in> {45, 95, 46}"

text \<open>\<open>requestid.Valid\<close>: \<open>range\<close> decodes runes.\<close>

function runes :: "string \<Rightarrow> nat list" where
  "runes s = (if s = [] then []
     else fst (decode_rune s) # runes (drop (snd (decode_rune s)) s))"
  by pat_completeness auto
termination
  by (relation "measure length") (auto dest: decode_rune_width simp: Suc_le_eq)

declare runes.simps [simp del]

definition valid_request_id :: "string \<Rightarrow> bool" where
  "valid_request_id value \<longleftrightarrow> value \<noteq> [] \<and> length value \<le> 128 \<and> list_all allowed_character (runes value)"

section \<open>Configuration of a client\<close>

record tls_config =
  tc_enabled :: bool
  tc_server_name :: string
  tc_ca_file :: string
  tc_cert_file :: string
  tc_key_file :: string
  tc_allow_insecure_token :: bool

record dial_config =
  dc_target :: string
  dc_timeout :: duration
  dc_token :: string
  dc_psk :: string
  dc_tls :: tls_config
  dc_name :: string
  dc_retry :: retry_policy
  dc_breaker :: breaker_policy
  dc_metrics :: bool

text \<open>Reading a file, adding its certificates to a pool, loading a certificate with its key.\<close>

record tls_files =
  tf_read :: "string \<Rightarrow> gerr + string"
  tf_pool :: "string \<Rightarrow> bool"
  tf_key_pair :: "string \<Rightarrow> string \<Rightarrow> gerr + string"

text \<open>A TLS transport has a server name, certificates of its own CA, a client certificate.\<close>

datatype transport = InsecureTransport | TlsTransport string "string option" "string option"

definition transport_credentials :: "tls_files \<Rightarrow> tls_config \<Rightarrow> gerr + transport" where
  "transport_credentials v t = (if \<not> tc_enabled t then Inr InsecureTransport
     else case (if tc_ca_file t = [] then Inr None
                else case tf_read v (tc_ca_file t) of
                    Inl e \<Rightarrow> Inl (Wrapped ''read grpc CA: '' e [])
                  | Inr pem \<Rightarrow> if \<not> tf_pool v pem then Inl (ErrText ''parse grpc CA'') else Inr (Some pem)) of
       Inl e \<Rightarrow> Inl e
     | Inr roots \<Rightarrow>
         if tc_cert_file t = [] \<and> tc_key_file t = [] then Inr (TlsTransport (tc_server_name t) roots None)
         else if tc_cert_file t = [] \<or> tc_key_file t = []
         then Inl (ErrText ''grpc client certificate and key must be configured together'')
         else case tf_key_pair v (tc_cert_file t) (tc_key_file t) of
             Inl e \<Rightarrow> Inl (Wrapped ''load grpc client certificate: '' e [])
           | Inr certificate \<Rightarrow> Inr (TlsTransport (tc_server_name t) roots (Some certificate)))"

section \<open>Dial\<close>

datatype interceptor = TimeoutInterceptor duration | MetadataInterceptor string string
  | MetricsInterceptor string | BreakerInterceptor string breaker_policy | RetryInterceptor retry_policy

record dial_options =
  do_target :: string
  do_transport :: transport
  do_unary :: "interceptor list"
  do_stream :: "interceptor list"

definition dial :: "tls_files \<Rightarrow> dial_config \<Rightarrow> gerr + dial_options" where
  "dial v c =
     (if dc_target c = [] then Inl (ErrText ''grpc client target is required'')
      else if dc_timeout c \<le> 0 then Inl (ErrText ''grpc client timeout must be positive'')
      else case transport_credentials v (dc_tls c) of
        Inl e \<Rightarrow> Inl e
      | Inr transport \<Rightarrow>
          if dc_token c \<noteq> [] \<and> \<not> tc_enabled (dc_tls c) \<and> \<not> tc_allow_insecure_token (dc_tls c)
          then Inl (ErrText ''refusing to send grpc bearer token without TLS'')
          else if dc_psk c \<noteq> [] \<and> dc_token c \<noteq> []
          then Inl (ErrText ''grpc client bearer token and PSK are mutually exclusive'')
          else if dc_psk c \<noteq> [] \<and> \<not> tc_enabled (dc_tls c) \<and> \<not> tc_allow_insecure_token (dc_tls c)
          then Inl (ErrText ''refusing to send grpc PSK without TLS'')
          else Inr \<lparr>do_target = dc_target c, do_transport = transport,
            do_unary = [TimeoutInterceptor (dc_timeout c), MetadataInterceptor (dc_token c) (dc_psk c)]
              @ (if dc_metrics c then [MetricsInterceptor (dc_name c)] else [])
              @ (if brk_enabled (dc_breaker c) then [BreakerInterceptor (dc_name c) (dc_breaker c)] else [])
              @ (if retry_max_attempts (dc_retry c) > 1 then [RetryInterceptor (dc_retry c)] else []),
            do_stream = [MetadataInterceptor (dc_token c) (dc_psk c)]\<rparr>)"

text \<open>The metadata of a call; \<open>AppendToOutgoingContext\<close> adds pairs to those that are there.\<close>

definition with_outgoing_metadata :: "string \<Rightarrow> string \<Rightarrow> call_context \<Rightarrow> call_context" where
  "with_outgoing_metadata token psk ctx = ctx\<lparr>cc_outgoing := cc_outgoing ctx
     @ (if token \<noteq> [] then [(''authorization'', ''Bearer '' @ token)]
        else if psk \<noteq> [] then [(''authorization'', ''PSK '' @ psk)] else [])
     @ (case request_id_from_context ctx of Some rid \<Rightarrow> [(''x-request-id'', rid)] | None \<Rightarrow> [])
     @ (case cc_idempotency_key ctx of Some key \<Rightarrow> [(''idempotency-key'', key)] | None \<Rightarrow> [])\<rparr>"

definition with_timeout :: "duration \<Rightarrow> time \<Rightarrow> call_context \<Rightarrow> call_context" where
  "with_timeout timeout now ctx = (case cc_deadline ctx of Some _ \<Rightarrow> ctx
     | None \<Rightarrow> ctx\<lparr>cc_deadline := Some (now + timeout)\<rparr>)"

section \<open>Retries\<close>

text \<open>\<open>retry.InitialBackoff << (attempt - 1)\<close>, capped: the shift is on 64 bits, the comparison
  signed.\<close>

definition retry_delay :: "retry_policy \<Rightarrow> nat \<Rightarrow> i64" where
  "retry_delay r attempt = (let delay = push_bit (attempt - 1) (of_int (retry_initial_backoff r) :: i64) in
     if retry_max_backoff r < sint delay then of_int (retry_max_backoff r) else delay)"

text \<open>A call that is retried: \<open>outcome k\<close> is what its invocation number \<open>k\<close> returns, \<open>wait k d\<close>
  whether the context ends while it waits \<open>d\<close> after invocation \<open>k\<close>. The result comes with
  the number of invocations.\<close>

definition retry_grpc_method :: "call_context \<Rightarrow> string \<Rightarrow> string list \<Rightarrow> bool" where
  "retry_grpc_method ctx method patterns \<longleftrightarrow> cc_idempotency_key ctx \<noteq> None
     \<or> list_ex (\<lambda>p. path_match p method = Inr True) patterns"

fun retry_loop :: "(nat \<Rightarrow> gerr option) \<Rightarrow> (nat \<Rightarrow> i64 \<Rightarrow> gerr option) \<Rightarrow> retry_policy
    \<Rightarrow> nat \<Rightarrow> nat \<Rightarrow> gerr option \<Rightarrow> gerr option \<times> nat" where
  "retry_loop outcome wait r 0 attempt err = (err, attempt - 1)"
| "retry_loop outcome wait r (Suc left) attempt err = (let err = outcome attempt in
     if status_code err \<noteq> GrpcUnavailable \<and> status_code err \<noteq> GrpcResourceExhausted then (err, attempt)
     else if left = 0 then retry_loop outcome wait r left (Suc attempt) err
     else case wait attempt (retry_delay r attempt) of
         Some e \<Rightarrow> (Some e, attempt)
       | None \<Rightarrow> retry_loop outcome wait r left (Suc attempt) err)"

definition retry_interceptor :: "retry_policy \<Rightarrow> call_context \<Rightarrow> string
    \<Rightarrow> (nat \<Rightarrow> gerr option) \<Rightarrow> (nat \<Rightarrow> i64 \<Rightarrow> gerr option) \<Rightarrow> gerr option \<times> nat" where
  "retry_interceptor r ctx method outcome wait =
     (if \<not> retry_grpc_method ctx method (retry_methods r) then (outcome 1, 1)
      else retry_loop outcome wait r (nat (retry_max_attempts r)) 1 None)"

section \<open>Facts\<close>

lemma transport_tls:
  assumes "transport_credentials v t = Inr tr"
  shows "tc_enabled t \<longleftrightarrow> tr \<noteq> InsecureTransport"
proof (cases "tc_enabled t")
  case True
  with assms show ?thesis
    by (simp add: transport_credentials_def) (auto split: if_split_asm sum.split_asm)
qed (use assms in \<open>simp add: transport_credentials_def\<close>)

lemma dial_ok:
  assumes "dial v c = Inr options"
  shows "dc_token c \<noteq> [] \<or> dc_psk c \<noteq> [] \<Longrightarrow> tc_enabled (dc_tls c) \<or> tc_allow_insecure_token (dc_tls c)"
    and "dc_token c = [] \<or> dc_psk c = []" and "do_target options = dc_target c" and "dc_target c \<noteq> []"
    and "tc_enabled (dc_tls c) \<longleftrightarrow> do_transport options \<noteq> InsecureTransport"
proof -
  from assms obtain tr where tr: "transport_credentials v (dc_tls c) = Inr tr"
    by (auto simp: dial_def split: if_splits sum.splits)
  have facts: "dc_target c \<noteq> [] \<and> do_target options = dc_target c \<and> do_transport options = tr
      \<and> (dc_token c \<noteq> [] \<longrightarrow> tc_enabled (dc_tls c) \<or> tc_allow_insecure_token (dc_tls c))
      \<and> (dc_psk c \<noteq> [] \<longrightarrow> dc_token c = [] \<and> (tc_enabled (dc_tls c) \<or> tc_allow_insecure_token (dc_tls c)))"
    using assms by (auto simp: dial_def tr split: if_split_asm)
  with transport_tls [OF tr] show "dc_token c \<noteq> [] \<or> dc_psk c \<noteq> [] \<Longrightarrow> tc_enabled (dc_tls c) \<or> tc_allow_insecure_token (dc_tls c)"
    and "dc_token c = [] \<or> dc_psk c = []" and "do_target options = dc_target c" and "dc_target c \<noteq> []"
    and "tc_enabled (dc_tls c) \<longleftrightarrow> do_transport options \<noteq> InsecureTransport"
    by blast+
qed

lemma retry_loop_count:
  "retry_loop outcome wait r left attempt err = (e, n) \<Longrightarrow> attempt - 1 \<le> n \<and> n \<le> attempt - 1 + left"
proof (induction outcome wait r left attempt err rule: retry_loop.induct)
  case (2 outcome wait r left attempt err)
  then show ?case by (force simp: Let_def split: if_splits option.splits)
qed simp

text \<open>No delay is longer than the policy allows, and while the shift stays within 63 bits it is at
  least the first one.\<close>

lemma sint_i64_of_int: "- (2 ^ 63) \<le> x \<Longrightarrow> x < 2 ^ 63 \<Longrightarrow> sint (of_int x :: i64) = x"
  by (simp add: sint_sbintrunc' signed_take_bit_int_eq_self)

lemma sint_push_bit_small:
  assumes "0 \<le> x" and "x * 2 ^ n < 2 ^ 63"
  shows "sint (push_bit n (of_int x :: i64)) = x * 2 ^ n"
proof -
  have "push_bit n (of_int x :: i64) = of_int (x * 2 ^ n)" by (simp add: push_bit_eq_mult)
  moreover have "- (2 ^ 63) \<le> x * 2 ^ n" using assms(1) by (smt (verit) mult_nonneg_nonneg zero_le_power)
  ultimately show ?thesis using assms(2) by (simp only: sint_i64_of_int)
qed

lemma retry_delay_exact:
  assumes "0 < retry_initial_backoff r" and "retry_initial_backoff r \<le> retry_max_backoff r"
    and "retry_max_backoff r < 2 ^ 63" and "retry_initial_backoff r * 2 ^ (attempt - 1) < 2 ^ 63"
  shows "sint (retry_delay r attempt) = min (retry_initial_backoff r * 2 ^ (attempt - 1)) (retry_max_backoff r)"
  using assms by (simp add: retry_delay_def Let_def sint_push_bit_small sint_i64_of_int min_def)

lemma retry_delay_le:
  assumes "0 < retry_initial_backoff r" and "retry_initial_backoff r \<le> retry_max_backoff r"
    and "retry_max_backoff r < 2 ^ 63"
  shows "sint (retry_delay r attempt) \<le> retry_max_backoff r"
  using assms by (auto simp: retry_delay_def Let_def sint_i64_of_int)

end
