(* ===== verification/Provider_Target.thy ===== *)
theory Provider_Target
  imports Errors
begin

text \<open>
  The address check of the provider client (\<open>validateImportProviderTarget\<close> in
  \<open>internal/importjob/provider_grpc.go\<close>), with what it uses of Go's library: \<open>net.SplitHostPort\<close> and
  \<open>net.ParseIP\<close>, of which only success matters here.
\<close>

section \<open>Addresses\<close>

text \<open>\<open>net.SplitHostPort\<close>: \<open>None\<close> for an error.\<close>

definition last_colon :: "string \<Rightarrow> nat" where
  "last_colon s = length s - 1 - length (takeWhile (\<lambda>c. c \<noteq> CHR '':'') (rev s))"

definition split_host_port :: "string \<Rightarrow> (string \<times> string) option" where
  "split_host_port s = (if CHR '':'' \<notin> set s then None else let i = last_colon s in
     if hd s = CHR ''['' then (let end = length (takeWhile (\<lambda>c. c \<noteq> CHR '']'') s) in
       if end = length s \<or> end + 1 \<noteq> i \<or> CHR ''['' \<in> set (tl s) \<or> CHR '']'' \<in> set (drop (end + 1) s) then None
       else Some (tl (take end s), drop (i + 1) s))
     else if CHR '':'' \<in> set (take i s) \<or> CHR ''['' \<in> set s \<or> CHR '']'' \<in> set s then None
     else Some (take i s, drop (i + 1) s))"

definition is_digit :: "char \<Rightarrow> bool" where
  "is_digit c \<longleftrightarrow> 48 \<le> (of_char c :: nat) \<and> (of_char c :: nat) \<le> 57"

definition is_hex :: "char \<Rightarrow> bool" where
  "is_hex c \<longleftrightarrow> is_digit c \<or> 97 \<le> (of_char c :: nat) \<and> (of_char c :: nat) \<le> 102
     \<or> 65 \<le> (of_char c :: nat) \<and> (of_char c :: nat) \<le> 70"

definition ipv4_octet :: "string \<Rightarrow> bool" where
  "ipv4_octet p \<longleftrightarrow> p \<noteq> [] \<and> list_all is_digit p \<and> (length p = 1 \<or> hd p \<noteq> CHR ''0'') \<and> digits_value p \<le> 255"

definition ipv4_fields :: "string \<Rightarrow> bool" where
  "ipv4_fields s \<longleftrightarrow> (let parts = split_at CHR ''.'' s in length parts = 4 \<and> list_all ipv4_octet parts)"

text \<open>The groups of an IPv6 address after \<open>i\<close> bytes of it: how many bytes there are, whether an
  ellipsis was seen, what is left.\<close>

function ipv6_groups :: "nat \<Rightarrow> bool \<Rightarrow> string \<Rightarrow> (nat \<times> bool \<times> string) option" where
  "ipv6_groups i ell s = (if 16 \<le> i then Some (i, ell, s) else
     let off = length (takeWhile is_hex s); r = drop off s in
     if off = 0 \<or> 4 < off then None
     else if r = [] then Some (i + 2, ell, [])
     else if hd r = CHR ''.'' then
       (if \<not> ell \<and> i \<noteq> 12 \<or> 16 < i + 4 \<or> \<not> ipv4_fields s then None else Some (i + 4, ell, []))
     else if hd r \<noteq> CHR '':'' \<or> tl r = [] then None
     else if hd (tl r) = CHR '':'' then
       (if ell then None else if tl (tl r) = [] then Some (i + 2, True, []) else ipv6_groups (i + 2) True (tl (tl r)))
     else ipv6_groups (i + 2) ell (tl r))"
  by pat_completeness auto
termination
  by (relation "measure (\<lambda>(i, _). 16 - i)") auto

declare ipv6_groups.simps [simp del]

definition is_ipv6 :: "string \<Rightarrow> bool" where
  "is_ipv6 s = (let ell = has_prefix s ''::''; r = (if ell then drop 2 s else s) in
     if ell \<and> r = [] then True
     else case ipv6_groups 0 ell r of None \<Rightarrow> False
       | Some (i, ell, rest) \<Rightarrow> rest = [] \<and> (if i < 16 then ell else \<not> ell))"

text \<open>\<open>net.ParseIP\<close>: the first dot, colon or percent sign tells what it may be; an address with a
  zone is none.\<close>

definition parse_ip :: "string \<Rightarrow> bool" where
  "parse_ip s = (if CHR ''%'' \<in> set s then False
     else case dropWhile (\<lambda>c. c \<noteq> CHR ''.'' \<and> c \<noteq> CHR '':'') s of
       [] \<Rightarrow> False | c # _ \<Rightarrow> if c = CHR ''.'' then ipv4_fields s else is_ipv6 s)"

section \<open>The allowlist\<close>

definition suffix_allows :: "string \<Rightarrow> string \<Rightarrow> bool" where
  "suffix_allows host sfx = (let sfx = to_lower (trim_space sfx) in
     sfx \<noteq> [] \<and> (host = trim_prefix sfx ''.'' \<or> has_suffix host sfx))"

definition validate_import_provider_target :: "string \<Rightarrow> string list \<Rightarrow> gerr option" where
  "validate_import_provider_target target allowed =
     (let invalid = Some (ErrText ''provider target must be a DNS name with port'') in
      case split_host_port (trim_prefix target ''dns:///'') of
        None \<Rightarrow> invalid
      | Some (host, port) \<Rightarrow>
          if host = [] \<or> port = [] \<or> parse_ip host \<or> equal_fold host ''localhost'' then invalid
          else let host = to_lower (trim_suffix host ''.'') in
            if list_ex (suffix_allows host) allowed then None
            else Some (ErrText (''provider host '' @ go_quote host @ '' is outside allowed DNS suffixes'')))"

text \<open>The endpoint of an instance without its scheme.\<close>

definition endpoint_target :: "string \<Rightarrow> string" where
  "endpoint_target endpoint = trim_prefix (trim_prefix endpoint ''grpc://'') ''grpcs://''"

section \<open>What the allowlist promises\<close>

text \<open>\<open>host\<close> is the domain or below it.\<close>

definition within_domain :: "string \<Rightarrow> string \<Rightarrow> bool" where
  "within_domain host domain \<longleftrightarrow> host = domain \<or> (\<exists>label. host = label @ CHR ''.'' # domain)"

lemma within_domain_code [code]:
  "within_domain host domain \<longleftrightarrow> host = domain \<or> has_suffix host (CHR ''.'' # domain)"
  by (simp add: within_domain_def has_suffix_iff)

text \<open>A suffix that begins with a dot allows exactly its domain and what is below it.\<close>

lemma suffix_allows_domain:
  assumes "to_lower (trim_space sfx) = CHR ''.'' # domain"
  shows "suffix_allows host sfx \<longleftrightarrow> within_domain host domain"
  using assms by (auto simp: suffix_allows_def within_domain_def trim_prefix_def has_prefix_iff has_suffix_iff
      Let_def)

lemma target_ok:
  assumes "validate_import_provider_target target allowed = None"
  obtains host port sfx where "split_host_port (trim_prefix target ''dns:///'') = Some (host, port)"
    and "host \<noteq> []" and "port \<noteq> []" and "\<not> parse_ip host" and "\<not> equal_fold host ''localhost''"
    and "sfx \<in> set allowed" and "suffix_allows (to_lower (trim_suffix host ''.'')) sfx"
  using assms
  by (auto simp: validate_import_provider_target_def Let_def list_ex_iff split: option.splits if_splits prod.splits)

end
