(* ===== verification/Provider_Client.thy ===== *)
theory Provider_Client
  imports Provider_Types Config_Types Grpc_Client Provider_Target "HOL-Library.AList"
begin

text \<open>
  The client of the dataset providers (\<open>internal/importjob/provider_grpc.go\<close>): choice of an instance,
  the cache of connections, streams that are reopened, the catalog of datasets. The record
  \<open>provider_env\<close> holds what is outside: the discovery's instances, the static connections, gRPC, the
  encoding of rows; its fields answer by the number of the call. The record \<open>provider_state\<close> is
  the mutable part of \<open>GRPCProvider\<close> with the log of what was done to the outside. A context that
  is nil does not occur; the field \<open>open\<close> of a session is set by tests only.
\<close>

section \<open>The catalog\<close>

record service_instance =
  si_instance_id :: string
  si_service_name :: string
  si_endpoint :: string
  si_metadata :: "(string \<times> string) list"

text \<open>A dataset as \<open>importprovider.ParseMetadata\<close> reads it from the metadata of an instance.\<close>

record metadata_dataset =
  md_code :: string
  md_title :: string
  md_formats :: "string list"
  md_max_batch_size :: i32
  md_supports_dry_run :: bool

type_synonym metadata_parser = "(string \<times> string) list \<Rightarrow> gerr + metadata_dataset list"

definition search_skips :: "string \<Rightarrow> string \<Rightarrow> metadata_dataset \<Rightarrow> bool" where
  "search_skips search service d \<longleftrightarrow> search \<noteq> []
     \<and> \<not> contains (to_lower (md_code d @ '' '' @ md_title d @ '' '' @ service)) search"

definition add_summary :: "string \<Rightarrow> metadata_dataset \<Rightarrow> ((string \<times> string) \<times> dataset_summary) list
    \<Rightarrow> ((string \<times> string) \<times> dataset_summary) list" where
  "add_summary service d result = (let key = (service, md_code d);
     fresh = \<lparr>ds_provider_service = service, ds_code = md_code d, ds_title = md_title d,
       ds_formats = md_formats d, ds_max_batch_size = md_max_batch_size d,
       ds_supports_dry_run = md_supports_dry_run d, ds_healthy_instances = 0\<rparr>;
     current = (case map_of result key of None \<Rightarrow> fresh
       | Some c \<Rightarrow> if ds_healthy_instances c = 0 then fresh else c) in
     AList.update key (current\<lparr>ds_healthy_instances := ds_healthy_instances current + 1\<rparr>) result)"

definition add_instance :: "metadata_parser \<Rightarrow> string \<Rightarrow> service_instance
    \<Rightarrow> ((string \<times> string) \<times> dataset_summary) list \<Rightarrow> ((string \<times> string) \<times> dataset_summary) list" where
  "add_instance parse search i result = (case parse (si_metadata i) of Inl e \<Rightarrow> result
     | Inr datasets \<Rightarrow> fold (\<lambda>d result. if search_skips search (si_service_name i) d then result
         else add_summary (si_service_name i) d result) datasets result)"

definition summary_key :: "dataset_summary \<Rightarrow> string \<times> string" where
  "summary_key s = (ds_provider_service s, ds_code s)"

text \<open>The loop over the map and \<open>slices.SortFunc\<close>: the keys are distinct, so the order is one.\<close>

definition summarize_datasets :: "metadata_parser \<Rightarrow> service_instance list \<Rightarrow> string \<Rightarrow> dataset_summary list" where
  "summarize_datasets parse instances search = sort_key summary_key
     (map snd (fold (add_instance parse (to_lower (trim_space search))) instances []))"

definition normalize_catalog_page :: "i32 \<Rightarrow> i32 \<Rightarrow> i32 \<times> i32" where
  "normalize_catalog_page page page_size =
     (if sint page < 1 then 1 else page,
      if sint page_size < 1 then 20 else if sint page_size > 100 then 100 else page_size)"

section \<open>The outside\<close>

datatype connection = Upstream string | DialedConn nat

datatype stream_kind = ValidateRows | ApplyRows

record validate_message =
  vm_tenant_id :: string
  vm_application_id :: string
  vm_dataset_code :: string
  vm_job_id :: string
  vm_batch_number :: int
  vm_first_row_number :: int
  vm_rows :: "string list"

record apply_message =
  am_tenant_id :: string
  am_application_id :: string
  am_dataset_code :: string
  am_job_id :: string
  am_batch_number :: int
  am_rows :: "string list"
  am_idempotency_key :: string

datatype message = ValidateMessage validate_message | ApplyMessage apply_message

record validate_response =
  vp_batch_number :: int
  vp_normalized_rows :: "string list"
  vp_issues :: "row_issue list"

record apply_response =
  ap_batch_number :: int
  ap_applied_rows :: int
  ap_issues :: "row_issue list"

record describe_request =
  dr_tenant_id :: string
  dr_application_id :: string
  dr_dataset_code :: string

text \<open>\<open>pe_struct\<close> is \<open>structpb.NewStruct\<close>, \<open>pe_as_map\<close> the method \<open>AsMap\<close> of its result.\<close>

record provider_env =
  pe_config :: provider_client_config
  pe_metrics :: bool
  pe_files :: tls_files
  pe_static :: "string \<Rightarrow> bool"
  pe_discovery :: "(nat \<Rightarrow> gerr + service_instance list) option"
  pe_parse :: metadata_parser
  pe_new_client :: "nat \<Rightarrow> dial_options \<Rightarrow> gerr option"
  pe_close :: "nat \<Rightarrow> gerr option"
  pe_open :: "nat \<Rightarrow> stream_kind \<Rightarrow> connection \<Rightarrow> gerr option"
  pe_send :: "nat \<Rightarrow> message \<Rightarrow> gerr option"
  pe_recv_validate :: "nat \<Rightarrow> gerr + validate_response"
  pe_recv_apply :: "nat \<Rightarrow> gerr + apply_response"
  pe_close_send :: "nat \<Rightarrow> gerr option"
  pe_describe :: "nat \<Rightarrow> connection \<Rightarrow> describe_request \<Rightarrow> gerr + dataset_descriptor option"
  pe_ctx :: "nat \<Rightarrow> gerr option"
  pe_wait :: "nat \<Rightarrow> i64 \<Rightarrow> gerr option"
  pe_struct :: "import_row \<Rightarrow> gerr + string"
  pe_as_map :: "string \<Rightarrow> import_row"

datatype provider_event =
    Dialed nat dial_options | Closed nat
  | FailureReported string duration | SuccessReported string
  | StreamOpened stream_kind connection | Sent message | SendClosed

record provider_connection =
  pcn_target :: string
  pcn_connection :: nat

record provider_state =
  ps_connections :: "(string \<times> provider_connection) list"
  ps_cursor :: u64
  ps_next :: nat
  ps_calls :: nat
  ps_log :: "provider_event list"

definition provider_call :: "provider_state \<Rightarrow> nat \<times> provider_state" where
  "provider_call p = (ps_calls p, p\<lparr>ps_calls := Suc (ps_calls p)\<rparr>)"

definition provider_log :: "provider_event \<Rightarrow> provider_state \<Rightarrow> provider_state" where
  "provider_log e p = p\<lparr>ps_log := ps_log p @ [e]\<rparr>"

definition provider_failure :: "provider_env \<Rightarrow> service_instance option \<Rightarrow> provider_state \<Rightarrow> provider_state" where
  "provider_failure v i p = (case (pe_discovery v, i) of
       (Some _, Some i) \<Rightarrow> provider_log (FailureReported (si_instance_id i) (pc_failure_cooldown (pe_config v))) p
     | _ \<Rightarrow> p)"

definition provider_success :: "provider_env \<Rightarrow> service_instance option \<Rightarrow> provider_state \<Rightarrow> provider_state" where
  "provider_success v i p = (case (pe_discovery v, i) of
       (Some _, Some i) \<Rightarrow> provider_log (SuccessReported (si_instance_id i)) p
     | _ \<Rightarrow> p)"

section \<open>Choosing an instance\<close>

definition supports_import_dataset :: "metadata_parser \<Rightarrow> (string \<times> string) list \<Rightarrow> string \<Rightarrow> bool" where
  "supports_import_dataset parse metadata dataset = (case parse metadata of Inl e \<Rightarrow> False
     | Inr values \<Rightarrow> list_ex (\<lambda>d. md_code d = dataset) values)"

definition candidates :: "provider_env \<Rightarrow> string \<Rightarrow> string \<Rightarrow> service_instance list \<Rightarrow> service_instance list" where
  "candidates v service dataset = filter (\<lambda>i. si_service_name i = service
     \<and> supports_import_dataset (pe_parse v) (si_metadata i) dataset)"

definition provider_dial_config :: "provider_env \<Rightarrow> string \<Rightarrow> string \<Rightarrow> dial_config" where
  "provider_dial_config v service target = (let c = pe_config v in
     \<lparr>dc_target = target, dc_timeout = pc_timeout c, dc_token = [], dc_psk = pc_psk c,
      dc_tls = \<lparr>tc_enabled = tls_enabled (pc_tls c), tc_server_name = tls_server_name (pc_tls c),
        tc_ca_file = tls_ca_file (pc_tls c), tc_cert_file = tls_cert_file (pc_tls c),
        tc_key_file = tls_key_file (pc_tls c), tc_allow_insecure_token = pc_allow_insecure c\<rparr>,
      dc_name = service, dc_retry = pc_retry c, dc_breaker = pc_breaker c, dc_metrics = pe_metrics v\<rparr>)"

text \<open>The connection of the cache, or a new one in its place.\<close>

definition provider_dial :: "provider_env \<Rightarrow> string \<Rightarrow> string \<Rightarrow> provider_state \<Rightarrow> (gerr + nat) \<times> provider_state" where
  "provider_dial v service target p = (case dial (pe_files v) (provider_dial_config v service target) of
       Inl e \<Rightarrow> (Inl e, p)
     | Inr options \<Rightarrow> (case provider_call p of (k, p) \<Rightarrow>
        (case pe_new_client v k options of
           Some e \<Rightarrow> (Inl e, p)
         | None \<Rightarrow> (Inr (ps_next p), provider_log (Dialed (ps_next p) options) (p\<lparr>ps_next := Suc (ps_next p)\<rparr>)))))"

definition close_connection :: "provider_env \<Rightarrow> nat \<Rightarrow> provider_state \<Rightarrow> gerr option \<times> provider_state" where
  "close_connection v c p = (case provider_call p of (k, p) \<Rightarrow> (pe_close v k, provider_log (Closed c) p))"

definition drop_cached :: "provider_env \<Rightarrow> string \<Rightarrow> provider_state \<Rightarrow> provider_state" where
  "drop_cached v i p = (case map_of (ps_connections p) i of None \<Rightarrow> p
     | Some c \<Rightarrow> (case close_connection v (pcn_connection c) p of (_, p) \<Rightarrow>
         p\<lparr>ps_connections := AList.delete i (ps_connections p)\<rparr>))"

definition cached_connection :: "string \<Rightarrow> string \<Rightarrow> provider_state \<Rightarrow> nat option" where
  "cached_connection i target p = (case map_of (ps_connections p) i of None \<Rightarrow> None
     | Some c \<Rightarrow> if pcn_target c = target then Some (pcn_connection c) else None)"

definition connect_instance :: "provider_env \<Rightarrow> string \<Rightarrow> service_instance \<Rightarrow> string \<Rightarrow> provider_state
    \<Rightarrow> (gerr + nat) \<times> provider_state" where
  "connect_instance v service i target p = (case cached_connection (si_instance_id i) target p of
       Some n \<Rightarrow> (Inr n, p)
     | None \<Rightarrow> (case provider_dial v service target (drop_cached v (si_instance_id i) p) of
         (Inl e, p) \<Rightarrow> (Inl e, p)
       | (Inr n, p) \<Rightarrow> (Inr n, p\<lparr>ps_connections := AList.update (si_instance_id i)
           \<lparr>pcn_target = target, pcn_connection = n\<rparr> (ps_connections p)\<rparr>)))"

definition pick_candidate :: "service_instance list \<Rightarrow> provider_state \<Rightarrow> service_instance \<times> provider_state" where
  "pick_candidate cs p = (cs ! unat (ps_cursor p mod of_nat (length cs)), p\<lparr>ps_cursor := ps_cursor p + 1\<rparr>)"

definition provider_client :: "provider_env \<Rightarrow> string \<Rightarrow> string \<Rightarrow> provider_state
    \<Rightarrow> (gerr + connection \<times> service_instance option) \<times> provider_state" where
  "provider_client v service dataset p = (case pe_discovery v of
       None \<Rightarrow> (if pe_static v service then Inr (Upstream service, None)
           else Inl (ErrText (''import provider '' @ go_quote service @ '' is not configured'')), p)
     | Some instances \<Rightarrow> (case provider_call p of (k, p) \<Rightarrow>
         (case instances k of
            Inl e \<Rightarrow> (Inl e, p)
          | Inr listed \<Rightarrow> (let cs = candidates v service dataset listed in
              if cs = [] then (Inl (ErrText (''import provider '' @ go_quote service @ '' with dataset ''
                  @ go_quote dataset @ '' is not registered'')), p)
              else case pick_candidate cs p of (i, p) \<Rightarrow>
                (let target = endpoint_target (si_endpoint i) in
                 case validate_import_provider_target target (pc_dns_suffixes (pe_config v)) of
                   Some e \<Rightarrow> (Inl e, p)
                 | None \<Rightarrow> (case connect_instance v service i target p of
                     (Inl e, p) \<Rightarrow> (Inl e, p)
                   | (Inr n, p) \<Rightarrow> (Inr (DialedConn n, Some i), p)))))))"

section \<open>Close\<close>

fun close_connections :: "provider_env \<Rightarrow> (string \<times> provider_connection) list \<Rightarrow> gerr option \<Rightarrow> provider_state
    \<Rightarrow> gerr option \<times> provider_state" where
  "close_connections v [] result p = (result, p)"
| "close_connections v ((i, c) # cs) result p = (case close_connection v (pcn_connection c) p of (e, p) \<Rightarrow>
     close_connections v cs (case (e, result) of
         (Some e, None) \<Rightarrow> Some (Wrapped (''close provider '' @ i @ '': '') e []) | _ \<Rightarrow> result) p)"

text \<open>\<open>registry\<close>: whether there is a connection to the registry, which is closed last.\<close>

definition provider_close :: "provider_env \<Rightarrow> bool \<Rightarrow> provider_state \<Rightarrow> gerr option \<times> provider_state" where
  "provider_close v registry p = (case close_connections v (ps_connections p) None p of (result, p) \<Rightarrow>
     let p = p\<lparr>ps_connections := []\<rparr> in
     if registry then (case provider_call p of (k, p) \<Rightarrow>
       (case (pe_close v k, result) of (Some e, None) \<Rightarrow> Some e | _ \<Rightarrow> result, p))
     else (result, p))"

end
