(* ===== verification/Provider_Session.thy ===== *)
theory Provider_Session
  imports Provider_Client
begin

text \<open>
  The operations of \<open>GRPCProvider\<close> (\<open>internal/importjob/provider_grpc.go\<close>): the catalog, the
  description of a dataset, the streams of validation and application with their retries, and
  \<open>NewProvider\<close>. The two kinds of stream share the loop \<open>stream_loop\<close>; what a batch sends and
  receives is a parameter of it.
\<close>

section \<open>The catalog and the description of a dataset\<close>

text \<open>\<open>None\<close> is the panic of a slice whose bounds are out of range. The product is one of 32 bits.\<close>

definition list_datasets :: "provider_env \<Rightarrow> string \<Rightarrow> i32 \<Rightarrow> i32 \<Rightarrow> provider_state
    \<Rightarrow> (gerr + dataset_summary list \<times> int) option \<times> provider_state" where
  "list_datasets v search page page_size p = (case pe_discovery v of
       None \<Rightarrow> (Some (Inr ([], 0)), p)
     | Some instances \<Rightarrow> (case provider_call p of (k, p) \<Rightarrow>
         (case instances k of
            Inl e \<Rightarrow> (Some (Inl e), p)
          | Inr listed \<Rightarrow> (let values = summarize_datasets (pe_parse v) listed search;
                (page, page_size) = normalize_catalog_page page page_size;
                start = sint ((page - 1) * page_size);
                total = int (length values) in
              if start \<ge> total then (Some (Inr ([], total)), p)
              else if start < 0 then (None, p)
              else let end = min (start + sint page_size) total in
                (Some (Inr (take (nat (end - start)) (drop (nat start) values), total)), p)))))"

definition describe_dataset :: "provider_env \<Rightarrow> string \<Rightarrow> string \<Rightarrow> string \<Rightarrow> string \<Rightarrow> provider_state
    \<Rightarrow> (gerr + dataset_descriptor) \<times> provider_state" where
  "describe_dataset v tenant application service dataset p =
     (case provider_client v service dataset p of
        (Inl e, p) \<Rightarrow> (Inl e, p)
      | (Inr (c, i), p) \<Rightarrow> (case provider_call p of (k, p) \<Rightarrow>
          (case pe_describe v k c \<lparr>dr_tenant_id = tenant, dr_application_id = application, dr_dataset_code = dataset\<rparr> of
             Inl e \<Rightarrow> (Inl e, provider_failure v i p)
           | Inr None \<Rightarrow> (Inl (Sentinel ErrInvalidProviderResponse), provider_failure v i p)
           | Inr (Some d) \<Rightarrow> if dd_code d \<noteq> dataset
               then (Inl (Sentinel ErrInvalidProviderResponse), provider_failure v i p)
               else (Inr \<lparr>dd_code = dd_code d, dd_title = dd_title d,
                   dd_columns = map (\<lambda>c. \<lparr>ic_key = ic_key c, ic_title = ic_title c, ic_type = ic_type c,
                     ic_description = ic_description c, ic_example = ic_example c,
                     ic_required = ic_required c, ic_sensitive = ic_sensitive c\<rparr>) (dd_columns d),
                   dd_formats = dd_formats d, dd_max_batch_size = dd_max_batch_size d,
                   dd_supports_dry_run = dd_supports_dry_run d\<rparr>, provider_success v i p))))"

section \<open>Rows and results\<close>

fun proto_rows :: "(import_row \<Rightarrow> gerr + string) \<Rightarrow> import_row list \<Rightarrow> gerr + string list" where
  "proto_rows struct [] = Inr []"
| "proto_rows struct (value # values) = (case struct value of
       Inl e \<Rightarrow> Inl (Wrapped ''encode provider row: '' e [])
     | Inr row \<Rightarrow> (case proto_rows struct values of Inl e \<Rightarrow> Inl e | Inr rows \<Rightarrow> Inr (row # rows)))"

definition validation_result :: "provider_env \<Rightarrow> validate_response \<Rightarrow> validate_batch_result" where
  "validation_result v r = \<lparr>vr_normalized_rows = map (pe_as_map v) (vp_normalized_rows r), vr_issues = vp_issues r\<rparr>"

definition apply_result :: "apply_response \<Rightarrow> apply_batch_result" where
  "apply_result r = \<lparr>ar_applied_rows = ap_applied_rows r, ar_issues = ap_issues r\<rparr>"

section \<open>Retries\<close>

definition provider_attempts :: "provider_env \<Rightarrow> nat" where
  "provider_attempts v = nat (max 1 (retry_max_attempts (pc_retry (pe_config v))))"

definition retryable_provider_error :: "gerr option \<Rightarrow> gerr \<Rightarrow> bool" where
  "retryable_provider_error ctx e \<longleftrightarrow> ctx = None
     \<and> (err_is e IoEOF \<or> status_code (Some e) \<in> {GrpcUnavailable, GrpcResourceExhausted, GrpcDeadlineExceeded})"

definition provider_ctx_err :: "provider_env \<Rightarrow> provider_state \<Rightarrow> gerr option \<times> provider_state" where
  "provider_ctx_err v p = (case provider_call p of (k, p) \<Rightarrow> (pe_ctx v k, p))"

definition wait_provider_retry :: "provider_env \<Rightarrow> nat \<Rightarrow> provider_state \<Rightarrow> gerr option \<times> provider_state" where
  "wait_provider_retry v attempt p = (case provider_call p of (k, p) \<Rightarrow>
     (pe_wait v k (retry_delay (pc_retry (pe_config v)) attempt), p))"

section \<open>Sessions\<close>

record provider_session =
  ss_kind :: stream_kind
  ss_tenant :: string
  ss_application :: string
  ss_dataset :: string
  ss_service :: string
  ss_instance :: "service_instance option"
  ss_stream :: "connection option"

definition reopen :: "provider_env \<Rightarrow> provider_session \<Rightarrow> provider_state
    \<Rightarrow> gerr option \<times> provider_session \<times> provider_state" where
  "reopen v s p = (case provider_client v (ss_service s) (ss_dataset s) p of
       (Inl e, p) \<Rightarrow> (Some e, s, p)
     | (Inr (c, i), p) \<Rightarrow> (case provider_call p of (k, p) \<Rightarrow>
         (case pe_open v k (ss_kind s) c of
            Some e \<Rightarrow> (Some e, s\<lparr>ss_instance := i\<rparr>, p)
          | None \<Rightarrow> (None, s\<lparr>ss_instance := i, ss_stream := Some c\<rparr>, provider_log (StreamOpened (ss_kind s) c) p))))"

text \<open>\<open>openProviderSession\<close>, with the number of attempts that are left after this one.\<close>

fun open_provider_session :: "provider_env \<Rightarrow> nat \<Rightarrow> nat \<Rightarrow> provider_session \<Rightarrow> provider_state
    \<Rightarrow> gerr option \<times> provider_session \<times> provider_state" where
  "open_provider_session v left attempt s p = (case reopen v s p of
       (None, s, p) \<Rightarrow> (None, s, p)
     | (Some e, s, p) \<Rightarrow> (case provider_ctx_err v p of (ctx, p) \<Rightarrow>
         (case left of
            0 \<Rightarrow> (Some e, s, provider_failure v (ss_instance s) p)
          | Suc left \<Rightarrow> if ctx \<noteq> None then (Some e, s, provider_failure v (ss_instance s) p)
              else (case wait_provider_retry v attempt p of
                  (Some e, p) \<Rightarrow> (Some e, s, p)
                | (None, p) \<Rightarrow> open_provider_session v left (Suc attempt) s p))))"

declare open_provider_session.simps [simp del]

definition open_session :: "stream_kind \<Rightarrow> provider_env \<Rightarrow> string \<Rightarrow> string \<Rightarrow> string \<Rightarrow> string \<Rightarrow> provider_state
    \<Rightarrow> (gerr + provider_session) \<times> provider_state" where
  "open_session kind v service tenant application dataset p =
     (case open_provider_session v (provider_attempts v - 1) 1
         \<lparr>ss_kind = kind, ss_tenant = tenant, ss_application = application, ss_dataset = dataset,
          ss_service = service, ss_instance = None, ss_stream = None\<rparr> p of
        (Some e, s, p) \<Rightarrow> (Inl e, p) | (None, s, p) \<Rightarrow> (Inr s, p))"

definition open_validation :: "provider_env \<Rightarrow> string \<Rightarrow> string \<Rightarrow> string \<Rightarrow> string \<Rightarrow> provider_state
    \<Rightarrow> (gerr + provider_session) \<times> provider_state" where
  "open_validation = open_session ValidateRows"

definition open_apply :: "provider_env \<Rightarrow> string \<Rightarrow> string \<Rightarrow> string \<Rightarrow> string \<Rightarrow> provider_state
    \<Rightarrow> (gerr + provider_session) \<times> provider_state" where
  "open_apply = open_session ApplyRows"

text \<open>One attempt: a stream if there is none, the message, the response.\<close>

definition provider_send :: "provider_env \<Rightarrow> message \<Rightarrow> provider_state \<Rightarrow> gerr option \<times> provider_state" where
  "provider_send v m p = (case provider_call p of (k, p) \<Rightarrow> (pe_send v k m, provider_log (Sent m) p))"

definition stream_attempt :: "provider_env \<Rightarrow> message \<Rightarrow> (nat \<Rightarrow> gerr + 'r) \<Rightarrow> provider_session \<Rightarrow> provider_state
    \<Rightarrow> (gerr + 'r) \<times> provider_session \<times> provider_state" where
  "stream_attempt v m recv s p =
     (case (if ss_stream s = None then reopen v s p else (None, s, p)) of
        (Some e, s, p) \<Rightarrow> (Inl e, s, p)
      | (None, s, p) \<Rightarrow> (case provider_send v m p of
          (Some e, p) \<Rightarrow> (Inl e, s, p)
        | (None, p) \<Rightarrow> (case provider_call p of (k, p) \<Rightarrow> (recv k, s, p))))"

definition close_send :: "provider_env \<Rightarrow> provider_state \<Rightarrow> gerr option \<times> provider_state" where
  "close_send v p = (case provider_call p of (k, p) \<Rightarrow> (pe_close_send v k, provider_log SendClosed p))"

definition drop_stream :: "provider_env \<Rightarrow> provider_session \<Rightarrow> provider_state \<Rightarrow> provider_session \<times> provider_state" where
  "drop_stream v s p = (if ss_stream s = None then (s, p) else (s\<lparr>ss_stream := None\<rparr>, snd (close_send v p)))"

fun stream_loop :: "provider_env \<Rightarrow> message \<Rightarrow> (nat \<Rightarrow> gerr + 'r) \<Rightarrow> nat \<Rightarrow> nat \<Rightarrow> provider_session \<Rightarrow> provider_state
    \<Rightarrow> (gerr + 'r) \<times> provider_session \<times> provider_state" where
  "stream_loop v m recv left attempt s p = (case stream_attempt v m recv s p of
       (Inr r, s, p) \<Rightarrow> (Inr r, s, p)
     | (Inl e, s, p) \<Rightarrow> (case drop_stream v s p of (s, p) \<Rightarrow>
         (case provider_ctx_err v p of (ctx, p) \<Rightarrow>
           (case left of
              0 \<Rightarrow> (Inl e, s, provider_failure v (ss_instance s) p)
            | Suc left \<Rightarrow> if \<not> retryable_provider_error ctx e
                then (Inl e, s, provider_failure v (ss_instance s) p)
                else (case wait_provider_retry v attempt p of
                    (Some e, p) \<Rightarrow> (Inl e, s, p)
                  | (None, p) \<Rightarrow> stream_loop v m recv left (Suc attempt) s p)))))"

declare stream_loop.simps [simp del]

definition validate_message_of :: "validate_batch_request \<Rightarrow> string list \<Rightarrow> message" where
  "validate_message_of r rows = ValidateMessage \<lparr>vm_tenant_id = vb_tenant_id r, vm_application_id = vb_application_id r,
     vm_dataset_code = vb_dataset_code r, vm_job_id = vb_job_id r, vm_batch_number = vb_batch_number r,
     vm_first_row_number = vb_first_row_number r, vm_rows = rows\<rparr>"

definition apply_message_of :: "apply_batch_request \<Rightarrow> string list \<Rightarrow> message" where
  "apply_message_of r rows = ApplyMessage \<lparr>am_tenant_id = ab_tenant_id r, am_application_id = ab_application_id r,
     am_dataset_code = ab_dataset_code r, am_job_id = ab_job_id r, am_batch_number = ab_batch_number r,
     am_rows = rows, am_idempotency_key = ab_idempotency_key r\<rparr>"

definition session_validate_batch :: "provider_env \<Rightarrow> validate_batch_request \<Rightarrow> provider_session \<Rightarrow> provider_state
    \<Rightarrow> (gerr + validate_batch_result) \<times> provider_session \<times> provider_state" where
  "session_validate_batch v r s p =
     (if vb_tenant_id r \<noteq> ss_tenant s \<or> vb_application_id r \<noteq> ss_application s \<or> vb_dataset_code r \<noteq> ss_dataset s
      then (Inl (Sentinel ErrInvalidProviderResponse), s, p)
      else case proto_rows (pe_struct v) (vb_rows r) of
        Inl e \<Rightarrow> (Inl e, s, p)
      | Inr rows \<Rightarrow> (case stream_loop v (validate_message_of r rows) (pe_recv_validate v) (provider_attempts v - 1) 1 s p of
            (Inl e, s, p) \<Rightarrow> (Inl e, s, p)
          | (Inr response, s, p) \<Rightarrow>
              if vp_batch_number response \<noteq> vb_batch_number r
              then (Inl (Sentinel ErrInvalidProviderResponse), s, provider_failure v (ss_instance s) p)
              else (Inr (validation_result v response), s, provider_success v (ss_instance s) p)))"

definition session_apply_batch :: "provider_env \<Rightarrow> apply_batch_request \<Rightarrow> provider_session \<Rightarrow> provider_state
    \<Rightarrow> (gerr + apply_batch_result) \<times> provider_session \<times> provider_state" where
  "session_apply_batch v r s p =
     (if ab_tenant_id r \<noteq> ss_tenant s \<or> ab_application_id r \<noteq> ss_application s \<or> ab_dataset_code r \<noteq> ss_dataset s
      then (Inl (Sentinel ErrInvalidProviderResponse), s, p)
      else case proto_rows (pe_struct v) (ab_rows r) of
        Inl e \<Rightarrow> (Inl e, s, p)
      | Inr rows \<Rightarrow> (case stream_loop v (apply_message_of r rows) (pe_recv_apply v) (provider_attempts v - 1) 1 s p of
            (Inl e, s, p) \<Rightarrow> (Inl e, s, p)
          | (Inr response, s, p) \<Rightarrow>
              if ap_batch_number response \<noteq> ab_batch_number r
              then (Inl (Sentinel ErrInvalidProviderResponse), s, provider_failure v (ss_instance s) p)
              else (Inr (apply_result response), s, provider_success v (ss_instance s) p)))"

text \<open>The methods \<open>Close\<close> of both kinds.\<close>

definition session_close :: "provider_env \<Rightarrow> provider_session \<Rightarrow> provider_state \<Rightarrow> gerr option \<times> provider_state" where
  "session_close v s p = (if ss_stream s = None then (None, p)
     else case close_send v p of
       (Some e, p) \<Rightarrow> (Some e, provider_failure v (ss_instance s) p) | (None, p) \<Rightarrow> (None, p))"

section \<open>NewProvider\<close>

definition registry_dial_config :: "service_registry_config \<Rightarrow> dial_config" where
  "registry_dial_config r =
     \<lparr>dc_target = reg_target r, dc_timeout = 3000000000, dc_token = [], dc_psk = reg_psk r,
      dc_tls = \<lparr>tc_enabled = tls_enabled (reg_tls r), tc_server_name = tls_server_name (reg_tls r),
        tc_ca_file = tls_ca_file (reg_tls r), tc_cert_file = tls_cert_file (reg_tls r),
        tc_key_file = tls_key_file (reg_tls r), tc_allow_insecure_token = reg_allow_insecure r\<rparr>,
      dc_name = ''service-registry-service'',
      dc_retry = \<lparr>retry_max_attempts = 0, retry_initial_backoff = 0, retry_max_backoff = 0, retry_methods = []\<rparr>,
      dc_breaker = \<lparr>brk_enabled = False, brk_failure_threshold = 0, brk_open_timeout = 0\<rparr>, dc_metrics = False\<rparr>"

text \<open>\<open>discovery\<close> is the registry library: from the options of the connection, the selector of
  metadata, the age up to which it serves a snapshot, and the directory of snapshots. The result
  is the discovery with the connection, if there is one, and the empty state.\<close>

definition empty_provider :: provider_state where
  "empty_provider = \<lparr>ps_connections = [], ps_cursor = 0, ps_next = 0, ps_calls = 0, ps_log = []\<rparr>"

definition new_provider :: "tls_files \<Rightarrow> string
    \<Rightarrow> (dial_options \<Rightarrow> (string \<times> string) list \<Rightarrow> duration \<Rightarrow> string \<Rightarrow> gerr + (nat \<Rightarrow> gerr + service_instance list))
    \<Rightarrow> config \<Rightarrow> gerr + (nat \<Rightarrow> gerr + service_instance list) option \<times> provider_state" where
  "new_provider files metadata_key discovery c = (let r = cfg_service_registry c in
     if \<not> reg_enabled r then Inr (None, empty_provider)
     else case dial files (registry_dial_config r) of
         Inl e \<Rightarrow> Inl (Wrapped ''dial service registry: '' e [])
       | Inr options \<Rightarrow> (case discovery options [(metadata_key, ''true'')] (reg_max_stale r) (reg_snapshot_directory r) of
           Inl e \<Rightarrow> Inl e
         | Inr instances \<Rightarrow> Inr (Some instances, empty_provider)))"

end
