(* ===== verification/Provider_Correct.thy ===== *)
theory Provider_Correct
  imports Provider_Session "HOL-Library.Multiset"
begin

text \<open>
  Lemmas on the provider client: what an operation adds to the log, the invariant of the
  connection cache, the turn of the cursor, the catalog as a count over the offers of the
  instances.
\<close>

named_theorems provider_ops \<open>the small operations on the provider's state\<close>

declare provider_call_def [provider_ops] provider_log_def [provider_ops] close_connection_def [provider_ops]

section \<open>Messages\<close>

fun sent :: "provider_event list \<Rightarrow> message list" where
  "sent [] = []"
| "sent (Sent m # es) = m # sent es"
| "sent (_ # es) = sent es"

lemma sent_append [simp]: "sent (es @ es') = sent es @ sent es'"
  by (induction es rule: sent.induct) auto

lemma sent_provider_call [simp]: "ps_log (snd (provider_call p)) = ps_log p"
  by (simp add: provider_ops)

lemma log_update [simp]:
  "ps_log (p\<lparr>ps_connections := c\<rparr>) = ps_log p" "ps_log (p\<lparr>ps_cursor := u\<rparr>) = ps_log p"
  "ps_log (p\<lparr>ps_calls := n\<rparr>) = ps_log p" "ps_log (p\<lparr>ps_next := n\<rparr>) = ps_log p"
  by simp_all

lemma sent_failure [simp]: "sent (ps_log (provider_failure v i p)) = sent (ps_log p)"
  by (simp add: provider_failure_def provider_log_def split: option.split)

lemma sent_success [simp]: "sent (ps_log (provider_success v i p)) = sent (ps_log p)"
  by (simp add: provider_success_def provider_log_def split: option.split)

lemma sent_drop_cached [simp]: "sent (ps_log (drop_cached v i p)) = sent (ps_log p)"
  by (simp add: drop_cached_def provider_ops split: option.split)

lemma sent_provider_dial: "provider_dial v service target p = (r, p') \<Longrightarrow> sent (ps_log p') = sent (ps_log p)"
  by (auto simp: provider_dial_def provider_ops split: sum.splits option.splits)

lemma sent_connect: "connect_instance v service i target p = (r, p') \<Longrightarrow> sent (ps_log p') = sent (ps_log p)"
  by (auto simp: connect_instance_def dest!: sent_provider_dial split: option.splits prod.splits sum.splits)

lemma sent_client: "provider_client v service dataset p = (r, p') \<Longrightarrow> sent (ps_log p') = sent (ps_log p)"
  by (auto simp: provider_client_def provider_call_def pick_candidate_def Let_def dest!: sent_connect
      split: option.splits prod.splits sum.splits if_splits)

lemma sent_reopen: "reopen v s p = (r, s', p') \<Longrightarrow> sent (ps_log p') = sent (ps_log p)"
  by (auto simp: reopen_def provider_ops dest!: sent_client split: option.splits prod.splits sum.splits)

lemma sent_drop_stream: "drop_stream v s p = (s', p') \<Longrightarrow> sent (ps_log p') = sent (ps_log p)"
  by (auto simp: drop_stream_def close_send_def provider_ops split: if_splits)

lemma stream_attempt_sent:
  assumes "stream_attempt v m recv s p = (r, s', p')"
  shows "\<exists>n \<le> 1. sent (ps_log p') = sent (ps_log p) @ replicate n m \<and> ((\<exists>x. r = Inr x) \<longrightarrow> n = 1)"
proof -
  obtain e s1 p1 where o: "(if ss_stream s = None then reopen v s p else (None, s, p)) = (e, s1, p1)"
    by (metis prod_cases3)
  have same: "sent (ps_log p1) = sent (ps_log p)"
    using o by (auto dest: sent_reopen split: if_splits)
  show ?thesis
  proof (cases e)
    case (Some e')
    then have "r = Inl e' \<and> p' = p1" using assms o by (simp add: stream_attempt_def)
    with same show ?thesis by (intro exI [of _ 0]) simp
  next
    case None
    then have "sent (ps_log p') = sent (ps_log p1) @ [m]"
      using assms o by (auto simp: stream_attempt_def provider_send_def provider_ops split: option.splits)
    with same show ?thesis by (intro exI [of _ 1]) simp
  qed
qed

lemma stream_attempt_recv:
  "stream_attempt v m recv s p = (Inr x, s', p') \<Longrightarrow> \<exists>k. recv k = Inr x"
  by (auto simp: stream_attempt_def provider_send_def provider_call_def split: option.splits prod.splits if_splits)

lemma stream_loop_sent:
  "stream_loop v m recv left attempt s p = (r, s', p') \<Longrightarrow>
     \<exists>n \<le> Suc left. sent (ps_log p') = sent (ps_log p) @ replicate n m \<and> ((\<exists>x. r = Inr x) \<longrightarrow> 1 \<le> n)"
proof (induction left arbitrary: attempt s p)
  case 0
  obtain a s1 p1 where a: "stream_attempt v m recv s p = (a, s1, p1)" by (metis prod_cases3)
  obtain s2 p2 where d: "drop_stream v s1 p1 = (s2, p2)" by fastforce
  from stream_attempt_sent [OF a] sent_drop_stream [OF d] 0 a d show ?case
    by (subst (asm) stream_loop.simps)
      (auto simp: provider_ctx_err_def provider_call_def split: sum.splits)
next
  case (Suc left)
  obtain a s1 p1 where a: "stream_attempt v m recv s p = (a, s1, p1)" by (metis prod_cases3)
  from stream_attempt_sent [OF a] obtain n where n: "n \<le> 1" "sent (ps_log p1) = sent (ps_log p) @ replicate n m"
    "(\<exists>x. a = Inr x) \<longrightarrow> n = 1" by blast
  show ?case
  proof (cases a)
    case (Inr x)
    with Suc.prems a have "r = a \<and> p' = p1" by (subst (asm) stream_loop.simps) simp
    with n Inr show ?thesis by (intro exI [of _ n]) simp
  next
    case (Inl e)
    obtain s2 p2 where d: "drop_stream v s1 p1 = (s2, p2)" by fastforce
    obtain ctx p3 where c: "provider_ctx_err v p2 = (ctx, p3)" by fastforce
    obtain w p4 where w: "wait_provider_retry v attempt p3 = (w, p4)" by fastforce
    have same: "sent (ps_log p3) = sent (ps_log p1)" "sent (ps_log p4) = sent (ps_log p1)"
      using sent_drop_stream [OF d] c w by (auto simp: provider_ctx_err_def wait_provider_retry_def provider_ops)
    have run: "stream_loop v m recv (Suc left) attempt s p =
        (if \<not> retryable_provider_error ctx e then (Inl e, s2, provider_failure v (ss_instance s2) p3)
         else case w of Some e' \<Rightarrow> (Inl e', s2, p4) | None \<Rightarrow> stream_loop v m recv left (Suc attempt) s2 p4)"
      by (subst stream_loop.simps) (simp add: a Inl d c w)
    show ?thesis
    proof (cases "retryable_provider_error ctx e \<and> w = None")
      case True
      with run Suc.prems have "stream_loop v m recv left (Suc attempt) s2 p4 = (r, s', p')" by simp
      from Suc.IH [OF this] obtain n' where n': "n' \<le> Suc left" "sent (ps_log p') = sent (ps_log p4) @ replicate n' m"
        "(\<exists>x. r = Inr x) \<longrightarrow> 1 \<le> n'" by blast
      with n same show ?thesis by (intro exI [of _ "n + n'"]) (auto simp: replicate_add)
    next
      case False
      with run Suc.prems have "(\<exists>e'. r = Inl e') \<and> sent (ps_log p') = sent (ps_log p1)"
        using same by (auto split: if_splits option.splits)
      with n show ?thesis by (intro exI [of _ n]) auto
    qed
  qed
qed

lemma stream_loop_recv:
  "stream_loop v m recv left attempt s p = (Inr x, s', p') \<Longrightarrow> \<exists>k. recv k = Inr x"
proof (induction left arbitrary: attempt s p)
  case 0
  then show ?case
    by (subst (asm) stream_loop.simps) (auto dest: stream_attempt_recv split: sum.splits prod.splits)
next
  case (Suc left)
  from Suc.prems show ?case
    by (subst (asm) stream_loop.simps)
      (auto dest: stream_attempt_recv Suc.IH split: sum.splits prod.splits option.splits if_splits)
qed

section \<open>The turn of the cursor\<close>

fun picks :: "service_instance list \<Rightarrow> nat \<Rightarrow> provider_state \<Rightarrow> service_instance list" where
  "picks cs 0 p = []"
| "picks cs (Suc n) p = (case pick_candidate cs p of (i, p) \<Rightarrow> i # picks cs n p)"

lemma picks_nth:
  assumes "cs \<noteq> []" and "unat (ps_cursor p) + n \<le> 2 ^ 64" and "length cs < 2 ^ 64"
  shows "picks cs n p = map (\<lambda>i. cs ! ((unat (ps_cursor p) + i) mod length cs)) [0..<n]"
  using assms(2)
proof (induction n arbitrary: p)
  case (Suc n)
  have here: "unat (ps_cursor p mod of_nat (length cs)) = unat (ps_cursor p) mod length cs"
    using assms(3) by (simp add: unat_mod unat_of_nat)
  show ?case
  proof (cases n)
    case 0
    with here show ?thesis by (simp add: pick_candidate_def)
  next
    case (Suc m)
    with Suc.prems have "unat (ps_cursor p) + 1 < 2 ^ 64" by simp
    then have step: "unat (ps_cursor p + 1) = unat (ps_cursor p) + 1"
      using unat_add_lem [of "ps_cursor p" 1] by simp
    with Suc.IH [of "p\<lparr>ps_cursor := ps_cursor p + 1\<rparr>"] Suc.prems have
      "picks cs n (p\<lparr>ps_cursor := ps_cursor p + 1\<rparr>)
        = map (\<lambda>i. cs ! ((unat (ps_cursor p) + 1 + i) mod length cs)) [0..<n]" by simp
    then show ?thesis
      using here by (simp add: pick_candidate_def map_upt_Suc del: upt_Suc)
  qed
qed simp

lemma mset_rotate [simp]: "mset (rotate n xs) = mset xs"
proof (induction n)
  case (Suc n)
  have "mset (rotate1 ys) = mset ys" for ys :: "'a list" by (cases ys) simp_all
  with Suc show ?case by simp
qed simp

lemma mset_turn:
  assumes "cs \<noteq> []"
  shows "mset (map (\<lambda>i. cs ! ((c + i) mod length cs)) [0..<length cs]) = mset cs"
proof -
  have "map (\<lambda>i. cs ! ((c + i) mod length cs)) [0..<length cs] = rotate c cs"
    using assms by (intro nth_equalityI) (simp_all add: nth_rotate)
  then show ?thesis by simp
qed

section \<open>Connections\<close>

text \<open>What the log says of connections: those dialed, with their options, and those closed.\<close>

fun dialed :: "provider_event list \<Rightarrow> (nat \<times> dial_options) list" where
  "dialed [] = []"
| "dialed (Dialed n options # es) = (n, options) # dialed es"
| "dialed (_ # es) = dialed es"

fun closed :: "provider_event list \<Rightarrow> nat list" where
  "closed [] = []"
| "closed (Closed n # es) = n # closed es"
| "closed (_ # es) = closed es"

lemma dialed_append [simp]: "dialed (es @ es') = dialed es @ dialed es'"
  by (induction es rule: dialed.induct) auto

lemma closed_append [simp]: "closed (es @ es') = closed es @ closed es'"
  by (induction es rule: closed.induct) auto

definition cached_ids :: "provider_state \<Rightarrow> nat list" where
  "cached_ids p = map (pcn_connection \<circ> snd) (ps_connections p)"

text \<open>Every connection that was dialed is in the cache or was closed, once; and it was dialed with
  a target that \<open>ok\<close> accepts.\<close>

definition accounted :: "provider_state \<Rightarrow> bool" where
  "accounted p \<longleftrightarrow> map fst (dialed (ps_log p)) = [0..<ps_next p]
     \<and> distinct (cached_ids p @ closed (ps_log p))
     \<and> set (cached_ids p) \<union> set (closed (ps_log p)) = {0..<ps_next p}
     \<and> distinct (map fst (ps_connections p))"

definition dialed_ok :: "(dial_options \<Rightarrow> bool) \<Rightarrow> provider_state \<Rightarrow> bool" where
  "dialed_ok ok p \<longleftrightarrow> (\<forall>(n, options) \<in> set (dialed (ps_log p)). ok options)"

text \<open>An operation that neither dials nor closes.\<close>

definition same_connections :: "provider_state \<Rightarrow> provider_state \<Rightarrow> bool" where
  "same_connections p p' \<longleftrightarrow> ps_connections p' = ps_connections p \<and> ps_next p' = ps_next p
     \<and> dialed (ps_log p') = dialed (ps_log p) \<and> closed (ps_log p') = closed (ps_log p)"

lemma same_connections_refl [simp]: "same_connections p p"
  by (simp add: same_connections_def)

lemma same_connections_trans: "same_connections p q \<Longrightarrow> same_connections q r \<Longrightarrow> same_connections p r"
  by (simp add: same_connections_def)

lemma accounted_same: "same_connections p p' \<Longrightarrow> accounted p \<Longrightarrow> accounted p'"
  by (simp add: same_connections_def accounted_def cached_ids_def)

lemma dialed_ok_same: "same_connections p p' \<Longrightarrow> dialed_ok ok p \<Longrightarrow> dialed_ok ok p'"
  by (simp add: same_connections_def dialed_ok_def)

lemma same_call [simp]: "same_connections p (p\<lparr>ps_calls := n\<rparr>)"
  by (simp add: same_connections_def)

lemma same_cursor [simp]: "same_connections p (p\<lparr>ps_cursor := n\<rparr>)"
  by (simp add: same_connections_def)

lemma same_failure [simp]: "same_connections p (provider_failure v i p)"
  by (simp add: provider_failure_def provider_log_def same_connections_def split: option.split)

lemma same_success [simp]: "same_connections p (provider_success v i p)"
  by (simp add: provider_success_def provider_log_def same_connections_def split: option.split)

subsection \<open>The cache\<close>

lemma mset_delete:
  "distinct (map fst xs) \<Longrightarrow> map_of xs k = Some c \<Longrightarrow> mset xs = add_mset (k, c) (mset (AList.delete k xs))"
proof (induction xs)
  case (Cons x xs)
  show ?case
  proof (cases "fst x = k")
    case True
    with Cons.prems have "k \<notin> fst ` set xs" by (auto simp: rev_image_eqI)
    then have "AList.delete k xs = xs" by (simp add: delete_id)
    with True Cons.prems show ?thesis by (cases x) simp
  next
    case False
    with Cons show ?thesis by (cases x) (auto split: if_splits)
  qed
qed simp

lemma drop_cached_accounted:
  assumes "accounted p"
  shows "accounted (drop_cached v i p)" and "map_of (ps_connections (drop_cached v i p)) i = None"
    and "dialed (ps_log (drop_cached v i p)) = dialed (ps_log p)"
proof -
  show "map_of (ps_connections (drop_cached v i p)) i = None" "dialed (ps_log (drop_cached v i p)) = dialed (ps_log p)"
    by (auto simp: drop_cached_def provider_ops AList.delete_conv' split: option.split)
  show "accounted (drop_cached v i p)"
  proof (cases "map_of (ps_connections p) i")
    case None
    then show ?thesis using assms by (simp add: drop_cached_def)
  next
    case (Some c)
    let ?rest = "AList.delete i (ps_connections p)"
    from assms have "distinct (map fst (ps_connections p))" by (simp add: accounted_def)
    from mset_delete [OF this Some]
    have "mset (cached_ids p) = add_mset (pcn_connection c) (mset (map (pcn_connection \<circ> snd) ?rest))"
      unfolding cached_ids_def mset_map by simp
    then have m: "mset (cached_ids p @ closed (ps_log p))
        = mset (map (pcn_connection \<circ> snd) ?rest @ closed (ps_log p) @ [pcn_connection c])" by simp
    have "set (cached_ids p @ closed (ps_log p))
        = set (map (pcn_connection \<circ> snd) ?rest @ closed (ps_log p) @ [pcn_connection c])"
      "distinct (map (pcn_connection \<circ> snd) ?rest @ closed (ps_log p) @ [pcn_connection c])"
      using mset_eq_setD [OF m] mset_eq_imp_distinct_iff [OF m] assms by (simp_all add: accounted_def)
    then show ?thesis
      using assms Some by (auto simp: accounted_def drop_cached_def provider_ops cached_ids_def distinct_delete)
  qed
qed

lemma update_new: "map_of xs k = None \<Longrightarrow> AList.update k v xs = xs @ [(k, v)]"
  by (induction xs) (auto split: if_splits)

lemma connect_accounted:
  assumes "accounted p" and run: "connect_instance v service i target p = (r, p')"
  shows "accounted p'"
    and "\<exists>ds. dialed (ps_log p') = dialed (ps_log p) @ ds
      \<and> (\<forall>(n, options) \<in> set ds. dial (pe_files v) (provider_dial_config v service target) = Inr options)"
proof -
  let ?q = "drop_cached v (si_instance_id i) p"
  note q = drop_cached_accounted [OF assms(1), of v "si_instance_id i"]
  have "accounted p' \<and> (\<exists>ds. dialed (ps_log p') = dialed (ps_log p) @ ds
      \<and> (\<forall>(n, options) \<in> set ds. dial (pe_files v) (provider_dial_config v service target) = Inr options))"
  proof (cases "cached_connection (si_instance_id i) target p")
    case (Some n)
    with run assms(1) show ?thesis by (auto simp: connect_instance_def)
  next
    case None
    obtain d p1 where d: "provider_dial v service target ?q = (d, p1)" by fastforce
    show ?thesis
    proof (cases d)
      case (Inl e)
      with d have "same_connections ?q p1"
        by (auto simp: provider_dial_def provider_ops same_connections_def split: sum.splits option.splits)
      with Inl None run d q show ?thesis
        by (auto simp: connect_instance_def dest: accounted_same) (simp add: same_connections_def)
    next
      case (Inr n)
      with d obtain options where options: "dial (pe_files v) (provider_dial_config v service target) = Inr options"
        and p1: "n = ps_next ?q" "ps_next p1 = Suc n" "ps_connections p1 = ps_connections ?q"
          "dialed (ps_log p1) = dialed (ps_log ?q) @ [(n, options)]" "closed (ps_log p1) = closed (ps_log ?q)"
        by (auto simp: provider_dial_def provider_ops split: sum.splits option.splits)
      have cached: "ps_connections p' = ps_connections ?q @ [(si_instance_id i, \<lparr>pcn_target = target, pcn_connection = n\<rparr>)]"
        and rest: "ps_log p' = ps_log p1" "ps_next p' = Suc n"
        using Inr None run d p1 q(2) by (auto simp: connect_instance_def update_new)
      have ids: "cached_ids p' = cached_ids ?q @ [n]" using cached by (simp add: cached_ids_def)
      have old: "set (cached_ids ?q) \<union> set (closed (ps_log ?q)) = {0..<n}" using q(1) p1(1) by (simp add: accounted_def)
      then have fresh: "n \<notin> set (cached_ids ?q)" "n \<notin> set (closed (ps_log ?q))" by auto
      have "accounted p'"
        using q(1) p1(1,4,5) q(2) rest ids fresh cached
        by (simp add: accounted_def map_of_eq_None_iff) (use old in auto)
      with options p1(4) rest q(3) show ?thesis by auto
    qed
  qed
  then show "accounted p'" and "\<exists>ds. dialed (ps_log p') = dialed (ps_log p) @ ds
      \<and> (\<forall>(n, options) \<in> set ds. dial (pe_files v) (provider_dial_config v service target) = Inr options)" by blast+
qed

subsection \<open>Every operation keeps the accounts\<close>

definition allowed_options :: "provider_env \<Rightarrow> dial_options \<Rightarrow> bool" where
  "allowed_options v options \<longleftrightarrow> (\<exists>service target.
     validate_import_provider_target target (pc_dns_suffixes (pe_config v)) = None
     \<and> dial (pe_files v) (provider_dial_config v service target) = Inr options)"

definition keeps :: "provider_env \<Rightarrow> provider_state \<Rightarrow> provider_state \<Rightarrow> bool" where
  "keeps v p p' \<longleftrightarrow> (accounted p \<and> dialed_ok (allowed_options v) p \<longrightarrow> accounted p' \<and> dialed_ok (allowed_options v) p')"

lemma keeps_same: "same_connections p p' \<Longrightarrow> keeps v p p'"
  by (simp add: keeps_def accounted_same dialed_ok_same)

lemma keeps_refl [simp]: "keeps v p p"
  by (simp add: keeps_def)

lemma keeps_trans [trans]: "keeps v p q \<Longrightarrow> keeps v q r \<Longrightarrow> keeps v p r"
  by (simp add: keeps_def)

lemma keeps_failure [simp]: "keeps v p (provider_failure v' i p)"
  by (rule keeps_same) simp

lemma keeps_success [simp]: "keeps v p (provider_success v' i p)"
  by (rule keeps_same) simp

lemma keeps_to_failure: "keeps v p q \<Longrightarrow> keeps v p (provider_failure v' i q)"
  by (rule keeps_trans [OF _ keeps_failure])

lemma keeps_to_success: "keeps v p q \<Longrightarrow> keeps v p (provider_success v' i q)"
  by (rule keeps_trans [OF _ keeps_success])

lemma keeps_call: "provider_call p = (k, p') \<Longrightarrow> keeps v p p'"
  by (rule keeps_same) (auto simp: provider_call_def)

lemma keeps_ctx: "provider_ctx_err v p = (k, p') \<Longrightarrow> keeps v p p'"
  by (rule keeps_same) (auto simp: provider_ctx_err_def provider_call_def)

lemma keeps_wait: "wait_provider_retry v n p = (k, p') \<Longrightarrow> keeps v p p'"
  by (rule keeps_same) (auto simp: wait_provider_retry_def provider_call_def)

lemma keeps_send: "provider_send v m p = (k, p') \<Longrightarrow> keeps v p p'"
  by (rule keeps_same) (auto simp: provider_send_def provider_ops same_connections_def)

lemma keeps_close_send: "close_send v p = (k, p') \<Longrightarrow> keeps v p p'"
  by (rule keeps_same) (auto simp: close_send_def provider_ops same_connections_def)

lemma keeps_opened: "keeps v p (provider_log (StreamOpened kind c) p)"
  by (rule keeps_same) (simp add: provider_ops same_connections_def)

lemma keeps_drop_stream: "drop_stream v s p = (s', p') \<Longrightarrow> keeps v p p'"
  by (auto simp: drop_stream_def intro: keeps_close_send [OF surjective_pairing] split: if_splits)

lemma keeps_connect:
  assumes "connect_instance v service i target p = (r, p')"
    and "validate_import_provider_target target (pc_dns_suffixes (pe_config v)) = None"
  shows "keeps v p p'"
proof -
  have "accounted p' \<and> dialed_ok (allowed_options v) p'" if "accounted p" "dialed_ok (allowed_options v) p"
    using connect_accounted [OF that(1) assms(1)] that(2) assms(2)
    by (fastforce simp: dialed_ok_def allowed_options_def)
  then show ?thesis by (simp add: keeps_def)
qed

lemma keeps_client:
  assumes "provider_client v service dataset p = (r, p')"
  shows "keeps v p p'"
proof (cases "pe_discovery v")
  case None
  with assms show ?thesis by (simp add: provider_client_def)
next
  case (Some instances)
  obtain k p1 where c: "provider_call p = (k, p1)" by fastforce
  note k1 = keeps_call [OF c, of v]
  show ?thesis
  proof (cases "instances k")
    case (Inl e)
    with assms Some c k1 show ?thesis by (simp add: provider_client_def)
  next
    case (Inr listed)
    let ?cs = "candidates v service dataset listed"
    show ?thesis
    proof (cases "?cs = []")
      case True
      with assms Some c Inr k1 show ?thesis by (simp add: provider_client_def)
    next
      case False
      obtain i p2 where i: "pick_candidate ?cs p1 = (i, p2)" by fastforce
      then have k2: "keeps v p1 p2" by (intro keeps_same) (auto simp: pick_candidate_def)
      let ?t = "endpoint_target (si_endpoint i)"
      show ?thesis
      proof (cases "validate_import_provider_target ?t (pc_dns_suffixes (pe_config v))")
        case (Some e)
        with assms \<open>pe_discovery v = Some instances\<close> c Inr False i have "p' = p2"
          by (simp add: provider_client_def Let_def)
        with keeps_trans [OF k1 k2] show ?thesis by simp
      next
        case None
        obtain d p3 where d: "connect_instance v service i ?t p2 = (d, p3)" by fastforce
        with assms \<open>pe_discovery v = Some instances\<close> c Inr False i None have "p' = p3"
          by (auto simp: provider_client_def Let_def split: sum.splits)
        with keeps_trans [OF keeps_trans [OF k1 k2] keeps_connect [OF d None]] show ?thesis by simp
      qed
    qed
  qed
qed

lemma keeps_reopen:
  assumes "reopen v s p = (r, s', p')"
  shows "keeps v p p'"
proof -
  obtain c p1 where c: "provider_client v (ss_service s) (ss_dataset s) p = (c, p1)" by fastforce
  obtain k p2 where k: "provider_call p1 = (k, p2)" by fastforce
  note k2 = keeps_trans [OF keeps_client [OF c] keeps_call [OF k]]
  from assms c k have "p' = p1 \<or> p' = p2 \<or> p' = provider_log (StreamOpened (ss_kind s) (fst (projr c))) p2"
    by (auto simp: reopen_def split: sum.splits option.splits)
  with keeps_client [OF c] k2 keeps_trans [OF k2 keeps_opened] show ?thesis by blast
qed

lemma keeps_attempt:
  assumes "stream_attempt v m recv s p = (r, s', p')"
  shows "keeps v p p'"
proof -
  obtain e s1 p1 where o: "(if ss_stream s = None then reopen v s p else (None, s, p)) = (e, s1, p1)"
    by (metis prod_cases3)
  then have k1: "keeps v p p1" by (auto dest: keeps_reopen split: if_splits)
  obtain f p2 where f: "provider_send v m p1 = (f, p2)" by fastforce
  obtain k p3 where k: "provider_call p2 = (k, p3)" by fastforce
  from assms o f k have "p' \<in> {p1, p2, p3}"
    by (auto simp: stream_attempt_def split: option.splits)
  with k1 keeps_send [OF f] keeps_call [OF k, of v] show ?thesis by (auto intro: keeps_trans)
qed

lemma keeps_loop: "stream_loop v m recv left attempt s p = (r, s', p') \<Longrightarrow> keeps v p p'"
proof (induction left arbitrary: attempt s p)
  case 0
  then show ?case
    by (subst (asm) stream_loop.simps)
      (auto dest!: keeps_attempt keeps_drop_stream keeps_ctx intro!: keeps_to_failure split: sum.splits prod.splits; meson keeps_trans)
next
  case (Suc left)
  from Suc.prems show ?case
    by (subst (asm) stream_loop.simps)
      (auto dest!: keeps_attempt keeps_drop_stream keeps_ctx keeps_wait Suc.IH intro!: keeps_to_failure
        split: sum.splits prod.splits option.splits if_splits; meson keeps_trans)
qed

lemma keeps_open_session: "open_provider_session v left attempt s p = (r, s', p') \<Longrightarrow> keeps v p p'"
proof (induction left arbitrary: attempt s p)
  case 0
  then show ?case
    by (subst (asm) open_provider_session.simps)
      (auto dest!: keeps_reopen keeps_ctx intro!: keeps_to_failure split: option.splits prod.splits; meson keeps_trans)
next
  case (Suc left)
  from Suc.prems show ?case
    by (subst (asm) open_provider_session.simps)
      (auto dest!: keeps_reopen keeps_ctx keeps_wait Suc.IH intro!: keeps_to_failure
        split: option.splits prod.splits if_splits; meson keeps_trans)
qed

lemma keeps_open: "open_session kind v service tenant application dataset p = (r, p') \<Longrightarrow> keeps v p p'"
  by (auto simp: open_session_def dest!: keeps_open_session split: option.splits prod.splits; meson keeps_trans)

lemma keeps_validate_batch: "session_validate_batch v r s p = (x, s', p') \<Longrightarrow> keeps v p p'"
  by (auto simp: session_validate_batch_def Let_def dest!: keeps_loop intro!: keeps_to_failure keeps_to_success
      split: if_splits sum.splits prod.splits; meson keeps_trans)

lemma keeps_apply_batch: "session_apply_batch v r s p = (x, s', p') \<Longrightarrow> keeps v p p'"
  by (auto simp: session_apply_batch_def Let_def dest!: keeps_loop intro!: keeps_to_failure keeps_to_success
      split: if_splits sum.splits prod.splits; meson keeps_trans)

lemma keeps_session_close: "session_close v s p = (e, p') \<Longrightarrow> keeps v p p'"
  by (auto simp: session_close_def dest!: keeps_close_send intro!: keeps_to_failure
      split: if_splits option.splits prod.splits; meson keeps_trans)

lemma keeps_describe: "describe_dataset v tenant application service dataset p = (r, p') \<Longrightarrow> keeps v p p'"
  by (auto simp: describe_dataset_def dest!: keeps_client keeps_call [where v = v] intro!: keeps_to_failure keeps_to_success
      split: if_splits option.splits prod.splits sum.splits; meson keeps_trans)

lemma keeps_list: "list_datasets v search page n p = (r, p') \<Longrightarrow> keeps v p p'"
  by (auto simp: list_datasets_def Let_def dest!: keeps_call [where v = v]
      split: if_splits option.splits prod.splits sum.splits; meson keeps_trans)

section \<open>Histories\<close>

inductive provider_history :: "provider_env \<Rightarrow> provider_state \<Rightarrow> bool" for v where
  hist_new: "provider_history v empty_provider"
| hist_list: "provider_history v p \<Longrightarrow> list_datasets v search page n p = (r, p') \<Longrightarrow> provider_history v p'"
| hist_describe: "provider_history v p \<Longrightarrow> describe_dataset v tenant application service dataset p = (d, p') \<Longrightarrow> provider_history v p'"
| hist_open: "provider_history v p \<Longrightarrow> open_session kind v service tenant application dataset p = (o', p') \<Longrightarrow> provider_history v p'"
| hist_validate: "provider_history v p \<Longrightarrow> session_validate_batch v vr s p = (x, s', p') \<Longrightarrow> provider_history v p'"
| hist_apply: "provider_history v p \<Longrightarrow> session_apply_batch v ar s p = (y, s', p') \<Longrightarrow> provider_history v p'"
| hist_session_close: "provider_history v p \<Longrightarrow> session_close v s p = (e, p') \<Longrightarrow> provider_history v p'"

lemma history_accounted: "provider_history v p \<Longrightarrow> accounted p \<and> dialed_ok (allowed_options v) p"
proof (induction rule: provider_history.induct)
  case hist_new
  then show ?case by (simp add: accounted_def dialed_ok_def empty_provider_def cached_ids_def)
next
  case (hist_list p search page n r p')
  from keeps_list [OF hist_list(2)] hist_list(3) show ?case by (simp add: keeps_def)
next
  case (hist_describe p tenant application service dataset d p')
  from keeps_describe [OF hist_describe(2)] hist_describe(3) show ?case by (simp add: keeps_def)
next
  case (hist_open p kind service tenant application dataset o' p')
  from keeps_open [OF hist_open(2)] hist_open(3) show ?case by (simp add: keeps_def)
next
  case (hist_validate p vr s x s' p')
  from keeps_validate_batch [OF hist_validate(2)] hist_validate(3) show ?case by (simp add: keeps_def)
next
  case (hist_apply p ar s y s' p')
  from keeps_apply_batch [OF hist_apply(2)] hist_apply(3) show ?case by (simp add: keeps_def)
next
  case (hist_session_close p s e p')
  from keeps_session_close [OF hist_session_close(2)] hist_session_close(3) show ?case by (simp add: keeps_def)
qed

lemma close_connections_log:
  "close_connections v cs result p = (e, p') \<Longrightarrow>
     closed (ps_log p') = closed (ps_log p) @ map (pcn_connection \<circ> snd) cs
     \<and> dialed (ps_log p') = dialed (ps_log p) \<and> ps_next p' = ps_next p"
proof (induction cs arbitrary: result p)
  case (Cons c cs)
  obtain i n where c: "c = (i, n)" by fastforce
  from Cons.prems obtain r q where q: "close_connections v cs r q = (e, p')"
    "closed (ps_log q) = closed (ps_log p) @ [pcn_connection n]" "dialed (ps_log q) = dialed (ps_log p)" "ps_next q = ps_next p"
    by (auto simp: c close_connection_def provider_ops)
  from Cons.IH [OF q(1)] q(2-4) c show ?case by simp
qed simp

lemma provider_close_log:
  assumes "provider_close v registry p = (e, p')"
  shows "closed (ps_log p') = closed (ps_log p) @ cached_ids p" and "dialed (ps_log p') = dialed (ps_log p)"
    and "ps_connections p' = []"
proof -
  obtain r q where q: "close_connections v (ps_connections p) None p = (r, q)" by fastforce
  from close_connections_log [OF q] q assms
  show "closed (ps_log p') = closed (ps_log p) @ cached_ids p" "dialed (ps_log p') = dialed (ps_log p)"
    "ps_connections p' = []"
    by (auto simp: provider_close_def provider_call_def cached_ids_def Let_def split: if_splits)
qed

end
