(* ===== verification/Provider_Catalog.thy ===== *)
theory Provider_Catalog
  imports Provider_Session
begin

text \<open>
  The catalog of datasets as a count: \<open>offers\<close> lists what the instances offer, one entry per
  instance and dataset that the search keeps, and \<open>summarizeDatasets\<close> is one line per service and
  dataset of that list with the number of its entries, in order.
\<close>

section \<open>Offers\<close>

definition offers :: "metadata_parser \<Rightarrow> string \<Rightarrow> service_instance list \<Rightarrow> (string \<times> metadata_dataset) list" where
  "offers parse search instances = concat (map (\<lambda>i. case parse (si_metadata i) of Inl e \<Rightarrow> []
     | Inr datasets \<Rightarrow> map (Pair (si_service_name i))
         (filter (\<lambda>d. \<not> search_skips search (si_service_name i) d) datasets)) instances)"

definition offer_key :: "string \<times> metadata_dataset \<Rightarrow> string \<times> string" where
  "offer_key o' = (fst o', md_code (snd o'))"

abbreviation summaries :: "(string \<times> metadata_dataset) list \<Rightarrow> ((string \<times> string) \<times> dataset_summary) list
    \<Rightarrow> ((string \<times> string) \<times> dataset_summary) list" where
  "summaries \<equiv> fold (\<lambda>(service, d). add_summary service d)"

lemma fold_skips:
  "fold (\<lambda>d r. if search_skips search service d then r else add_summary service d r) ds r
     = summaries (map (Pair service) (filter (\<lambda>d. \<not> search_skips search service d) ds)) r"
  by (induction ds arbitrary: r) auto

lemma fold_instances:
  "fold (add_instance parse search) instances r = summaries (offers parse search instances) r"
  by (induction instances arbitrary: r)
    (auto simp: offers_def add_instance_def fold_skips split: sum.split)

section \<open>Counting\<close>

text \<open>The table after some offers: one entry per key, which shows its key and the count.\<close>

definition counts :: "(string \<times> metadata_dataset) list \<Rightarrow> ((string \<times> string) \<times> dataset_summary) list \<Rightarrow> bool" where
  "counts os r \<longleftrightarrow> distinct (map fst r) \<and> fst ` set r = offer_key ` set os
     \<and> (\<forall>(k, s) \<in> set r. summary_key s = k
         \<and> ds_healthy_instances s = of_nat (length (filter (\<lambda>o'. offer_key o' = k) os)))"

lemma counts_add:
  assumes "counts os r"
  shows "counts (os @ [(service, d)]) (add_summary service d r)"
proof -
  let ?k = "(service, md_code d)"
  let ?n = "length (filter (\<lambda>o'. offer_key o' = ?k) os)"
  obtain c where c: "add_summary service d r = AList.update ?k c r" "summary_key c = ?k"
    "ds_healthy_instances c = of_nat (Suc ?n)"
  proof (cases "map_of r ?k")
    case None
    then have "?k \<notin> offer_key ` set os" using assms by (simp add: counts_def map_of_eq_None_iff)
    then have "filter (\<lambda>o'. offer_key o' = ?k) os = []" by (metis (mono_tags, lifting) filter_False image_eqI)
    with None show ?thesis
      by - (rule that, simp add: add_summary_def Let_def, simp_all add: summary_key_def)
  next
    case (Some s)
    then have "(?k, s) \<in> set r" by (rule map_of_SomeD)
    then have "summary_key s = ?k" "ds_healthy_instances s = of_nat ?n"
      using assms by (auto simp: counts_def)
    with Some show ?thesis
      by (cases "ds_healthy_instances s = 0")
        (rule that, simp add: add_summary_def Let_def, simp_all add: summary_key_def)+
  qed
  have "distinct (map fst (AList.update ?k c r))"
    using assms by (simp add: counts_def distinct_update)
  moreover have "fst ` set (AList.update ?k c r) = offer_key ` set (os @ [(service, d)])"
    using assms by (simp add: counts_def dom_update offer_key_def)
  moreover have "summary_key s = k \<and> ds_healthy_instances s = of_nat (length (filter (\<lambda>o'. offer_key o' = k) (os @ [(service, d)])))"
    if "(k, s) \<in> set (AList.update ?k c r)" for k s
  proof -
    have "map_of (AList.update ?k c r) k = Some s"
      using that \<open>distinct (map fst (AList.update ?k c r))\<close> by simp
    then have "if k = ?k then s = c else map_of r k = Some s"
      by (simp add: update_conv' split: if_splits)
    then show ?thesis
    proof (cases "k = ?k")
      case True
      with \<open>if k = ?k then s = c else map_of r k = Some s\<close> c(2,3) show ?thesis by (simp add: offer_key_def)
    next
      case False
      with \<open>if k = ?k then s = c else map_of r k = Some s\<close> have "(k, s) \<in> set r" by (auto dest: map_of_SomeD)
      with assms False show ?thesis by (auto simp: counts_def offer_key_def)
    qed
  qed
  ultimately show ?thesis by (auto simp: counts_def c(1))
qed

lemma counts_summaries: "counts os r \<Longrightarrow> counts (os @ os') (summaries os' r)"
proof (induction os' arbitrary: os r)
  case (Cons o' os')
  obtain service d where o': "o' = (service, d)" by fastforce
  from Cons.IH [OF counts_add [OF Cons.prems, of service d]] show ?case by (simp add: o')
qed simp

lemma counts_offers: "counts (offers parse search instances) (fold (add_instance parse search) instances [])"
  using counts_summaries [of "[]" "[]" "offers parse search instances"]
  by (simp add: fold_instances counts_def)

section \<open>Order\<close>

lemma sorted_strict:
  assumes "distinct (map f xs)"
  shows "sorted_wrt (<) (map f (sort_key f xs))"
proof -
  have "distinct (map f (sort_key f xs))"
    using assms by (metis distinct_map distinct_sort inj_on_def set_sort)
  moreover have "sorted (map f (sort_key f xs))" by simp
  ultimately show ?thesis by (simp add: strict_sorted_iff)
qed

lemma catalog_lines:
  fixes parse search instances
  defines "os \<equiv> offers parse (to_lower (trim_space search)) instances"
  defines "lines \<equiv> summarize_datasets parse instances search"
  shows "sorted_wrt (<) (map summary_key lines)" and "set (map summary_key lines) = set (map offer_key os)"
    and "\<forall>s \<in> set lines. ds_healthy_instances s = of_nat (length (filter (\<lambda>o'. offer_key o' = summary_key s) os))"
proof -
  let ?r = "fold (add_instance parse (to_lower (trim_space search))) instances []"
  have c: "counts os ?r" unfolding os_def by (rule counts_offers)
  then have keys: "map summary_key (map snd ?r) = map fst ?r"
    by (auto simp: counts_def)
  have "distinct (map summary_key (map snd ?r))" unfolding keys using c by (simp only: counts_def)
  from sorted_strict [OF this] show "sorted_wrt (<) (map summary_key lines)"
    by (simp add: lines_def summarize_datasets_def)
  have "set (map summary_key lines) = fst ` set ?r"
    using arg_cong [OF keys, of set] by (simp add: lines_def summarize_datasets_def image_image)
  with c show "set (map summary_key lines) = set (map offer_key os)" by (simp add: counts_def)
  show "\<forall>s \<in> set lines. ds_healthy_instances s = of_nat (length (filter (\<lambda>o'. offer_key o' = summary_key s) os))"
    using c by (fastforce simp: lines_def summarize_datasets_def counts_def)
qed

end
