(* ===== verification/Config_Check.thy ===== *)
theory Config_Check
  imports Config_Types Path_Match
begin

text \<open>
  The checks of the configuration (\<open>internal/config/config.go\<close>): \<open>Validate\<close> with the policies of
  clients and of the object store. \<open>Validate\<close> is the sequence of its \<open>if\<close> statements, in four parts;
  \<open>first_error\<close> takes the first that fails. Where the source loops over a map, which error of
  several it reports is open, and the model reports the first one of the list.
\<close>

section \<open>Sequences of checks\<close>

fun first_error :: "gerr option list \<Rightarrow> gerr option" where
  "first_error [] = None"
| "first_error (Some e # checks) = Some e"
| "first_error (None # checks) = first_error checks"

lemma first_error_None [simp]: "first_error checks = None \<longleftrightarrow> (\<forall>c \<in> set checks. c = None)"
  by (induction checks rule: first_error.induct) auto

definition reject :: "bool \<Rightarrow> string \<Rightarrow> gerr option" where
  "reject bad text = (if bad then Some (ErrText text) else None)"

lemma reject_None [simp]: "reject bad text = None \<longleftrightarrow> \<not> bad"
  by (simp add: reject_def)

section \<open>Names\<close>

text \<open>The regular expressions \<open>^[a-z0-9][a-z0-9_-]*$\<close> and \<open>^[a-z][a-z0-9_]{0,62}$\<close>.\<close>

definition lower_or_digit :: "char \<Rightarrow> bool" where
  "lower_or_digit c \<longleftrightarrow> (let n = of_char c :: nat in 97 \<le> n \<and> n \<le> 122 \<or> 48 \<le> n \<and> n \<le> 57)"

fun valid_profile :: "string \<Rightarrow> bool" where
  "valid_profile [] = False"
| "valid_profile (c # s) = (lower_or_digit c
     \<and> list_all (\<lambda>d. lower_or_digit d \<or> d = CHR ''_'' \<or> d = CHR ''-'') s)"

fun valid_migration_table :: "string \<Rightarrow> bool" where
  "valid_migration_table [] = False"
| "valid_migration_table (c # s) = (97 \<le> (of_char c :: nat) \<and> (of_char c :: nat) \<le> 122
     \<and> length s \<le> 62 \<and> list_all (\<lambda>d. lower_or_digit d \<or> d = CHR ''_'') s)"

definition is_db_type :: "string \<Rightarrow> bool" where
  "is_db_type v \<longleftrightarrow> v = ''mysql'' \<or> v = ''postgres'' \<or> v = ''kingbase''"

section \<open>Route patterns\<close>

definition pattern_error :: "string \<Rightarrow> string \<Rightarrow> gerr option" where
  "pattern_error text pattern = (case path_match pattern ''/validation/target'' of
       Inl e \<Rightarrow> Some (Wrapped text e []) | Inr _ \<Rightarrow> None)"

text \<open>The two loops that \<open>Validate\<close> has three times each, with the name of the setting.\<close>

definition check_http_patterns :: "string \<Rightarrow> string list \<Rightarrow> gerr option" where
  "check_http_patterns setting patterns = first_error (concat (map (\<lambda>p.
     [reject (\<not> has_prefix p ''/api/'') (setting @ '' contains path outside /api '' @ go_quote p),
      pattern_error (setting @ '' contains invalid pattern '' @ go_quote p @ '': '') p]) patterns))"

definition check_grpc_patterns :: "string \<Rightarrow> string list \<Rightarrow> gerr option" where
  "check_grpc_patterns setting patterns = first_error (concat (map (\<lambda>p.
     [reject (\<not> has_prefix p ''/'' \<or> count_list p CHR ''/'' \<noteq> 2)
        (setting @ '' contains invalid method pattern '' @ go_quote p),
      pattern_error (setting @ '' contains invalid pattern '' @ go_quote p @ '': '') p]) patterns))"

section \<open>Policies\<close>

definition check_object_storage :: "object_storage_config \<Rightarrow> bool \<Rightarrow> gerr option" where
  "check_object_storage s production = (if \<not> os_enabled s then None else first_error
     [reject (os_endpoint s = [] \<or> os_access_key s = [] \<or> os_secret_key s = [] \<or> os_bucket s = [] \<or> os_presign_ttl s \<le> 0)
        ''enabled object_storage requires endpoint, credentials, bucket, and positive presign_ttl'',
      reject (os_presign_endpoint s \<noteq> [] \<and> os_region s = [])
        ''object_storage.region is required with presign_endpoint'',
      reject (production \<and> (\<not> os_use_ssl s \<or> os_presign_endpoint s \<noteq> [] \<and> \<not> os_presign_use_ssl s))
        ''production object_storage and presigned URLs require TLS''])"

definition check_client :: "string \<Rightarrow> client_auth \<Rightarrow> retry_policy \<Rightarrow> breaker_policy \<Rightarrow> client_tls \<Rightarrow> bool \<Rightarrow> gerr option" where
  "check_client name a r b t production = first_error
     ([reject (ca_type a \<noteq> [] \<and> ca_type a \<noteq> ''bearer'' \<and> ca_type a \<noteq> ''psk'')
        (''outbound '' @ name @ '' auth.type must be bearer or psk''),
      reject (ca_type a \<noteq> [] \<and> ca_token a = []) (''outbound '' @ name @ '' auth.token is required''),
      reject (ca_type a \<noteq> [] \<and> \<not> tls_enabled t \<and> \<not> tls_allow_insecure t)
        (''outbound '' @ name @ '' credentials require TLS or explicit allow_insecure''),
      reject (tls_enabled t \<and> tls_allow_insecure t)
        (''outbound '' @ name @ '' TLS and allow_insecure are mutually exclusive''),
      reject (production \<and> ca_type a \<noteq> [] \<and> tls_allow_insecure t)
        (''production outbound '' @ name @ '' credentials require TLS''),
      reject (retry_max_attempts r < 1 \<or> retry_max_attempts r > 5 \<or> retry_initial_backoff r \<le> 0
          \<or> retry_max_backoff r < retry_initial_backoff r)
        (''outbound '' @ name @ '' retry policy is invalid'')]
     @ concat (map (\<lambda>p.
        [reject (\<not> has_prefix p ''/'' \<or> count_list p CHR ''/'' \<noteq> 2)
           (''outbound '' @ name @ '' retry method pattern is invalid''),
         pattern_error (''outbound '' @ name @ '' retry method pattern is invalid: '') p]) (retry_methods r))
     @ [reject (brk_enabled b \<and> (brk_failure_threshold b = 0 \<or> brk_open_timeout b \<le> 0))
          (''outbound '' @ name @ '' breaker policy is invalid''),
        reject (tls_enabled t \<and> (tls_cert_file t = []) \<noteq> (tls_key_file t = []))
          (''outbound '' @ name @ '' TLS certificate and key must be configured together'')])"

section \<open>Validate\<close>

definition production :: "config \<Rightarrow> bool" where
  "production c \<longleftrightarrow> app_env (cfg_app c) = ''production''"

text \<open>Servers, database, migration, Redis.\<close>

definition check_servers :: "config \<Rightarrow> gerr option" where
  "check_servers c = first_error
     [reject (\<not> (valid_migration_table (dbc_name (cfg_database c))))
        ''database.name must contain lowercase letters, digits, or underscores and be at most 63 characters'',
      reject (dbc_schema (cfg_database c) \<noteq> [] \<and> \<not> (valid_migration_table (dbc_schema (cfg_database c))))
        ''database.schema must contain lowercase letters, digits, or underscores and be at most 63 characters'',
      reject (http_address (cfg_http c) = []) ''http.address is required'',
      reject (grpc_enabled (cfg_grpc c) \<and> (grpc_address (cfg_grpc c) = [] \<or> grpc_max_receive_bytes (cfg_grpc c) \<le> 0))
        ''enabled grpc requires address and positive max_receive_bytes'',
      reject (gtls_enabled (grpc_tls (cfg_grpc c)) \<and> (gtls_cert_file (grpc_tls (cfg_grpc c)) = [] \<or> gtls_key_file (grpc_tls (cfg_grpc c)) = []))
        ''grpc tls requires cert_file and key_file'',
      reject (production c \<and> grpc_enabled (cfg_grpc c) \<and> \<not> gtls_enabled (grpc_tls (cfg_grpc c))) ''grpc tls must be enabled in production'',
      reject (production c \<and> grpc_reflection_enabled (cfg_grpc c)) ''grpc reflection must be disabled in production'',
      reject (dbc_enabled (cfg_database c) \<and> (dbc_dsn (cfg_database c) = [] \<or> \<not> (is_db_type (dbc_type (cfg_database c)))))
        ''enabled database requires dsn and type mysql, postgres, or kingbase'',
      reject (dbc_enabled (cfg_database c) \<and> ''application'' \<notin> fst ` set (out_grpc (cfg_outbound c)))
        ''enabled database requires outbound.grpc.application'',
      reject (mig_auto_up (cfg_migration c) \<and> (\<not> dbc_enabled (cfg_database c) \<or> mig_path (cfg_migration c) = [] \<or> mig_database_url (cfg_migration c) = []
          \<or> \<not> (valid_migration_table (mig_table (cfg_migration c)))))
        ''migration.auto_up requires enabled database, path, database_url, and a valid service-specific table'',
      reject (redis_enabled (cfg_redis c) \<and> redis_address (cfg_redis c) = []) ''enabled redis requires address'',
      reject (http_request_timeout (cfg_http c) \<le> 0 \<or> health_database_timeout (cfg_health c) \<le> 0 \<or> health_redis_timeout (cfg_health c) \<le> 0)
        ''http and health timeouts must be positive'']"

text \<open>Rate limits, observability, and the settings of production.\<close>

definition check_rate_limits :: "config \<Rightarrow> gerr option" where
  "check_rate_limits c = first_error
     (reject (rl_enabled (cfg_rate_limit c) \<and> \<not> redis_enabled (cfg_redis c)) ''rate_limit requires redis.enabled''
      # (if rl_enabled (cfg_rate_limit c) then map (\<lambda>(name, rule).
           reject (rule_rate rule \<le> 0 \<or> rule_burst rule \<le> 0 \<or> rule_period rule \<le> 0)
             (''rate_limit.'' @ name @ '' values must be positive''))
         [(''ip'', rl_ip (cfg_rate_limit c)), (''api'', rl_api (cfg_rate_limit c)), (''user'', rl_user (cfg_rate_limit c)), (''login'', rl_login (cfg_rate_limit c))]
         else []))"

definition check_security :: "config \<Rightarrow> gerr option" where
  "check_security c = first_error
     [reject (cors_enabled (http_cors (cfg_http c)) \<and> cors_allowed_origins (http_cors (cfg_http c)) = [])
        ''cors.allowed_origins is required when cors is enabled'',
      reject (float_below_zero (obs_tracing_sample_ratio (cfg_observability c)) \<or> float_above_one (obs_tracing_sample_ratio (cfg_observability c)))
        ''observability.tracing_sample_ratio must be between 0 and 1'',
      reject (obs_tracing_enabled (cfg_observability c) \<and> obs_tracing_endpoint (cfg_observability c) = [])
        ''observability.tracing_endpoint is required'',
      reject (obs_pprof_enabled (cfg_observability c) \<and> length (obs_pprof_token (cfg_observability c)) < 32)
        ''observability.pprof_token must contain at least 32 bytes'',
      reject (production c \<and> swagger_enabled (cfg_swagger c) \<and> \<not> swagger_require_auth (cfg_swagger c))
        ''swagger.require_auth must be enabled in production'',
      reject (production c \<and> (trim_space (auth_jwks_url (cfg_auth c)) = [] \<or> trim_space (auth_issuer (cfg_auth c)) = [] \<or> trim_space (auth_audience (cfg_auth c)) = []))
        ''production auth requires JWKS URL, issuer, and audience'',
      reject (production c \<and> \<not> authz_enabled (cfg_authorization c)) ''authorization must be enabled in production'',
      reject (authz_enabled (cfg_authorization c) \<and> ''authorization'' \<notin> fst ` set (out_grpc (cfg_outbound c)))
        ''enabled authorization requires outbound.grpc.authorization'',
      reject ((auth_client_id (cfg_auth c) \<noteq> [] \<or> auth_client_secret (cfg_auth c) \<noteq> []) \<and> length (jwt_secret (cfg_jwt c)) < 32)
        ''jwt.secret must contain at least 32 bytes when auth is enabled'']"

text \<open>The route patterns of authentication and idempotency.\<close>

definition check_routes :: "config \<Rightarrow> gerr option" where
  "check_routes c = first_error
     [check_http_patterns ''auth.skip_http_paths'' (auth_skip_http_paths (cfg_auth c)),
      check_grpc_patterns ''auth.skip_grpc_methods'' (auth_skip_grpc_methods (cfg_auth c)),
      reject (psk_enabled (auth_psk (cfg_auth c)) \<and> (length (psk_key (auth_psk (cfg_auth c))) < 32
          \<or> length (psk_http_paths (auth_psk (cfg_auth c))) + length (psk_grpc_methods (auth_psk (cfg_auth c))) = 0))
        ''enabled auth.psk requires a key of at least 32 bytes and at least one route pattern'',
      check_http_patterns ''auth.psk.http_paths'' (psk_http_paths (auth_psk (cfg_auth c))),
      check_grpc_patterns ''auth.psk.grpc_methods'' (psk_grpc_methods (auth_psk (cfg_auth c))),
      reject (user_cache_ttl (cfg_user c) \<le> 0 \<or> user_lock_ttl (cfg_user c) \<le> 0 \<or> user_lock_retry_delay (cfg_user c) \<le> 0)
        ''user cache and lock durations must be positive'',
      reject (idem_enabled (cfg_idempotency c) \<and> (\<not> redis_enabled (cfg_redis c)
          \<or> length (idem_http_paths (cfg_idempotency c)) + length (idem_grpc_methods (cfg_idempotency c)) = 0
          \<or> idem_processing_ttl (cfg_idempotency c) \<le> 0 \<or> idem_result_ttl (cfg_idempotency c) \<le> 0 \<or> idem_failure_ttl (cfg_idempotency c) \<le> 0))
        ''enabled idempotency requires redis, at least one route pattern, and positive TTL values'',
      check_http_patterns ''idempotency.http_paths'' (idem_http_paths (cfg_idempotency c)),
      check_grpc_patterns ''idempotency.grpc_methods'' (idem_grpc_methods (cfg_idempotency c))]"

text \<open>The event bus, the limits of imports, the cleaners.\<close>

definition check_imports :: "config \<Rightarrow> gerr option" where
  "check_imports c = first_error
     [reject (bus_enabled (cfg_event_bus c) \<and> (bus_urls (cfg_event_bus c) = [] \<or> bus_stream_name (cfg_event_bus c) = []
          \<or> length (bus_subjects (cfg_event_bus c)) \<noteq> 1 \<or> hd (bus_subjects (cfg_event_bus c)) \<noteq> ''platform.>''
          \<or> bus_storage (cfg_event_bus c) \<noteq> ''file'' \<and> bus_storage (cfg_event_bus c) \<noteq> ''memory''
          \<or> bus_max_age (cfg_event_bus c) \<le> 0 \<or> bus_duplicate_window (cfg_event_bus c) \<le> 0 \<or> bus_connect_timeout (cfg_event_bus c) \<le> 0
          \<or> bus_reconnect_wait (cfg_event_bus c) \<le> 0 \<or> bus_publish_timeout (cfg_event_bus c) \<le> 0 \<or> bus_consumer_ack_wait (cfg_event_bus c) \<le> 0
          \<or> bus_consumer_max_deliver (cfg_event_bus c) \<le> 0 \<or> bus_dispatch_interval (cfg_event_bus c) \<le> 0 \<or> bus_dispatch_batch_size (cfg_event_bus c) \<le> 0
          \<or> bus_dispatch_lease (cfg_event_bus c) \<le> 0 \<or> bus_dispatch_retry_delay (cfg_event_bus c) \<le> 0
          \<or> bus_published_retention (cfg_event_bus c) < bus_max_age (cfg_event_bus c) \<or> bus_cleanup_interval (cfg_event_bus c) \<le> 0
          \<or> bus_cleanup_batch_size (cfg_event_bus c) \<le> 0))
        ''enabled event_bus requires URLs, stream, canonical platform.> subjects, valid storage, positive delivery/dispatch/cleanup settings, and published retention at least max_age'',
      reject (imp_upload_ttl (cfg_import c) \<le> 0 \<or> imp_result_ttl (cfg_import c) \<le> 0 \<or> imp_job_timeout (cfg_import c) \<le> 0 \<or> imp_batch_size (cfg_import c) < 1
          \<or> imp_batch_size (cfg_import c) > 10000 \<or> imp_max_rows (cfg_import c) < 1 \<or> imp_max_bytes (cfg_import c) < 1)
        ''import requires positive TTLs, timeout, limits, and batch_size between 1 and 10000'',
      reject (cron_enabled (cfg_cron c) \<and> cron_import_cleanup_spec (cfg_cron c) \<noteq> [] \<and> cron_cleanup_batch_size (cfg_cron c) < 1)
        ''cron.cleanup_batch_size must be positive when import cleanup is enabled'',
      reject (cron_enabled (cfg_cron c) \<and> cron_metadata_cleanup_spec (cfg_cron c) \<noteq> [] \<and> (cron_cleanup_batch_size (cfg_cron c) < 1 \<or> cron_metadata_retention (cfg_cron c) \<le> 0))
        ''cron metadata cleanup requires positive retention and batch size'',
      reject (bus_enabled (cfg_event_bus c) \<and> bus_consumer_ack_wait (cfg_event_bus c) \<le> imp_job_timeout (cfg_import c))
        ''event_bus.consumer_ack_wait must exceed import.job_timeout'']"

text \<open>The object store, the providers and the other services that are called.\<close>

definition no_client_auth :: client_auth where
  "no_client_auth = \<lparr>ca_type = [], ca_token = []\<rparr>"

definition check_registry :: "config \<Rightarrow> gerr option" where
  "check_registry c = (if \<not> reg_enabled (cfg_service_registry c) then None else first_error
     [reject (reg_target (cfg_service_registry c) = [] \<or> length (reg_psk (cfg_service_registry c)) < 32 \<or> reg_max_stale (cfg_service_registry c) \<le> 0
          \<or> reg_snapshot_directory (cfg_service_registry c) = [] \<or> length (pc_psk (cfg_provider_client c)) < 32
          \<or> pc_dns_suffixes (cfg_provider_client c) = [] \<or> pc_timeout (cfg_provider_client c) \<le> 0 \<or> pc_failure_cooldown (cfg_provider_client c) \<le> 0)
        ''enabled service_registry requires registry and provider credentials, cache, DNS allowlist, and positive timeouts'',
      reject (production c \<and> (\<not> tls_enabled (reg_tls (cfg_service_registry c)) \<or> \<not> tls_enabled (pc_tls (cfg_provider_client c))
          \<or> reg_allow_insecure (cfg_service_registry c) \<or> pc_allow_insecure (cfg_provider_client c)))
        ''production service discovery and provider calls require TLS'',
      reject (\<not> tls_enabled (reg_tls (cfg_service_registry c)) \<and> \<not> reg_allow_insecure (cfg_service_registry c)
          \<or> \<not> tls_enabled (pc_tls (cfg_provider_client c)) \<and> \<not> pc_allow_insecure (cfg_provider_client c))
        ''plaintext registry or provider credentials require explicit allow_insecure''])"

definition check_http_upstream :: "bool \<Rightarrow> string \<times> http_upstream \<Rightarrow> gerr option list" where
  "check_http_upstream prd = (\<lambda>(name, u).
     [reject (hu_base_url u = [] \<or> hu_timeout u \<le> 0)
        (''outbound.http.'' @ name @ '' requires base_url and positive timeout''),
      check_client name (hu_auth u) (hu_retry u) (hu_breaker u) (hu_tls u) prd])"

definition check_grpc_upstream :: "bool \<Rightarrow> string \<times> grpc_upstream \<Rightarrow> gerr option list" where
  "check_grpc_upstream prd = (\<lambda>(name, u).
     [reject (gu_target u = [] \<or> gu_timeout u \<le> 0)
        (''outbound.grpc.'' @ name @ '' requires target and positive timeout''),
      check_client name (gu_auth u) (gu_retry u) (gu_breaker u) (gu_tls u) prd])"

definition check_clients :: "config \<Rightarrow> gerr option" where
  "check_clients c = first_error
     ([check_object_storage (cfg_object_storage c) (production c),
       check_client ''provider_client'' no_client_auth (pc_retry (cfg_provider_client c)) (pc_breaker (cfg_provider_client c))
         (pc_tls (cfg_provider_client c)) (production c),
       check_registry c]
      @ concat (map (check_http_upstream (production c)) (out_http (cfg_outbound c)))
      @ concat (map (check_grpc_upstream (production c)) (out_grpc (cfg_outbound c))))"

definition validate_config :: "config \<Rightarrow> gerr option" where
  "validate_config c = first_error [check_servers c, check_rate_limits c, check_security c,
     check_routes c, check_imports c, check_clients c]"

end
