(* ===== verification/Config_Load.thy ===== *)
theory Config_Load
  imports Config_Check
begin

text \<open>
  How the configuration is made (\<open>internal/config/config.go\<close>): the defaults of \<open>setDefaults\<close> as the
  configuration they decode to, the profile and its file, the decoding of lists, and
  \<open>LoadWithProfile\<close> over the answers of the configuration library and the file system, which are
  the fields of \<open>sources\<close>.
\<close>

section \<open>Defaults\<close>

definition rate_limit_default :: "int \<Rightarrow> int \<Rightarrow> rate_limit_rule" where
  "rate_limit_default rate burst = \<lparr>rule_rate = rate, rule_burst = burst, rule_period = 60000000000\<rparr>"

definition default_config :: config where
  "default_config = \<lparr>cfg_runtime = \<lparr>run_active_profile = [], run_config_files = []\<rparr>,
     cfg_app =
       \<lparr>app_name = ''import-service'', app_schema = [], app_env = ''development'',
         app_shutdown_timeout = 10000000000\<rparr>,
     cfg_http =
       \<lparr>http_address = ''127.0.0.1:8080'', http_read_timeout = 10000000000, http_write_timeout =
         15000000000, http_idle_timeout = 60000000000, http_request_timeout = 10000000000,
         http_max_body_bytes = 1048576, http_trusted_proxies = [], http_cors = \<lparr>cors_enabled = False,
         cors_allowed_origins = [], cors_allowed_headers = [''Authorization'', ''Content-Type'',
         ''X-Request-ID''], cors_exposed_headers = [''X-Request-ID'', ''X-RateLimit-Limit'',
         ''X-RateLimit-Remaining'', ''Retry-After''], cors_max_age = 43200000000000\<rparr>\<rparr>,
     cfg_grpc =
       \<lparr>grpc_enabled = True, grpc_address = ''127.0.0.1:9090'', grpc_reflection_enabled = True,
         grpc_max_receive_bytes = 16777216, grpc_tls = \<lparr>gtls_enabled = False, gtls_cert_file = [],
         gtls_key_file = [], gtls_client_ca_file = []\<rparr>\<rparr>,
     cfg_log =
       \<lparr>log_level = ''info'', log_format = ''json'', log_file = ''logs/app.log'', log_max_size =
         100, log_max_backups = 10, log_max_age_days = 30, log_compress = True\<rparr>,
     cfg_database =
       \<lparr>dbc_enabled = False, dbc_name = ''platform'', dbc_schema = ''data_import'', dbc_type =
         ''postgres'', dbc_dsn = [], dbc_max_open_conns = 25, dbc_max_idle_conns = 10, dbc_conn_max_lifetime
         = 300000000000, dbc_conn_max_idle_time = 60000000000, dbc_ping_timeout = 5000000000\<rparr>,
     cfg_redis =
       \<lparr>redis_enabled = False, redis_address = ''127.0.0.1:6379'', redis_username = [],
         redis_password = [], redis_db = 0, redis_dial_timeout = 5000000000, redis_read_timeout = 3000000000,
         redis_write_timeout = 3000000000\<rparr>,
     cfg_health =
       \<lparr>health_database_timeout = 2000000000, health_redis_timeout = 2000000000\<rparr>,
     cfg_rate_limit =
       \<lparr>rl_enabled = False, rl_fail_open = False, rl_ip = rate_limit_default 120 30, rl_api =
         rate_limit_default 10000 1000, rl_user = rate_limit_default 600 100, rl_login = rate_limit_default
         10 3\<rparr>,
     cfg_observability =
       \<lparr>obs_metrics_enabled = True, obs_tracing_enabled = False, obs_tracing_endpoint =
         ''http://127.0.0.1:4318'', obs_tracing_sample_ratio = FloatVal 3602879701896397 (- 55),
         obs_pprof_enabled = False, obs_pprof_token = []\<rparr>,
     cfg_swagger =
       \<lparr>swagger_enabled = True, swagger_require_auth = False\<rparr>,
     cfg_jwt =
       \<lparr>jwt_issuer = ''import-service'', jwt_secret = [], jwt_ttl = 7200000000000\<rparr>,
     cfg_auth =
       \<lparr>auth_jwks_url = [], auth_issuer = ''identity-service'', auth_audience = ''import-service'',
         auth_client_id = [], auth_client_secret = [], auth_skip_http_paths = [''/api/v1/version''],
         auth_skip_grpc_methods = [''/grpc.health.v1.Health/*''], auth_psk = \<lparr>psk_enabled = False,
         psk_key = [], psk_http_paths = [], psk_grpc_methods = []\<rparr>\<rparr>,
     cfg_authorization =
       \<lparr>authz_enabled = False\<rparr>,
     cfg_cron =
       \<lparr>cron_enabled = True, cron_timezone = ''Asia/Shanghai'', cron_import_cleanup_spec =
         ''0 0 * * * *'', cron_metadata_cleanup_spec = ''0 30 * * * *'', cron_metadata_retention =
         31536000000000000, cron_cleanup_batch_size = 100\<rparr>,
     cfg_migration =
       \<lparr>mig_auto_up = False, mig_create_schema = False, mig_path = ''migrations/postgres'',
         mig_database_url = [], mig_table = ''import_schema_migrations'', mig_schema = [], mig_database_name
         = []\<rparr>,
     cfg_user =
       \<lparr>user_cache_ttl = 300000000000, user_lock_ttl = 10000000000, user_lock_retry_delay =
         100000000\<rparr>,
     cfg_idempotency =
       \<lparr>idem_enabled = False, idem_http_paths = [], idem_grpc_methods = [], idem_processing_ttl =
         30000000000, idem_result_ttl = 86400000000000, idem_failure_ttl = 300000000000\<rparr>,
     cfg_outbound =
       \<lparr>out_http = [], out_grpc = []\<rparr>,
     cfg_event_bus =
       \<lparr>bus_enabled = False, bus_urls = [''nats://127.0.0.1:4222''], bus_stream_name =
         ''PLATFORM_EVENTS'', bus_subjects = [''platform.>''], bus_storage = ''file'', bus_max_age =
         604800000000000, bus_duplicate_window = 600000000000, bus_connect_timeout = 5000000000,
         bus_reconnect_wait = 1000000000, bus_publish_timeout = 5000000000, bus_consumer_ack_wait =
         7500000000000, bus_consumer_max_deliver = 10, bus_dispatch_interval = 1000000000,
         bus_dispatch_batch_size = 100, bus_dispatch_lease = 30000000000, bus_dispatch_retry_delay =
         2000000000, bus_published_retention = 604800000000000, bus_cleanup_interval = 3600000000000,
         bus_cleanup_batch_size = 1000\<rparr>,
     cfg_import =
       \<lparr>imp_upload_ttl = 900000000000, imp_result_ttl = 604800000000000, imp_job_timeout =
         7200000000000, imp_batch_size = 500, imp_max_rows = 1000000, imp_max_bytes = 1073741824\<rparr>,
     cfg_object_storage =
       \<lparr>os_enabled = False, os_endpoint = ''127.0.0.1:9000'', os_presign_endpoint = [],
         os_access_key = [], os_secret_key = [], os_bucket = ''platform-imports'', os_region = [], os_use_ssl
         = False, os_presign_use_ssl = False, os_presign_ttl = 900000000000\<rparr>,
     cfg_service_registry =
       \<lparr>reg_enabled = False, reg_target = ''127.0.0.1:9095'', reg_psk = [], reg_max_stale =
         120000000000, reg_snapshot_directory = ''data/registry-cache'', reg_allow_insecure = False, reg_tls
         = \<lparr>tls_enabled = False, tls_allow_insecure = False, tls_server_name = [], tls_ca_file = [],
         tls_cert_file = [], tls_key_file = []\<rparr>\<rparr>,
     cfg_provider_client =
       \<lparr>pc_psk = [], pc_dns_suffixes = [''.platform.svc.cluster.local''], pc_timeout = 30000000000,
         pc_failure_cooldown = 30000000000, pc_allow_insecure = False, pc_retry = \<lparr>retry_max_attempts
         = 3, retry_initial_backoff = 100000000, retry_max_backoff = 1000000000, retry_methods = []\<rparr>,
         pc_breaker = \<lparr>brk_enabled = True, brk_failure_threshold = 5, brk_open_timeout =
         30000000000\<rparr>, pc_tls = \<lparr>tls_enabled = False, tls_allow_insecure = False,
         tls_server_name = [], tls_ca_file = [], tls_cert_file = [], tls_key_file = []\<rparr>\<rparr>\<rparr>"

section \<open>Lists in one string\<close>

text \<open>\<open>stringToStringSliceHook\<close>: the value of an environment variable, with or without brackets.\<close>

definition is_quote :: "char \<Rightarrow> bool" where
  "is_quote c \<longleftrightarrow> c = CHR 0x22 \<or> c = CHR 0x27"

definition trim_quotes :: "string \<Rightarrow> string" where
  "trim_quotes s = rev (dropWhile is_quote (rev (dropWhile is_quote s)))"

definition string_slice :: "string \<Rightarrow> string list" where
  "string_slice value = (let raw = trim_space value;
       raw = (if has_prefix raw ''['' \<and> has_suffix raw '']''
              then trim_space (take (length raw - 2) (tl raw)) else raw) in
     if raw = [] then [] else map (\<lambda>v. trim_quotes (trim_space v)) (split_at CHR '','' raw))"

section \<open>Profiles\<close>

definition profile_config_path :: "string \<Rightarrow> string \<Rightarrow> string" where
  "profile_config_path path profile = trim_suffix path (file_ext path) @ ''-'' @ profile @ file_ext path"

datatype file_state = FileExists | FileMissing | FileError gerr

text \<open>\<open>src_read\<close> also tells whether its error is viper's \<open>ConfigFileNotFoundError\<close>; \<open>src_decode\<close> is what
  viper decodes from the defaults, the files and the environment.\<close>

record sources =
  src_bind_error :: "gerr option"
  src_read :: "string \<Rightarrow> (gerr \<times> bool) option"
  src_app_env :: string
  src_stat :: "string \<Rightarrow> file_state"
  src_merge :: "string \<Rightarrow> gerr option"
  src_decode :: "string list \<Rightarrow> gerr + config"

definition chosen_profile :: "sources \<Rightarrow> string \<Rightarrow> string" where
  "chosen_profile v explicit = (let profile = to_lower (trim_space explicit) in
     if profile = [] then to_lower (trim_space (src_app_env v)) else profile)"

text \<open>The files that are read: the given one, and the one of the profile if it exists.\<close>

definition profile_files :: "sources \<Rightarrow> string \<Rightarrow> string \<Rightarrow> gerr + string list" where
  "profile_files v path profile = (let profile_path = profile_config_path path profile in
     if profile_path = path then Inr [path]
     else case src_stat v profile_path of
       FileExists \<Rightarrow> (case src_merge v profile_path of
           Some e \<Rightarrow> Inl (Wrapped (''merge profile config '' @ go_quote profile_path @ '': '') e [])
         | None \<Rightarrow> Inr [path, profile_path])
     | FileMissing \<Rightarrow> Inr [path]
     | FileError e \<Rightarrow> Inl (Wrapped (''inspect profile config '' @ go_quote profile_path @ '': '') e []))"

definition with_migration :: "config \<Rightarrow> config" where
  "with_migration c = c\<lparr>cfg_migration := (cfg_migration c)\<lparr>mig_schema := dbc_schema (cfg_database c),
     mig_database_name := dbc_name (cfg_database c)\<rparr>\<rparr>"

text \<open>\<open>v.Set("app.env", profile)\<close>: a value that is set takes precedence over files and environment.\<close>

definition with_profile :: "string \<Rightarrow> config \<Rightarrow> config" where
  "with_profile profile c = c\<lparr>cfg_app := (cfg_app c)\<lparr>app_env := profile\<rparr>\<rparr>"

definition load_with_profile :: "sources \<Rightarrow> string \<Rightarrow> string \<Rightarrow> gerr + config" where
  "load_with_profile v path explicit = (case src_bind_error v of
       Some e \<Rightarrow> Inl (Wrapped ''bind environment profile: '' e [])
     | None \<Rightarrow>
       (case (case src_read v path of None \<Rightarrow> None
              | Some (e, not_found) \<Rightarrow> if path \<noteq> [] \<or> \<not> not_found then Some e else None) of
          Some e \<Rightarrow> Inl (Wrapped ''read config: '' e [])
        | None \<Rightarrow> (let profile = chosen_profile v explicit in
            if \<not> valid_profile profile
            then Inl (ErrText (''invalid environment profile '' @ go_quote profile))
            else case profile_files v path profile of
              Inl e \<Rightarrow> Inl e
            | Inr files \<Rightarrow> (case src_decode v files of
                Inl e \<Rightarrow> Inl (Wrapped ''decode config: '' e [])
              | Inr decoded \<Rightarrow> (let c = with_migration (with_profile profile decoded) in
                  case validate_config c of
                    Some e \<Rightarrow> Inl e
                  | None \<Rightarrow> Inr (c\<lparr>cfg_runtime := \<lparr>run_active_profile = profile, run_config_files = files\<rparr>\<rparr>))))))"

definition load_config :: "sources \<Rightarrow> string \<Rightarrow> gerr + config" where
  "load_config v path = load_with_profile v path []"

section \<open>Facts\<close>

text \<open>\<open>Validate\<close> does not look at the fields that \<open>LoadWithProfile\<close> sets after it.\<close>

lemma production_runtime [simp]: "production (c\<lparr>cfg_runtime := r\<rparr>) = production c"
  by (simp add: production_def)

lemma validate_runtime [simp]: "validate_config (c\<lparr>cfg_runtime := r\<rparr>) = validate_config c"
  by (simp add: validate_config_def check_servers_def check_rate_limits_def check_security_def
      check_routes_def check_imports_def check_clients_def check_registry_def)

lemma load_ok:
  assumes "load_with_profile v path explicit = Inr c"
  shows "validate_config c = None" and "valid_profile (run_active_profile (cfg_runtime c))"
    and "run_active_profile (cfg_runtime c) = chosen_profile v explicit"
    and "mig_schema (cfg_migration c) = dbc_schema (cfg_database c)"
    and "app_env (cfg_app c) = chosen_profile v explicit"
  using assms
  by (auto simp: load_with_profile_def Let_def with_migration_def with_profile_def
      split: option.splits if_splits sum.splits prod.splits)

end
