(* ===== verification/Config_Properties.thy ===== *)
theory Config_Properties
  imports Config_Load
begin

text \<open>
  What a configuration that was loaded promises: the settings of a production profile are safe, the
  limits and policies that the service, the worker and the clients are built with are within their
  bounds, and lists in environment variables are read as they were written.
\<close>

section \<open>Examples\<close>

definition demo_tls :: client_tls where
  "demo_tls = \<lparr>tls_enabled = True, tls_allow_insecure = False, tls_server_name = [], tls_ca_file = [],
     tls_cert_file = [], tls_key_file = []\<rparr>"

definition demo_upstream :: grpc_upstream where
  "demo_upstream = \<lparr>gu_target = ''authz:9090'', gu_timeout = 1000000000, gu_auth = \<lparr>ca_type = ''psk'', ca_token = ''k''\<rparr>,
     gu_retry = pc_retry (cfg_provider_client default_config), gu_breaker = pc_breaker (cfg_provider_client default_config),
     gu_tls = demo_tls\<rparr>"

definition demo_production :: config where
  "demo_production = default_config
     \<lparr>cfg_app := (cfg_app default_config)\<lparr>app_env := ''production''\<rparr>,
      cfg_grpc := (cfg_grpc default_config)\<lparr>grpc_reflection_enabled := False,
        grpc_tls := \<lparr>gtls_enabled = True, gtls_cert_file = ''c'', gtls_key_file = ''k'', gtls_client_ca_file = []\<rparr>\<rparr>,
      cfg_swagger := (cfg_swagger default_config)\<lparr>swagger_require_auth := True\<rparr>,
      cfg_auth := (cfg_auth default_config)\<lparr>auth_jwks_url := ''https://id/jwks''\<rparr>,
      cfg_authorization := \<lparr>authz_enabled = True\<rparr>,
      cfg_event_bus := (cfg_event_bus default_config)\<lparr>bus_enabled := True\<rparr>,
      cfg_outbound := \<lparr>out_http = [], out_grpc = [(''authorization'', demo_upstream)]\<rparr>\<rparr>"

definition demo_sources :: "config \<Rightarrow> sources" where
  "demo_sources c = \<lparr>src_bind_error = None, src_read = (\<lambda>_. None), src_app_env = ''development'',
     src_stat = (\<lambda>_. FileMissing), src_merge = (\<lambda>_. None), src_decode = (\<lambda>files. Inr c)\<rparr>"

definition demo_loaded :: config where
  "demo_loaded = (with_migration demo_production)\<lparr>cfg_runtime := \<lparr>run_active_profile = ''production'',
     run_config_files = [''app.yaml'']\<rparr>\<rparr>"

text \<open>The files say \<open>development\<close>; the profile that is asked for counts.\<close>

lemma demo_loads:
  "load_with_profile (demo_sources (with_profile ''development'' demo_production)) ''app.yaml'' '' Production '' = Inr demo_loaded"
  by code_simp

section \<open>Parts of Validate\<close>

lemma validate_parts:
  assumes "validate_config c = None"
  shows "check_servers c = None" and "check_rate_limits c = None" and "check_security c = None"
    and "check_routes c = None" and "check_imports c = None" and "check_clients c = None"
  using assms by (simp_all add: validate_config_def)

lemma check_client_None:
  assumes "check_client name a r b t prd = None"
  shows "prd \<Longrightarrow> ca_type a \<noteq> [] \<Longrightarrow> tls_enabled t \<and> \<not> tls_allow_insecure t"
    and "1 \<le> retry_max_attempts r" and "retry_max_attempts r \<le> 5" and "0 < retry_initial_backoff r"
    and "retry_initial_backoff r \<le> retry_max_backoff r"
    and "ca_type a \<noteq> [] \<Longrightarrow> ca_type a \<in> {''bearer'', ''psk''} \<and> ca_token a \<noteq> []"
  using assms by (auto simp: check_client_def)

lemma checked_clients:
  assumes "check_clients c = None"
  shows "\<forall>(name, u) \<in> set (out_grpc (cfg_outbound c)).
      check_client name (gu_auth u) (gu_retry u) (gu_breaker u) (gu_tls u) (production c) = None"
    and "\<forall>(name, u) \<in> set (out_http (cfg_outbound c)).
      check_client name (hu_auth u) (hu_retry u) (hu_breaker u) (hu_tls u) (production c) = None"
    and "check_client ''provider_client'' no_client_auth (pc_retry (cfg_provider_client c))
      (pc_breaker (cfg_provider_client c)) (pc_tls (cfg_provider_client c)) (production c) = None"
    and "check_registry c = None" and "check_object_storage (cfg_object_storage c) (production c) = None"
proof -
  have all: "\<forall>c' \<in> set (concat (map (check_grpc_upstream (production c)) (out_grpc (cfg_outbound c)))). c' = None"
    "\<forall>c' \<in> set (concat (map (check_http_upstream (production c)) (out_http (cfg_outbound c)))). c' = None"
    using assms unfolding check_clients_def first_error_None set_append by blast+
  from all(1) show "\<forall>(name, u) \<in> set (out_grpc (cfg_outbound c)).
      check_client name (gu_auth u) (gu_retry u) (gu_breaker u) (gu_tls u) (production c) = None"
    by (fastforce simp: check_grpc_upstream_def simp del: reject_None)
  from all(2) show "\<forall>(name, u) \<in> set (out_http (cfg_outbound c)).
      check_client name (hu_auth u) (hu_retry u) (hu_breaker u) (hu_tls u) (production c) = None"
    by (fastforce simp: check_http_upstream_def simp del: reject_None)
qed (use assms in \<open>simp_all add: check_clients_def\<close>)

section \<open>Production\<close>

text \<open>C33: a configuration that was loaded for the production profile, whatever its files and the
  environment say of \<open>app.env\<close>, passed the checks for production. The gRPC server, if enabled, has TLS,
  and no reflection; JWKS URL, issuer and audience are set, authorization is on and its upstream is
  configured; the documentation needs a login. An enabled object store has \<open>use_ssl\<close>, and
  \<open>presign_use_ssl\<close> if it has an endpoint of its own for pre-signed URLs; with the service registry
  enabled, registry and provider client have \<open>tls.enabled\<close> and not \<open>allow_insecure\<close>; an upstream with
  a credential has \<open>tls.enabled\<close> and not \<open>tls.allow_insecure\<close>. Nothing is claimed of what the checks do
  not look at: the scheme of an HTTP upstream's \<open>base_url\<close>, and the transport to database, Redis and
  the event bus.\<close>

theorem loaded_production_secure:
  assumes "load_with_profile v path explicit = Inr c" and "chosen_profile v explicit = ''production''"
  shows "app_env (cfg_app c) = ''production'' \<and> run_active_profile (cfg_runtime c) = ''production''
    \<and> (grpc_enabled (cfg_grpc c) \<longrightarrow> gtls_enabled (grpc_tls (cfg_grpc c)))
    \<and> \<not> grpc_reflection_enabled (cfg_grpc c)
    \<and> trim_space (auth_jwks_url (cfg_auth c)) \<noteq> [] \<and> trim_space (auth_issuer (cfg_auth c)) \<noteq> []
    \<and> trim_space (auth_audience (cfg_auth c)) \<noteq> []
    \<and> authz_enabled (cfg_authorization c) \<and> ''authorization'' \<in> fst ` set (out_grpc (cfg_outbound c))
    \<and> (swagger_enabled (cfg_swagger c) \<longrightarrow> swagger_require_auth (cfg_swagger c))
    \<and> (os_enabled (cfg_object_storage c) \<longrightarrow> os_use_ssl (cfg_object_storage c)
         \<and> (os_presign_endpoint (cfg_object_storage c) \<noteq> [] \<longrightarrow> os_presign_use_ssl (cfg_object_storage c)))
    \<and> (reg_enabled (cfg_service_registry c) \<longrightarrow> tls_enabled (reg_tls (cfg_service_registry c))
         \<and> tls_enabled (pc_tls (cfg_provider_client c)) \<and> \<not> reg_allow_insecure (cfg_service_registry c)
         \<and> \<not> pc_allow_insecure (cfg_provider_client c))
    \<and> (\<forall>(name, u) \<in> set (out_grpc (cfg_outbound c)). ca_type (gu_auth u) \<noteq> [] \<longrightarrow>
         tls_enabled (gu_tls u) \<and> \<not> tls_allow_insecure (gu_tls u))
    \<and> (\<forall>(name, u) \<in> set (out_http (cfg_outbound c)). ca_type (hu_auth u) \<noteq> [] \<longrightarrow>
         tls_enabled (hu_tls u) \<and> \<not> tls_allow_insecure (hu_tls u))"
proof -
  have valid: "validate_config c = None" using load_ok [OF assms(1)] by simp
  have env: "app_env (cfg_app c) = ''production'' \<and> run_active_profile (cfg_runtime c) = ''production''"
    using load_ok(3,5) [OF assms(1)] assms(2) by simp
  then have prd: "production c" by (simp add: production_def)
  note parts = validate_parts [OF valid]
  have clients: "\<forall>(name, u) \<in> set (out_grpc (cfg_outbound c)). ca_type (gu_auth u) \<noteq> [] \<longrightarrow>
      tls_enabled (gu_tls u) \<and> \<not> tls_allow_insecure (gu_tls u)"
    "\<forall>(name, u) \<in> set (out_http (cfg_outbound c)). ca_type (hu_auth u) \<noteq> [] \<longrightarrow>
      tls_enabled (hu_tls u) \<and> \<not> tls_allow_insecure (hu_tls u)"
    using checked_clients(1,2) [OF parts(6)] check_client_None(1) prd by fastforce+
  have "(grpc_enabled (cfg_grpc c) \<longrightarrow> gtls_enabled (grpc_tls (cfg_grpc c))) \<and> \<not> grpc_reflection_enabled (cfg_grpc c)"
    using parts(1) prd by (simp add: check_servers_def)
  moreover have "trim_space (auth_jwks_url (cfg_auth c)) \<noteq> [] \<and> trim_space (auth_issuer (cfg_auth c)) \<noteq> []
    \<and> trim_space (auth_audience (cfg_auth c)) \<noteq> []
    \<and> authz_enabled (cfg_authorization c) \<and> ''authorization'' \<in> fst ` set (out_grpc (cfg_outbound c))
    \<and> (swagger_enabled (cfg_swagger c) \<longrightarrow> swagger_require_auth (cfg_swagger c))"
    using parts(3) prd by (simp add: check_security_def)
  moreover have "os_enabled (cfg_object_storage c) \<longrightarrow> os_use_ssl (cfg_object_storage c)
      \<and> (os_presign_endpoint (cfg_object_storage c) \<noteq> [] \<longrightarrow> os_presign_use_ssl (cfg_object_storage c))"
    using checked_clients(5) [OF parts(6)] prd by (auto simp: check_object_storage_def)
  moreover have "reg_enabled (cfg_service_registry c) \<longrightarrow> tls_enabled (reg_tls (cfg_service_registry c))
         \<and> tls_enabled (pc_tls (cfg_provider_client c)) \<and> \<not> reg_allow_insecure (cfg_service_registry c)
         \<and> \<not> pc_allow_insecure (cfg_provider_client c)"
    using checked_clients(4) [OF parts(6)] prd by (auto simp: check_registry_def)
  ultimately show ?thesis using clients env by blast
qed

theorem loaded_production_secure_witness:
  "app_env (cfg_app demo_loaded) = ''production'' \<and> gtls_enabled (grpc_tls (cfg_grpc demo_loaded))
    \<and> authz_enabled (cfg_authorization demo_loaded)"
proof -
  have profile: "chosen_profile (demo_sources (with_profile ''development'' demo_production)) '' Production '' = ''production''"
    and "grpc_enabled (cfg_grpc demo_loaded)" by code_simp+
  then show ?thesis using loaded_production_secure [OF demo_loads profile] by blast
qed

section \<open>Limits\<close>

lemma loaded_policies:
  assumes "load_with_profile v path explicit = Inr c"
    and "r \<in> {pc_retry (cfg_provider_client c)} \<union> gu_retry ` snd ` set (out_grpc (cfg_outbound c))
          \<union> hu_retry ` snd ` set (out_http (cfg_outbound c))"
  shows "1 \<le> retry_max_attempts r \<and> retry_max_attempts r \<le> 5 \<and> 0 < retry_initial_backoff r
        \<and> retry_initial_backoff r \<le> retry_max_backoff r"
proof -
  note checked = checked_clients [OF validate_parts(6) [OF load_ok(1) [OF assms(1)]]]
  have policy: "1 \<le> retry_max_attempts r \<and> retry_max_attempts r \<le> 5 \<and> 0 < retry_initial_backoff r
      \<and> retry_initial_backoff r \<le> retry_max_backoff r" if "check_client name a r b t prd = None" for name a r b t prd
    using check_client_None(2-5) [OF that] by blast
  show ?thesis using policy [OF checked(3)] checked(1,2) policy assms(2) by fastforce
qed

text \<open>C34: the numbers a loaded configuration gives to the service and its clients are within their
  bounds. Time to live, timeout, batch size, rows and bytes of an import are positive and a batch has
  at most 10000 rows; with the event bus a message is not delivered again while its job may still
  run; every client makes one to five attempts with a positive, growing delay; and the profile is the
  one that was asked for.\<close>

theorem loaded_limits:
  assumes "load_with_profile v path explicit = Inr c"
  shows "0 < imp_upload_ttl (cfg_import c) \<and> 0 < imp_result_ttl (cfg_import c) \<and> 0 < imp_job_timeout (cfg_import c)
    \<and> 1 \<le> imp_batch_size (cfg_import c) \<and> imp_batch_size (cfg_import c) \<le> 10000
    \<and> 1 \<le> imp_max_rows (cfg_import c) \<and> 1 \<le> imp_max_bytes (cfg_import c)
    \<and> (bus_enabled (cfg_event_bus c) \<longrightarrow> imp_job_timeout (cfg_import c) < bus_consumer_ack_wait (cfg_event_bus c))
    \<and> (\<forall>r \<in> {pc_retry (cfg_provider_client c)} \<union> gu_retry ` snd ` set (out_grpc (cfg_outbound c))
          \<union> hu_retry ` snd ` set (out_http (cfg_outbound c)).
        1 \<le> retry_max_attempts r \<and> retry_max_attempts r \<le> 5 \<and> 0 < retry_initial_backoff r
        \<and> retry_initial_backoff r \<le> retry_max_backoff r)
    \<and> run_active_profile (cfg_runtime c) = chosen_profile v explicit
    \<and> valid_profile (run_active_profile (cfg_runtime c))"
proof -
  note parts = validate_parts [OF load_ok(1) [OF assms]]
  have "\<forall>r \<in> {pc_retry (cfg_provider_client c)} \<union> gu_retry ` snd ` set (out_grpc (cfg_outbound c))
          \<union> hu_retry ` snd ` set (out_http (cfg_outbound c)).
        1 \<le> retry_max_attempts r \<and> retry_max_attempts r \<le> 5 \<and> 0 < retry_initial_backoff r
        \<and> retry_initial_backoff r \<le> retry_max_backoff r"
    using loaded_policies [OF assms] by blast
  moreover have "0 < imp_upload_ttl (cfg_import c) \<and> 0 < imp_result_ttl (cfg_import c) \<and> 0 < imp_job_timeout (cfg_import c)
    \<and> 1 \<le> imp_batch_size (cfg_import c) \<and> imp_batch_size (cfg_import c) \<le> 10000
    \<and> 1 \<le> imp_max_rows (cfg_import c) \<and> 1 \<le> imp_max_bytes (cfg_import c)"
    "bus_enabled (cfg_event_bus c) \<longrightarrow> imp_job_timeout (cfg_import c) < bus_consumer_ack_wait (cfg_event_bus c)"
    using parts(5) by (auto simp: check_imports_def)
  ultimately show ?thesis using load_ok(2,3) [OF assms] by blast
qed

theorem loaded_limits_witness:
  "imp_batch_size (cfg_import demo_loaded) \<le> 10000
    \<and> imp_job_timeout (cfg_import demo_loaded) < bus_consumer_ack_wait (cfg_event_bus demo_loaded)"
proof -
  have "bus_enabled (cfg_event_bus demo_loaded)" by code_simp
  then show ?thesis using loaded_limits [OF demo_loads] by blast
qed

section \<open>The default configuration\<close>

text \<open>The defaults are a valid configuration for development; with the same settings the
  production profile is refused, and the only path without a login is that of the version.\<close>

lemma default_config_valid:
  "validate_config default_config = None
    \<and> validate_config (default_config\<lparr>cfg_app := (cfg_app default_config)\<lparr>app_env := ''production''\<rparr>\<rparr>)
        = Some (ErrText ''grpc tls must be enabled in production'')
    \<and> (matches_any p (auth_skip_http_paths (cfg_auth default_config)) \<longleftrightarrow> p = ''/api/v1/version'')"
proof -
  have "list_all plain (auth_skip_http_paths (cfg_auth default_config))"
    by (simp add: default_config_def plain_def)
  then have "matches_any p (auth_skip_http_paths (cfg_auth default_config)) \<longleftrightarrow> p = ''/api/v1/version''"
    by (simp only: matches_any_plain) (simp add: default_config_def)
  moreover have "validate_config default_config = None" by code_simp
  moreover have "validate_config (default_config\<lparr>cfg_app := (cfg_app default_config)\<lparr>app_env := ''production''\<rparr>\<rparr>)
        = Some (ErrText ''grpc tls must be enabled in production'')" by code_simp
  ultimately show ?thesis by blast
qed

section \<open>Lists in environment variables\<close>

fun joined :: "string list \<Rightarrow> string" where
  "joined [] = []"
| "joined [x] = x"
| "joined (x # xs) = x @ '','' @ joined xs"

text \<open>Items of visible ASCII characters without comma and quotes; \<open>graphic\<close> is what no encoding of a
  space begins or ends with.\<close>

definition graphic :: "char \<Rightarrow> bool" where
  "graphic c \<longleftrightarrow> 33 \<le> (of_char c :: nat) \<and> (of_char c :: nat) \<le> 126"

definition plain_item :: "string \<Rightarrow> bool" where
  "plain_item x \<longleftrightarrow> x \<noteq> [] \<and> list_all (\<lambda>c. graphic c \<and> c \<noteq> CHR '','' \<and> \<not> is_quote c) x"

lemma plain_item_comma: "plain_item x \<Longrightarrow> CHR '','' \<notin> set x"
  by (auto simp: plain_item_def list_all_iff)

lemma split_joined: "xs \<noteq> [] \<Longrightarrow> list_all plain_item xs \<Longrightarrow> split_at CHR '','' (joined xs) = xs"
  by (induction xs rule: joined.induct) (simp_all add: plain_item_comma split_at_append)

lemma lead_graphic: "graphic c \<Longrightarrow> lead space_encodings (c # s) = 0 \<and> lead (map rev space_encodings) (c # s) = 0"
proof -
  have "\<forall>e \<in> set space_encodings \<union> set (map rev space_encodings). e \<noteq> [] \<longrightarrow> \<not> graphic (hd e)"
    by code_simp
  moreover have "lead es (c # s) = 0" if "\<forall>e \<in> set es. e \<noteq> [] \<longrightarrow> \<not> graphic (hd e)" and "graphic c" for es
    using that
  proof (induction es)
    case (Cons e es)
    then show ?case by (cases e) auto
  qed simp
  moreover assume "graphic c"
  ultimately show ?thesis by (simp add: Ball_def)
qed

lemma trim_space_graphic:
  assumes "graphic (hd s)" and "graphic (last s)" and "s \<noteq> []"
  shows "trim_space s = s"
proof -
  from assms have "lead space_encodings s = 0" by (metis lead_graphic list.collapse)
  moreover have "lead (map rev space_encodings) (rev s) = 0"
    using assms by (metis lead_graphic hd_rev list.collapse rev_is_Nil_conv)
  ultimately show ?thesis by (simp add: trim_space_def trim_right_def trim_left_fixed)
qed

lemma plain_item_ends:
  assumes "plain_item x"
  shows "graphic (hd x)" and "graphic (last x)" and "trim_space x = x" and "trim_quotes x = x"
proof -
  from assms show ends: "graphic (hd x)" "graphic (last x)" by (auto simp: plain_item_def list_all_iff)
  with assms show "trim_space x = x" by (simp add: trim_space_graphic plain_item_def)
  have "\<not> is_quote (hd x)" "\<not> is_quote (last x)" using assms by (auto simp: plain_item_def list_all_iff)
  then show "trim_quotes x = x"
    using assms by (simp add: trim_quotes_def dropWhile_eq_self_iff [THEN iffD2] hd_rev plain_item_def)
qed

lemma joined_ends:
  "list_all plain_item xs \<Longrightarrow> xs \<noteq> [] \<Longrightarrow> joined xs \<noteq> [] \<and> graphic (hd (joined xs)) \<and> graphic (last (joined xs))"
proof (induction xs rule: joined.induct)
  case (2 x)
  then show ?case by (auto simp: plain_item_ends) (simp add: plain_item_def)
next
  case (3 x y xs)
  then have "x \<noteq> []" by (simp add: plain_item_def)
  with 3 show ?case by (simp add: plain_item_ends)
qed simp

text \<open>A list in an environment variable is read as it was written: items of visible characters
  without comma and quotes, joined by commas between brackets, are the list the setting gets.\<close>

lemma string_slice_joined:
  assumes "list_all plain_item xs"
  shows "string_slice (''['' @ joined xs @ '']'') = xs"
proof -
  have outer: "trim_space (''['' @ joined xs @ '']'') = ''['' @ joined xs @ '']''"
    by (rule trim_space_graphic) (simp_all add: graphic_def)
  have brackets: "has_prefix (''['' @ joined xs @ '']'') ''['' \<and> has_suffix (''['' @ joined xs @ '']'') '']''"
    by (simp add: has_prefix_def has_suffix_def)
  have inner: "trim_space (joined xs) = joined xs"
    using joined_ends [OF assms] by (cases "xs = []") (simp_all add: trim_space_graphic)
  have items: "map (\<lambda>v. trim_quotes (trim_space v)) xs = xs"
    using assms by (induction xs) (simp_all add: plain_item_ends)
  show ?thesis
    using outer brackets inner items joined_ends [OF assms] split_joined [OF _ assms]
    by (cases "xs = []") (simp_all add: string_slice_def Let_def)
qed

lemma string_slice_joined_witness:
  "string_slice (''['' @ joined [''10.0.0.1'', ''::1''] @ '']'') = [''10.0.0.1'', ''::1'']"
  by (rule string_slice_joined) code_simp

end
