(* ===== verification/Provider_Properties.thy ===== *)
theory Provider_Properties
  imports Provider_Correct Provider_Catalog Config_Properties
begin

text \<open>
  The properties of the provider client, with an example of an environment for the witnesses: two
  instances of one service, a first attempt that fails.
\<close>

section \<open>An example\<close>

definition demo_dataset :: metadata_dataset where
  "demo_dataset = \<lparr>md_code = ''users'', md_title = ''Users'', md_formats = [''csv''],
     md_max_batch_size = 500, md_supports_dry_run = True\<rparr>"

definition demo_instance :: "string \<Rightarrow> string \<Rightarrow> service_instance" where
  "demo_instance i host = \<lparr>si_instance_id = i, si_service_name = ''crm'',
     si_endpoint = ''grpc://'' @ host @ '':1'', si_metadata = []\<rparr>"

definition demo_instances :: "service_instance list" where
  "demo_instances = [demo_instance ''a'' ''a.p'',
     demo_instance ''b'' ''b.p'']"

definition demo_files :: tls_files where
  "demo_files = \<lparr>tf_read = (\<lambda>_. Inr ''pem''), tf_pool = (\<lambda>_. True), tf_key_pair = (\<lambda>_ _. Inr ''cert'')\<rparr>"

definition demo_client :: provider_client_config where
  "demo_client = (cfg_provider_client default_config)\<lparr>pc_psk := ''secret'', pc_dns_suffixes := [''.P''], pc_tls := demo_tls\<rparr>"

definition demo_env :: provider_env where
  "demo_env = \<lparr>pe_config = demo_client, pe_metrics = False, pe_files = demo_files, pe_static = (\<lambda>_. False),
     pe_discovery = Some (\<lambda>_. Inr demo_instances), pe_parse = (\<lambda>_. Inr [demo_dataset]),
     pe_new_client = (\<lambda>_ _. None), pe_close = (\<lambda>_. None),
     pe_open = (\<lambda>_ _ _. None),
     pe_send = (\<lambda>_ _. None), pe_recv_validate = (\<lambda>_. Inr \<lparr>vp_batch_number = 1, vp_normalized_rows = [], vp_issues = []\<rparr>),
     pe_recv_apply = (\<lambda>k. if k < 10 then Inl (Sentinel IoEOF) else Inr \<lparr>ap_batch_number = 1, ap_applied_rows = 2, ap_issues = []\<rparr>),
     pe_close_send = (\<lambda>_. None), pe_describe = (\<lambda>_ _ _. Inr None), pe_ctx = (\<lambda>_. None), pe_wait = (\<lambda>_ _. None),
     pe_struct = (\<lambda>_. Inr ''row''), pe_as_map = (\<lambda>_. Map.empty)\<rparr>"

definition demo_session :: provider_session where
  "demo_session = \<lparr>ss_kind = ApplyRows, ss_tenant = ''t'', ss_application = ''a'', ss_dataset = ''users'',
     ss_service = ''crm'', ss_instance = None, ss_stream = None\<rparr>"

definition demo_request :: apply_batch_request where
  "demo_request = \<lparr>ab_tenant_id = ''t'', ab_application_id = ''a'', ab_dataset_code = ''users'', ab_job_id = ''j'',
     ab_idempotency_key = ''j:apply:1'', ab_batch_number = 1, ab_rows = [Map.empty, Map.empty]\<rparr>"

definition demo_applied :: provider_state where
  "demo_applied = snd (snd (session_apply_batch demo_env demo_request demo_session empty_provider))"

definition demo_view :: "provider_state \<Rightarrow> nat list \<times> nat \<times> (nat \<times> string) list" where
  "demo_view p = (cached_ids p, length (sent (ps_log p)), map (\<lambda>(n, options). (n, do_target options)) (dialed (ps_log p)))"

lemma demo_applied_view: "demo_view demo_applied = ([0, 1], 2, [(0, ''a.p:1''), (1, ''b.p:1'')])"
  by code_simp

lemma demo_applied_eval:
  "cached_ids demo_applied = [0, 1]" "length (sent (ps_log demo_applied)) = 2"
  "map (\<lambda>(n, options). (n, do_target options)) (dialed (ps_log demo_applied)) = [(0, ''a.p:1''), (1, ''b.p:1'')]"
  using demo_applied_view by (simp_all add: demo_view_def)

section \<open>Batches\<close>

text \<open>C35: a batch that is applied reaches the provider as one message, at most once per attempt.
  Whatever fails in between, everything that is sent is the same message with the request's
  idempotency key, batch number and rows, at most as often as the policy has attempts; and a result
  without error is the provider's answer to this very batch, for the session's own tenant,
  application and dataset.\<close>

theorem apply_sends_one_message:
  assumes "session_apply_batch v r s p = (result, s', p')"
  shows "\<exists>n rows. n \<le> provider_attempts v
    \<and> sent (ps_log p') = sent (ps_log p) @ replicate n (ApplyMessage \<lparr>am_tenant_id = ab_tenant_id r,
        am_application_id = ab_application_id r, am_dataset_code = ab_dataset_code r, am_job_id = ab_job_id r,
        am_batch_number = ab_batch_number r, am_rows = rows, am_idempotency_key = ab_idempotency_key r\<rparr>)
    \<and> (\<forall>x. result = Inr x \<longrightarrow> 1 \<le> n \<and> proto_rows (pe_struct v) (ab_rows r) = Inr rows
        \<and> (ab_tenant_id r, ab_application_id r, ab_dataset_code r) = (ss_tenant s, ss_application s, ss_dataset s)
        \<and> (\<exists>k response. pe_recv_apply v k = Inr response \<and> ap_batch_number response = ab_batch_number r
             \<and> x = apply_result response))"
proof (cases "ab_tenant_id r \<noteq> ss_tenant s \<or> ab_application_id r \<noteq> ss_application s \<or> ab_dataset_code r \<noteq> ss_dataset s")
  case True
  with assms show ?thesis by (intro exI [of _ 0]) (auto simp: session_apply_batch_def)
next
  case same: False
  show ?thesis
  proof (cases "proto_rows (pe_struct v) (ab_rows r)")
    case (Inl e)
    with assms same show ?thesis by (intro exI [of _ 0]) (auto simp: session_apply_batch_def)
  next
    case (Inr rows)
    let ?m = "apply_message_of r rows"
    obtain a s1 p1 where run: "stream_loop v ?m (pe_recv_apply v) (provider_attempts v - 1) 1 s p = (a, s1, p1)"
      by (metis prod_cases3)
    have "0 < provider_attempts v" by (simp add: provider_attempts_def)
    with stream_loop_sent [OF run] obtain n where n: "n \<le> provider_attempts v"
      "sent (ps_log p1) = sent (ps_log p) @ replicate n ?m" "(\<exists>x. a = Inr x) \<longrightarrow> 1 \<le> n" by auto
    from assms same Inr run have "sent (ps_log p') = sent (ps_log p1)"
      by (auto simp: session_apply_batch_def Let_def split: sum.splits if_splits)
    moreover have "\<exists>response. a = Inr response \<and> ap_batch_number response = ab_batch_number r \<and> x = apply_result response"
      if "result = Inr x" for x
      using assms same Inr run that by (auto simp: session_apply_batch_def Let_def split: sum.splits if_splits)
    ultimately show ?thesis
      using n same Inr run stream_loop_recv by (intro exI [of _ n] exI [of _ rows]) (fastforce simp: apply_message_of_def)
  qed
qed

theorem apply_sends_one_message_witness:
  "\<exists>n rows. n \<le> 3 \<and> sent (ps_log demo_applied) = replicate n (ApplyMessage \<lparr>am_tenant_id = ''t'',
     am_application_id = ''a'', am_dataset_code = ''users'', am_job_id = ''j'', am_batch_number = 1, am_rows = rows,
     am_idempotency_key = ''j:apply:1''\<rparr>)"
proof -
  obtain result s' where run: "session_apply_batch demo_env demo_request demo_session empty_provider = (result, s', demo_applied)"
    unfolding demo_applied_def by (metis prod.collapse)
  have "provider_attempts demo_env = 3" by code_simp
  then show ?thesis using apply_sends_one_message [OF run] by (auto simp: demo_request_def empty_provider_def)
qed

section \<open>Instances in turn\<close>

text \<open>Calls take the instances in turn. As many consecutive choices as there are candidates
  choose each of them exactly once, as long as the 64-bit cursor does not wrap around.\<close>

lemma turns_are_fair:
  assumes "cs \<noteq> []" and "length cs < 2 ^ 64" and "unat (ps_cursor p) + length cs \<le> 2 ^ 64"
  shows "mset (picks cs (length cs) p) = mset cs"
  by (simp only: picks_nth [OF assms(1,3,2)] mset_turn [OF assms(1)])

lemma turns_are_fair_witness:
  "mset (picks demo_instances (length demo_instances) (empty_provider\<lparr>ps_cursor := 7\<rparr>)) = mset demo_instances"
  by (rule turns_are_fair) (simp_all add: demo_instances_def)

section \<open>Connections\<close>

text \<open>C36: the client loses no connection. After any history of calls every connection that was
  dialed is in the cache or has been closed, none is closed twice or still in the cache after that, and
  an instance has one connection; \<open>Close\<close> closes those that are left.\<close>

theorem no_connection_lost:
  assumes "provider_history v p"
  shows "set (cached_ids p) \<union> set (closed (ps_log p)) = set (map fst (dialed (ps_log p)))
    \<and> distinct (cached_ids p @ closed (ps_log p)) \<and> distinct (map fst (ps_connections p))
    \<and> (\<forall>registry e p'. provider_close v registry p = (e, p') \<longrightarrow> ps_connections p' = []
         \<and> set (closed (ps_log p')) = set (map fst (dialed (ps_log p'))) \<and> distinct (closed (ps_log p')))"
proof -
  have a: "accounted p" using history_accounted [OF assms] by blast
  have "ps_connections p' = [] \<and> set (closed (ps_log p')) = set (map fst (dialed (ps_log p'))) \<and> distinct (closed (ps_log p'))"
    if "provider_close v registry p = (e, p')" for registry e p'
    using provider_close_log [OF that] a by (auto simp: accounted_def)
  with a show ?thesis by (simp add: accounted_def)
qed

lemma demo_history: "provider_history demo_env demo_applied"
proof -
  obtain result s' where run: "session_apply_batch demo_env demo_request demo_session empty_provider = (result, s', demo_applied)"
    unfolding demo_applied_def by (metis prod.collapse)
  from hist_apply [OF hist_new this] show ?thesis .
qed

theorem no_connection_lost_witness:
  "cached_ids demo_applied = [0, 1] \<and> set (closed (ps_log (snd (provider_close demo_env True demo_applied)))) = {0, 1}"
proof -
  obtain e p' where close: "provider_close demo_env True demo_applied = (e, p')" by fastforce
  have "map fst (dialed (ps_log demo_applied)) = map fst [(0 :: nat, ''a.p:1''),
      (1, ''b.p:1'')]"
    using demo_applied_eval(3) by (metis (no_types, lifting) case_prod_beta fst_conv map_map comp_apply map_cong)
  then have "set (map fst (dialed (ps_log p'))) = {0, 1}"
    using provider_close_log(2) [OF close] by simp
  moreover have "set (closed (ps_log p')) = set (map fst (dialed (ps_log p')))"
    using no_connection_lost [OF demo_history] close by blast
  ultimately show ?thesis using demo_applied_eval close by simp
qed

section \<open>Addresses\<close>

text \<open>C37: the client connects to the domains of its allowlist only. Every connection that was ever
  dialed went to a host name with a port, no address and not \<open>localhost\<close>, that an entry of the
  allowlist allows: the host is the domain of an entry that begins with a dot, or below it; for an
  entry without the dot, its lower-case text without a final dot ends with the text of the entry, which
  need not be at the border of a label. And the key of the client was not handed to a connection
  without TLS unless \<open>allow_insecure\<close> is set.\<close>

theorem dialed_targets_allowed:
  assumes "provider_history v p" and "(n, options) \<in> set (dialed (ps_log p))"
  shows "(\<exists>host port a. split_host_port (trim_prefix (do_target options) ''dns:///'') = Some (host, port)
      \<and> port \<noteq> [] \<and> \<not> parse_ip host \<and> \<not> equal_fold host ''localhost''
      \<and> a \<in> (\<lambda>a. to_lower (trim_space a)) ` set (pc_dns_suffixes (pe_config v)) \<and> a \<noteq> []
      \<and> (if has_prefix a ''.'' then within_domain (to_lower (trim_suffix host ''.'')) (tl a)
         else \<exists>label. to_lower (trim_suffix host ''.'') = label @ a))
    \<and> (pc_psk (pe_config v) \<noteq> [] \<longrightarrow> do_transport options \<noteq> InsecureTransport \<or> pc_allow_insecure (pe_config v))"
proof -
  from history_accounted [OF assms(1)] assms(2) obtain service target
    where t: "validate_import_provider_target target (pc_dns_suffixes (pe_config v)) = None"
      and d: "dial (pe_files v) (provider_dial_config v service target) = Inr options"
    by (auto simp: dialed_ok_def allowed_options_def)
  from target_ok [OF t] obtain host port a where h: "split_host_port (trim_prefix target ''dns:///'') = Some (host, port)"
    "port \<noteq> []" "\<not> parse_ip host" "\<not> equal_fold host ''localhost''" "a \<in> set (pc_dns_suffixes (pe_config v))"
    "suffix_allows (to_lower (trim_suffix host ''.'')) a" by metis
  let ?a = "to_lower (trim_space a)"
  have "?a \<noteq> [] \<and> (if has_prefix ?a ''.'' then within_domain (to_lower (trim_suffix host ''.'')) (tl ?a)
      else \<exists>label. to_lower (trim_suffix host ''.'') = label @ ?a)"
  proof (cases "has_prefix ?a ''.''")
    case True
    then obtain domain where domain: "?a = CHR ''.'' # domain" by (auto simp: has_prefix_iff)
    with suffix_allows_domain [OF domain] h(6) True show ?thesis by simp
  next
    case False
    with h(6) show ?thesis
      by (auto simp: suffix_allows_def trim_prefix_def has_suffix_iff Let_def intro: exI [of _ "[]"])
  qed
  moreover have "?a \<in> (\<lambda>a. to_lower (trim_space a)) ` set (pc_dns_suffixes (pe_config v))" using h(5) by blast
  moreover have "do_target options = target" using dial_ok(3) [OF d] by (simp add: provider_dial_config_def Let_def)
  moreover have "pc_psk (pe_config v) \<noteq> [] \<longrightarrow> do_transport options \<noteq> InsecureTransport \<or> pc_allow_insecure (pe_config v)"
    using dial_ok(1,5) [OF d] by (auto simp: provider_dial_config_def Let_def)
  ultimately show ?thesis using h(1-4) by blast
qed

theorem dialed_targets_allowed_witness:
  "\<exists>host port. split_host_port (trim_prefix ''a.p:1'' ''dns:///'') = Some (host, port)
     \<and> within_domain (to_lower (trim_suffix host ''.'')) ''p''"
proof -
  from demo_applied_eval obtain options where o: "(0, options) \<in> set (dialed (ps_log demo_applied))"
    "do_target options = ''a.p:1''" by (auto simp: map_eq_Cons_conv)
  have "(\<lambda>a. to_lower (trim_space a)) ` set (pc_dns_suffixes (pe_config demo_env)) = {''.p''}" by code_simp
  with dialed_targets_allowed [OF demo_history o(1)] o(2) show ?thesis by (auto simp: has_prefix_iff)
qed

text \<open>Without the dot an entry of the allowlist is no domain: any host whose name ends with its
  text is allowed, as the check compares bytes and not labels.\<close>

lemma undotted_suffix_allows_foreign_host:
  "validate_import_provider_target ''evilplatform.local:443'' [''platform.local''] = None
    \<and> \<not> within_domain ''evilplatform.local'' ''platform.local''"
proof
  show "validate_import_provider_target ''evilplatform.local:443'' [''platform.local''] = None" by code_simp
  show "\<not> within_domain ''evilplatform.local'' ''platform.local''"
    by code_simp
qed

section \<open>The catalog\<close>

text \<open>C38: the catalog has one line per service and dataset that some instance offers and the search
  keeps, strictly ordered by service and code, and each line counts its instances (modulo 2 to the
  32nd). An instance whose metadata cannot be read offers nothing.\<close>

theorem catalog_counts_offers:
  shows "sorted_wrt (<) (map summary_key (summarize_datasets parse instances search))
    \<and> set (map summary_key (summarize_datasets parse instances search))
        = set (map offer_key (offers parse (to_lower (trim_space search)) instances))
    \<and> (\<forall>s \<in> set (summarize_datasets parse instances search). ds_healthy_instances s
        = of_nat (length (filter (\<lambda>o'. offer_key o' = summary_key s)
            (offers parse (to_lower (trim_space search)) instances))))"
  using catalog_lines by blast

theorem catalog_counts_offers_witness:
  "map ds_healthy_instances (summarize_datasets (\<lambda>_. Inr [demo_dataset]) demo_instances '' USER '') = [2]"
proof -
  obtain s where s: "summarize_datasets (\<lambda>_. Inr [demo_dataset]) demo_instances '' USER '' = [s]"
  proof
    show "summarize_datasets (\<lambda>_. Inr [demo_dataset]) demo_instances '' USER ''
      = [hd (summarize_datasets (\<lambda>_. Inr [demo_dataset]) demo_instances '' USER '')]" by code_simp
  qed
  have "summary_key s = (''crm'', ''users'')
    \<and> length (filter (\<lambda>o'. offer_key o' = (''crm'', ''users'')) (offers (\<lambda>_. Inr [demo_dataset]) (to_lower (trim_space '' USER '')) demo_instances)) = 2"
  proof
    have "map summary_key (summarize_datasets (\<lambda>_. Inr [demo_dataset]) demo_instances '' USER '') = [(''crm'', ''users'')]" by code_simp
    then show "summary_key s = (''crm'', ''users'')" by (simp add: s)
  qed code_simp
  then show ?thesis
    using catalog_counts_offers [of "\<lambda>_. Inr [demo_dataset]" demo_instances "'' USER ''"] by (simp add: s)
qed

lemma slice_min:
  assumes "0 \<le> x" and "0 \<le> z"
  shows "take (nat (min (x + z) (int (length xs)) - x)) (drop (nat x) xs) = take (nat z) (drop (nat x) xs)"
proof (cases "x + z \<le> int (length xs)")
  case False
  with assms have "length (drop (nat x) xs) \<le> nat (int (length xs) - x)" "length (drop (nat x) xs) \<le> nat z" by auto
  with False show ?thesis by (simp add: min_def)
qed (use assms in \<open>simp add: min_def\<close>)

text \<open>\<open>ListDatasets\<close> answers a page of the catalog. While the 32-bit product of page and size does
  not overflow, the answer is that slice of the catalog with the length of the whole, and it has
  at most 100 entries.\<close>

lemma catalog_page:
  assumes "pe_discovery v = Some instances" and "instances (ps_calls p) = Inr listed"
    and "normalize_catalog_page page page_size = (n, size')" and "(sint n - 1) * sint size' < 2 ^ 31"
  shows "fst (list_datasets v search page page_size p) = Some (Inr
      (take (nat (sint size')) (drop (nat ((sint n - 1) * sint size')) (summarize_datasets (pe_parse v) listed search)),
       int (length (summarize_datasets (pe_parse v) listed search))))
    \<and> 1 \<le> sint size' \<and> sint size' \<le> 100"
proof -
  have one: "sint (1 :: i32) = 1" "sint (20 :: i32) = 20" "sint (100 :: i32) = 100" by simp_all
  from assms(3) have size': "1 \<le> sint size'" "sint size' \<le> 100" and n: "1 \<le> sint n"
    by (auto simp: normalize_catalog_page_def split: if_splits)
  have prod': "of_int ((sint n - 1) * sint size') = (n - 1) * size'" by simp
  have "0 \<le> (sint n - 1) * sint size'" using n size' by simp
  then have start: "sint ((n - 1) * size') = (sint n - 1) * sint size'"
    using assms(4) sint_i32_of_int [of "(sint n - 1) * sint size'"] unfolding prod' by simp
  define x z where "x = (sint n - 1) * sint size'" and "z = sint size'"
  have xz: "0 \<le> x" "1 \<le> z" "sint ((n - 1) * size') = x" using n size' start by (simp_all add: x_def z_def)
  have "fst (list_datasets v search page page_size p) = Some (Inr
      (take (nat z) (drop (nat x) (summarize_datasets (pe_parse v) listed search)),
       int (length (summarize_datasets (pe_parse v) listed search))))"
    using assms(1-3) xz by (simp add: list_datasets_def provider_call_def Let_def z_def [symmetric] slice_min)
  with size' show ?thesis by (simp add: x_def z_def)
qed

lemma catalog_page_witness:
  "fst (list_datasets demo_env [] 1 0 empty_provider)
     = Some (Inr (take 20 (drop 0 (summarize_datasets (pe_parse demo_env) demo_instances [])),
         int (length (summarize_datasets (pe_parse demo_env) demo_instances []))))"
  using catalog_page [of demo_env "\<lambda>_. Inr demo_instances" empty_provider demo_instances 1 0 1 20 "[]"]
  by (simp add: demo_env_def empty_provider_def normalize_catalog_page_def)

text \<open>A page number so large that the 32-bit product becomes negative makes \<open>ListDatasets\<close> slice
  out of range, which is a panic.\<close>

lemma catalog_page_panics:
  shows "fst (list_datasets demo_env [] 21474838 100 empty_provider) = None"
  by code_simp

section \<open>Retries\<close>

text \<open>What an attempt to open a stream can do: it makes calls, it keeps what the session is for, and if it
  succeeds the stream goes to the static upstream, or to the connection of an instance that offers
  the dataset.\<close>

definition session_for :: "provider_session \<Rightarrow> provider_session \<Rightarrow> bool" where
  "session_for s s' \<longleftrightarrow> ss_kind s' = ss_kind s \<and> ss_tenant s' = ss_tenant s \<and> ss_application s' = ss_application s
     \<and> ss_dataset s' = ss_dataset s \<and> ss_service s' = ss_service s"

definition stream_to_provider :: "provider_env \<Rightarrow> provider_session \<Rightarrow> bool" where
  "stream_to_provider v s \<longleftrightarrow> (case pe_discovery v of
       None \<Rightarrow> pe_static v (ss_service s) \<and> ss_stream s = Some (Upstream (ss_service s))
     | Some _ \<Rightarrow> \<exists>i n. ss_instance s = Some i \<and> ss_stream s = Some (DialedConn n) \<and> si_service_name i = ss_service s
         \<and> supports_import_dataset (pe_parse v) (si_metadata i) (ss_dataset s)
         \<and> validate_import_provider_target (endpoint_target (si_endpoint i)) (pc_dns_suffixes (pe_config v)) = None)"

lemma calls_connect:
  "connect_instance v service i target p = (r, p') \<Longrightarrow> ps_calls p \<le> ps_calls p'"
  by (auto simp: connect_instance_def provider_dial_def drop_cached_def close_connection_def provider_call_def provider_log_def
      split: option.splits sum.splits prod.splits)

lemma pick_candidate_mem:
  assumes "pick_candidate cs p = (i, p')" and "cs \<noteq> []" and "length cs < 2 ^ 64"
  shows "i \<in> set cs" and "ps_calls p' = ps_calls p"
proof -
  have len: "unat (of_nat (length cs) :: u64) = length cs" using assms(3) by (simp add: unat_of_nat take_bit_nat_eq_self)
  with assms(2) have "(of_nat (length cs) :: u64) \<noteq> 0" by (metis length_0_conv unat_0)
  then have "unat (ps_cursor p mod of_nat (length cs)) < length cs"
    using len by (metis unat_mod_distrib mod_less_divisor assms(2) length_greater_0_conv)
  with assms(1) show "i \<in> set cs" "ps_calls p' = ps_calls p" by (auto simp: pick_candidate_def)
qed

text \<open>The outside from a call on: it lists instances of the service with the dataset, all of them at
  addresses that may be dialed, or has the static upstream; and connections and streams open.\<close>

definition serves_from :: "provider_env \<Rightarrow> stream_kind \<Rightarrow> string \<Rightarrow> string \<Rightarrow> nat \<Rightarrow> bool" where
  "serves_from v kind service dataset k0 \<longleftrightarrow> (\<forall>k \<ge> k0. (\<forall>c. pe_open v k kind c = None)
     \<and> (case pe_discovery v of
          None \<Rightarrow> pe_static v service
        | Some instances \<Rightarrow> (\<forall>options. pe_new_client v k options = None)
            \<and> (\<exists>listed. instances k = Inr listed \<and> candidates v service dataset listed \<noteq> []
                \<and> (\<forall>i \<in> set (candidates v service dataset listed).
                     validate_import_provider_target (endpoint_target (si_endpoint i)) (pc_dns_suffixes (pe_config v)) = None
                     \<and> (\<exists>options. dial (pe_files v) (provider_dial_config v service (endpoint_target (si_endpoint i)))
                          = Inr options)))))"

text \<open>A slice of Go is shorter than that.\<close>

definition lists_fit :: "provider_env \<Rightarrow> bool" where
  "lists_fit v \<longleftrightarrow> (\<forall>instances k listed. pe_discovery v = Some instances \<longrightarrow> instances k = Inr listed
     \<longrightarrow> length listed < 2 ^ 64)"

lemma client_discovered:
  assumes "pe_discovery v = Some instances" and "lists_fit v"
    and "provider_client v service dataset p = (r, p')"
  shows "ps_calls p \<le> ps_calls p'"
    and "r = Inr (c, i) \<Longrightarrow> \<exists>x n. i = Some x \<and> c = DialedConn n \<and> si_service_name x = service
      \<and> supports_import_dataset (pe_parse v) (si_metadata x) dataset
      \<and> validate_import_provider_target (endpoint_target (si_endpoint x)) (pc_dns_suffixes (pe_config v)) = None"
proof -
  let ?k = "ps_calls p"
  have both: "ps_calls p \<le> ps_calls p' \<and> (\<forall>c i. r = Inr (c, i) \<longrightarrow> (\<exists>x n. i = Some x \<and> c = DialedConn n \<and> si_service_name x = service
      \<and> supports_import_dataset (pe_parse v) (si_metadata x) dataset
      \<and> validate_import_provider_target (endpoint_target (si_endpoint x)) (pc_dns_suffixes (pe_config v)) = None))"
  proof (cases "instances ?k")
    case (Inl e)
    with assms(1,3) show ?thesis by (auto simp: provider_client_def provider_call_def)
  next
    case (Inr listed)
    let ?cs = "candidates v service dataset listed"
    show ?thesis
    proof (cases "?cs = []")
      case True
      with Inr assms(1,3) show ?thesis by (auto simp: provider_client_def provider_call_def)
    next
      case False
      obtain x p1 where pick: "pick_candidate ?cs (p\<lparr>ps_calls := Suc ?k\<rparr>) = (x, p1)" by fastforce
      from assms(1,2) Inr have "length listed < 2 ^ 64" by (auto simp: lists_fit_def)
      then have "length ?cs < 2 ^ 64" using le_less_trans [OF length_filter_le] by (auto simp: candidates_def)
      note x = pick_candidate_mem [OF pick False this]
      let ?target = "endpoint_target (si_endpoint x)"
      show ?thesis
      proof (cases "validate_import_provider_target ?target (pc_dns_suffixes (pe_config v))")
        case (Some e)
        with Inr False pick x assms(1,3) show ?thesis
          by (auto simp: provider_client_def provider_call_def Let_def)
      next
        case None
        obtain a p2 where run: "connect_instance v service x ?target p1 = (a, p2)" by fastforce
        with Inr False pick None assms(1,3)
        have r: "r = (case a of Inl e \<Rightarrow> Inl e | Inr n \<Rightarrow> Inr (DialedConn n, Some x))" and p': "p' = p2"
          by (auto simp: provider_client_def provider_call_def Let_def split: sum.splits)
        from calls_connect [OF run] x(2) p' have "ps_calls p \<le> ps_calls p'" by simp
        moreover have "si_service_name x = service \<and> supports_import_dataset (pe_parse v) (si_metadata x) dataset"
          using x(1) by (simp add: candidates_def)
        ultimately show ?thesis using r None by (auto split: sum.splits)
      qed
    qed
  qed
  then show "ps_calls p \<le> ps_calls p'" by blast
  from both show "\<exists>x n. i = Some x \<and> c = DialedConn n \<and> si_service_name x = service
      \<and> supports_import_dataset (pe_parse v) (si_metadata x) dataset
      \<and> validate_import_provider_target (endpoint_target (si_endpoint x)) (pc_dns_suffixes (pe_config v)) = None"
    if "r = Inr (c, i)" using that by blast
qed

lemma client_serves:
  assumes "serves_from v kind service dataset k0" and "k0 \<le> ps_calls p" and "lists_fit v"
  shows "\<exists>c i p'. provider_client v service dataset p = (Inr (c, i), p')"
proof (cases "pe_discovery v")
  case None
  with assms(1) have "pe_static v service" unfolding serves_from_def by fastforce
  with None show ?thesis by (simp add: provider_client_def)
next
  case (Some instances)
  let ?k = "ps_calls p"
  from assms(1,2) Some obtain listed where listed: "instances ?k = Inr listed" "candidates v service dataset listed \<noteq> []"
    and all: "\<forall>i \<in> set (candidates v service dataset listed).
      validate_import_provider_target (endpoint_target (si_endpoint i)) (pc_dns_suffixes (pe_config v)) = None
      \<and> (\<exists>options. dial (pe_files v) (provider_dial_config v service (endpoint_target (si_endpoint i))) = Inr options)"
    by (auto simp: serves_from_def)
  let ?cs = "candidates v service dataset listed"
  obtain x p1 where pick: "pick_candidate ?cs (p\<lparr>ps_calls := Suc ?k\<rparr>) = (x, p1)" by fastforce
  from assms(3) Some listed(1) have "length listed < 2 ^ 64" by (auto simp: lists_fit_def)
  then have "length ?cs < 2 ^ 64" using le_less_trans [OF length_filter_le] by (auto simp: candidates_def)
  note x = pick_candidate_mem [OF pick listed(2) this]
  from all x(1) obtain options where ok: "validate_import_provider_target (endpoint_target (si_endpoint x)) (pc_dns_suffixes (pe_config v)) = None"
    "dial (pe_files v) (provider_dial_config v service (endpoint_target (si_endpoint x))) = Inr options" by blast
  have new: "pe_new_client v k options = None" if "k0 \<le> k" for k options
    using assms(1) Some that by (simp add: serves_from_def)
  have dropped: "k0 \<le> ps_calls (drop_cached v i p1)" for i
    using assms(2) x(2) by (auto simp: drop_cached_def close_connection_def provider_call_def provider_log_def split: option.splits)
  have "\<exists>n p2. connect_instance v service x (endpoint_target (si_endpoint x)) p1 = (Inr n, p2)"
    using ok(2) new [OF dropped]
    by (auto simp: connect_instance_def provider_dial_def provider_call_def split: option.split)
  with Some listed pick ok show ?thesis by (auto simp: provider_client_def provider_call_def Let_def)
qed

lemma reopen_result:
  assumes "reopen v s p = (e, s', p')" and "lists_fit v"
  shows "ps_calls p \<le> ps_calls p'" and "session_for s s'" and "e = None \<Longrightarrow> stream_to_provider v s'"
proof -
  obtain r p1 where client: "provider_client v (ss_service s) (ss_dataset s) p = (r, p1)" by fastforce
  have calls: "ps_calls p \<le> ps_calls p1"
    using client_discovered(1) [OF _ assms(2) client] client
    by (cases "pe_discovery v") (auto simp: provider_client_def split: if_splits)
  with assms(1) client show "ps_calls p \<le> ps_calls p'" "session_for s s'"
    by (auto simp: reopen_def provider_call_def provider_log_def session_for_def split: sum.splits option.splits)
  assume "e = None"
  with assms(1) client obtain c i where r: "r = Inr (c, i)" and s': "s' = s\<lparr>ss_instance := i, ss_stream := Some c\<rparr>"
    by (auto simp: reopen_def provider_call_def split: sum.splits option.splits)
  show "stream_to_provider v s'"
  proof (cases "pe_discovery v")
    case None
    with client r s' show ?thesis by (auto simp: provider_client_def stream_to_provider_def split: if_splits)
  next
    case (Some instances)
    from client_discovered(2) [OF Some assms(2) client r] s' Some show ?thesis by (auto simp: stream_to_provider_def)
  qed
qed

lemma reopen_serves:
  assumes "serves_from v (ss_kind s) (ss_service s) (ss_dataset s) k0" and "k0 \<le> ps_calls p" and "lists_fit v"
  shows "\<exists>s' p'. reopen v s p = (None, s', p')"
proof -
  from client_serves [OF assms] obtain c i p1 where client: "provider_client v (ss_service s) (ss_dataset s) p = (Inr (c, i), p1)"
    by blast
  have "ps_calls p \<le> ps_calls p1"
    using client_discovered(1) [OF _ assms(3) client] client
    by (cases "pe_discovery v") (auto simp: provider_client_def split: if_splits)
  with assms(1,2) have "pe_open v (ps_calls p1) (ss_kind s) c = None" by (simp add: serves_from_def)
  with client show ?thesis by (simp add: reopen_def provider_call_def)
qed

lemma opens_in_time:
  assumes "\<And>i. pe_ctx v i = None" and "\<And>i d. pe_wait v i d = None" and "lists_fit v"
  shows "serves_from v (ss_kind s) (ss_service s) (ss_dataset s) k0 \<Longrightarrow> k0 \<le> ps_calls p + 2 * left \<Longrightarrow>
    \<exists>s' p'. open_provider_session v left attempt s p = (None, s', p') \<and> session_for s s' \<and> stream_to_provider v s'"
proof (induction left arbitrary: attempt s p)
  case 0
  then have "k0 \<le> ps_calls p" by simp
  from reopen_serves [OF "0.prems"(1) this assms(3)] obtain s' p' where run: "reopen v s p = (None, s', p')" by blast
  with reopen_result [OF run assms(3)] show ?case by (subst open_provider_session.simps) simp
next
  case (Suc left)
  obtain e s1 p1 where run: "reopen v s p = (e, s1, p1)" by (metis prod_cases3)
  note res = reopen_result [OF run assms(3)]
  show ?case
  proof (cases e)
    case None
    with run res show ?thesis by (subst open_provider_session.simps) simp
  next
    case (Some x)
    let ?p = "p1\<lparr>ps_calls := Suc (Suc (ps_calls p1))\<rparr>"
    have "open_provider_session v (Suc left) attempt s p = open_provider_session v left (Suc attempt) s1 ?p"
      using run Some assms(1,2)
      by (subst open_provider_session.simps) (simp add: provider_call_def provider_ctx_err_def wait_provider_retry_def)
    moreover have "serves_from v (ss_kind s1) (ss_service s1) (ss_dataset s1) k0"
      using Suc.prems(1) res(2) by (simp add: session_for_def)
    moreover have "k0 \<le> ps_calls ?p + 2 * left" using Suc.prems(2) res(1) by simp
    ultimately show ?thesis using Suc.IH [of s1 ?p "Suc attempt"] res(2) by (auto simp: session_for_def)
  qed
qed

text \<open>C39: a session opens when its provider comes back in time, with static upstreams and with service
  discovery. If the context lasts and no wait fails, and the outside serves (instances with the
  dataset are listed at addresses that may be dialed, or the upstream is configured; connections and
  streams open) from a call on that the policy's attempts reach, each of which makes at least two
  calls, then \<open>OpenValidation\<close> and \<open>OpenApply\<close> return a session for the tenant, application, dataset
  and service that were asked for, whose stream goes to the static upstream, or to an instance of the
  service that offers the dataset.\<close>

theorem session_opens_in_time:
  assumes "\<forall>i. pe_ctx v i = None" and "\<forall>i d. pe_wait v i d = None" and "lists_fit v"
    and "serves_from v kind service dataset (ps_calls p + 2 * j)" and "j < provider_attempts v"
  shows "\<exists>s p'. open_session kind v service tenant application dataset p = (Inr s, p')
    \<and> stream_to_provider v s \<and> ss_kind s = kind \<and> ss_tenant s = tenant \<and> ss_application s = application
    \<and> ss_dataset s = dataset \<and> ss_service s = service"
proof -
  let ?s = "\<lparr>ss_kind = kind, ss_tenant = tenant, ss_application = application, ss_dataset = dataset,
    ss_service = service, ss_instance = None, ss_stream = None\<rparr>"
  have "serves_from v (ss_kind ?s) (ss_service ?s) (ss_dataset ?s) (ps_calls p + 2 * j)" using assms(4) by simp
  moreover have "ps_calls p + 2 * j \<le> ps_calls p + 2 * (provider_attempts v - 1)" using assms(5) by simp
  ultimately obtain s p' where "open_provider_session v (provider_attempts v - 1) 1 ?s p = (None, s, p')"
    "session_for ?s s" "stream_to_provider v s"
    using opens_in_time [of v ?s "ps_calls p + 2 * j" p "provider_attempts v - 1" 1] assms(1-3) by blast
  then show ?thesis by (auto simp: open_session_def session_for_def)
qed

text \<open>Discovery that fails at its first call and lists no instance at its second.\<close>

definition demo_late :: provider_env where
  "demo_late = demo_env\<lparr>pe_discovery := Some (\<lambda>k. if k = 0 then Inl (ErrText ''down'') else if k < 4 then Inr []
     else Inr demo_instances)\<rparr>"

theorem session_opens_in_time_witness:
  "\<exists>s p'. open_session ApplyRows demo_late ''crm'' ''t'' ''a'' ''users'' empty_provider = (Inr s, p')
     \<and> (\<exists>i n. ss_instance s = Some i \<and> si_service_name i = ''crm'' \<and> ss_stream s = Some (DialedConn n))"
proof -
  have "provider_attempts demo_late = 3" by code_simp
  then have left: "2 < provider_attempts demo_late" by simp
  have outside: "pe_open demo_late = (\<lambda>_ _ _. None)" "pe_new_client demo_late = (\<lambda>_ _. None)"
    "pe_ctx demo_late = (\<lambda>_. None)" "pe_wait demo_late = (\<lambda>_ _. None)"
    "pe_discovery demo_late = Some (\<lambda>k. if k = 0 then Inl (ErrText ''down'') else if k < 4 then Inr [] else Inr demo_instances)"
    by (simp_all add: demo_late_def demo_env_def)
  have "list_all (\<lambda>i. validate_import_provider_target (endpoint_target (si_endpoint i)) (pc_dns_suffixes (pe_config demo_late)) = None
      \<and> is_ok (dial (pe_files demo_late) (provider_dial_config demo_late ''crm'' (endpoint_target (si_endpoint i)))))
      (candidates demo_late ''crm'' ''users'' demo_instances)
    \<and> candidates demo_late ''crm'' ''users'' demo_instances \<noteq> []" by code_simp
  then have "serves_from demo_late ApplyRows ''crm'' ''users'' (ps_calls empty_provider + 2 * 2)"
    unfolding serves_from_def by (simp add: outside list_all_iff is_ok_iff empty_provider_def)
  moreover have "lists_fit demo_late" by (auto simp: lists_fit_def outside demo_instances_def split: if_splits)
  ultimately show ?thesis
    using session_opens_in_time [of demo_late ApplyRows "''crm''" "''users''" empty_provider 2 "''t''" "''a''"] left
    by (auto simp: outside stream_to_provider_def)
qed

lemma retry_loop_outcome:
  "retry_loop outcome wait r left attempt err = (e, n) \<Longrightarrow> 0 < left \<Longrightarrow>
     attempt \<le> n \<and> n < attempt + left \<and> (e = outcome n \<or> e \<noteq> None \<and> e = wait n (retry_delay r n))"
proof (induction left arbitrary: attempt err)
  case (Suc left)
  let ?c = "status_code (outcome attempt)"
  show ?case
  proof (cases "?c \<noteq> GrpcUnavailable \<and> ?c \<noteq> GrpcResourceExhausted \<or> left = 0")
    case True
    with Suc.prems(1) show ?thesis by (auto simp: Let_def split: if_splits)
  next
    case False
    then have run: "retry_loop outcome wait r (Suc left) attempt err = (case wait attempt (retry_delay r attempt) of
        Some e \<Rightarrow> (Some e, attempt) | None \<Rightarrow> retry_loop outcome wait r left (Suc attempt) (outcome attempt))"
      by (auto simp: Let_def)
    show ?thesis
    proof (cases "wait attempt (retry_delay r attempt)")
      case None
      with run Suc.prems(1) have "retry_loop outcome wait r left (Suc attempt) (outcome attempt) = (e, n)" by simp
      from Suc.IH [OF this] False show ?thesis by auto
    next
      case (Some f)
      with run Suc.prems(1) show ?thesis by auto
    qed
  qed
qed simp

text \<open>With a loaded configuration a call to another service is made at most five times, and more
  than once only if it carries an idempotency key or its method is listed as safe to repeat. The
  caller gets the outcome of the last invocation or the error of the context it waited in; no wait
  is longer than the policy's maximum, and while doubling stays within 63 bits it is the initial
  delay doubled per attempt.\<close>

lemma retries_bounded:
  assumes "load_with_profile v path explicit = Inr c"
    and "r \<in> {pc_retry (cfg_provider_client c)} \<union> gu_retry ` snd ` set (out_grpc (cfg_outbound c))"
    and "retry_max_backoff r < 2 ^ 63"
    and "retry_interceptor r ctx method outcome wait = (e, n)"
  shows "1 \<le> n \<and> n \<le> 5
    \<and> (1 < n \<longrightarrow> cc_idempotency_key ctx \<noteq> None \<or> (\<exists>p \<in> set (retry_methods r). path_match p method = Inr True))
    \<and> (e = outcome n \<or> e \<noteq> None \<and> e = wait n (retry_delay r n))
    \<and> sint (retry_delay r attempt) \<le> retry_max_backoff r
    \<and> (retry_initial_backoff r * 2 ^ (attempt - 1) < 2 ^ 63 \<longrightarrow>
         sint (retry_delay r attempt) = min (retry_initial_backoff r * 2 ^ (attempt - 1)) (retry_max_backoff r))"
proof -
  have policy: "1 \<le> retry_max_attempts r" "retry_max_attempts r \<le> 5" "0 < retry_initial_backoff r"
    "retry_initial_backoff r \<le> retry_max_backoff r"
    using loaded_policies [OF assms(1)] assms(2) by blast+
  have "1 \<le> n \<and> n \<le> 5 \<and> (1 < n \<longrightarrow> retry_grpc_method ctx method (retry_methods r))
      \<and> (e = outcome n \<or> e \<noteq> None \<and> e = wait n (retry_delay r n))"
  proof (cases "retry_grpc_method ctx method (retry_methods r)")
    case True
    with assms(4) have "retry_loop outcome wait r (nat (retry_max_attempts r)) 1 None = (e, n)"
      by (simp add: retry_interceptor_def)
    from retry_loop_outcome [OF this] policy(1,2) True show ?thesis by auto
  next
    case False
    with assms(4) show ?thesis by (auto simp: retry_interceptor_def)
  qed
  then show ?thesis
    using retry_delay_le [OF policy(3,4) assms(3), of attempt] retry_delay_exact [OF policy(3,4) assms(3), of attempt]
    by (auto simp: retry_grpc_method_def list_ex_iff)
qed

lemma retries_bounded_witness:
  "snd (retry_interceptor (pc_retry (cfg_provider_client demo_loaded))
     \<lparr>cc_deadline = None, cc_request_id = None, cc_idempotency_key = Some ''k'', cc_outgoing = []\<rparr> ''/a/b''
     (\<lambda>k. Some (StatusError GrpcUnavailable [])) (\<lambda>_ _. None)) \<le> 5"
proof -
  have "retry_max_backoff (pc_retry (cfg_provider_client demo_loaded)) < 2 ^ 63"
    by (simp add: demo_loaded_def with_migration_def demo_production_def default_config_def)
  from retries_bounded [OF demo_loads _ this surjective_pairing] show ?thesis by blast
qed

end
