(* ===== verification/Outbound.thy ===== *)
theory Outbound
  imports Config_Types Grpc_Client
begin

text \<open>
  Clients of other services (\<open>internal/outbound/http.go\<close>, \<open>internal/outbound/registry.go\<close>): the checks
  of \<open>NewHTTPClient\<close>, the request that \<open>Do\<close> sends, its retries, and the registry of all clients. The
  URL library, TLS files and the network are parameters. The circuit breaker is a library: a
  function around the call.
\<close>

section \<open>HTTP clients\<close>

text \<open>A parsed URL: scheme, host, the rest.\<close>

record url =
  url_scheme :: string
  url_host :: string
  url_rest :: string

record http_env =
  he_parse :: "string \<Rightarrow> gerr + url"
  he_resolve :: "url \<Rightarrow> url \<Rightarrow> string"
  he_files :: tls_files

text \<open>The transport of a client: the server's name, the roots, the certificate.\<close>

record http_client =
  hc_name :: string
  hc_base_url :: url
  hc_cfg :: http_upstream
  hc_transport :: "string \<times> string option \<times> string option"
  hc_breaker :: bool

definition http_transport :: "tls_files \<Rightarrow> client_tls \<Rightarrow> gerr + string \<times> string option \<times> string option" where
  "http_transport v t = (case (if tls_ca_file t = [] then Inr None
        else case tf_read v (tls_ca_file t) of
            Inl e \<Rightarrow> Inl (Wrapped ''read outbound HTTP CA: '' e [])
          | Inr pem \<Rightarrow> if \<not> tf_pool v pem then Inl (ErrText ''parse outbound HTTP CA'') else Inr (Some pem)) of
       Inl e \<Rightarrow> Inl e
     | Inr roots \<Rightarrow> if tls_cert_file t = [] then Inr (tls_server_name t, roots, None)
         else case tf_key_pair v (tls_cert_file t) (tls_key_file t) of
             Inl e \<Rightarrow> Inl (Wrapped ''load outbound HTTP client certificate: '' e [])
           | Inr certificate \<Rightarrow> Inr (tls_server_name t, roots, Some certificate))"

definition new_http_client :: "http_env \<Rightarrow> string \<Rightarrow> http_upstream \<Rightarrow> gerr + http_client" where
  "new_http_client v name c =
     (if ca_type (hu_auth c) \<noteq> [] \<and> \<not> tls_enabled (hu_tls c)
      then Inl (ErrText ''refusing to send outbound HTTP credentials without TLS'')
      else let invalid = Inl (ErrText (''parse outbound HTTP base URL '' @ go_quote (hu_base_url c))) in
        case he_parse v (hu_base_url c) of
          Inl e \<Rightarrow> invalid
        | Inr base \<Rightarrow> if url_scheme base = [] \<or> url_host base = [] then invalid
            else case http_transport (he_files v) (hu_tls c) of
                Inl e \<Rightarrow> Inl e
              | Inr transport \<Rightarrow> Inr \<lparr>hc_name = name, hc_base_url = base, hc_cfg = c, hc_transport = transport,
                  hc_breaker = brk_enabled (hu_breaker c)\<rparr>)"

section \<open>Requests\<close>

record http_request =
  hr_method :: string
  hr_url :: string
  hr_headers :: "(string \<times> string) list"
  hr_body :: string

record http_response =
  hs_status :: int
  hs_body :: string

text \<open>\<open>Header.Set\<close> and \<open>Header.Get\<close> on canonical keys.\<close>

definition header_set :: "string \<Rightarrow> string \<Rightarrow> (string \<times> string) list \<Rightarrow> (string \<times> string) list" where
  "header_set k x headers = filter (\<lambda>(k', _). k' \<noteq> k) headers @ [(k, x)]"

definition header_get :: "string \<Rightarrow> (string \<times> string) list \<Rightarrow> string" where
  "header_get k headers = (case map_of headers k of None \<Rightarrow> [] | Some x \<Rightarrow> x)"

definition apply_http_auth :: "client_auth \<Rightarrow> (string \<times> string) list \<Rightarrow> (string \<times> string) list" where
  "apply_http_auth a headers =
     (if ca_type a = ''bearer'' then header_set ''Authorization'' (''Bearer '' @ ca_token a) headers
      else if ca_type a = ''psk'' then header_set ''Authorization'' (''PSK '' @ ca_token a) headers
      else headers)"

definition request_of :: "http_client \<Rightarrow> string \<Rightarrow> string \<Rightarrow> string \<Rightarrow> (string \<times> string) list \<Rightarrow> http_request" where
  "request_of c method target body headers = \<lparr>hr_method = method, hr_url = target,
     hr_headers = apply_http_auth (hu_auth (hc_cfg c))
       (if body \<noteq> [] \<and> header_get ''Content-Type'' headers = []
        then header_set ''Content-Type'' ''application/json'' headers else headers),
     hr_body = body\<rparr>"

definition retryable_method :: "call_context \<Rightarrow> string \<Rightarrow> bool" where
  "retryable_method ctx method \<longleftrightarrow>
     method \<in> {''GET'', ''HEAD'', ''OPTIONS'', ''PUT'', ''DELETE''} \<or> cc_idempotency_key ctx \<noteq> None"

definition retryable_http_status :: "int \<Rightarrow> bool" where
  "retryable_http_status s \<longleftrightarrow> s = 429 \<or> s = 502 \<or> s = 503 \<or> s = 504"

text \<open>\<open>float64\<close> of a delay: 53 significant bits, ties to even.\<close>

fun bit_length :: "nat \<Rightarrow> nat" where
  "bit_length n = (if n = 0 then 0 else Suc (bit_length (n div 2)))"

declare bit_length.simps [simp del]

definition round53 :: "int \<Rightarrow> int" where
  "round53 x = (let k = bit_length (nat x) - 53; q = x div 2 ^ k; r = 2 * (x mod 2 ^ k) in
     if k = 0 then x else (if r > 2 ^ k \<or> r = 2 ^ k \<and> odd q then q + 1 else q) * 2 ^ k)"

text \<open>\<open>waitBackoff\<close>; what a conversion beyond 64 bits gives is left open by Go: \<open>huge\<close>.\<close>

definition backoff_delay :: "duration \<Rightarrow> retry_policy \<Rightarrow> nat \<Rightarrow> duration" where
  "backoff_delay huge r attempt = (let x = round53 (retry_initial_backoff r) * 2 ^ (attempt - 1);
     delay = (if x < 2 ^ 63 then x else huge) in
     if delay > retry_max_backoff r then retry_max_backoff r else delay)"

section \<open>Do\<close>

text \<open>The outside of a request: the check of \<open>http.NewRequest\<close>, the answer to the request number
  \<open>k\<close>, whether the context ends while request \<open>k\<close> is waited for, the conversion above.\<close>

record http_calls =
  hx_new_request :: "string \<Rightarrow> string \<Rightarrow> gerr option"
  hx_send :: "nat \<Rightarrow> http_request \<Rightarrow> gerr + http_response"
  hx_wait :: "nat \<Rightarrow> duration \<Rightarrow> gerr option"
  hx_huge :: duration

text \<open>The loop with the number of attempts left; the result comes with the requests that were sent.\<close>

fun http_loop :: "http_calls \<Rightarrow> http_client \<Rightarrow> string \<Rightarrow> string \<Rightarrow> string \<Rightarrow> (string \<times> string) list
    \<Rightarrow> nat \<Rightarrow> nat \<Rightarrow> (gerr + http_response) \<times> http_request list" where
  "http_loop x c method target body headers 0 attempt = (Inl (ErrText ''outbound HTTP attempts exhausted''), [])"
| "http_loop x c method target body headers (Suc left) attempt = (case hx_new_request x method target of
       Some e \<Rightarrow> (Inl (Wrapped ''create outbound HTTP request: '' e []), [])
     | None \<Rightarrow> (let request = request_of c method target body headers in
         case hx_send x attempt request of
           Inr response \<Rightarrow>
             if \<not> retryable_http_status (hs_status response) \<or> left = 0 then (Inr response, [request])
             else (case hx_wait x attempt (backoff_delay (hx_huge x) (hu_retry (hc_cfg c)) attempt) of
                 Some e \<Rightarrow> (Inl e, [request])
               | None \<Rightarrow> (case http_loop x c method target body headers left (Suc attempt) of
                   (r, sent) \<Rightarrow> (r, request # sent)))
         | Inl e \<Rightarrow>
             if left = 0 then (Inl (Wrapped ''call outbound HTTP service: '' e []), [request])
             else (case hx_wait x attempt (backoff_delay (hx_huge x) (hu_retry (hc_cfg c)) attempt) of
                 Some e \<Rightarrow> (Inl e, [request])
               | None \<Rightarrow> (case http_loop x c method target body headers left (Suc attempt) of
                   (r, sent) \<Rightarrow> (r, request # sent)))))"

definition do_with_retry :: "http_env \<Rightarrow> http_calls \<Rightarrow> http_client \<Rightarrow> call_context \<Rightarrow> string \<Rightarrow> string \<Rightarrow> string
    \<Rightarrow> (string \<times> string) list \<Rightarrow> (gerr + http_response) \<times> http_request list" where
  "do_with_retry v x c ctx method path body headers =
     (let relative = Inl (ErrText ''outbound HTTP path must be relative'') in
      case he_parse v path of
        Inl e \<Rightarrow> (relative, [])
      | Inr reference \<Rightarrow>
          if url_scheme reference \<noteq> [] \<or> url_host reference \<noteq> [] then (relative, [])
          else http_loop x c method (he_resolve v (hc_base_url c) reference) body headers
            (if retryable_method ctx method then nat (retry_max_attempts (hu_retry (hc_cfg c))) else 1) 1)"

text \<open>What the breaker sees of a call: a response that may be retried counts as an error, which
  \<open>execute\<close> takes back afterwards.\<close>

datatype breaker_result = CallOk http_response | CallStatus http_response | CallErr gerr

definition execute :: "((unit \<Rightarrow> breaker_result \<times> http_request list) \<Rightarrow> breaker_result \<times> http_request list)
    \<Rightarrow> http_env \<Rightarrow> http_calls \<Rightarrow> http_client \<Rightarrow> call_context \<Rightarrow> string \<Rightarrow> string \<Rightarrow> string
    \<Rightarrow> (string \<times> string) list \<Rightarrow> (gerr + http_response) \<times> http_request list" where
  "execute breaker v x c ctx method path body headers =
     (if \<not> hc_breaker c then do_with_retry v x c ctx method path body headers
      else case breaker (\<lambda>_. case do_with_retry v x c ctx method path body headers of
            (Inr r, sent) \<Rightarrow> (if retryable_http_status (hs_status r) then CallStatus r else CallOk r, sent)
          | (Inl e, sent) \<Rightarrow> (CallErr e, sent)) of
        (CallStatus r, sent) \<Rightarrow> (Inr r, sent)
      | (CallOk r, sent) \<Rightarrow> (Inr r, sent)
      | (CallErr e, sent) \<Rightarrow> (Inl e, sent))"

section \<open>The registry\<close>

definition upstream_dial_config :: "bool \<Rightarrow> string \<Rightarrow> grpc_upstream \<Rightarrow> dial_config" where
  "upstream_dial_config metrics name u =
     \<lparr>dc_target = gu_target u, dc_timeout = gu_timeout u,
      dc_token = (if ca_type (gu_auth u) = ''bearer'' then ca_token (gu_auth u) else []),
      dc_psk = (if ca_type (gu_auth u) = ''psk'' then ca_token (gu_auth u) else []),
      dc_tls = \<lparr>tc_enabled = tls_enabled (gu_tls u), tc_server_name = tls_server_name (gu_tls u),
        tc_ca_file = tls_ca_file (gu_tls u), tc_cert_file = tls_cert_file (gu_tls u),
        tc_key_file = tls_key_file (gu_tls u), tc_allow_insecure_token = tls_allow_insecure (gu_tls u)\<rparr>,
      dc_name = name, dc_retry = gu_retry u, dc_breaker = gu_breaker u, dc_metrics = metrics\<rparr>"

record registry =
  rg_http :: "(string \<times> http_client) list"
  rg_grpc :: "(string \<times> dial_options) list"

fun register_http :: "http_env \<Rightarrow> (string \<times> http_upstream) list \<Rightarrow> gerr + (string \<times> http_client) list" where
  "register_http v [] = Inr []"
| "register_http v ((name, u) # us) = (case new_http_client v name u of
       Inl e \<Rightarrow> Inl (Wrapped (''create outbound HTTP client '' @ go_quote name @ '': '') e [])
     | Inr c \<Rightarrow> (case register_http v us of Inl e \<Rightarrow> Inl e | Inr cs \<Rightarrow> Inr ((name, c) # cs)))"

text \<open>Dialing may fail in the gRPC library too. Connections that were made are closed when a later one
  fails: the result has those that are open and those that were closed.\<close>

fun register_grpc :: "tls_files \<Rightarrow> (string \<Rightarrow> dial_options \<Rightarrow> gerr option) \<Rightarrow> bool \<Rightarrow> (string \<times> dial_options) list
    \<Rightarrow> (string \<times> grpc_upstream) list \<Rightarrow> (gerr + (string \<times> dial_options) list) \<times> string list" where
  "register_grpc v new metrics made [] = (Inr made, [])"
| "register_grpc v new metrics made ((name, u) # us) =
     (case (case dial v (upstream_dial_config metrics name u) of Inl e \<Rightarrow> Inl e
            | Inr options \<Rightarrow> (case new name options of Some e \<Rightarrow> Inl e | None \<Rightarrow> Inr options)) of
        Inl e \<Rightarrow> (Inl (Wrapped (''create outbound gRPC client '' @ go_quote name @ '': '') e []), map fst made)
      | Inr options \<Rightarrow> register_grpc v new metrics (made @ [(name, options)]) us)"

definition new_registry :: "http_env \<Rightarrow> (string \<Rightarrow> dial_options \<Rightarrow> gerr option) \<Rightarrow> bool \<Rightarrow> config
    \<Rightarrow> (gerr + registry) \<times> string list" where
  "new_registry v new metrics c = (case register_http v (out_http (cfg_outbound c)) of
       Inl e \<Rightarrow> (Inl e, [])
     | Inr http \<Rightarrow> (case register_grpc (he_files v) new metrics [] (out_grpc (cfg_outbound c)) of
         (Inl e, closed) \<Rightarrow> (Inl e, closed)
       | (Inr grpc, closed) \<Rightarrow> (Inr \<lparr>rg_http = http, rg_grpc = grpc\<rparr>, closed)))"

definition registry_http :: "registry \<Rightarrow> string \<Rightarrow> http_client option" where
  "registry_http r name = map_of (rg_http r) name"

definition registry_grpc :: "registry \<Rightarrow> string \<Rightarrow> dial_options option" where
  "registry_grpc r name = map_of (rg_grpc r) name"

text \<open>The first error of closing, with the name of its client.\<close>

fun registry_close :: "(string \<Rightarrow> gerr option) \<Rightarrow> (string \<times> dial_options) list \<Rightarrow> gerr option \<Rightarrow> gerr option" where
  "registry_close close [] e = e"
| "registry_close close ((name, options) # rest) e = registry_close close rest (case (close name, e) of
       (Some f, None) \<Rightarrow> Some (Wrapped (''close outbound gRPC client '' @ go_quote name @ '': '') f [])
     | _ \<Rightarrow> e)"

section \<open>Facts\<close>

lemma http_loop_sent:
  "http_loop x c method target body headers left attempt = (r, sent) \<Longrightarrow>
     length sent \<le> left \<and> set sent \<subseteq> {request_of c method target body headers}"
proof (induction left arbitrary: attempt sent)
  case (Suc left)
  let ?q = "request_of c method target body headers"
  from Suc.prems have "sent = [] \<or> sent = [?q] \<or> (\<exists>rest. sent = ?q # rest
      \<and> http_loop x c method target body headers left (Suc attempt) = (r, rest))"
    by (auto simp: Let_def split: option.splits sum.splits if_splits prod.splits)
  with Suc.IH show ?case by fastforce
qed simp

lemma do_with_retry_sent:
  assumes "do_with_retry v x c ctx method path body headers = (r, sent)"
  shows "\<exists>target. length sent \<le> (if retryable_method ctx method then nat (retry_max_attempts (hu_retry (hc_cfg c))) else 1)
    \<and> set sent \<subseteq> {request_of c method target body headers}"
  using assms
  by (auto simp: do_with_retry_def Let_def simp del: http_loop.simps dest!: http_loop_sent split: sum.splits if_splits)

lemma register_grpc_options:
  "register_grpc v new metrics made us = (Inr grpc, closed) \<Longrightarrow>
     \<exists>added. grpc = made @ added \<and> map fst added = map fst us
       \<and> (\<forall>(name, options) \<in> set added. \<exists>u. (name, u) \<in> set us \<and> dial v (upstream_dial_config metrics name u) = Inr options)"
proof (induction us arbitrary: made)
  case (Cons nu us)
  obtain name u where nu: "nu = (name, u)" by fastforce
  from Cons.prems nu obtain options where o: "dial v (upstream_dial_config metrics name u) = Inr options"
    and rest: "register_grpc v new metrics (made @ [(name, options)]) us = (Inr grpc, closed)"
    by (auto split: sum.splits option.splits)
  from Cons.IH [OF rest] obtain added where a: "grpc = (made @ [(name, options)]) @ added" "map fst added = map fst us"
    "\<forall>(n, opt) \<in> set added. \<exists>u. (n, u) \<in> set us \<and> dial v (upstream_dial_config metrics n u) = Inr opt" by blast
  with o nu show ?case by (intro exI [of _ "(name, options) # added"]) fastforce
qed simp

text \<open>When a client cannot be made, every connection made before it is closed.\<close>

lemma register_grpc_closed:
  "register_grpc v new metrics made us = (Inl e, closed) \<Longrightarrow>
     \<exists>n. closed = map fst made @ take n (map fst us)"
proof (induction us arbitrary: made)
  case (Cons nu us)
  obtain name u where nu: "nu = (name, u)" by fastforce
  show ?case
  proof (cases "closed = map fst made")
    case True
    then show ?thesis by (intro exI [of _ 0]) simp
  next
    case False
    with Cons.prems nu obtain options where "register_grpc v new metrics (made @ [(name, options)]) us = (Inl e, closed)"
      by (auto split: sum.splits option.splits)
    from Cons.IH [OF this] obtain n where "closed = map fst (made @ [(name, options)]) @ take n (map fst us)" by blast
    with nu show ?thesis by (intro exI [of _ "Suc n"]) simp
  qed
qed simp

end
