(* ===== verification/Outbound_Properties.thy ===== *)
theory Outbound_Properties
  imports Outbound Config_Properties
begin

text \<open>
  The properties of the clients of other services: what a production configuration means for the
  connections of the registry, when an HTTP request is repeated, and where the check on credentials
  falls short.
\<close>

section \<open>Examples\<close>

definition no_files :: tls_files where
  "no_files = \<lparr>tf_read = (\<lambda>_. Inl (ErrText ''no file'')), tf_pool = (\<lambda>_. False), tf_key_pair = (\<lambda>_ _. Inl (ErrText ''no file''))\<rparr>"

definition demo_http_env :: http_env where
  "demo_http_env = \<lparr>he_parse = (\<lambda>s. if s = ''/jobs'' then Inr \<lparr>url_scheme = [], url_host = [], url_rest = ''/jobs''\<rparr>
       else Inr \<lparr>url_scheme = ''http'', url_host = ''crm'', url_rest = []\<rparr>),
     he_resolve = (\<lambda>base r. url_scheme base @ ''://'' @ url_host base @ url_rest r), he_files = no_files\<rparr>"

definition demo_http_upstream :: http_upstream where
  "demo_http_upstream = \<lparr>hu_base_url = ''http://crm'', hu_timeout = 1000000000, hu_auth = \<lparr>ca_type = ''psk'', ca_token = ''k''\<rparr>,
     hu_retry = \<lparr>retry_max_attempts = 3, retry_initial_backoff = 1, retry_max_backoff = 2, retry_methods = []\<rparr>,
     hu_breaker = \<lparr>brk_enabled = False, brk_failure_threshold = 0, brk_open_timeout = 0\<rparr>, hu_tls = demo_tls\<rparr>"

definition demo_http_client :: http_client where
  "demo_http_client = \<lparr>hc_name = ''crm'', hc_base_url = \<lparr>url_scheme = ''http'', url_host = ''crm'', url_rest = []\<rparr>,
     hc_cfg = demo_http_upstream, hc_transport = ([], None, None), hc_breaker = False\<rparr>"

definition demo_calls :: http_calls where
  "demo_calls = \<lparr>hx_new_request = (\<lambda>_ _. None), hx_send = (\<lambda>_ _. Inr \<lparr>hs_status = 503, hs_body = []\<rparr>),
     hx_wait = (\<lambda>_ _. None), hx_huge = 0\<rparr>"

definition demo_ctx :: call_context where
  "demo_ctx = \<lparr>cc_deadline = None, cc_request_id = None, cc_idempotency_key = None, cc_outgoing = []\<rparr>"

definition demo_registry :: "(gerr + registry) \<times> string list" where
  "demo_registry = new_registry demo_http_env (\<lambda>_ _. None) False demo_loaded"

section \<open>Credentials\<close>

text \<open>C40: with a configuration loaded for production, a registry that is made has one connection per
  configured gRPC upstream, to its target, and every one that carries a credential uses TLS.\<close>

theorem registry_credentials_need_tls:
  assumes "load_with_profile s path explicit = Inr c" and "app_env (cfg_app c) = ''production''"
    and "new_registry v new metrics c = (Inr r, closed)"
  shows "map fst (rg_grpc r) = map fst (out_grpc (cfg_outbound c))
    \<and> (\<forall>(name, options) \<in> set (rg_grpc r). \<exists>u. (name, u) \<in> set (out_grpc (cfg_outbound c))
         \<and> do_target options = gu_target u
         \<and> (ca_type (gu_auth u) \<noteq> [] \<longrightarrow> do_transport options \<noteq> InsecureTransport))"
proof -
  from assms(3) obtain http where "register_grpc (he_files v) new metrics [] (out_grpc (cfg_outbound c)) = (Inr (rg_grpc r), closed)"
    by (auto simp: new_registry_def split: sum.splits prod.splits)
  from register_grpc_options [OF this] have names: "map fst (rg_grpc r) = map fst (out_grpc (cfg_outbound c))"
    and dialed: "\<forall>(name, options) \<in> set (rg_grpc r). \<exists>u. (name, u) \<in> set (out_grpc (cfg_outbound c))
      \<and> dial (he_files v) (upstream_dial_config metrics name u) = Inr options" by auto
  note checked = checked_clients(1) [OF validate_parts(6) [OF load_ok(1) [OF assms(1)]]]
  have prd: "production c" using assms(2) by (simp add: production_def)
  have "do_target options = gu_target u \<and> (ca_type (gu_auth u) \<noteq> [] \<longrightarrow> do_transport options \<noteq> InsecureTransport)"
    if u: "(name, u) \<in> set (out_grpc (cfg_outbound c))" and d: "dial (he_files v) (upstream_dial_config metrics name u) = Inr options"
    for name u options
  proof -
    from checked u have "check_client name (gu_auth u) (gu_retry u) (gu_breaker u) (gu_tls u) (production c) = None" by blast
    from check_client_None(1) [OF this prd] dial_ok(3,5) [OF d] show ?thesis
      by (auto simp: upstream_dial_config_def)
  qed
  with names dialed show ?thesis by fastforce
qed

theorem registry_credentials_need_tls_witness:
  "\<exists>r. demo_registry = (Inr r, []) \<and> map fst (rg_grpc r) = [''authorization'']"
proof -
  obtain r where r: "new_registry demo_http_env (\<lambda>_ _. None) False demo_loaded = (Inr r, [])"
  proof
    show "new_registry demo_http_env (\<lambda>_ _. None) False demo_loaded
      = (Inr (projr (fst (new_registry demo_http_env (\<lambda>_ _. None) False demo_loaded))), [])" by code_simp
  qed
  have "app_env (cfg_app demo_loaded) = ''production''" and "map fst (out_grpc (cfg_outbound demo_loaded)) = [''authorization'']"
    by code_simp+
  with registry_credentials_need_tls [OF demo_loads _ r] r show ?thesis by (simp add: demo_registry_def)
qed

section \<open>Repeating a request\<close>

text \<open>\<open>Do\<close> repeats a request only when that is safe. Every request it sends is the same one; without
  an idempotency key a method that is not idempotent is sent at most once, any other at most as
  often as the policy has attempts. The breaker may keep the call back but makes it at most once.\<close>

lemma http_requests_repeat_safely:
  assumes "execute breaker v x c ctx method path body headers = (r, sent)"
    and "\<And>call. snd (breaker call) \<in> {[], snd (call ())}"
  shows "\<exists>target. set sent \<subseteq> {request_of c method target body headers}
    \<and> length sent \<le> (if method \<in> {''GET'', ''HEAD'', ''OPTIONS'', ''PUT'', ''DELETE''} \<or> cc_idempotency_key ctx \<noteq> None
        then nat (retry_max_attempts (hu_retry (hc_cfg c))) else 1)"
proof -
  obtain r0 sent0 where d: "do_with_retry v x c ctx method path body headers = (r0, sent0)" by fastforce
  let ?call = "\<lambda>_ :: unit. case do_with_retry v x c ctx method path body headers of
      (Inr r, sent) \<Rightarrow> (if retryable_http_status (hs_status r) then CallStatus r else CallOk r, sent)
    | (Inl e, sent) \<Rightarrow> (CallErr e, sent)"
  have "snd (?call ()) = sent0" by (simp add: d split: sum.split)
  have "sent = sent0 \<or> sent = []"
  proof (cases "hc_breaker c")
    case True
    with assms(1) have "sent = snd (breaker ?call)"
      by (auto simp: execute_def split: prod.splits breaker_result.splits)
    with assms(2) [of ?call] \<open>snd (?call ()) = sent0\<close> show ?thesis by auto
  next
    case False
    with assms(1) d show ?thesis by (simp add: execute_def)
  qed
  with do_with_retry_sent [OF d] show ?thesis by (auto simp: retryable_method_def)
qed

lemma http_requests_repeat_safely_witness:
  "length (snd (execute (\<lambda>call. call ()) demo_http_env demo_calls demo_http_client demo_ctx ''POST'' ''/jobs'' ''{}'' [])) \<le> 1"
  using http_requests_repeat_safely [OF surjective_pairing, of "\<lambda>call. call ()" demo_http_env demo_calls
      demo_http_client demo_ctx "''POST''" "''/jobs''" "''{}''" "[]"]
  by (auto simp: demo_ctx_def)

text \<open>The check on credentials looks at the TLS settings and not at the scheme: with TLS enabled, a
  client for a base URL of scheme \<open>http\<close> is made and its requests carry the key.\<close>

lemma http_credentials_over_plain_http:
  "new_http_client demo_http_env ''crm'' demo_http_upstream = Inr demo_http_client
    \<and> snd (execute (\<lambda>call. call ()) demo_http_env demo_calls demo_http_client demo_ctx ''POST'' ''/jobs'' [] [])
        = [\<lparr>hr_method = ''POST'', hr_url = ''http://crm/jobs'', hr_headers = [(''Authorization'', ''PSK k'')], hr_body = []\<rparr>]"
proof
  show "new_http_client demo_http_env ''crm'' demo_http_upstream = Inr demo_http_client" by code_simp
  show "snd (execute (\<lambda>call. call ()) demo_http_env demo_calls demo_http_client demo_ctx ''POST'' ''/jobs'' [] [])
        = [\<lparr>hr_method = ''POST'', hr_url = ''http://crm/jobs'', hr_headers = [(''Authorization'', ''PSK k'')], hr_body = []\<rparr>]"
    by code_simp
qed

end
