(* ===== verification/Client_Calls.thy ===== *)
theory Client_Calls
  imports Outbound
begin

text \<open>
  A call through a dialed connection (\<open>internal/grpcclient/client.go\<close>): what each interceptor that
  \<open>Dial\<close> installs does to the call, composed in their order, and \<open>HTTPClient.Do\<close> with its counter
  (\<open>internal/outbound/http.go\<close>). The network, the clock, the timers and the breaker's library are the
  record \<open>network\<close>, with a state of their own.
\<close>

section \<open>The network\<close>

text \<open>What a call leaves behind: the state outside, the contexts of the messages that were sent, and the
  counter by client and code.\<close>

record 'x call_state =
  cl_outside :: 'x
  cl_sent :: "call_context list"
  cl_requests :: "(string \<times> grpc_code) list"

type_synonym 'x pending = "'x call_state \<Rightarrow> gerr option \<times> 'x call_state"
type_synonym 'x invoker = "call_context \<Rightarrow> 'x pending"

record breaker_settings =
  bk_name :: string
  bk_timeout :: duration
  bk_trips :: "int \<Rightarrow> bool"
  bk_excluded :: "gerr option \<Rightarrow> bool"

text \<open>\<open>nw_wait\<close> waits for a timer or the end of the context, whose error it gives then; \<open>nw_breaker\<close> is
  \<open>Execute\<close> of the breaker with these settings.\<close>

record 'x network =
  nw_invoke :: "string \<Rightarrow> call_context \<Rightarrow> 'x \<Rightarrow> gerr option \<times> 'x"
  nw_now :: "'x \<Rightarrow> time \<times> 'x"
  nw_wait :: "call_context \<Rightarrow> i64 \<Rightarrow> 'x \<Rightarrow> gerr option \<times> 'x"
  nw_breaker :: "breaker_settings \<Rightarrow> 'x pending \<Rightarrow> 'x pending"

definition ask_network :: "('x \<Rightarrow> 'a \<times> 'x) \<Rightarrow> 'x call_state \<Rightarrow> 'a \<times> 'x call_state" where
  "ask_network f s = (case f (cl_outside s) of (a, x) \<Rightarrow> (a, s\<lparr>cl_outside := x\<rparr>))"

definition send_call :: "'x network \<Rightarrow> string \<Rightarrow> 'x invoker" where
  "send_call v meth ctx s = (case ask_network (nw_invoke v meth ctx) s of (e, s) \<Rightarrow> (e, s\<lparr>cl_sent := cl_sent s @ [ctx]\<rparr>))"

section \<open>Interceptors\<close>

definition timeout_interceptor :: "'x network \<Rightarrow> duration \<Rightarrow> 'x invoker \<Rightarrow> 'x invoker" where
  "timeout_interceptor v timeout invoke ctx s = (case cc_deadline ctx of
       Some _ \<Rightarrow> invoke ctx s
     | None \<Rightarrow> (case ask_network (nw_now v) s of (now, s) \<Rightarrow> invoke (with_timeout timeout now ctx) s))"

definition metadata_interceptor :: "string \<Rightarrow> string \<Rightarrow> 'x invoker \<Rightarrow> 'x invoker" where
  "metadata_interceptor token psk invoke ctx = invoke (with_outgoing_metadata token psk ctx)"

definition client_metrics_interceptor :: "bool \<Rightarrow> string \<Rightarrow> 'x invoker \<Rightarrow> 'x invoker" where
  "client_metrics_interceptor enabled name invoke ctx s = (case invoke ctx s of (e, s) \<Rightarrow>
     (e, if enabled then s\<lparr>cl_requests := cl_requests s @ [(name, status_code e)]\<rparr> else s))"

definition breaker_settings_of :: "string \<Rightarrow> breaker_policy \<Rightarrow> breaker_settings" where
  "breaker_settings_of name b = \<lparr>bk_name = name, bk_timeout = brk_open_timeout b,
     bk_trips = (\<lambda>failures. failures \<ge> brk_failure_threshold b),
     bk_excluded = (\<lambda>e. status_code e \<notin> {GrpcUnavailable, GrpcResourceExhausted, GrpcDeadlineExceeded})\<rparr>"

text \<open>The predicate sees the code only, which is that of a success when there is no error.\<close>

lemma breaker_excludes_success: "bk_excluded (breaker_settings_of name b) None"
  by (simp add: breaker_settings_of_def status_code_def)

definition breaker_interceptor :: "'x network \<Rightarrow> string \<Rightarrow> breaker_policy \<Rightarrow> 'x invoker \<Rightarrow> 'x invoker" where
  "breaker_interceptor v name b invoke ctx = nw_breaker v (breaker_settings_of name b) (invoke ctx)"

definition wait_retry :: "'x network \<Rightarrow> retry_policy \<Rightarrow> nat \<Rightarrow> call_context \<Rightarrow> 'x pending" where
  "wait_retry v r attempt ctx = ask_network (nw_wait v ctx (retry_delay r attempt))"

text \<open>The loop over the attempts, with \<open>left\<close> of them left.\<close>

fun retry_calls :: "'x network \<Rightarrow> retry_policy \<Rightarrow> 'x invoker \<Rightarrow> call_context \<Rightarrow> nat \<Rightarrow> nat \<Rightarrow> gerr option \<Rightarrow> 'x pending" where
  "retry_calls v r invoke ctx 0 attempt err s = (err, s)"
| "retry_calls v r invoke ctx (Suc left) attempt err s = (case invoke ctx s of (err, s) \<Rightarrow>
     if status_code err \<noteq> GrpcUnavailable \<and> status_code err \<noteq> GrpcResourceExhausted then (err, s)
     else if left = 0 then retry_calls v r invoke ctx left (Suc attempt) err s
     else (case wait_retry v r attempt ctx s of
         (Some e, s) \<Rightarrow> (Some e, s)
       | (None, s) \<Rightarrow> retry_calls v r invoke ctx left (Suc attempt) err s))"

definition retrying_interceptor :: "'x network \<Rightarrow> string \<Rightarrow> retry_policy \<Rightarrow> 'x invoker \<Rightarrow> 'x invoker" where
  "retrying_interceptor v meth r invoke ctx =
     (if \<not> retry_grpc_method ctx meth (retry_methods r) then invoke ctx
      else retry_calls v r invoke ctx (nat (retry_max_attempts r)) 1 None)"

definition intercept_call :: "'x network \<Rightarrow> bool \<Rightarrow> string \<Rightarrow> interceptor \<Rightarrow> 'x invoker \<Rightarrow> 'x invoker" where
  "intercept_call v metrics meth i = (case i of
       TimeoutInterceptor timeout \<Rightarrow> timeout_interceptor v timeout
     | MetadataInterceptor token psk \<Rightarrow> metadata_interceptor token psk
     | MetricsInterceptor name \<Rightarrow> client_metrics_interceptor metrics name
     | BreakerInterceptor name b \<Rightarrow> breaker_interceptor v name b
     | RetryInterceptor r \<Rightarrow> retrying_interceptor v meth r)"

text \<open>A unary call; opening a stream runs the interceptors of streams.\<close>

definition unary_call :: "'x network \<Rightarrow> bool \<Rightarrow> dial_options \<Rightarrow> string \<Rightarrow> 'x invoker" where
  "unary_call v metrics options meth = foldr (intercept_call v metrics meth) (do_unary options) (send_call v meth)"

definition open_stream :: "'x network \<Rightarrow> bool \<Rightarrow> dial_options \<Rightarrow> string \<Rightarrow> 'x invoker" where
  "open_stream v metrics options meth = foldr (intercept_call v metrics meth) (do_stream options) (send_call v meth)"

section \<open>HTTP\<close>

text \<open>The status of the counter is that of the response, \<open>error\<close> without one.\<close>

definition http_do :: "bool \<Rightarrow> (gerr + http_response) \<times> http_request list \<Rightarrow> string
    \<Rightarrow> (string \<times> string) list \<Rightarrow> (gerr + http_response) \<times> (string \<times> string) list" where
  "http_do metrics executed name counts = (case fst executed of
       Inl e \<Rightarrow> (Inl e, if metrics then counts @ [(name, ''error'')] else counts)
     | Inr r \<Rightarrow> (Inr r, if metrics then counts @ [(name, itoa (hs_status r))] else counts))"

section \<open>Facts\<close>

text \<open>A step that sends at most \<open>n\<close> messages, all with this context, and touches nothing else.\<close>

definition sends :: "nat \<Rightarrow> call_context \<Rightarrow> gerr option \<times> 'x call_state \<Rightarrow> 'x call_state \<Rightarrow> bool" where
  "sends n ctx r s \<longleftrightarrow> (\<exists>k x. k \<le> n \<and> snd r = s\<lparr>cl_outside := x, cl_sent := cl_sent s @ replicate k ctx\<rparr>)"

lemma sendsI: "k \<le> n \<Longrightarrow> s' = s\<lparr>cl_outside := x, cl_sent := cl_sent s @ replicate k ctx\<rparr> \<Longrightarrow> sends n ctx (e, s') s"
  by (auto simp: sends_def)

lemma sends_mono: "sends n ctx r s \<Longrightarrow> n \<le> m \<Longrightarrow> sends m ctx r s"
  by (auto simp: sends_def intro: order_trans)

lemma sends_trans:
  assumes "sends n ctx (e, s1) s" and "sends m ctx r s1"
  shows "sends (n + m) ctx r s"
proof -
  from assms obtain k x l y where "k \<le> n" "s1 = s\<lparr>cl_outside := x, cl_sent := cl_sent s @ replicate k ctx\<rparr>"
    "l \<le> m" "snd r = s1\<lparr>cl_outside := y, cl_sent := cl_sent s1 @ replicate l ctx\<rparr>"
    by (auto simp: sends_def)
  then have "k + l \<le> n + m" "snd r = s\<lparr>cl_outside := y, cl_sent := cl_sent s @ replicate (k + l) ctx\<rparr>"
    by (simp_all add: replicate_add)
  then show ?thesis unfolding sends_def by blast
qed

lemma sends_refl: "sends n ctx (e, s) s"
  by (rule sendsI [where k = 0 and x = "cl_outside s"]) simp_all

lemma ask_network_sends: "sends 0 ctx (apfst g (ask_network f s)) s"
  by (auto simp: sends_def ask_network_def apfst_def map_prod_def split: prod.split)

lemma send_call_sends: "sends 1 ctx (send_call v meth ctx s) s"
  by (auto simp: send_call_def ask_network_def split: prod.split intro!: sendsI [where k = 1])

lemma retry_calls_sends:
  assumes "\<And>s. sends 1 ctx (invoke ctx s) s"
  shows "sends left ctx (retry_calls v r invoke ctx left attempt err s) s"
proof (induction left arbitrary: attempt err s)
  case (Suc left)
  obtain e s1 where one: "invoke ctx s = (e, s1)" by fastforce
  with assms [of s] have first: "sends 1 ctx (e0, s1) s" for e0 by (simp add: sends_def)
  show ?case
  proof (cases "wait_retry v r attempt ctx s1")
    case (Pair w s2)
    have waited: "sends 0 ctx (e0, s2) s1" for e0
      using ask_network_sends [of ctx id "nw_wait v ctx (retry_delay r attempt)" s1] Pair
      by (simp add: wait_retry_def sends_def)
    note rest = sends_trans [OF first sends_trans [OF waited Suc.IH]] sends_trans [OF first Suc.IH]
    have "sends (Suc left) ctx (e0, s1) s" "sends (Suc left) ctx (e0, s2) s" for e0
      using sends_mono [OF first] sends_mono [OF sends_trans [OF first waited]] by simp_all
    with one Pair rest show ?thesis by (auto split: option.split)
  qed
qed (simp add: sends_refl)

text \<open>The breaker calls what it is given at most once, and answers with what that gives when it does.\<close>

definition breaker_law :: "'x network \<Rightarrow> bool" where
  "breaker_law v \<longleftrightarrow> (\<forall>b call s. (\<exists>e x. nw_breaker v b call s = (Some e, s\<lparr>cl_outside := x\<rparr>))
     \<or> (\<exists>x y. nw_breaker v b call s = apsnd (\<lambda>s. s\<lparr>cl_outside := y\<rparr>) (call (s\<lparr>cl_outside := x\<rparr>))))"

lemma breaker_sends:
  assumes "breaker_law v" and "\<And>s. sends n ctx (invoke ctx s) s"
  shows "sends n ctx (breaker_interceptor v name b invoke ctx s) s"
proof -
  from assms(1) consider (kept) e x where "breaker_interceptor v name b invoke ctx s = (Some e, s\<lparr>cl_outside := x\<rparr>)"
    | (made) x y where "breaker_interceptor v name b invoke ctx s = apsnd (\<lambda>s. s\<lparr>cl_outside := y\<rparr>) (invoke ctx (s\<lparr>cl_outside := x\<rparr>))"
    unfolding breaker_law_def breaker_interceptor_def by meson
  then show ?thesis
  proof cases
    case kept
    then show ?thesis by (auto intro: sendsI [where k = 0])
  next
    case made
    from assms(2) [of "s\<lparr>cl_outside := x\<rparr>"] obtain k z where "k \<le> n"
      "snd (invoke ctx (s\<lparr>cl_outside := x\<rparr>)) = s\<lparr>cl_outside := z, cl_sent := cl_sent s @ replicate k ctx\<rparr>"
      by (auto simp: sends_def)
    with made have "k \<le> n" "snd (breaker_interceptor v name b invoke ctx s)
        = s\<lparr>cl_outside := y, cl_sent := cl_sent s @ replicate k ctx\<rparr>"
      by (cases s; simp add: snd_apsnd)+
    then show ?thesis unfolding sends_def by blast
  qed
qed

lemma retrying_sends:
  assumes "\<And>s. sends 1 ctx (invoke ctx s) s"
  shows "sends (if retry_grpc_method ctx meth (retry_methods r) then nat (retry_max_attempts r) else 1) ctx
    (retrying_interceptor v meth r invoke ctx s) s"
  using assms retry_calls_sends [where invoke = invoke and ctx = ctx, OF assms] by (simp add: retrying_interceptor_def)

text \<open>The loop with a state is the loop over the outcomes of the invocations, when the network counts them.\<close>

lemma retry_calls_loop:
  assumes "\<And>meth ctx k. nw_invoke v meth ctx k = (outcome (Suc k), Suc k)" and "\<And>ctx d k. nw_wait v ctx d k = (wait k d, k)"
    and "Suc (cl_outside s) = attempt"
  shows "retry_loop outcome wait r left attempt err =
    (case retry_calls v r (send_call v meth) ctx left attempt err s of (e, s') \<Rightarrow> (e, cl_outside s'))"
  using assms(3)
proof (induction left arbitrary: attempt err s)
  case (Suc left)
  let ?s1 = "s\<lparr>cl_outside := attempt, cl_sent := cl_sent s @ [ctx]\<rparr>"
  have sent: "send_call v meth ctx s = (outcome attempt, ?s1)"
    using Suc.prems by (simp add: send_call_def ask_network_def assms(1))
  have waited: "wait_retry v r attempt ctx ?s1 = (wait attempt (retry_delay r attempt), ?s1)"
    by (simp add: wait_retry_def ask_network_def assms(2))
  have "retry_loop outcome wait r left (Suc attempt) err' =
      (case retry_calls v r (send_call v meth) ctx left (Suc attempt) err' ?s1 of (e, s') \<Rightarrow> (e, cl_outside s'))" for err'
    by (rule Suc.IH) simp
  note rest = this
  show ?case
  proof (cases left)
    case 0
    with sent show ?thesis by (simp add: Let_def)
  next
    case (Suc n)
    then have "left \<noteq> 0" by simp
    with sent waited rest retry_loop.simps(2) [of outcome wait r left attempt err]
      retry_calls.simps(2) [of v r "send_call v meth" ctx left attempt err s]
    show ?thesis by (simp add: Let_def split: option.split del: retry_loop.simps retry_calls.simps)
  qed
qed auto

section \<open>A call\<close>

text \<open>How often a message may be sent for a call with this context.\<close>

definition attempts_allowed :: "retry_policy \<Rightarrow> string \<Rightarrow> call_context \<Rightarrow> nat" where
  "attempts_allowed r meth ctx = (if 1 < retry_max_attempts r \<and> retry_grpc_method ctx meth (retry_methods r)
     then nat (retry_max_attempts r) else 1)"

lemma attempts_allowed_cong: "cc_idempotency_key ctx = cc_idempotency_key ctx' \<Longrightarrow>
    attempts_allowed r meth ctx = attempts_allowed r meth ctx'"
  by (simp add: attempts_allowed_def retry_grpc_method_def)

definition sending :: "nat \<Rightarrow> call_context \<Rightarrow> 'x invoker \<Rightarrow> bool" where
  "sending n ctx invoke \<longleftrightarrow> (\<forall>s. sends n ctx (invoke ctx s) s)"

lemma breaker_sending: "breaker_law v \<Longrightarrow> sending n ctx invoke \<Longrightarrow> sending n ctx (breaker_interceptor v name b invoke)"
  by (simp add: sending_def breaker_sends)

lemma intercept_breaker: "intercept_call v metrics meth (BreakerInterceptor name b) = breaker_interceptor v name b"
  by (simp add: intercept_call_def)

lemma retried_sending:
  "sending (attempts_allowed r meth ctx) ctx
    (foldr (intercept_call v metrics meth) (if 1 < retry_max_attempts r then [RetryInterceptor r] else []) (send_call v meth))"
  using retrying_sends [where v = v and r = r and meth = meth and invoke = "send_call v meth" and ctx = ctx, OF send_call_sends]
  by (auto simp: sending_def attempts_allowed_def intercept_call_def send_call_sends [simplified])

lemma guarded_sending:
  assumes "breaker_law v"
  shows "sending (attempts_allowed r meth ctx) ctx (foldr (intercept_call v metrics meth)
    ((if brk_enabled b then [BreakerInterceptor name b] else []) @ (if 1 < retry_max_attempts r then [RetryInterceptor r] else []))
    (send_call v meth))"
  by (cases "brk_enabled b")
    (simp_all only: if_True if_False append_Cons append_Nil foldr.simps o_apply intercept_breaker
      breaker_sending [OF assms retried_sending] retried_sending)

definition counted :: "bool \<Rightarrow> string \<Rightarrow> gerr option \<Rightarrow> (string \<times> grpc_code) list" where
  "counted metrics name e = (if metrics then [(name, status_code e)] else [])"

lemma counted_sends:
  assumes "sending n ctx invoke"
    and "foldr (intercept_call v metrics meth) (if m then [MetricsInterceptor name] else []) invoke ctx s = (e, s')"
  shows "\<exists>k x. k \<le> n \<and> s' = s\<lparr>cl_outside := x, cl_sent := cl_sent s @ replicate k ctx,
    cl_requests := cl_requests s @ counted (m \<and> metrics) name e\<rparr>"
proof -
  obtain e1 s1 where run: "invoke ctx s = (e1, s1)" by fastforce
  with assms(1) obtain k x where "k \<le> n" "s1 = s\<lparr>cl_outside := x, cl_sent := cl_sent s @ replicate k ctx\<rparr>"
    by (auto simp: sending_def sends_def dest!: spec [of _ s])
  moreover from run assms(2) have "e = e1 \<and> s' = (if m \<and> metrics then s1\<lparr>cl_requests := cl_requests s1 @ [(name, status_code e)]\<rparr> else s1)"
    by (auto simp: intercept_call_def client_metrics_interceptor_def split: if_splits)
  ultimately have "k \<le> n \<and> s' = s\<lparr>cl_outside := x, cl_sent := cl_sent s @ replicate k ctx,
    cl_requests := cl_requests s @ counted (m \<and> metrics) name e\<rparr>" by (simp add: counted_def)
  then show ?thesis by blast
qed

text \<open>C20: One call, one count, one deadline. A unary call over a connection that was dialed sends its
  message at most as often as the policy allows, once unless it may be repeated; every time with the
  same context, which has the credentials of the connection once, the request id and the
  idempotency key of the caller, and one deadline for all attempts: the caller's where there is one.
  It is counted once, with the code that the caller gets, also when the breaker refuses it.\<close>
theorem one_call_one_count:
  assumes "dial files c = Inr options" and "breaker_law v"
    and "unary_call v metrics options meth ctx s = (e, s')"
  shows "\<exists>k x ctx'. k \<le> attempts_allowed (dc_retry c) meth ctx
    \<and> s' = s\<lparr>cl_outside := x, cl_sent := cl_sent s @ replicate k ctx',
        cl_requests := cl_requests s @ counted (dc_metrics c \<and> metrics) (dc_name c) e\<rparr>
    \<and> cc_outgoing ctx' = cc_outgoing (with_outgoing_metadata (dc_token c) (dc_psk c) ctx)
    \<and> cc_deadline ctx' \<noteq> None \<and> cc_deadline ctx \<in> {None, cc_deadline ctx'}"
proof -
  let ?rest = "(if brk_enabled (dc_breaker c) then [BreakerInterceptor (dc_name c) (dc_breaker c)] else [])
      @ (if 1 < retry_max_attempts (dc_retry c) then [RetryInterceptor (dc_retry c)] else [])"
  let ?count = "if dc_metrics c then [MetricsInterceptor (dc_name c)] else []"
  let ?inner = "foldr (intercept_call v metrics meth) (?count @ ?rest) (send_call v meth)"
  from assms(1) have options: "do_unary options = [TimeoutInterceptor (dc_timeout c), MetadataInterceptor (dc_token c) (dc_psk c)] @ ?count @ ?rest"
    by (auto simp: dial_def split: if_split_asm sum.split_asm)
  have inner: "\<exists>k x. k \<le> attempts_allowed (dc_retry c) meth ctx1
      \<and> s2 = s1\<lparr>cl_outside := x, cl_sent := cl_sent s1 @ replicate k ctx1,
          cl_requests := cl_requests s1 @ counted (dc_metrics c \<and> metrics) (dc_name c) e\<rparr>"
    if "?inner ctx1 s1 = (e, s2)" for ctx1 s1 s2
    using counted_sends [OF guarded_sending [OF assms(2)], of v metrics meth "dc_metrics c" "dc_name c"] that by (simp add: foldr_append)
  obtain ctx0 s0 where timed: "?inner (with_outgoing_metadata (dc_token c) (dc_psk c) ctx0) s0 = (e, s')"
    "\<exists>x. s0 = s\<lparr>cl_outside := x\<rparr>" "\<exists>d. ctx0 = ctx\<lparr>cc_deadline := Some d\<rparr>" "cc_deadline ctx \<in> {None, cc_deadline ctx0}"
  proof (cases "cc_deadline ctx")
    case None
    obtain now x where "nw_now v (cl_outside s) = (now, x)" by fastforce
    with None assms(3) options show thesis
      by (intro that [of "ctx\<lparr>cc_deadline := Some (now + dc_timeout c)\<rparr>" "s\<lparr>cl_outside := x\<rparr>"])
        (auto simp: unary_call_def intercept_call_def timeout_interceptor_def metadata_interceptor_def ask_network_def with_timeout_def)
  next
    case (Some d)
    with assms(3) options show thesis
      by (intro that [of ctx s]) (auto simp: unary_call_def intercept_call_def timeout_interceptor_def metadata_interceptor_def
          intro!: exI [of _ d] exI [of _ "cl_outside s"])
  qed
  let ?ctx' = "with_outgoing_metadata (dc_token c) (dc_psk c) ctx0"
  from inner [OF timed(1)] obtain k x where k: "k \<le> attempts_allowed (dc_retry c) meth ?ctx'"
    "s' = s0\<lparr>cl_outside := x, cl_sent := cl_sent s0 @ replicate k ?ctx',
      cl_requests := cl_requests s0 @ counted (dc_metrics c \<and> metrics) (dc_name c) e\<rparr>" by blast
  from timed(3) have ctx': "attempts_allowed (dc_retry c) meth ?ctx' = attempts_allowed (dc_retry c) meth ctx"
    "cc_outgoing ?ctx' = cc_outgoing (with_outgoing_metadata (dc_token c) (dc_psk c) ctx)" "cc_deadline ?ctx' \<noteq> None"
    "cc_deadline ?ctx' = cc_deadline ctx0"
    by (auto simp: with_outgoing_metadata_def request_id_from_context_def intro!: attempts_allowed_cong)
  have "s' = s\<lparr>cl_outside := x, cl_sent := cl_sent s @ replicate k ?ctx',
      cl_requests := cl_requests s @ counted (dc_metrics c \<and> metrics) (dc_name c) e\<rparr>"
    using k(2) timed(2) by auto
  with k(1) ctx' timed(4) show ?thesis by (intro exI [of _ k] exI [of _ x] exI [of _ ?ctx']) auto
qed

text \<open>A network that is unavailable and a breaker that lets every call through.\<close>

definition failing_network :: "unit network" where
  "failing_network = \<lparr>nw_invoke = (\<lambda>_ _ x. (Some (StatusError GrpcUnavailable []), x)), nw_now = (\<lambda>x. (0, x)),
     nw_wait = (\<lambda>_ _ x. (None, x)), nw_breaker = (\<lambda>_ call. call)\<rparr>"

definition demo_dial :: dial_config where
  "demo_dial = \<lparr>dc_target = ''crm:443'', dc_timeout = 1000000000, dc_token = [], dc_psk = [],
     dc_tls = \<lparr>tc_enabled = False, tc_server_name = [], tc_ca_file = [], tc_cert_file = [], tc_key_file = [], tc_allow_insecure_token = False\<rparr>,
     dc_name = ''crm'', dc_retry = \<lparr>retry_max_attempts = 3, retry_initial_backoff = 1, retry_max_backoff = 4, retry_methods = []\<rparr>,
     dc_breaker = \<lparr>brk_enabled = True, brk_failure_threshold = 5, brk_open_timeout = 1\<rparr>, dc_metrics = True\<rparr>"

lemma failing_network_law: "breaker_law failing_network"
proof -
  have same: "t\<lparr>cl_outside := x\<rparr> = t" for t :: "unit call_state" and x by (cases t) simp
  have "nw_breaker failing_network b call s = apsnd (\<lambda>s. s\<lparr>cl_outside := ()\<rparr>) (call (s\<lparr>cl_outside := ()\<rparr>))"
    for b call s by (simp add: failing_network_def prod_eq_iff same)
  then show ?thesis unfolding breaker_law_def by blast
qed

theorem one_call_one_count_witness:
  "\<exists>options e s'. dial (\<lparr>tf_read = \<lambda>_. Inr [], tf_pool = \<lambda>_. True, tf_key_pair = \<lambda>_ _. Inr []\<rparr>) demo_dial = Inr options
    \<and> unary_call failing_network True options ''/a/b'' \<lparr>cc_deadline = None, cc_request_id = None, cc_idempotency_key = Some ''k'', cc_outgoing = []\<rparr>
        \<lparr>cl_outside = (), cl_sent = [], cl_requests = []\<rparr> = (e, s')
    \<and> length (cl_sent s') \<le> 3 \<and> cl_requests s' = [(''crm'', status_code e)]"
proof -
  let ?files = "\<lparr>tf_read = \<lambda>_. Inr [], tf_pool = \<lambda>_. True, tf_key_pair = \<lambda>_ _. Inr []\<rparr>"
  let ?ctx = "\<lparr>cc_deadline = None, cc_request_id = None, cc_idempotency_key = Some ''k'', cc_outgoing = []\<rparr>"
  let ?s = "\<lparr>cl_outside = (), cl_sent = [], cl_requests = []\<rparr>"
  obtain options where d: "dial ?files demo_dial = Inr options" by (simp add: dial_def demo_dial_def transport_credentials_def)
  obtain e s' where u: "unary_call failing_network True options ''/a/b'' ?ctx ?s = (e, s')" by fastforce
  have "attempts_allowed (dc_retry demo_dial) ''/a/b'' ?ctx = 3"
    by (simp add: attempts_allowed_def demo_dial_def retry_grpc_method_def)
  with one_call_one_count [OF d failing_network_law u] have "length (cl_sent s') \<le> 3 \<and> cl_requests s' = [(''crm'', status_code e)]"
    by (auto simp: counted_def demo_dial_def)
  with d u show ?thesis by blast
qed

end
