(* ===== verification/Object_Storage.thy ===== *)
theory Object_Storage
  imports Service Config_Types
begin

text \<open>
  The object store (\<open>internal/objectstorage/storage.go\<close>): which clients \<open>New\<close> makes, the cap on the
  lifetime of a pre-signed URL, and the operations, each of which is refused when the store is
  disabled. The MinIO library is the record \<open>minio\<close>; a client of it is its endpoint, its
  credentials, its region and whether it uses TLS.
\<close>

section \<open>Clients\<close>

record s3_client =
  sc_endpoint :: string
  sc_access_key :: string
  sc_secret_key :: string
  sc_secure :: bool
  sc_region :: string

record minio =
  mn_new :: "s3_client \<Rightarrow> gerr option"
  mn_presign_put :: "s3_client \<Rightarrow> string \<Rightarrow> string \<Rightarrow> duration \<Rightarrow> world \<Rightarrow> gerr + string"
  mn_presign_get :: "s3_client \<Rightarrow> string \<Rightarrow> string \<Rightarrow> duration \<Rightarrow> world \<Rightarrow> gerr + string"
  mn_stat :: "s3_client \<Rightarrow> string \<Rightarrow> string \<Rightarrow> world \<Rightarrow> gerr + int"
  mn_get :: "s3_client \<Rightarrow> string \<Rightarrow> string \<Rightarrow> world \<Rightarrow> gerr + string"
  mn_object_stat :: "s3_client \<Rightarrow> string \<Rightarrow> string \<Rightarrow> world \<Rightarrow> gerr option"
  mn_put :: "s3_client \<Rightarrow> string \<Rightarrow> string \<Rightarrow> string \<Rightarrow> string \<Rightarrow> world \<Rightarrow> gerr option \<times> world"
  mn_remove :: "s3_client \<Rightarrow> string \<Rightarrow> string \<Rightarrow> world \<Rightarrow> gerr option \<times> world"

text \<open>A disabled store has no clients.\<close>

record s3 =
  s3_clients :: "(s3_client \<times> s3_client) option"
  s3_cfg :: object_storage_config

definition s3_new :: "minio \<Rightarrow> object_storage_config \<Rightarrow> gerr + s3" where
  "s3_new m c = (if \<not> os_enabled c then Inr \<lparr>s3_clients = None, s3_cfg = c\<rparr>
     else let client = \<lparr>sc_endpoint = os_endpoint c, sc_access_key = os_access_key c,
         sc_secret_key = os_secret_key c, sc_secure = os_use_ssl c, sc_region = os_region c\<rparr> in
       case mn_new m client of
         Some e \<Rightarrow> Inl e
       | None \<Rightarrow>
           if os_presign_endpoint c \<noteq> [] \<and> (os_presign_endpoint c \<noteq> os_endpoint c \<or> os_presign_use_ssl c \<noteq> os_use_ssl c)
           then (let presign = client\<lparr>sc_endpoint := os_presign_endpoint c, sc_secure := os_presign_use_ssl c\<rparr> in
             case mn_new m presign of
               Some e \<Rightarrow> Inl e
             | None \<Rightarrow> Inr \<lparr>s3_clients = Some (client, presign), s3_cfg = c\<rparr>)
           else Inr \<lparr>s3_clients = Some (client, client), s3_cfg = c\<rparr>)"

definition s3_enabled :: "s3 \<Rightarrow> bool" where
  "s3_enabled s = os_enabled (s3_cfg s)"

definition s3_client_of :: "s3 \<Rightarrow> s3_client" where
  "s3_client_of s = fst (the (s3_clients s))"

definition s3_presign_client :: "s3 \<Rightarrow> s3_client" where
  "s3_presign_client s = snd (the (s3_clients s))"

definition presign_ttl :: "s3 \<Rightarrow> duration \<Rightarrow> duration" where
  "presign_ttl s ttl = (if ttl \<le> 0 \<or> ttl > os_presign_ttl (s3_cfg s) then os_presign_ttl (s3_cfg s) else ttl)"

section \<open>Operations\<close>

definition s3_presign_upload :: "minio \<Rightarrow> s3 \<Rightarrow> string \<Rightarrow> duration \<Rightarrow> world \<Rightarrow> gerr + string \<times> (string \<times> string) list" where
  "s3_presign_upload m s key ttl w = (if \<not> s3_enabled s then Inl (Sentinel ErrDisabled)
     else case mn_presign_put m (s3_presign_client s) (os_bucket (s3_cfg s)) key (presign_ttl s ttl) w of
         Inl e \<Rightarrow> Inl e
       | Inr url \<Rightarrow> Inr (url, [(''Content-Type'', ''application/octet-stream'')]))"

definition s3_presign_download :: "minio \<Rightarrow> s3 \<Rightarrow> string \<Rightarrow> duration \<Rightarrow> world \<Rightarrow> gerr + string" where
  "s3_presign_download m s key ttl w = (if \<not> s3_enabled s then Inl (Sentinel ErrDisabled)
     else mn_presign_get m (s3_presign_client s) (os_bucket (s3_cfg s)) key (presign_ttl s ttl) w)"

definition s3_stat :: "minio \<Rightarrow> s3 \<Rightarrow> string \<Rightarrow> world \<Rightarrow> gerr + object_info" where
  "s3_stat m s key w = (if \<not> s3_enabled s then Inl (Sentinel ErrDisabled)
     else case mn_stat m (s3_client_of s) (os_bucket (s3_cfg s)) key w of
         Inl e \<Rightarrow> Inl e | Inr n \<Rightarrow> Inr \<lparr>oi_size = n, oi_checksum = []\<rparr>)"

definition s3_get :: "minio \<Rightarrow> s3 \<Rightarrow> string \<Rightarrow> world \<Rightarrow> gerr + string" where
  "s3_get m s key w = (if \<not> s3_enabled s then Inl (Sentinel ErrDisabled)
     else case mn_get m (s3_client_of s) (os_bucket (s3_cfg s)) key w of
         Inl e \<Rightarrow> Inl e
       | Inr obj \<Rightarrow> (case mn_object_stat m (s3_client_of s) (os_bucket (s3_cfg s)) key w of
           Some e \<Rightarrow> Inl e | None \<Rightarrow> Inr obj))"

definition s3_put :: "minio \<Rightarrow> s3 \<Rightarrow> string \<Rightarrow> string \<Rightarrow> string \<Rightarrow> world \<Rightarrow> gerr option \<times> world" where
  "s3_put m s key source content_type w = (if \<not> s3_enabled s then (Some (Sentinel ErrDisabled), w)
     else mn_put m (s3_client_of s) (os_bucket (s3_cfg s)) key source content_type w)"

definition s3_delete :: "minio \<Rightarrow> s3 \<Rightarrow> string \<Rightarrow> world \<Rightarrow> gerr option \<times> world" where
  "s3_delete m s key w = (if \<not> s3_enabled s then (Some (Sentinel ErrDisabled), w)
     else mn_remove m (s3_client_of s) (os_bucket (s3_cfg s)) key w)"

text \<open>The service over this store.\<close>

definition with_storage :: "minio \<Rightarrow> s3 \<Rightarrow> 'env service \<Rightarrow> 'env service" where
  "with_storage m s service = service\<lparr>sv_presign_upload := s3_presign_upload m s,
     sv_presign_download := s3_presign_download m s, sv_stat := s3_stat m s\<rparr>"

section \<open>Facts\<close>

lemma presign_ttl_bounds:
  assumes "0 < os_presign_ttl (s3_cfg s)"
  shows "0 < presign_ttl s ttl" and "presign_ttl s ttl \<le> os_presign_ttl (s3_cfg s)"
    and "0 < ttl \<Longrightarrow> presign_ttl s ttl = min ttl (os_presign_ttl (s3_cfg s))"
  using assms by (auto simp: presign_ttl_def)

lemma s3_new_clients:
  assumes "s3_new m c = Inr s"
  shows "s3_cfg s = c" and "os_enabled c \<Longrightarrow> \<exists>client presign. s3_clients s = Some (client, presign)
    \<and> sc_secure client = os_use_ssl c
    \<and> sc_secure presign = (if os_presign_endpoint c = [] then os_use_ssl c else os_presign_use_ssl c)"
  using assms by (auto simp: s3_new_def Let_def split: if_splits option.splits)

end
