(* ===== verification/Catalog.thy ===== *)
theory Catalog
  imports Service Provider_Session
begin

text \<open>
  The catalog of datasets as a client sees it (\<open>internal/importjob/catalog.go\<close>): authorization,
  then the provider client of theory \<open>Provider_Session\<close>. The state of a call is the world, in
  which the application verifier answers, with the state of the provider client.
\<close>

type_synonym verifier = "string \<Rightarrow> string \<Rightarrow> world \<Rightarrow> gerr option"

record catalog =
  ct_provider :: provider_env
  ct_verify :: verifier

definition new_catalog :: "provider_env \<Rightarrow> catalog" where
  "new_catalog v = \<lparr>ct_provider = v, ct_verify = allow_all\<rparr>"

definition new_runtime_catalog :: "provider_env \<Rightarrow> verifier option \<Rightarrow> gerr + catalog" where
  "new_runtime_catalog v applications = (case applications of
       None \<Rightarrow> Inl (ErrText ''application verifier is required'')
     | Some verify \<Rightarrow> Inr \<lparr>ct_provider = v, ct_verify = verify\<rparr>)"

record catalog_page =
  cp_values :: "dataset_summary list"
  cp_total :: int
  cp_page :: i32
  cp_page_size :: i32

text \<open>\<open>None\<close> is the panic of the provider's \<open>ListDatasets\<close>.\<close>

definition catalog_list :: "catalog \<Rightarrow> principal option \<Rightarrow> string \<Rightarrow> string \<Rightarrow> string \<Rightarrow> i32 \<Rightarrow> i32
    \<Rightarrow> world \<times> provider_state \<Rightarrow> (gerr + catalog_page) option \<times> world \<times> provider_state" where
  "catalog_list c caller tenant application search page page_size st = (case st of (w, p) \<Rightarrow>
     (case authorize_scope (ct_verify c) caller tenant application w of
        (Inl e, w) \<Rightarrow> (Some (Inl e), w, p)
      | (Inr _, w) \<Rightarrow> (case normalize_catalog_page page page_size of (page, page_size) \<Rightarrow>
          (case list_datasets (ct_provider c) (trim_space search) page page_size p of
             (None, p) \<Rightarrow> (None, w, p)
           | (Some (Inl e), p) \<Rightarrow> (Some (Inl (app_unavailable ''import dataset catalog is unavailable'' (Some e))), w, p)
           | (Some (Inr (values, n)), p) \<Rightarrow> (Some (Inr \<lparr>cp_values = values, cp_total = n,
               cp_page = page, cp_page_size = page_size\<rparr>), w, p)))))"

definition catalog_describe :: "catalog \<Rightarrow> principal option \<Rightarrow> string \<Rightarrow> string \<Rightarrow> string \<Rightarrow> string
    \<Rightarrow> world \<times> provider_state \<Rightarrow> (gerr + dataset_descriptor) \<times> world \<times> provider_state" where
  "catalog_describe c caller tenant application service dataset st = (case st of (w, p) \<Rightarrow>
     (case authorize_scope (ct_verify c) caller tenant application w of
        (Inl e, w) \<Rightarrow> (Inl e, w, p)
      | (Inr _, w) \<Rightarrow>
          if \<not> code_pattern (clean service) \<or> \<not> code_pattern (clean dataset)
          then (Inl (app_invalid ''provider_service and dataset_code are required'' None), w, p)
          else (case describe_dataset (ct_provider c) (clean tenant) (clean application) (clean service) (clean dataset) p of
              (Inl e, p) \<Rightarrow> (Inl (app_unavailable ''import dataset descriptor is unavailable'' (Some e)), w, p)
            | (Inr value, p) \<Rightarrow> (Inr value, w, p))))"

section \<open>Facts\<close>

lemma catalog_refused:
  assumes "authorize caller tenant = Inl e"
  shows "catalog_list c caller tenant application search page page_size (w, p) = (Some (Inl e), w, p)"
    and "catalog_describe c caller tenant application service dataset (w, p) = (Inl e, w, p)"
  using assms by (simp_all add: catalog_list_def catalog_describe_def authorize_scope_def)

lemma normalize_idem:
  "normalize_catalog_page page size' = (n, k) \<Longrightarrow> normalize_catalog_page n k = (n, k)"
  by (auto simp: normalize_catalog_page_def split: if_splits)

end
