(* ===== verification/Import_Server.thy ===== *)
theory Import_Server
  imports Catalog
begin

text \<open>
  The gRPC server of imports (\<open>internal/transport/grpc/import_server.go\<close>): each method reads its
  request, calls the service or the catalog and builds its response; an error of the service
  becomes a gRPC status, and the response that goes with it is not sent. The state of a method is
  the world with the state of the provider client.
\<close>

section \<open>Errors\<close>

definition grpc_code_of :: "int \<Rightarrow> grpc_code option" where
  "grpc_code_of code = map_of [(CodeInvalidArgument, GrpcInvalidArgument), (CodeNotFound, GrpcNotFound),
     (CodeUnauthorized, GrpcUnauthenticated), (CodeForbidden, GrpcPermissionDenied), (CodeConflict, GrpcAborted),
     (CodeDependencyUnavailable, GrpcUnavailable), (CodeRequestTimeout, GrpcDeadlineExceeded),
     (CodeTooManyRequests, GrpcResourceExhausted)] code"

definition import_error :: "gerr \<Rightarrow> gerr" where
  "import_error e = (case as_app_error e of
       None \<Rightarrow> StatusError GrpcInternal ''internal server error''
     | Some (code, message, _, _) \<Rightarrow> StatusError
         (case grpc_code_of code of Some c \<Rightarrow> c | None \<Rightarrow> GrpcInternal) message)"

definition rpc_answered :: "('a \<Rightarrow> 'b) \<Rightarrow> (gerr + 'a) \<times> 's \<Rightarrow> (gerr + 'b) \<times> 's" where
  "rpc_answered f r = (case r of (Inl e, st) \<Rightarrow> (Inl (import_error e), st) | (Inr x, st) \<Rightarrow> (Inr (f x), st))"

section \<open>Messages\<close>

type_synonym u32 = "32 word"

record page_result =
  pr_total :: u64
  pr_page :: u32
  pr_page_size :: u32

record page_request =
  pq_page :: u32
  pq_page_size :: u32

record list_jobs_request =
  lj_tenant_id :: string
  lj_application_id :: string
  lj_status :: string
  lj_dataset_code :: string
  lj_page :: "page_request option"
  lj_created_from :: "time option"
  lj_created_to :: "time option"

record upload_response =
  ur_job :: proto_job
  ur_upload_headers :: "(string \<times> string) list"
  ur_duplicate :: bool
  ur_upload_url :: string
  ur_upload_url_expires_at :: "timestamp option"

record report_response =
  rr_url :: string
  rr_expires_at :: timestamp
  rr_filename :: string
  rr_content_type :: string

text \<open>The fields of a page request as signed integers; 0 without one.\<close>

definition requested_page :: "page_request option \<Rightarrow> i32 \<times> i32" where
  "requested_page r = (case r of None \<Rightarrow> (0, 0) | Some q \<Rightarrow> (pq_page q, pq_page_size q))"

definition normalized_page_size :: "i32 \<Rightarrow> i32" where
  "normalized_page_size v = (if sint v < 1 then 20 else if sint v > 100 then 100 else v)"

section \<open>The catalog\<close>

definition list_import_datasets :: "catalog \<Rightarrow> principal option \<Rightarrow> string \<Rightarrow> string \<Rightarrow> string \<Rightarrow> page_request option
    \<Rightarrow> world \<times> provider_state \<Rightarrow> (gerr + dataset_summary list \<times> page_result) option \<times> world \<times> provider_state" where
  "list_import_datasets c caller tenant application search page st = (case requested_page page of (n, k) \<Rightarrow>
     (case catalog_list c caller tenant application search n k st of
        (None, st) \<Rightarrow> (None, st)
      | (Some (Inl e), st) \<Rightarrow> (Some (Inl (import_error e)), st)
      | (Some (Inr r), st) \<Rightarrow> (Some (Inr (cp_values r, \<lparr>pr_total = of_int (cp_total r), pr_page = cp_page r,
          pr_page_size = cp_page_size r\<rparr>)), st)))"

definition describe_available_import_dataset :: "catalog \<Rightarrow> principal option \<Rightarrow> string \<Rightarrow> string \<Rightarrow> string \<Rightarrow> string
    \<Rightarrow> world \<times> provider_state \<Rightarrow> (gerr + dataset_descriptor) \<times> world \<times> provider_state" where
  "describe_available_import_dataset c caller tenant application service dataset st =
     rpc_answered (\<lambda>d. d) (catalog_describe c caller tenant application service dataset st)"

section \<open>Jobs\<close>

definition upload_response_of :: "(time \<Rightarrow> timestamp) \<Rightarrow> job \<times> upload \<times> bool \<Rightarrow> upload_response" where
  "upload_response_of ts = (\<lambda>(j, u, duplicate). \<lparr>ur_job = to_proto ts j, ur_upload_headers = up_headers u,
     ur_duplicate = duplicate, ur_upload_url = up_url u, ur_upload_url_expires_at = Some (ts (up_expires_at u))\<rparr>)"

definition create_import_job :: "'env service \<Rightarrow> principal option \<Rightarrow> create_input \<Rightarrow> world \<Rightarrow> (gerr + upload_response) \<times> world" where
  "create_import_job s caller r w = rpc_answered (upload_response_of (ec_timestamp (sv_codec s))) (service_create s caller r w)"

definition complete_upload :: "'env service \<Rightarrow> principal option \<Rightarrow> string \<Rightarrow> string \<Rightarrow> string \<Rightarrow> int \<Rightarrow> int \<Rightarrow> string
    \<Rightarrow> world \<Rightarrow> (gerr + proto_job) \<times> world" where
  "complete_upload s caller t a i expected bytes checksum w =
     rpc_answered (to_proto (ec_timestamp (sv_codec s))) (service_complete_upload s caller t a i expected bytes checksum w)"

definition get_import_job :: "'env service \<Rightarrow> principal option \<Rightarrow> string \<Rightarrow> string \<Rightarrow> string \<Rightarrow> world
    \<Rightarrow> (gerr + proto_job) \<times> world" where
  "get_import_job s caller t a i w = rpc_answered (to_proto (ec_timestamp (sv_codec s))) (service_get s caller t a i w)"

definition list_import_jobs :: "'env service \<Rightarrow> principal option \<Rightarrow> list_jobs_request \<Rightarrow> world
    \<Rightarrow> (gerr + proto_job list \<times> page_result) \<times> world" where
  "list_import_jobs s caller r w = (case requested_page (lj_page r) of (page, k) \<Rightarrow>
     rpc_answered (\<lambda>result. (map (to_proto (ec_timestamp (sv_codec s))) (page_items result),
         \<lparr>pr_total = of_int (page_total result), pr_page = (if sint page < 1 then 1 else page),
          pr_page_size = normalized_page_size k\<rparr>))
       (service_list s caller \<lparr>lf_tenant_id = lj_tenant_id r, lf_application_id = lj_application_id r,
          lf_status = lj_status r, lf_dataset_code = lj_dataset_code r, lf_created_from = lj_created_from r,
          lf_created_to = lj_created_to r, lf_page = page, lf_page_size = k\<rparr> w))"

definition cancel_import_job :: "'env service \<Rightarrow> principal option \<Rightarrow> string \<Rightarrow> string \<Rightarrow> string \<Rightarrow> int \<Rightarrow> world
    \<Rightarrow> (gerr + proto_job) \<times> world" where
  "cancel_import_job s caller t a i expected w =
     rpc_answered (to_proto (ec_timestamp (sv_codec s))) (service_cancel s caller t a i expected w)"

definition retry_import_job :: "'env service \<Rightarrow> principal option \<Rightarrow> string \<Rightarrow> string \<Rightarrow> string \<Rightarrow> int \<Rightarrow> string \<Rightarrow> world
    \<Rightarrow> (gerr + upload_response) \<times> world" where
  "retry_import_job s caller t a i expected key w =
     rpc_answered (upload_response_of (ec_timestamp (sv_codec s))) (service_retry s caller t a i expected key w)"

definition confirm_import_job :: "'env service \<Rightarrow> principal option \<Rightarrow> string \<Rightarrow> string \<Rightarrow> string \<Rightarrow> int \<Rightarrow> string \<Rightarrow> world
    \<Rightarrow> (gerr + proto_job \<times> bool) \<times> world" where
  "confirm_import_job s caller t a i expected key w =
     rpc_answered (\<lambda>(j, duplicate). (to_proto (ec_timestamp (sv_codec s)) j, duplicate))
       (service_confirm s caller t a i expected key w)"

text \<open>\<open>time.Duration(ttl) * time.Second\<close> is a product of 64 bits.\<close>

definition ttl_seconds :: "int \<Rightarrow> duration" where
  "ttl_seconds n = sint (of_int n * 1000000000 :: i64)"

definition create_error_report_download_url :: "'env service \<Rightarrow> principal option \<Rightarrow> string \<Rightarrow> string \<Rightarrow> string \<Rightarrow> int
    \<Rightarrow> world \<Rightarrow> (gerr + report_response) \<times> world" where
  "create_error_report_download_url s caller t a i seconds w =
     rpc_answered (\<lambda>(url, expires, j). \<lparr>rr_url = url, rr_expires_at = ec_timestamp (sv_codec s) expires,
         rr_filename = filename j @ ''.errors.csv'', rr_content_type = ''text/csv; charset=utf-8''\<rparr>)
       (service_error_report_url s caller t a i (ttl_seconds seconds) w)"

section \<open>Facts\<close>

lemma snd_rpc_answered [simp]: "snd (rpc_answered f r) = snd r"
  by (cases r; cases "fst r") (auto simp: rpc_answered_def)

text \<open>A client sees a status with the text of the service's own error, or a fixed text: no text of a
  database or a driver.\<close>

lemma import_error_text:
  "\<exists>c m. import_error e = StatusError c m
    \<and> (m = ''internal server error'' \<or> (\<exists>code st cause. as_app_error e = Some (code, m, st, cause)))"
  by (auto simp: import_error_def split: option.split)

lemma import_error_not_ok: "import_error e \<noteq> StatusError GrpcOK m"
  by (auto simp: import_error_def grpc_code_of_def split: option.split)

end
