(* ===== verification/Http_Context.thy ===== *)
theory Http_Context
  imports Catalog "HOL-Library.AList"
begin

text \<open>
  What the HTTP handlers and the middleware share (\<open>internal/transport/http/response.go\<close>,
  \<open>internal/requestid/requestid.go\<close> and the parts of gin's context that they use): requests, JSON
  values, the one form of response, and the flow of a request through the chain of handlers. A
  handler takes the context with the state of the server and ends or panics; \<open>c.Next()\<close> is a call of
  the handler that comes next, and an aborted chain is one that does not call it.

  The syntax of JSON belongs to \<open>encoding/json\<close>: a body is what its decoder makes of the bytes,
  and a response is the value that its encoder writes.
\<close>

section \<open>JSON values\<close>

text \<open>\<open>JReal\<close> has the literal of a number that is not written as an integer.\<close>

datatype json = JNull | JBool bool | JInt int | JReal string | JString string
  | JArray "json list" | JObject "(string \<times> json) list"

text \<open>Decoding into \<open>any\<close> and encoding again: a number is a \<open>float64\<close> in between, which keeps the
  integers up to \<open>2 ^ 53\<close>; other integers come back with the text \<open>float_text\<close> gives them. An object
  is a map: of equal keys the last stays, and the keys are written in order.\<close>

definition map_entries :: "(string \<times> json) list \<Rightarrow> (string \<times> json) list" where
  "map_entries kvs = map (\<lambda>k. (k, the (map_of (rev kvs) k))) (sort (remdups (map fst kvs)))"

fun any_of_json :: "(int \<Rightarrow> string) \<Rightarrow> json \<Rightarrow> json" where
  "any_of_json float_text (JInt n) = (if \<bar>n\<bar> \<le> 2 ^ 53 then JInt n else JReal (float_text n))"
| "any_of_json float_text (JArray js) = JArray (map (any_of_json float_text) js)"
| "any_of_json float_text (JObject kvs) = JObject (map_entries (map (\<lambda>(k, v). (k, any_of_json float_text v)) kvs))"
| "any_of_json float_text j = j"

section \<open>Responses\<close>

record response =
  rs_code :: int
  rs_message :: string
  rs_body :: json
  rs_request_id :: string

section \<open>Requests and gin's context\<close>

record api_request =
  rq_method :: string
  rq_route :: string
  rq_headers :: "(string \<times> string) list"
  rq_content_length :: int
  rq_body :: string
  rq_body_err :: "gerr option"
  rq_tls :: bool
  rq_client_ip :: string

text \<open>The context: the request, the limit on its body, the values set with \<open>c.Set\<close> and those in the
  request's context, and the response so far.\<close>

record gin =
  gx_request :: api_request
  gx_limit :: "int option"
  gx_request_id :: "string option"
  gx_environment :: "string option"
  gx_subject :: "string option"
  gx_call :: call_context
  gx_principal :: "principal option"
  gx_credential :: "string option"
  gx_headers :: "(string \<times> string) list"
  gx_status :: int
  gx_written :: bool
  gx_body :: "response list"

definition get_header :: "string \<Rightarrow> gin \<Rightarrow> string" where
  "get_header k c = (case map_of (rq_headers (gx_request c)) k of Some v \<Rightarrow> v | None \<Rightarrow> [])"

definition set_header :: "string \<Rightarrow> string \<Rightarrow> gin \<Rightarrow> gin" where
  "set_header k v c = c\<lparr>gx_headers := (if v = [] then AList.delete k (gx_headers c) else AList.update k v (gx_headers c))\<rparr>"

text \<open>What the body's reader delivers and how it ends: \<open>None\<close> for the end of the body. A reader of
  \<open>http.MaxBytesReader\<close> fails behind its limit.\<close>

definition body_too_large :: gerr where
  "body_too_large = ErrText ''http: request body too large''"

definition body_stream :: "gin \<Rightarrow> string \<times> gerr option" where
  "body_stream c = (let r = gx_request c in case gx_limit c of
       None \<Rightarrow> (rq_body r, rq_body_err r)
     | Some limit \<Rightarrow> if int (length (rq_body r)) > max 0 limit
         then (take (nat limit) (rq_body r), Some body_too_large) else (rq_body r, rq_body_err r))"

section \<open>The server's state and handlers\<close>

text \<open>The world of the service, the state of the provider client, the state of everything outside
  the repository, and the counter of HTTP requests by method, route and status.\<close>

record 'x server_state =
  st_world :: world
  st_provider :: provider_state
  st_outside :: 'x
  st_http_requests :: "(string \<times> string \<times> int) list"

datatype 'a flow = Finished 'a | Panicked 'a

type_synonym 'x handler = "gin \<times> 'x server_state \<Rightarrow> (gin \<times> 'x server_state) flow"

text \<open>What a handler does behind \<open>c.Next()\<close> is skipped by a panic.\<close>

definition after_next :: "'a flow \<Rightarrow> ('a \<Rightarrow> 'a flow) \<Rightarrow> 'a flow" where
  "after_next r f = (case r of Finished x \<Rightarrow> f x | Panicked x \<Rightarrow> Panicked x)"

lemma after_next_simps [simp]:
  "after_next (Finished x) f = f x" "after_next (Panicked x) f = Panicked x"
  by (simp_all add: after_next_def)

definition request_id_of :: "gin \<Rightarrow> string" where
  "request_id_of c = (case gx_request_id c of Some i \<Rightarrow> i | None \<Rightarrow> [])"

text \<open>The status cannot change once something is written.\<close>

definition write_json :: "int \<Rightarrow> response \<Rightarrow> gin \<Rightarrow> gin" where
  "write_json st r c = c\<lparr>gx_status := (if gx_written c then gx_status c else st),
     gx_written := True, gx_body := gx_body c @ [r]\<rparr>"

definition write_status :: "int \<Rightarrow> gin \<Rightarrow> gin" where
  "write_status st c = c\<lparr>gx_status := (if gx_written c then gx_status c else st), gx_written := True\<rparr>"

definition ok_response :: "json \<Rightarrow> gin \<Rightarrow> gin" where
  "ok_response body c = write_json 200 \<lparr>rs_code = CodeOK, rs_message = ''success'', rs_body = body,
     rs_request_id = request_id_of c\<rparr> c"

text \<open>\<open>Fail\<close>: an error that is no application error is an internal one.\<close>

definition failure_of :: "gerr \<Rightarrow> int \<times> string \<times> int" where
  "failure_of e = (case as_app_error e of Some (code, message, st, _) \<Rightarrow> (code, message, st)
     | None \<Rightarrow> (CodeInternal, ''internal server error'', 500))"

definition fail_with :: "gerr \<Rightarrow> gin \<Rightarrow> gin" where
  "fail_with e c = (case failure_of e of (code, message, st) \<Rightarrow>
     write_json st \<lparr>rs_code = code, rs_message = message, rs_body = JNull, rs_request_id = request_id_of c\<rparr> c)"

section \<open>Request ids\<close>

definition hex_encode :: "string \<Rightarrow> string" where
  "hex_encode s = concat (map (\<lambda>c. let b = (of_char c :: nat) in [hex_digit (b div 16), hex_digit (b mod 16)]) s)"

text \<open>\<open>requestid.Generate\<close>, from what the random source gives and the clock.\<close>

definition generate_request_id :: "gerr + string \<Rightarrow> time \<Rightarrow> string" where
  "generate_request_id random now = (case random of Inl _ \<Rightarrow> ''fallback-'' @ itoa now | Inr bytes \<Rightarrow> hex_encode bytes)"

section \<open>Facts\<close>

lemma set_header_frame [simp]:
  "gx_request (set_header k v c) = gx_request c" "gx_status (set_header k v c) = gx_status c"
  "gx_written (set_header k v c) = gx_written c" "gx_body (set_header k v c) = gx_body c"
  "gx_request_id (set_header k v c) = gx_request_id c" "gx_principal (set_header k v c) = gx_principal c"
  "gx_subject (set_header k v c) = gx_subject c" "gx_call (set_header k v c) = gx_call c"
  "gx_limit (set_header k v c) = gx_limit c" "gx_credential (set_header k v c) = gx_credential c"
  "gx_environment (set_header k v c) = gx_environment c"
  by (simp_all add: set_header_def)

lemma get_header_cong: "gx_request c = gx_request d \<Longrightarrow> get_header k c = get_header k d"
  by (simp add: get_header_def)

lemma get_header_set_header [simp]: "get_header k (set_header j v c) = get_header k c"
  by (rule get_header_cong) simp

lemma write_json_frame [simp]:
  "gx_request (write_json st r c) = gx_request c" "gx_headers (write_json st r c) = gx_headers c"
  "gx_written (write_json st r c)" "gx_body (write_json st r c) = gx_body c @ [r]"
  "gx_request_id (write_json st r c) = gx_request_id c"
  "\<not> gx_written c \<Longrightarrow> gx_status (write_json st r c) = st"
  by (simp_all add: write_json_def)

lemma ascii_runes: "list_all (\<lambda>c. (of_char c :: nat) < 128) s \<Longrightarrow> runes s = map of_char s"
proof (induction s)
  case (Cons c s)
  then show ?case by (subst runes.simps) (simp add: decode_rune_def)
qed (simp add: runes.simps)

lemma valid_request_idI:
  assumes "s \<noteq> []" and "length s \<le> 128" and "\<And>c. c \<in> set s \<Longrightarrow> (of_char c :: nat) < 128 \<and> allowed_character (of_char c)"
  shows "valid_request_id s"
proof -
  from assms(3) have "runes s = map of_char s" by (intro ascii_runes) (simp add: list_all_iff)
  with assms show ?thesis by (simp add: valid_request_id_def list_all_iff)
qed

lemma length_show_nat: "n < 10 ^ k \<Longrightarrow> 0 < k \<Longrightarrow> length (show_nat n) \<le> k"
proof (induction n arbitrary: k rule: show_nat.induct)
  case (1 n)
  show ?case
  proof (cases "n < 10")
    case True
    with "1.prems" show ?thesis by (simp add: show_nat.simps [of n])
  next
    case False
    with "1.prems" obtain j where j: "k = Suc j" "0 < j" by (cases k; cases "k - 1") auto
    with "1.prems" have "n div 10 < 10 ^ j" by (simp add: less_mult_imp_div_less)
    from "1.IH" [OF False this j(2)] False j(1) show ?thesis by (simp add: show_nat.simps [of n])
  qed
qed

lemma length_hex_encode: "length (hex_encode s) = 2 * length s"
  by (induction s) (auto simp: hex_encode_def Let_def)

lemma hex_digit_allowed: "(of_char (hex_digit n) :: nat) < 128 \<and> allowed_character (of_char (hex_digit n))"
proof -
  have "\<forall>k < 16. (of_char (''0123456789abcdef'' ! k) :: nat) < 128 \<and> allowed_character (of_char (''0123456789abcdef'' ! k))"
    by (simp add: allowed_character_def All_less_Suc numeral_eq_Suc)
  then show ?thesis by (simp add: hex_digit_def)
qed

lemma hex_encode_chars: "c \<in> set (hex_encode s) \<Longrightarrow> \<exists>n. c = hex_digit n"
  by (auto simp: hex_encode_def Let_def)

text \<open>Every generated id is one that the service would accept.\<close>

lemma generated_id_valid:
  assumes "\<And>b. random = Inr b \<Longrightarrow> length b = 16" and "- (2 ^ 63) \<le> now" and "now < 2 ^ 63"
  shows "valid_request_id (generate_request_id random now)"
proof (cases random)
  case (Inr b)
  with assms(1) have "length (hex_encode b) = 32" by (simp add: length_hex_encode)
  with Inr show ?thesis
    by (intro valid_request_idI) (auto simp: generate_request_id_def hex_digit_allowed dest!: hex_encode_chars)
next
  case (Inl e)
  have digit: "(of_char c :: nat) < 128 \<and> allowed_character (of_char c)" if "c \<in> set (show_nat n)" for c n
    using show_nat_digits [OF that] by (auto simp: allowed_character_def)
  have "length (show_nat n) \<le> 19" if "n \<le> 2 ^ 63" for n
    using length_show_nat [of n 19] that by simp
  from this [of "nat (- now)"] this [of "nat now"] assms(2,3) have "length (itoa now) \<le> 20"
    by (auto simp: itoa_def nat_le_iff)
  moreover have "(of_char c :: nat) < 128 \<and> allowed_character (of_char c)" if "c \<in> set (itoa now)" for c
    using that digit by (auto simp: itoa_def allowed_character_def split: if_splits)
  ultimately show ?thesis using Inl
    by (intro valid_request_idI) (auto simp: generate_request_id_def allowed_character_def)
qed

end
