(* ===== verification/Http_Types.thy ===== *)
theory Http_Types
  imports Http_Context Import_Server "HOL-Library.Monad_Syntax"
begin

text \<open>
  The requests and the bodies of the HTTP API (the types of \<open>internal/transport/http/handler.go\<close>).
  A struct of a request is a record with the function that fills it from a JSON value as
  \<open>encoding/json\<close> does; a struct of a body is the function that writes it and the \<open>schema\<close> of its
  fields, by the names of its tags.
\<close>

section \<open>Reading a request\<close>

text \<open>The values that reach a field: a key selects it in any case of its letters; of several the last
  counts, and \<open>null\<close> leaves the field as it is. A value of another type is an error.\<close>

definition field_values :: "string \<Rightarrow> (string \<times> json) list \<Rightarrow> json list" where
  "field_values name kvs = map snd (filter (\<lambda>kv. equal_fold (fst kv) name) kvs)"

fun read_string :: "string \<Rightarrow> json list \<Rightarrow> string option" where
  "read_string v [] = Some v"
| "read_string v (JNull # js) = read_string v js"
| "read_string v (JString s # js) = read_string s js"
| "read_string v (j # js) = None"

fun read_int :: "int \<Rightarrow> int \<Rightarrow> json list \<Rightarrow> int option" where
  "read_int size' v [] = Some v"
| "read_int size' v (JNull # js) = read_int size' v js"
| "read_int size' v (JInt n # js) = (if - (2 ^ nat (size' - 1)) \<le> n \<and> n < 2 ^ nat (size' - 1) then read_int size' n js else None)"
| "read_int size' v (j # js) = None"

text \<open>A \<open>*time.Time\<close>: \<open>null\<close> sets it to nil.\<close>

fun read_time :: "(string \<Rightarrow> time option) \<Rightarrow> time option \<Rightarrow> json list \<Rightarrow> time option option" where
  "read_time parse v [] = Some v"
| "read_time parse v (JNull # js) = read_time parse None js"
| "read_time parse v (JString s # js) = (case parse s of None \<Rightarrow> None | Some t \<Rightarrow> read_time parse (Some t) js)"
| "read_time parse v (j # js) = None"

definition string_field :: "string \<Rightarrow> (string \<times> json) list \<Rightarrow> string option" where
  "string_field name kvs = read_string [] (field_values name kvs)"
definition int32_field :: "string \<Rightarrow> (string \<times> json) list \<Rightarrow> i32 option" where
  "int32_field name kvs = map_option of_int (read_int 32 0 (field_values name kvs))"
definition int64_field :: "string \<Rightarrow> (string \<times> json) list \<Rightarrow> int option" where
  "int64_field name kvs = read_int 64 0 (field_values name kvs)"
definition time_field :: "(string \<Rightarrow> time option) \<Rightarrow> string \<Rightarrow> (string \<times> json) list \<Rightarrow> time option option" where
  "time_field parse name kvs = read_time parse None (field_values name kvs)"

text \<open>A struct takes an object, or \<open>null\<close>, which leaves it empty.\<close>

fun object_fields :: "json \<Rightarrow> (string \<times> json) list option" where
  "object_fields JNull = Some []"
| "object_fields (JObject kvs) = Some kvs"
| "object_fields j = None"

section \<open>Requests\<close>

record list_datasets_body =
  lb_tenant_id :: string
  lb_application_id :: string
  lb_search :: string
  lb_page :: i32
  lb_page_size :: i32

definition read_list_datasets :: "json \<Rightarrow> list_datasets_body option" where
  "read_list_datasets j = do { kvs \<leftarrow> object_fields j; t \<leftarrow> string_field ''tenant_id'' kvs;
     a \<leftarrow> string_field ''application_id'' kvs; s \<leftarrow> string_field ''search'' kvs; p \<leftarrow> int32_field ''page'' kvs;
     n \<leftarrow> int32_field ''page_size'' kvs;
     Some \<lparr>lb_tenant_id = t, lb_application_id = a, lb_search = s, lb_page = p, lb_page_size = n\<rparr> }"

record describe_dataset_body =
  db_tenant_id :: string
  db_application_id :: string
  db_provider_service :: string
  db_dataset_code :: string

definition read_describe_dataset :: "json \<Rightarrow> describe_dataset_body option" where
  "read_describe_dataset j = do { kvs \<leftarrow> object_fields j; t \<leftarrow> string_field ''tenant_id'' kvs;
     a \<leftarrow> string_field ''application_id'' kvs; p \<leftarrow> string_field ''provider_service'' kvs;
     d \<leftarrow> string_field ''dataset_code'' kvs;
     Some \<lparr>db_tenant_id = t, db_application_id = a, db_provider_service = p, db_dataset_code = d\<rparr> }"

text \<open>\<open>CreateImportRequest\<close> has the fields of \<open>CreateInput\<close>.\<close>

definition read_create_import :: "json \<Rightarrow> create_input option" where
  "read_create_import j = do { kvs \<leftarrow> object_fields j; t \<leftarrow> string_field ''tenant_id'' kvs;
     a \<leftarrow> string_field ''application_id'' kvs; d \<leftarrow> string_field ''dataset_code'' kvs;
     p \<leftarrow> string_field ''provider_service'' kvs; f \<leftarrow> string_field ''format'' kvs;
     n \<leftarrow> string_field ''filename'' kvs; k \<leftarrow> string_field ''idempotency_key'' kvs;
     Some \<lparr>ci_tenant_id = t, ci_application_id = a, ci_dataset_code = d, ci_provider_service = p,
       ci_format = f, ci_filename = n, ci_idempotency_key = k\<rparr> }"

record import_selector =
  sel_tenant_id :: string
  sel_application_id :: string
  sel_id :: string

definition read_selector :: "json \<Rightarrow> import_selector option" where
  "read_selector j = do { kvs \<leftarrow> object_fields j; t \<leftarrow> string_field ''tenant_id'' kvs;
     a \<leftarrow> string_field ''application_id'' kvs; i \<leftarrow> string_field ''id'' kvs;
     Some \<lparr>sel_tenant_id = t, sel_application_id = a, sel_id = i\<rparr> }"

text \<open>\<open>ListImportsRequest\<close> has the fields of \<open>ListFilter\<close>.\<close>

definition read_list_imports :: "(string \<Rightarrow> time option) \<Rightarrow> json \<Rightarrow> list_filter option" where
  "read_list_imports parse j = do { kvs \<leftarrow> object_fields j; t \<leftarrow> string_field ''tenant_id'' kvs;
     a \<leftarrow> string_field ''application_id'' kvs; s \<leftarrow> string_field ''status'' kvs;
     d \<leftarrow> string_field ''dataset_code'' kvs; from \<leftarrow> time_field parse ''created_from'' kvs;
     to \<leftarrow> time_field parse ''created_to'' kvs; p \<leftarrow> int32_field ''page'' kvs; n \<leftarrow> int32_field ''page_size'' kvs;
     Some \<lparr>lf_tenant_id = t, lf_application_id = a, lf_status = s, lf_dataset_code = d,
       lf_created_from = from, lf_created_to = to, lf_page = p, lf_page_size = n\<rparr> }"

record versioned_request = import_selector +
  vs_version :: int

definition read_versioned :: "json \<Rightarrow> versioned_request option" where
  "read_versioned j = do { kvs \<leftarrow> object_fields j; t \<leftarrow> string_field ''tenant_id'' kvs;
     a \<leftarrow> string_field ''application_id'' kvs; i \<leftarrow> string_field ''id'' kvs; v \<leftarrow> int64_field ''version'' kvs;
     Some \<lparr>sel_tenant_id = t, sel_application_id = a, sel_id = i, vs_version = v\<rparr> }"

record complete_upload_request = versioned_request +
  cu_source_bytes :: int
  cu_source_checksum :: string

definition read_complete_upload :: "json \<Rightarrow> complete_upload_request option" where
  "read_complete_upload j = do { kvs \<leftarrow> object_fields j; t \<leftarrow> string_field ''tenant_id'' kvs;
     a \<leftarrow> string_field ''application_id'' kvs; i \<leftarrow> string_field ''id'' kvs; v \<leftarrow> int64_field ''version'' kvs;
     b \<leftarrow> int64_field ''source_bytes'' kvs; c \<leftarrow> string_field ''source_checksum'' kvs;
     Some \<lparr>sel_tenant_id = t, sel_application_id = a, sel_id = i, vs_version = v, cu_source_bytes = b,
       cu_source_checksum = c\<rparr> }"

text \<open>\<open>RetryImportRequest\<close>, and \<open>ConfirmImportRequest\<close>, which is the same type.\<close>

record keyed_request = versioned_request +
  ky_idempotency_key :: string

definition read_keyed :: "json \<Rightarrow> keyed_request option" where
  "read_keyed j = do { kvs \<leftarrow> object_fields j; t \<leftarrow> string_field ''tenant_id'' kvs;
     a \<leftarrow> string_field ''application_id'' kvs; i \<leftarrow> string_field ''id'' kvs; v \<leftarrow> int64_field ''version'' kvs;
     k \<leftarrow> string_field ''idempotency_key'' kvs;
     Some \<lparr>sel_tenant_id = t, sel_application_id = a, sel_id = i, vs_version = v, ky_idempotency_key = k\<rparr> }"

record error_report_request = import_selector +
  er_ttl_seconds :: i32

definition read_error_report :: "json \<Rightarrow> error_report_request option" where
  "read_error_report j = do { kvs \<leftarrow> object_fields j; t \<leftarrow> string_field ''tenant_id'' kvs;
     a \<leftarrow> string_field ''application_id'' kvs; i \<leftarrow> string_field ''id'' kvs; n \<leftarrow> int32_field ''ttl_seconds'' kvs;
     Some \<lparr>sel_tenant_id = t, sel_application_id = a, sel_id = i, er_ttl_seconds = n\<rparr> }"

section \<open>Schemas\<close>

text \<open>A slice may be nil; a field has its name, whether it is always written, and its type.\<close>

datatype schema = TString | TBool | TInt | TSlice schema | TMap schema | TStruct "(string \<times> bool \<times> schema) list"

fun conforms :: "json \<Rightarrow> schema \<Rightarrow> bool" where
  "conforms (JString s) t = (t = TString)"
| "conforms (JBool b) t = (t = TBool)"
| "conforms (JInt n) t = (t = TInt)"
| "conforms JNull t = (case t of TSlice _ \<Rightarrow> True | _ \<Rightarrow> False)"
| "conforms (JArray js) t = (case t of TSlice s \<Rightarrow> list_all (\<lambda>j. conforms j s) js | _ \<Rightarrow> False)"
| "conforms (JReal r) t = False"
| "conforms (JObject kvs) t = (case t of
       TMap s \<Rightarrow> list_all (\<lambda>kv. conforms (snd kv) s) kvs
     | TStruct fs \<Rightarrow> distinct (map fst kvs)
         \<and> list_all (\<lambda>kv. case map_of fs (fst kv) of None \<Rightarrow> False | Some (_, s) \<Rightarrow> conforms (snd kv) s) kvs
         \<and> list_all (\<lambda>(name, always, _). always \<longrightarrow> name \<in> set (map fst kvs)) fs
     | _ \<Rightarrow> False)"

section \<open>Bodies\<close>

definition json_int32 :: "i32 \<Rightarrow> json" where
  "json_int32 n = JInt (sint n)"

text \<open>The formats of a dataset come from an optional repeated field, which is nil when it is empty.\<close>

definition json_strings :: "string list \<Rightarrow> json" where
  "json_strings ss = (if ss = [] then JNull else JArray (map JString ss))"

definition json_optional :: "string \<Rightarrow> ('a \<Rightarrow> json) \<Rightarrow> 'a option \<Rightarrow> (string \<times> json) list" where
  "json_optional name f v = (case v of None \<Rightarrow> [] | Some x \<Rightarrow> [(name, f x)])"

definition dataset_summary_body :: "dataset_summary \<Rightarrow> json" where
  "dataset_summary_body d = JObject [(''provider_service'', JString (ds_provider_service d)), (''code'', JString (ds_code d)),
     (''title'', JString (ds_title d)), (''formats'', json_strings (ds_formats d)),
     (''max_batch_size'', json_int32 (ds_max_batch_size d)), (''supports_dry_run'', JBool (ds_supports_dry_run d)),
     (''healthy_instances'', json_int32 (ds_healthy_instances d))]"

definition dataset_summary_schema :: schema where
  "dataset_summary_schema = TStruct [(''provider_service'', True, TString), (''code'', True, TString),
     (''title'', True, TString), (''formats'', True, TSlice TString), (''max_batch_size'', True, TInt),
     (''supports_dry_run'', True, TBool), (''healthy_instances'', True, TInt)]"

definition dataset_page_body :: "catalog_page \<Rightarrow> json" where
  "dataset_page_body p = JObject [(''items'', JArray (map dataset_summary_body (cp_values p))), (''total'', JInt (cp_total p)),
     (''page'', json_int32 (cp_page p)), (''page_size'', json_int32 (cp_page_size p))]"

definition dataset_page_schema :: schema where
  "dataset_page_schema = TStruct [(''items'', True, TSlice dataset_summary_schema), (''total'', True, TInt),
     (''page'', True, TInt), (''page_size'', True, TInt)]"

definition import_column_body :: "import_column \<Rightarrow> json" where
  "import_column_body c = JObject [(''key'', JString (ic_key c)), (''title'', JString (ic_title c)), (''type'', JString (ic_type c)),
     (''description'', JString (ic_description c)), (''example'', JString (ic_example c)),
     (''required'', JBool (ic_required c)), (''sensitive'', JBool (ic_sensitive c))]"

definition import_column_schema :: schema where
  "import_column_schema = TStruct [(''key'', True, TString), (''title'', True, TString), (''type'', True, TString),
     (''description'', True, TString), (''example'', True, TString), (''required'', True, TBool), (''sensitive'', True, TBool)]"

definition dataset_descriptor_body :: "dataset_descriptor \<Rightarrow> json" where
  "dataset_descriptor_body d = JObject [(''code'', JString (dd_code d)), (''title'', JString (dd_title d)),
     (''columns'', JArray (map import_column_body (dd_columns d))), (''formats'', json_strings (dd_formats d)),
     (''max_batch_size'', json_int32 (dd_max_batch_size d)), (''supports_dry_run'', JBool (dd_supports_dry_run d))]"

definition dataset_descriptor_schema :: schema where
  "dataset_descriptor_schema = TStruct [(''code'', True, TString), (''title'', True, TString),
     (''columns'', True, TSlice import_column_schema), (''formats'', True, TSlice TString),
     (''max_batch_size'', True, TInt), (''supports_dry_run'', True, TBool)]"

text \<open>A job as a client sees it: no object keys, no idempotency keys. \<open>tm\<close> is the text of a time.\<close>

definition import_job_body :: "(time \<Rightarrow> string) \<Rightarrow> job \<Rightarrow> json" where
  "import_job_body tm j = JObject ([(''id'', JString (job_id j)), (''tenant_id'', JString (tenant_id j)),
     (''application_id'', JString (application_id j)), (''dataset_code'', JString (dataset_code j)),
     (''provider_service'', JString (provider_service j)), (''format'', JString (file_format j)),
     (''filename'', JString (filename j)), (''status'', JString (status j)), (''source_checksum'', JString (source_checksum j)),
     (''source_bytes'', JInt (source_bytes j)), (''total_rows'', JInt (total_rows j)), (''valid_rows'', JInt (valid_rows j)),
     (''invalid_rows'', JInt (invalid_rows j)), (''applied_rows'', JInt (applied_rows j)),
     (''progress_percent'', JInt (progress_percent j)), (''error_code'', JString (error_code j)),
     (''error_message'', JString (error_message j))]
     @ json_optional ''upload_expires_at'' (\<lambda>t. JString (tm t)) (upload_expires_at j)
     @ json_optional ''started_at'' (\<lambda>t. JString (tm t)) (started_at j)
     @ json_optional ''completed_at'' (\<lambda>t. JString (tm t)) (completed_at j)
     @ json_optional ''result_expires_at'' (\<lambda>t. JString (tm t)) (result_expires_at j)
     @ [(''version'', JInt (version j)), (''created_at'', JString (tm (created_at j))),
     (''updated_at'', JString (tm (updated_at j))), (''created_by'', JString (created_by j)),
     (''updated_by'', JString (updated_by j))])"

definition import_job_schema :: schema where
  "import_job_schema = TStruct [(''id'', True, TString), (''tenant_id'', True, TString), (''application_id'', True, TString),
     (''dataset_code'', True, TString), (''provider_service'', True, TString), (''format'', True, TString),
     (''filename'', True, TString), (''status'', True, TString), (''source_checksum'', True, TString),
     (''source_bytes'', True, TInt), (''total_rows'', True, TInt), (''valid_rows'', True, TInt), (''invalid_rows'', True, TInt),
     (''applied_rows'', True, TInt), (''progress_percent'', True, TInt), (''error_code'', True, TString),
     (''error_message'', True, TString), (''upload_expires_at'', False, TString), (''started_at'', False, TString),
     (''completed_at'', False, TString), (''result_expires_at'', False, TString), (''version'', True, TInt),
     (''created_at'', True, TString), (''updated_at'', True, TString), (''created_by'', True, TString), (''updated_by'', True, TString)]"

definition import_job_bodies :: "(time \<Rightarrow> string) \<Rightarrow> job list \<Rightarrow> json" where
  "import_job_bodies tm js = JArray (map (import_job_body tm) js)"

definition import_page_body :: "(time \<Rightarrow> string) \<Rightarrow> job_page \<Rightarrow> i32 \<Rightarrow> i32 \<Rightarrow> json" where
  "import_page_body tm p number page_size = JObject [(''items'', import_job_bodies tm (page_items p)),
     (''total'', JInt (page_total p)), (''page'', json_int32 number), (''page_size'', json_int32 page_size)]"

definition import_page_schema :: schema where
  "import_page_schema = TStruct [(''items'', True, TSlice import_job_schema), (''total'', True, TInt),
     (''page'', True, TInt), (''page_size'', True, TInt)]"

definition mutation_fields :: "(time \<Rightarrow> string) \<Rightarrow> job \<Rightarrow> bool \<Rightarrow> (string \<times> json) list" where
  "mutation_fields tm j duplicate = [(''job'', import_job_body tm j), (''duplicate'', JBool duplicate)]"

definition import_mutation_schema :: schema where
  "import_mutation_schema = TStruct [(''job'', True, import_job_schema), (''duplicate'', True, TBool)]"

text \<open>The fields of the embedded struct stand in the object of the outer one; a map is written with
  its keys in order.\<close>

definition import_upload_body :: "(time \<Rightarrow> string) \<Rightarrow> job \<times> upload \<times> bool \<Rightarrow> json" where
  "import_upload_body tm = (\<lambda>(j, u, duplicate). JObject (mutation_fields tm j duplicate @
     [(''upload_url'', JString (up_url u)),
      (''upload_headers'', JObject (map_entries (map (\<lambda>(k, v). (k, JString v)) (up_headers u)))),
      (''upload_url_expires_at'', JString (tm (up_expires_at u)))]))"

definition import_upload_schema :: schema where
  "import_upload_schema = TStruct [(''job'', True, import_job_schema), (''duplicate'', True, TBool),
     (''upload_url'', True, TString), (''upload_headers'', True, TMap TString), (''upload_url_expires_at'', True, TString)]"

definition error_report_body :: "(time \<Rightarrow> string) \<Rightarrow> string \<times> time \<times> job \<Rightarrow> json" where
  "error_report_body tm = (\<lambda>(url, expires, j). JObject [(''url'', JString url), (''expires_at'', JString (tm expires)),
     (''filename'', JString (filename j @ ''.errors.csv'')), (''content_type'', JString ''text/csv; charset=utf-8'')])"

definition error_report_schema :: schema where
  "error_report_schema = TStruct [(''url'', True, TString), (''expires_at'', True, TString), (''filename'', True, TString),
     (''content_type'', True, TString)]"

section \<open>Bodies conform to their types\<close>

text \<open>A struct's fields are written in the order of its type; then it is enough to walk both lists.\<close>

fun fits :: "(string \<times> json) list \<Rightarrow> (string \<times> bool \<times> schema) list \<Rightarrow> bool" where
  "fits kvs [] = (kvs = [])"
| "fits [] ((name, always, t) # fs) = (\<not> always \<and> fits [] fs)"
| "fits ((k, v) # kvs) ((name, always, t) # fs) =
     (if k = name then conforms v t \<and> fits kvs fs else \<not> always \<and> fits ((k, v) # kvs) fs)"

lemma fits_keys: "fits kvs fs \<Longrightarrow> fst ` set kvs \<subseteq> fst ` set fs"
  by (induction kvs fs rule: fits.induct) (auto split: if_splits)

lemma fits_distinct: "fits kvs fs \<Longrightarrow> distinct (map fst fs) \<Longrightarrow> distinct (map fst kvs)"
  by (induction kvs fs rule: fits.induct) (auto dest: fits_keys split: if_splits)

lemma fits_values:
  "fits kvs fs \<Longrightarrow> distinct (map fst fs) \<Longrightarrow> (k, v) \<in> set kvs \<Longrightarrow> \<exists>b t. map_of fs k = Some (b, t) \<and> conforms v t"
proof (induction kvs fs rule: fits.induct)
  case (3 k' v' kvs name always t fs)
  show ?case
  proof (cases "k' = name")
    case True
    show ?thesis
    proof (cases "(k, v) = (k', v')")
      case same: True
      with 3 True show ?thesis by auto
    next
      case False
      with 3 True have mem: "(k, v) \<in> set kvs" and fit: "fits kvs fs" by auto
      from fits_keys [OF fit] image_eqI [OF _ mem, of k fst] have "k \<in> fst ` set fs" by auto
      with "3.prems"(2) have "k \<noteq> name" by auto
      with 3 True mem fit show ?thesis by auto
    qed
  next
    case False
    with 3 have fit: "fits ((k', v') # kvs) fs" by auto
    from fits_keys [OF fit] image_eqI [OF _ "3.prems"(3), of k fst] have "k \<in> fst ` set fs" by auto
    with "3.prems"(2) have "k \<noteq> name" by auto
    with 3 False fit show ?thesis by auto
  qed
qed auto

lemma fits_always: "fits kvs fs \<Longrightarrow> (name, True, t) \<in> set fs \<Longrightarrow> name \<in> fst ` set kvs"
  by (induction kvs fs rule: fits.induct) (auto split: if_splits)

lemma fits_conforms:
  assumes "distinct (map fst fs)" and "fits kvs fs"
  shows "conforms (JObject kvs) (TStruct fs)"
proof -
  have "list_all (\<lambda>kv. case map_of fs (fst kv) of None \<Rightarrow> False | Some (_, s) \<Rightarrow> conforms (snd kv) s) kvs"
    unfolding list_all_iff
  proof
    fix kv assume "kv \<in> set kvs"
    with fits_values [OF assms(2,1), of "fst kv" "snd kv"]
    show "case map_of fs (fst kv) of None \<Rightarrow> False | Some (_, s) \<Rightarrow> conforms (snd kv) s" by auto
  qed
  moreover have "list_all (\<lambda>(name, always, _). always \<longrightarrow> name \<in> set (map fst kvs)) fs"
    using fits_always [OF assms(2)] by (auto simp: list_all_iff)
  ultimately show ?thesis using fits_distinct [OF assms(2,1)] by simp
qed

lemma json_optional_key: "kv \<in> set (json_optional name f v) \<Longrightarrow> fst kv = name"
  by (auto simp: json_optional_def split: option.splits)

lemma fits_optional:
  assumes "name \<notin> fst ` set kvs" and "\<And>x. conforms (f x) t" and "fits kvs fs"
  shows "fits (json_optional name f v @ kvs) ((name, False, t) # fs)"
proof (cases v)
  case None
  with assms show ?thesis by (cases kvs) (auto simp: json_optional_def)
next
  case (Some x)
  with assms show ?thesis by (simp add: json_optional_def)
qed

lemma list_all_TString [simp]: "list_all (\<lambda>j. conforms j TString) (map JString ss)"
  by (simp add: list_all_iff)

lemma json_int32_conforms [simp]: "conforms (json_int32 n) t \<longleftrightarrow> t = TInt"
  by (simp add: json_int32_def)

lemma json_strings_conforms [simp]: "conforms (json_strings ss) (TSlice TString)"
  by (simp add: json_strings_def)

lemma dataset_summary_conforms [simp]: "conforms (dataset_summary_body d) dataset_summary_schema"
  by (simp add: dataset_summary_body_def dataset_summary_schema_def)

lemma dataset_page_conforms: "conforms (dataset_page_body p) dataset_page_schema"
  by (simp add: dataset_page_body_def dataset_page_schema_def list_all_iff)

lemma import_column_conforms [simp]: "conforms (import_column_body c) import_column_schema"
  by (simp add: import_column_body_def import_column_schema_def)

lemma dataset_descriptor_conforms: "conforms (dataset_descriptor_body d) dataset_descriptor_schema"
  by (simp add: dataset_descriptor_body_def dataset_descriptor_schema_def list_all_iff)

lemma import_job_conforms [simp]: "conforms (import_job_body tm j) import_job_schema"
  unfolding import_job_body_def import_job_schema_def
  by (rule fits_conforms, simp, simp)
    ((rule fits_optional, force dest: json_optional_key, simp)+, simp)

lemma import_page_conforms: "conforms (import_page_body tm p number page_size) import_page_schema"
  by (simp add: import_page_body_def import_page_schema_def import_job_bodies_def list_all_iff)

lemma import_mutation_conforms: "conforms (JObject (mutation_fields tm j duplicate)) import_mutation_schema"
  by (simp add: mutation_fields_def import_mutation_schema_def)

lemma map_entries_conforms: "list_all (\<lambda>kv. conforms (snd kv) t) kvs \<Longrightarrow> conforms (JObject (map_entries kvs)) (TMap t)"
proof -
  assume all: "list_all (\<lambda>kv. conforms (snd kv) t) kvs"
  have "conforms (the (map_of (rev kvs) k)) t" if "k \<in> fst ` set kvs" for k
  proof -
    from that obtain v where v: "map_of (rev kvs) k = Some v"
      by (metis image_set map_of_eq_None_iff not_None_eq set_rev)
    then have "(k, v) \<in> set kvs" by (auto dest: map_of_SomeD)
    with all v show ?thesis by (auto simp: list_all_iff)
  qed
  then show ?thesis by (auto simp: map_entries_def list_all_iff)
qed

lemma import_upload_conforms: "conforms (import_upload_body tm x) import_upload_schema"
proof -
  have "conforms (JObject (map_entries (map (\<lambda>(k, v). (k, JString v)) hs))) (TMap TString)" for hs
    by (rule map_entries_conforms) (auto simp: list_all_iff)
  then show ?thesis unfolding import_upload_schema_def
    by (cases x) (simp only: import_upload_body_def mutation_fields_def prod.case append_Cons append_Nil,
      rule fits_conforms, simp, simp del: conforms.simps(7))
qed

lemma error_report_conforms: "conforms (error_report_body tm x) error_report_schema"
  by (cases x) (simp add: error_report_body_def error_report_schema_def)

end
