(* ===== verification/Health_Limits.thy ===== *)
theory Health_Limits
  imports Http_Context
begin

text \<open>
  Readiness of the process (\<open>internal/health/service.go\<close>) and the rate limiter
  (\<open>internal/ratelimit/limiter.go\<close>). The two checks of readiness run side by side; the order in which
  their results arrive is an argument. Redis is behind the functions in the limiter.
\<close>

section \<open>Health\<close>

record dependency =
  dp_status :: string
  dp_latency :: string

record health_status =
  hl_status :: string
  hl_dependencies :: "string \<rightharpoonup> dependency"

record health_result =
  hr_name :: string
  hr_dependency :: dependency
  hr_ready :: bool

definition health_live :: health_status where
  "health_live = \<lparr>hl_status = ''up'', hl_dependencies = Map.empty\<rparr>"

definition check_result :: "string \<Rightarrow> string \<Rightarrow> gerr option \<Rightarrow> health_result" where
  "check_result name latency err = (case err of
       Some _ \<Rightarrow> \<lparr>hr_name = name, hr_dependency = \<lparr>dp_status = ''down'', dp_latency = latency\<rparr>, hr_ready = False\<rparr>
     | None \<Rightarrow> \<lparr>hr_name = name, hr_dependency = \<lparr>dp_status = ''up'', dp_latency = latency\<rparr>, hr_ready = True\<rparr>)"

text \<open>A check of a dependency that is configured is the answer of its ping and how long it took.\<close>

definition check_dependency :: "string \<Rightarrow> (gerr option \<times> string) option \<Rightarrow> health_result" where
  "check_dependency name ping = (case ping of
       None \<Rightarrow> \<lparr>hr_name = name, hr_dependency = \<lparr>dp_status = ''disabled'', dp_latency = []\<rparr>, hr_ready = True\<rparr>
     | Some (err, latency) \<Rightarrow> check_result name latency err)"

definition check_database :: "(gerr option \<times> string) option \<Rightarrow> health_result" where
  "check_database ping = check_dependency ''database'' ping"

definition check_redis :: "(gerr option \<times> string) option \<Rightarrow> health_result" where
  "check_redis ping = check_dependency ''redis'' ping"

fun collect_results :: "health_result list \<Rightarrow> (string \<rightharpoonup> dependency) \<times> bool \<Rightarrow> (string \<rightharpoonup> dependency) \<times> bool" where
  "collect_results [] st = st"
| "collect_results (item # items) (deps, ready) =
     collect_results items (deps(hr_name item \<mapsto> hr_dependency item), ready \<and> hr_ready item)"

definition health_ready :: "bool \<Rightarrow> (gerr option \<times> string) option \<Rightarrow> (gerr option \<times> string) option \<Rightarrow> health_status \<times> bool" where
  "health_ready database_first db redis = (case collect_results
       (if database_first then [check_database db, check_redis redis] else [check_redis redis, check_database db])
       (Map.empty, True) of (deps, ready) \<Rightarrow>
     (\<lparr>hl_status = (if ready then ''ready'' else ''not_ready''), hl_dependencies = deps\<rparr>, ready))"

lemma check_name [simp]: "hr_name (check_dependency name ping) = name"
  by (simp add: check_dependency_def check_result_def split: option.split prod.split)

lemma check_ready: "hr_ready (check_dependency name ping) \<longleftrightarrow> (\<forall>e l. ping \<noteq> Some (Some e, l))"
  by (auto simp: check_dependency_def check_result_def split: option.splits)

lemma health_ready_order: "health_ready True db redis = health_ready False db redis"
  by (auto simp: health_ready_def check_database_def check_redis_def fun_upd_twist)

lemma health_ready_iff:
  "snd (health_ready o1 db redis) \<longleftrightarrow> (\<forall>e l. db \<noteq> Some (Some e, l)) \<and> (\<forall>e l. redis \<noteq> Some (Some e, l))"
  by (cases o1) (auto simp: health_ready_def check_database_def check_redis_def check_ready)

section \<open>The rate limiter\<close>

record rate_result =
  rt_allowed :: bool
  rt_limit :: int
  rt_remaining :: int
  rt_retry_after :: duration

text \<open>What the library answers: how many requests it lets through, how many remain, when to retry.\<close>

type_synonym 'x rate_backend = "string \<Rightarrow> rate_limit_rule \<Rightarrow> 'x \<Rightarrow> (gerr + int \<times> int \<times> duration) \<times> 'x"

record 'x limiter =
  lm_enabled :: bool
  lm_fail_open :: bool
  lm_backend :: "'x rate_backend option"

definition new_limiter :: "'x rate_backend option \<Rightarrow> config \<Rightarrow> 'x limiter" where
  "new_limiter redis cfg = \<lparr>lm_enabled = rl_enabled (cfg_rate_limit cfg), lm_fail_open = rl_fail_open (cfg_rate_limit cfg),
     lm_backend = redis\<rparr>"

definition rate_allow :: "'x limiter \<Rightarrow> string \<Rightarrow> rate_limit_rule \<Rightarrow> 'x \<Rightarrow> (gerr + rate_result) \<times> 'x" where
  "rate_allow l key rule x = (if \<not> lm_enabled l
     then (Inr \<lparr>rt_allowed = True, rt_limit = 0, rt_remaining = 0, rt_retry_after = 0\<rparr>, x)
     else case lm_backend l of None \<Rightarrow> (Inl (ErrText ''redis rate limiter is unavailable''), x)
     | Some backend \<Rightarrow> (case backend key rule x of
         (Inl e, x) \<Rightarrow> (Inl (Wrapped ''check redis rate limit: '' e []), x)
       | (Inr (allowed, remaining, retry), x) \<Rightarrow> (Inr \<lparr>rt_allowed = allowed > 0, rt_limit = rule_burst rule,
           rt_remaining = remaining, rt_retry_after = retry\<rparr>, x)))"

text \<open>\<open>RetryAfter.Round(time.Second)\<close> in seconds: to the nearest, halves away from zero; at least 1.\<close>

definition round_second :: "duration \<Rightarrow> int" where
  "round_second d = (if d < 0 then - ((- d + 500000000) div 1000000000) else (d + 500000000) div 1000000000)"

definition retry_after_seconds :: "duration \<Rightarrow> int" where
  "retry_after_seconds d = max 1 (round_second d)"

end
