(* ===== verification/Http_Api.thy ===== *)
theory Http_Api
  imports Http_Types Health_Limits
begin

text \<open>
  The handlers of the HTTP API (\<open>internal/transport/http/handler.go\<close>): each reads its request, calls
  the service or the catalog and answers with a body or with the error. What a handler does not get
  from the service (the decoder of JSON, the texts of times, the pings of the dependencies, the
  information on the build) are fields of \<open>http_api\<close>.
\<close>

section \<open>The handler's environment\<close>

record ('env, 'x) http_api =
  ha_service :: "'env service"
  ha_catalog :: catalog
  ha_time_text :: "time \<Rightarrow> string"
  ha_parse_time :: "string \<Rightarrow> time option"
  ha_decode :: "string \<Rightarrow> gerr option \<Rightarrow> gerr + json"
  ha_pings :: "'x \<Rightarrow> (bool \<times> (gerr option \<times> string) option \<times> (gerr option \<times> string) option) \<times> 'x"
  ha_build :: json

text \<open>The cause of a refused request is in no response.\<close>

definition json_type_error :: gerr where
  "json_type_error = ErrText ''json: cannot unmarshal value into Go struct field''"

definition bind_request :: "('env, 'x) http_api \<Rightarrow> (json \<Rightarrow> 'r option) \<Rightarrow> gin \<Rightarrow> gin + 'r" where
  "bind_request api read c = (case body_stream c of (bytes, err) \<Rightarrow>
     (case ha_decode api bytes err of
        Inl e \<Rightarrow> Inl (fail_with (app_invalid ''invalid JSON request'' (Some e)) c)
      | Inr j \<Rightarrow> (case read j of
          None \<Rightarrow> Inl (fail_with (app_invalid ''invalid JSON request'' (Some json_type_error)) c)
        | Some r \<Rightarrow> Inr r)))"

definition respond :: "('a \<Rightarrow> json) \<Rightarrow> gerr + 'a \<Rightarrow> gin \<Rightarrow> gin" where
  "respond f r c = (case r of Inl e \<Rightarrow> fail_with e c | Inr x \<Rightarrow> ok_response (f x) c)"

text \<open>A handler that binds its request, and then calls the service in the world of the server.\<close>

definition service_handler :: "('env, 'x) http_api \<Rightarrow> (json \<Rightarrow> 'r option) \<Rightarrow> ('r \<Rightarrow> principal option \<Rightarrow> world \<Rightarrow> (gerr + 'a) \<times> world)
    \<Rightarrow> ('r \<Rightarrow> 'a \<Rightarrow> json) \<Rightarrow> 'x handler" where
  "service_handler api read call body = (\<lambda>(c, s). case bind_request api read c of
       Inl c \<Rightarrow> Finished (c, s)
     | Inr r \<Rightarrow> (case call r (gx_principal c) (st_world s) of
         (result, w) \<Rightarrow> Finished (respond (body r) result c, s\<lparr>st_world := w\<rparr>)))"

section \<open>Operations\<close>

definition sorted_dependencies :: "(string \<rightharpoonup> dependency) \<Rightarrow> string list" where
  "sorted_dependencies deps = filter (\<lambda>n. deps n \<noteq> None) [''database'', ''redis'']"

definition dependency_body :: "dependency \<Rightarrow> json" where
  "dependency_body d = JObject ((''status'', JString (dp_status d))
     # (if dp_latency d = [] then [] else [(''latency'', JString (dp_latency d))]))"

definition health_body :: "health_status \<Rightarrow> json" where
  "health_body s = JObject ((''status'', JString (hl_status s))
     # (case sorted_dependencies (hl_dependencies s) of [] \<Rightarrow> []
        | ns \<Rightarrow> [(''dependencies'', JObject (map (\<lambda>n. (n, dependency_body (the (hl_dependencies s n)))) ns))]))"

definition handle_live :: "('env, 'x) http_api \<Rightarrow> 'x handler" where
  "handle_live api = (\<lambda>(c, s). Finished (ok_response (health_body health_live) c, s))"

definition handle_ready :: "('env, 'x) http_api \<Rightarrow> 'x handler" where
  "handle_ready api = (\<lambda>(c, s). case ha_pings api (st_outside s) of ((first, db, redis), x) \<Rightarrow>
     let s = s\<lparr>st_outside := x\<rparr> in (case health_ready first db redis of (health, ready) \<Rightarrow>
       if \<not> ready
       then Finished (write_json 503 \<lparr>rs_code = CodeDependencyUnavailable, rs_message = ''service is not ready'',
         rs_body = health_body health, rs_request_id = request_id_of c\<rparr> c, s)
       else Finished (ok_response (health_body health) c, s)))"

definition handle_version :: "('env, 'x) http_api \<Rightarrow> 'x handler" where
  "handle_version api = (\<lambda>(c, s). Finished (ok_response (ha_build api) c, s))"

section \<open>The catalog\<close>

text \<open>The panic of the catalog goes through the handler.\<close>

definition handle_list_datasets :: "('env, 'x) http_api \<Rightarrow> 'x handler" where
  "handle_list_datasets api = (\<lambda>(c, s). case bind_request api read_list_datasets c of
       Inl c \<Rightarrow> Finished (c, s)
     | Inr r \<Rightarrow> (case catalog_list (ha_catalog api) (gx_principal c) (lb_tenant_id r) (lb_application_id r)
           (lb_search r) (lb_page r) (lb_page_size r) (st_world s, st_provider s) of
         (result, w, p) \<Rightarrow> let s = s\<lparr>st_world := w, st_provider := p\<rparr> in
           (case result of None \<Rightarrow> Panicked (c, s)
            | Some result \<Rightarrow> Finished (respond dataset_page_body result c, s))))"

definition handle_describe_dataset :: "('env, 'x) http_api \<Rightarrow> 'x handler" where
  "handle_describe_dataset api = (\<lambda>(c, s). case bind_request api read_describe_dataset c of
       Inl c \<Rightarrow> Finished (c, s)
     | Inr r \<Rightarrow> (case catalog_describe (ha_catalog api) (gx_principal c) (db_tenant_id r) (db_application_id r)
           (db_provider_service r) (db_dataset_code r) (st_world s, st_provider s) of
         (result, w, p) \<Rightarrow> Finished (respond dataset_descriptor_body result c, s\<lparr>st_world := w, st_provider := p\<rparr>)))"

section \<open>Imports\<close>

definition handle_create :: "('env, 'x) http_api \<Rightarrow> 'x handler" where
  "handle_create api = service_handler api read_create_import
     (\<lambda>r caller w. service_create (ha_service api) caller r w) (\<lambda>r. import_upload_body (ha_time_text api))"

definition handle_complete_upload :: "('env, 'x) http_api \<Rightarrow> 'x handler" where
  "handle_complete_upload api = service_handler api read_complete_upload
     (\<lambda>r caller w. service_complete_upload (ha_service api) caller (sel_tenant_id r) (sel_application_id r) (sel_id r)
        (vs_version r) (cu_source_bytes r) (cu_source_checksum r) w)
     (\<lambda>r. import_job_body (ha_time_text api))"

definition handle_get :: "('env, 'x) http_api \<Rightarrow> 'x handler" where
  "handle_get api = service_handler api read_selector
     (\<lambda>r caller w. service_get (ha_service api) caller (sel_tenant_id r) (sel_application_id r) (sel_id r) w)
     (\<lambda>r. import_job_body (ha_time_text api))"

definition normalize_page :: "i32 \<Rightarrow> i32 \<Rightarrow> i32 \<times> i32" where
  "normalize_page page page_size = (if page <s 1 then 1 else page,
     if page_size <s 1 then 20 else if 100 <s page_size then 100 else page_size)"

definition handle_list :: "('env, 'x) http_api \<Rightarrow> 'x handler" where
  "handle_list api = service_handler api (read_list_imports (ha_parse_time api))
     (\<lambda>r caller w. service_list (ha_service api) caller r w)
     (\<lambda>r page. case normalize_page (lf_page r) (lf_page_size r) of (number, page_size) \<Rightarrow>
        import_page_body (ha_time_text api) page number page_size)"

definition handle_cancel :: "('env, 'x) http_api \<Rightarrow> 'x handler" where
  "handle_cancel api = service_handler api read_versioned
     (\<lambda>r caller w. service_cancel (ha_service api) caller (sel_tenant_id r) (sel_application_id r) (sel_id r) (vs_version r) w)
     (\<lambda>r. import_job_body (ha_time_text api))"

definition handle_retry :: "('env, 'x) http_api \<Rightarrow> 'x handler" where
  "handle_retry api = service_handler api read_keyed
     (\<lambda>r caller w. service_retry (ha_service api) caller (sel_tenant_id r) (sel_application_id r) (sel_id r) (vs_version r)
        (ky_idempotency_key r) w)
     (\<lambda>r. import_upload_body (ha_time_text api))"

definition handle_confirm :: "('env, 'x) http_api \<Rightarrow> 'x handler" where
  "handle_confirm api = service_handler api read_keyed
     (\<lambda>r caller w. service_confirm (ha_service api) caller (sel_tenant_id r) (sel_application_id r) (sel_id r) (vs_version r)
        (ky_idempotency_key r) w)
     (\<lambda>r (j, duplicate). JObject (mutation_fields (ha_time_text api) j duplicate))"

definition handle_error_report :: "('env, 'x) http_api \<Rightarrow> 'x handler" where
  "handle_error_report api = service_handler api read_error_report
     (\<lambda>r caller w. service_error_report_url (ha_service api) caller (sel_tenant_id r) (sel_application_id r) (sel_id r)
        (ttl_seconds (sint (er_ttl_seconds r))) w)
     (\<lambda>r. error_report_body (ha_time_text api))"

section \<open>What a handler answers\<close>

text \<open>A handler writes exactly one response, to a context in which nothing is written yet: a success
  whose body is of the given type, or the failure of an error. Request and headers stay.\<close>

definition answers :: "schema \<Rightarrow> gin \<Rightarrow> gin \<Rightarrow> bool" where
  "answers t c c' \<longleftrightarrow> (\<exists>body. conforms body t \<and> c' = ok_response body c) \<or> (\<exists>e. c' = fail_with e c)"

named_theorems handler_defs \<open>the handlers of the HTTP API\<close>

lemmas [handler_defs] = handle_create_def handle_complete_upload_def handle_get_def handle_list_def handle_cancel_def
  handle_retry_def handle_confirm_def handle_error_report_def

lemma bind_request_fails: "bind_request api read c = Inl c' \<Longrightarrow> answers t c c'"
  by (auto simp: bind_request_def answers_def split: prod.splits sum.splits option.splits)

lemma respond_answers: "(\<And>x. conforms (f x) t) \<Longrightarrow> answers t c (respond f r c)"
  by (auto simp: respond_def answers_def split: sum.split)

lemma service_handler_answers:
  assumes "\<And>r x. conforms (body r x) t"
  shows "\<exists>c' w. service_handler api read call body (c, s) = Finished (c', s\<lparr>st_world := w\<rparr>) \<and> answers t c c'"
proof (cases "bind_request api read c")
  case (Inl c')
  then have "answers t c c'" by (rule bind_request_fails)
  moreover from Inl have "service_handler api read call body (c, s) = Finished (c', s\<lparr>st_world := st_world s\<rparr>)"
    by (simp add: service_handler_def)
  ultimately show ?thesis by blast
next
  case (Inr r)
  obtain result w where "call r (gx_principal c) (st_world s) = (result, w)" by (cases "call r (gx_principal c) (st_world s)")
  with Inr have "service_handler api read call body (c, s) = Finished (respond (body r) result c, s\<lparr>st_world := w\<rparr>)"
    by (simp add: service_handler_def)
  with respond_answers [of "body r" t c result] assms show ?thesis by blast
qed

lemma catalog_handlers_answer:
  "(\<exists>s'. handle_list_datasets api (c, s) = Panicked (c, s'))
     \<or> (\<exists>c' s'. handle_list_datasets api (c, s) = Finished (c', s') \<and> answers dataset_page_schema c c')"
  "\<exists>c' s'. handle_describe_dataset api (c, s) = Finished (c', s') \<and> answers dataset_descriptor_schema c c'"
  by (auto simp: handle_list_datasets_def handle_describe_dataset_def Let_def
      intro: respond_answers dataset_page_conforms dataset_descriptor_conforms bind_request_fails
      split: sum.split prod.split option.split)

lemma normalize_page_is_clean:
  "normalize_page (lf_page f) (lf_page_size f) = (lf_page (clean_filter f), lf_page_size (clean_filter f))"
  by (simp add: normalize_page_def clean_filter_def)

end
