(* ===== verification/Access_Control.thy ===== *)
theory Access_Control
  imports Service Path_Match Config_Types
begin

text \<open>
  Who a caller is (\<open>internal/auth/jwt.go\<close>, \<open>internal/auth/psk.go\<close>): the pre-shared key, tokens issued
  and parsed with the service's own secret, and the choice between them and the verifier of an
  identity provider. Signing and parsing of tokens belong to the JWT library: they are the fields
  of \<open>jwt_library\<close>.
\<close>

section \<open>The pre-shared key\<close>

text \<open>\<open>subtle.ConstantTimeCompare\<close> is 1 exactly on equal strings.\<close>

definition constant_time_compare :: "string \<Rightarrow> string \<Rightarrow> int" where
  "constant_time_compare a b = (if a = b then 1 else 0)"

definition verify_psk :: "string \<Rightarrow> string \<Rightarrow> bool" where
  "verify_psk authorization expected = (case cut authorization CHR '' '' of (scheme, supplied, ok) \<Rightarrow>
     if \<not> ok \<or> \<not> equal_fold scheme ''PSK'' \<or> supplied = [] \<or> length supplied \<noteq> length expected then False
     else constant_time_compare supplied expected = 1)"

section \<open>Tokens\<close>

record claims =
  cl_issuer :: string
  cl_subject :: string
  cl_id :: string
  cl_issued_at :: time
  cl_not_before :: time
  cl_expires_at :: time

text \<open>\<open>NewNumericDate\<close>, \<open>SignedString\<close> with HS256, \<open>ParseWithClaims\<close> with the key function, the issuer
  and the clock, which gives the claims and whether the token is valid; the name of a user's type.\<close>

record jwt_library =
  jl_numeric_date :: "time \<Rightarrow> time"
  jl_sign :: "claims \<Rightarrow> string \<Rightarrow> gerr + string"
  jl_parse :: "(string \<Rightarrow> gerr + string) \<Rightarrow> string \<Rightarrow> string \<Rightarrow> time \<Rightarrow> gerr + claims \<times> bool"
  jl_type_user :: string

record auth_service =
  as_issuer :: string
  as_secret :: string
  as_ttl :: duration
  as_client_id :: string
  as_client_secret :: string

definition auth_new :: "config \<Rightarrow> auth_service" where
  "auth_new cfg = \<lparr>as_issuer = jwt_issuer (cfg_jwt cfg), as_secret = jwt_secret (cfg_jwt cfg), as_ttl = jwt_ttl (cfg_jwt cfg),
     as_client_id = auth_client_id (cfg_auth cfg), as_client_secret = auth_client_secret (cfg_auth cfg)\<rparr>"

text \<open>\<open>NewRuntime\<close>: with a URL of keys the service has a verifier, which \<open>new_verifier\<close> makes of URL,
  issuer and audience.\<close>

definition auth_new_runtime :: "(string \<Rightarrow> string \<Rightarrow> string \<Rightarrow> gerr + 'v) \<Rightarrow> config \<Rightarrow> gerr + auth_service \<times> 'v option" where
  "auth_new_runtime new_verifier cfg = (if auth_jwks_url (cfg_auth cfg) = [] then Inr (auth_new cfg, None)
     else case new_verifier (auth_jwks_url (cfg_auth cfg)) (auth_issuer (cfg_auth cfg)) (auth_audience (cfg_auth cfg)) of
       Inl e \<Rightarrow> Inl (Wrapped ''configure identity token verifier: '' e [])
     | Inr verifier \<Rightarrow> Inr (auth_new cfg, Some verifier))"

definition auth_enabled :: "auth_service \<Rightarrow> bool" where
  "auth_enabled s \<longleftrightarrow> 32 \<le> length (as_secret s) \<and> as_client_id s \<noteq> [] \<and> as_client_secret s \<noteq> []"

definition auth_authenticate :: "auth_service \<Rightarrow> string \<Rightarrow> string \<Rightarrow> bool" where
  "auth_authenticate s client_id client_secret = (if \<not> auth_enabled s then False
     else constant_time_compare client_id (as_client_id s) = 1 \<and> constant_time_compare client_secret (as_client_secret s) = 1)"

text \<open>\<open>base64.RawURLEncoding\<close>.\<close>

definition base64_url_char :: "nat \<Rightarrow> char" where
  "base64_url_char n = ''ABCDEFGHIJKLMNOPQRSTUVWXYZabcdefghijklmnopqrstuvwxyz0123456789-_'' ! (n mod 64)"

fun base64_raw_url :: "nat list \<Rightarrow> string" where
  "base64_raw_url [] = []"
| "base64_raw_url [a] = map base64_url_char [a div 4, a mod 4 * 16]"
| "base64_raw_url [a, b] = map base64_url_char [a div 4, a mod 4 * 16 + b div 16, b mod 16 * 4]"
| "base64_raw_url (a # b # c # r) =
     map base64_url_char [a div 4, a mod 4 * 16 + b div 16, b mod 16 * 4 + c div 64, c mod 64] @ base64_raw_url r"

text \<open>The id of a token, from what the random source gives for 16 bytes.\<close>

definition random_token_id :: "gerr + string \<Rightarrow> gerr + string" where
  "random_token_id random = (case random of Inl e \<Rightarrow> Inl e | Inr bytes \<Rightarrow> Inr (base64_raw_url (map of_char bytes)))"

definition auth_issue :: "jwt_library \<Rightarrow> auth_service \<Rightarrow> gerr + string \<Rightarrow> time \<Rightarrow> string \<Rightarrow> gerr + string" where
  "auth_issue l s random now subject = (if \<not> auth_enabled s then Inl (ErrText ''authentication is not configured'')
     else case random_token_id random of
       Inl e \<Rightarrow> Inl (Wrapped ''create token id: '' e [])
     | Inr jti \<Rightarrow> jl_sign l \<lparr>cl_issuer = as_issuer s, cl_subject = subject, cl_id = jti,
         cl_issued_at = jl_numeric_date l now, cl_not_before = jl_numeric_date l now,
         cl_expires_at = jl_numeric_date l (now + as_ttl s)\<rparr> (as_secret s))"

text \<open>The key function: only HS256 gets the secret.\<close>

definition signing_key :: "auth_service \<Rightarrow> string \<Rightarrow> gerr + string" where
  "signing_key s alg = (if alg \<noteq> ''HS256'' then Inl (ErrText (''unexpected signing method '' @ alg)) else Inr (as_secret s))"

definition auth_parse :: "jwt_library \<Rightarrow> auth_service \<Rightarrow> time \<Rightarrow> string \<Rightarrow> gerr + claims" where
  "auth_parse l s now raw = (if \<not> auth_enabled s then Inl (ErrText ''authentication is not configured'')
     else case jl_parse l (signing_key s) (as_issuer s) raw now of
       Inl e \<Rightarrow> Inl (Wrapped ''parse jwt: '' e [])
     | Inr (claims, valid) \<Rightarrow> if \<not> valid then Inl (ErrText ''invalid jwt claims'') else Inr claims)"

definition auth_verify :: "jwt_library \<Rightarrow> auth_service \<Rightarrow> (string \<Rightarrow> gerr + principal) option \<Rightarrow> time \<Rightarrow> string \<Rightarrow> gerr + principal" where
  "auth_verify l s verifier now raw = (case verifier of
       Some verify \<Rightarrow> verify raw
     | None \<Rightarrow> (case auth_parse l s now raw of
         Inl e \<Rightarrow> Inl e
       | Inr claims \<Rightarrow> Inr \<lparr>pr_id = cl_subject claims, pr_type = OtherType (jl_type_user l), pr_tenant_id = []\<rparr>))"

section \<open>Facts\<close>

lemma constant_time_compare_iff [simp]: "constant_time_compare a b = 1 \<longleftrightarrow> a = b"
  by (simp add: constant_time_compare_def)

lemma cut_append: "c \<notin> set a \<Longrightarrow> cut (a @ c # b) c = (a, b, True)"
  by (induction a) auto

text \<open>The headers that are accepted: the scheme in any case, one space, the key.\<close>

lemma verify_psk_iff:
  "verify_psk h key \<longleftrightarrow>
     key \<noteq> [] \<and> (\<exists>scheme. h = scheme @ CHR '' '' # key \<and> CHR '' '' \<notin> set scheme \<and> equal_fold scheme ''PSK'')"
proof
  assume v: "verify_psk h key"
  obtain scheme supplied ok where cut: "cut h CHR '' '' = (scheme, supplied, ok)" by (cases "cut h CHR '' ''")
  with v have "ok" "equal_fold scheme ''PSK''" "supplied \<noteq> []" "supplied = key"
    by (auto simp: verify_psk_def split: if_splits)
  with cut cut_found [of h "CHR '' ''" scheme supplied]
  show "key \<noteq> [] \<and> (\<exists>scheme. h = scheme @ CHR '' '' # key \<and> CHR '' '' \<notin> set scheme \<and> equal_fold scheme ''PSK'')"
    by auto
qed (auto simp: verify_psk_def cut_append)

text \<open>A token of the service's own names a user without a tenant, who passes the authorization of no
  tenant.\<close>

lemma own_token_has_no_tenant:
  "auth_verify l s None now raw = Inr p \<Longrightarrow> authorize (Some p) t = Inl (app_new CodeForbidden ''tenant access denied'' 403 None)"
  by (auto simp: auth_verify_def authorize_def split: sum.splits)

end
