(* ===== verification/Http_Middleware.thy ===== *)
theory Http_Middleware
  imports Http_Context Access_Control Health_Limits
begin

text \<open>
  The middleware of the HTTP server (\<open>internal/transport/http/middleware.go\<close>). A middleware takes the
  rest of the chain, which it runs at most once, and gives a handler. What it asks outside the
  repository (random bytes, the clock, the verifier of tokens, the authorizer, the store of
  idempotent results, the parser of media types) is in the record \<open>http_outside\<close>. Logging is left
  out.
\<close>

section \<open>Outside the repository\<close>

record requirement =
  rm_resource :: string
  rm_action :: string

text \<open>Every requirement of the imports has the scope of the principal.\<close>

datatype idempotency_state = StateAcquired | StateProcessing | StateCompleted | StateFailed | StateConflict
  | OtherState string

record idempotency_failure =
  if_code :: int
  if_message :: string
  if_http_status :: int

text \<open>The stored response of a decision is what \<open>json.Unmarshal\<close> makes of its bytes.\<close>

record decision =
  de_state :: idempotency_state
  de_owner :: string
  de_response :: "gerr + response"
  de_failure :: idempotency_failure

record 'x idempotency_manager =
  im_enabled :: bool
  im_begin :: "string \<Rightarrow> string \<Rightarrow> 'x \<Rightarrow> (gerr + decision) \<times> 'x"
  im_complete :: "string \<Rightarrow> string \<Rightarrow> response \<Rightarrow> 'x \<Rightarrow> gerr option \<times> 'x"
  im_fail :: "string \<Rightarrow> string \<Rightarrow> idempotency_failure \<Rightarrow> 'x \<Rightarrow> gerr option \<times> 'x"

record 'x http_outside =
  ho_random :: "'x \<Rightarrow> (gerr + string) \<times> 'x"
  ho_now :: "'x \<Rightarrow> time \<times> 'x"
  ho_expired :: "duration \<Rightarrow> 'x \<Rightarrow> 'x \<Rightarrow> bool"
  ho_media_type :: "string \<Rightarrow> string option"
  ho_valid_key :: "string \<Rightarrow> bool"
  ho_sha256_hex :: "string \<Rightarrow> string"
  ho_float_text :: "int \<Rightarrow> string"
  ho_verify :: "string \<Rightarrow> 'x \<Rightarrow> (gerr + principal) \<times> 'x"
  ho_enforce :: "principal option \<Rightarrow> string option \<Rightarrow> requirement \<Rightarrow> 'x \<Rightarrow> gerr option \<times> 'x"

type_synonym 'x middleware = "'x handler \<Rightarrow> 'x handler"

definition ask_outside :: "('x \<Rightarrow> 'a \<times> 'x) \<Rightarrow> 'x server_state \<Rightarrow> 'a \<times> 'x server_state" where
  "ask_outside f s = (case f (st_outside s) of (a, x) \<Rightarrow> (a, s\<lparr>st_outside := x\<rparr>))"

definition abort_json :: "int \<Rightarrow> int \<Rightarrow> string \<Rightarrow> gin \<Rightarrow> gin" where
  "abort_json st code message c = write_json st \<lparr>rs_code = code, rs_message = message, rs_body = JNull,
     rs_request_id = request_id_of c\<rparr> c"

section \<open>Request id, environment, idempotency key\<close>

definition mw_request_id :: "'x http_outside \<Rightarrow> 'x middleware" where
  "mw_request_id o' next' = (\<lambda>(c, s).
     case (let rid = get_header ''X-Request-ID'' c in
           if valid_request_id rid then (rid, s)
           else case ask_outside (ho_random o') s of (random, s) \<Rightarrow>
             (case random of Inr _ \<Rightarrow> (generate_request_id random 0, s)
              | Inl _ \<Rightarrow> (case ask_outside (ho_now o') s of (now, s) \<Rightarrow> (generate_request_id random now, s)))) of
       (rid, s) \<Rightarrow> next' (set_header ''X-Request-ID'' rid (c\<lparr>gx_request_id := Some rid,
          gx_call := request_id_with_context (gx_call c) rid\<rparr>), s))"

definition mw_environment :: "string \<Rightarrow> 'x middleware" where
  "mw_environment profile next' = (\<lambda>(c, s). next' (c\<lparr>gx_environment := Some profile\<rparr>, s))"

definition mw_idempotency_key :: "'x http_outside \<Rightarrow> 'x middleware" where
  "mw_idempotency_key o' next' = (\<lambda>(c, s). let key = get_header ''Idempotency-Key'' c in
     if key = [] then next' (c, s)
     else if \<not> ho_valid_key o' key then Finished (fail_with (app_invalid ''invalid Idempotency-Key'' None) c, s)
     else next' (set_header ''Idempotency-Key'' key (c\<lparr>gx_call := (gx_call c)\<lparr>cc_idempotency_key := Some key\<rparr>\<rparr>), s))"

section \<open>Idempotent execution\<close>

definition nul :: string where "nul = [CHR 0x00]"

definition idempotency_fingerprint :: "'x http_outside \<Rightarrow> gin \<Rightarrow> gerr + string" where
  "idempotency_fingerprint o' c = (case body_stream c of
       (_, Some e) \<Rightarrow> Inl e
     | (bytes, None) \<Rightarrow> Inr (ho_sha256_hex o' ((case gx_subject c of Some subject \<Rightarrow> subject | None \<Rightarrow> ''<nil>'')
         @ nul @ rq_method (gx_request c) @ nul @ rq_route (gx_request c) @ nul @ bytes)))"

text \<open>What the capturing writer has seen since \<open>c\<close>, if it is one JSON value of the unified form.\<close>

definition captured :: "(int \<Rightarrow> string) \<Rightarrow> gin \<Rightarrow> gin \<Rightarrow> response option" where
  "captured float_text c c' = (case drop (length (gx_body c)) (gx_body c') of
       [r] \<Rightarrow> Some (r\<lparr>rs_body := any_of_json float_text (rs_body r)\<rparr>)
     | _ \<Rightarrow> None)"

definition persist_result :: "'x http_outside \<Rightarrow> 'x idempotency_manager \<Rightarrow> string \<Rightarrow> string \<Rightarrow> gin \<Rightarrow> 'x handler" where
  "persist_result o' m key owner c = (\<lambda>(c', s). case captured (ho_float_text o') c c' of
       None \<Rightarrow> Finished (c', s)
     | Some r \<Rightarrow> let r = r\<lparr>rs_request_id := []\<rparr> in
         (case (if gx_status c' \<ge> 400
                then ask_outside (im_fail m key owner \<lparr>if_code = rs_code r, if_message = rs_message r,
                  if_http_status = gx_status c'\<rparr>) s
                else ask_outside (im_complete m key owner r) s) of
            (_, s) \<Rightarrow> Finished (c', s)))"

definition mw_idempotency_execution :: "'x http_outside \<Rightarrow> 'x idempotency_manager option \<Rightarrow> string list \<Rightarrow> 'x middleware" where
  "mw_idempotency_execution o' manager paths next' = (\<lambda>(c, s).
     case (cc_idempotency_key (gx_call c), manager) of
       (Some key, Some m) \<Rightarrow>
         if \<not> im_enabled m \<or> rq_method (gx_request c) \<noteq> ''POST'' \<or> \<not> matches_any (rq_route (gx_request c)) paths
         then next' (c, s)
         else (case idempotency_fingerprint o' c of
             Inl e \<Rightarrow> Finished (fail_with (app_invalid ''read idempotent request'' (Some e)) c, s)
           | Inr fingerprint \<Rightarrow> (case ask_outside (im_begin m key fingerprint) s of
               (Inl e, s) \<Rightarrow> Finished (fail_with (app_unavailable ''idempotency is unavailable'' (Some e)) c, s)
             | (Inr d, s) \<Rightarrow> (case de_state d of
                   StateCompleted \<Rightarrow> (case de_response d of
                       Inl e \<Rightarrow> Finished (fail_with (app_unavailable ''idempotency response is unavailable'' (Some e)) c, s)
                     | Inr r \<Rightarrow> Finished (write_json 200 (r\<lparr>rs_request_id := request_id_of c\<rparr>) c, s))
                 | StateFailed \<Rightarrow> Finished (abort_json (if_http_status (de_failure d)) (if_code (de_failure d))
                     (if_message (de_failure d)) c, s)
                 | StateProcessing \<Rightarrow> Finished (fail_with app_request_in_progress c, s)
                 | StateConflict \<Rightarrow> Finished (fail_with (app_conflict ''idempotency key belongs to a different request'' None) c, s)
                 | StateAcquired \<Rightarrow> after_next (next' (c, s)) (persist_result o' m key (de_owner d) c)
                 | OtherState _ \<Rightarrow> Finished (fail_with (app_unavailable ''idempotency state is invalid'' None) c, s))))
     | _ \<Rightarrow> next' (c, s))"

section \<open>Metrics, recovery, limits\<close>

definition mw_metrics :: "bool \<Rightarrow> 'x middleware" where
  "mw_metrics enabled next' = (\<lambda>x. after_next (next' x) (\<lambda>(c, s). Finished (c,
     if \<not> enabled then s else s\<lparr>st_http_requests := st_http_requests s
       @ [(rq_method (gx_request c), if rq_route (gx_request c) = [] then ''unmatched'' else rq_route (gx_request c), gx_status c)]\<rparr>)))"

definition mw_recovery :: "'x middleware" where
  "mw_recovery next' = (\<lambda>x. case next' x of Finished y \<Rightarrow> Finished y
     | Panicked (c, s) \<Rightarrow> Finished (abort_json 500 CodeInternal ''internal server error'' c, s))"

text \<open>Whether the deadline has passed is seen when the chain is back.\<close>

definition mw_timeout :: "'x http_outside \<Rightarrow> duration \<Rightarrow> 'x middleware" where
  "mw_timeout o' timeout next' = (\<lambda>(c, s). after_next (next' (c, s)) (\<lambda>(c', s').
     Finished (if ho_expired o' timeout (st_outside s) (st_outside s') \<and> \<not> gx_written c'
       then fail_with app_request_timeout c' else c', s')))"

definition mw_max_body :: "int \<Rightarrow> 'x middleware" where
  "mw_max_body limit next' = (\<lambda>(c, s). next' (c\<lparr>gx_limit := Some limit\<rparr>, s))"

definition mw_require_json :: "'x http_outside \<Rightarrow> 'x middleware" where
  "mw_require_json o' next' = (\<lambda>(c, s).
     if rq_method (gx_request c) = ''POST'' \<and> rq_content_length (gx_request c) \<noteq> 0
       \<and> ho_media_type o' (get_header ''Content-Type'' c) \<noteq> Some ''application/json''
     then Finished (abort_json 415 CodeInvalidArgument ''content type must be application/json'' c, s)
     else next' (c, s))"

section \<open>Security headers, CORS\<close>

definition content_policy :: string where
  "content_policy = ''default-src 'none'; frame-ancestors 'none'' @ [CHR 0x27]"

definition mw_security_headers :: "'x middleware" where
  "mw_security_headers next' = (\<lambda>(c, s).
     let c = set_header ''X-Content-Type-Options'' ''nosniff'' c;
       c = set_header ''X-Frame-Options'' ''DENY'' c;
       c = set_header ''Referrer-Policy'' ''no-referrer'' c;
       c = set_header ''Content-Security-Policy'' content_policy c;
       c = set_header ''Cache-Control'' ''no-store'' c in
     next' (if rq_tls (gx_request c)
       then set_header ''Strict-Transport-Security'' ''max-age=31536000; includeSubDomains'' c else c, s))"

fun join_with :: "string \<Rightarrow> string list \<Rightarrow> string" where
  "join_with sep [] = []"
| "join_with sep [s] = s"
| "join_with sep (s # t # ss) = s @ sep @ join_with sep (t # ss)"

text \<open>\<open>int(d.Seconds())\<close> cuts towards zero.\<close>

definition whole_seconds :: "duration \<Rightarrow> int" where
  "whole_seconds d = (if d < 0 then - (- d div 1000000000) else d div 1000000000)"

definition mw_cors :: "cors_config \<Rightarrow> 'x middleware" where
  "mw_cors cfg next' = (\<lambda>(c, s). let origin = get_header ''Origin'' c in
     if \<not> cors_enabled cfg \<or> origin = [] then next' (c, s)
     else if origin \<notin> set (cors_allowed_origins cfg)
     then Finished (abort_json 403 CodeForbidden ''origin is not allowed'' c, s)
     else let c = set_header ''Access-Control-Allow-Origin'' origin c;
         c = set_header ''Vary'' ''Origin'' c;
         c = set_header ''Access-Control-Allow-Methods'' ''POST, GET, OPTIONS'' c;
         c = set_header ''Access-Control-Allow-Headers'' (join_with '', '' (cors_allowed_headers cfg)) c;
         c = set_header ''Access-Control-Expose-Headers'' (join_with '', '' (cors_exposed_headers cfg)) c;
         c = set_header ''Access-Control-Max-Age'' (itoa (whole_seconds (cors_max_age cfg))) c in
       if rq_method (gx_request c) = ''OPTIONS'' then Finished (write_status 204 c, s) else next' (c, s))"

section \<open>Rate limits\<close>

definition mw_rate_limit :: "'x limiter \<Rightarrow> rate_limit_rule \<Rightarrow> string \<Rightarrow> (gin \<Rightarrow> string) \<Rightarrow> 'x middleware" where
  "mw_rate_limit l rule dimension rate_key next' = (\<lambda>(c, s).
     if \<not> lm_enabled l \<or> rate_key c = [] then next' (c, s)
     else case ask_outside (rate_allow l (''rate:'' @ dimension @ '':'' @ rate_key c) rule) s of
       (Inl e, s) \<Rightarrow> if lm_fail_open l then next' (c, s)
         else Finished (fail_with (app_unavailable ''rate limiter unavailable'' (Some e)) c, s)
     | (Inr r, s) \<Rightarrow>
         let c = set_header ''X-RateLimit-Limit'' (itoa (rt_limit r)) c;
           c = set_header ''X-RateLimit-Remaining'' (itoa (rt_remaining r)) c in
         if \<not> rt_allowed r
         then Finished (fail_with app_too_many_requests
           (set_header ''Retry-After'' (itoa (retry_after_seconds (rt_retry_after r))) c), s)
         else next' (c, s))"

section \<open>Authentication and authorization\<close>

definition mw_jwt :: "'x http_outside \<Rightarrow> 'x middleware" where
  "mw_jwt o' next' = (\<lambda>(c, s). let header = get_header ''Authorization'' c in
     case cut header CHR '' '' of (scheme, raw, ok) \<Rightarrow>
       if \<not> ok \<or> \<not> equal_fold scheme ''Bearer'' \<or> raw = []
       then Finished (fail_with (app_unauthorized ''missing bearer token'') c, s)
       else case ask_outside (ho_verify o' raw) s of
         (Inl e, s) \<Rightarrow> Finished (fail_with (app_unauthorized ''invalid or expired token'') c, s)
       | (Inr identity, s) \<Rightarrow> next' (c\<lparr>gx_subject := Some (pr_id identity), gx_principal := Some identity,
           gx_credential := Some header\<rparr>, s))"

definition psk_principal :: principal where
  "psk_principal = \<lparr>pr_id = ''import-service:psk'', pr_type = TypeServiceAccount, pr_tenant_id = []\<rparr>"

definition mw_authentication :: "'x http_outside \<Rightarrow> auth_config \<Rightarrow> 'x middleware" where
  "mw_authentication o' cfg next' = (\<lambda>(c, s).
     if psk_enabled (auth_psk cfg) \<and> matches_any (rq_route (gx_request c)) (psk_http_paths (auth_psk cfg))
     then if \<not> verify_psk (get_header ''Authorization'' c) (psk_key (auth_psk cfg))
       then Finished (fail_with (app_unauthorized ''missing or invalid PSK'') c, s)
       else next' (c\<lparr>gx_subject := Some ''psk'', gx_principal := Some psk_principal,
         gx_credential := Some (get_header ''Authorization'' c)\<rparr>, s)
     else if matches_any (rq_route (gx_request c)) (auth_skip_http_paths cfg) then next' (c, s)
     else mw_jwt o' next' (c, s))"

definition import_requirements :: "(string \<times> requirement) list" where
  "import_requirements = map (\<lambda>(route, resource, action). (route, \<lparr>rm_resource = resource, rm_action = action\<rparr>))
    [(''/api/v1/imports/datasets/list'', ''import.dataset'', ''list''),
     (''/api/v1/imports/datasets/describe'', ''import.dataset'', ''read''),
     (''/api/v1/imports/create'', ''import.job'', ''create''),
     (''/api/v1/imports/complete-upload'', ''import.job'', ''upload''),
     (''/api/v1/imports/get'', ''import.job'', ''read''),
     (''/api/v1/imports/list'', ''import.job'', ''list''),
     (''/api/v1/imports/cancel'', ''import.job'', ''cancel''),
     (''/api/v1/imports/retry'', ''import.job'', ''retry''),
     (''/api/v1/imports/confirm'', ''import.job'', ''confirm''),
     (''/api/v1/imports/error-report'', ''import.job'', ''download-error'')]"

definition import_http_requirement :: "string \<Rightarrow> requirement option" where
  "import_http_requirement route = map_of import_requirements route"

definition mw_authorization :: "'x http_outside \<Rightarrow> bool \<Rightarrow> 'x middleware" where
  "mw_authorization o' enabled next' = (\<lambda>(c, s). case import_http_requirement (rq_route (gx_request c)) of
       None \<Rightarrow> next' (c, s)
     | Some r \<Rightarrow> if \<not> enabled then next' (c, s)
         else (case ask_outside (ho_enforce o' (gx_principal c) (gx_credential c) r) s of
             (None, s) \<Rightarrow> next' (c, s)
           | (Some e, s) \<Rightarrow> Finished (fail_with (if err_is_decision_unavailable e
               then app_unavailable ''authorization decision is unavailable'' (Some e)
               else app_forbidden ''permission denied'') c, s)))"

end
