(* ===== verification/Http_Server.thy ===== *)
theory Http_Server
  imports Http_Api Http_Middleware
begin

text \<open>
  The HTTP server (\<open>internal/transport/http/server.go\<close>): the middleware in the order in which it is
  installed, the routes, and \<open>serve_http\<close>, a request from its arrival to its response. gin's router is
  the field \<open>rq_route\<close> of a request: the route that its path matches, empty without one. The
  handlers of libraries (metrics, profiles, API documentation) are the function \<open>hv_library\<close>.
\<close>

section \<open>The server\<close>

record ('env, 'x) http_server =
  hv_config :: config
  hv_api :: "('env, 'x) http_api"
  hv_outside :: "'x http_outside"
  hv_limiter :: "'x limiter"
  hv_manager :: "'x idempotency_manager option"
  hv_metrics :: bool
  hv_library :: "string \<Rightarrow> 'x handler"

definition chain :: "'x middleware list \<Rightarrow> 'x handler \<Rightarrow> 'x handler" where
  "chain ms h = foldr (\<lambda>m. m) ms h"

definition global_middleware :: "('env, 'x) http_server \<Rightarrow> 'x middleware list" where
  "global_middleware v = (let h = cfg_http (hv_config v); o' = hv_outside v in
     [mw_request_id o', mw_idempotency_key o', mw_environment (run_active_profile (cfg_runtime (hv_config v))),
      mw_recovery, mw_metrics (hv_metrics v), mw_security_headers, mw_cors (http_cors h),
      mw_max_body (http_max_body_bytes h), mw_timeout o' (http_request_timeout h), mw_require_json o'])"

definition subject_key :: "gin \<Rightarrow> string" where
  "subject_key c = (case gx_subject c of Some subject \<Rightarrow> subject | None \<Rightarrow> [])"

definition api_middleware :: "('env, 'x) http_server \<Rightarrow> 'x middleware list" where
  "api_middleware v = (let cfg = hv_config v; o' = hv_outside v; l = hv_limiter v in
     [mw_rate_limit l (rl_ip (cfg_rate_limit cfg)) ''ip'' (\<lambda>c. rq_client_ip (gx_request c)),
      mw_rate_limit l (rl_api (cfg_rate_limit cfg)) ''api'' (\<lambda>c. rq_route (gx_request c)),
      mw_authentication o' (cfg_auth cfg), mw_authorization o' (authz_enabled (cfg_authorization cfg)),
      mw_rate_limit l (rl_user (cfg_rate_limit cfg)) ''user'' subject_key,
      mw_idempotency_execution o' (hv_manager v) (idem_http_paths (cfg_idempotency cfg))])"

definition pprof_auth :: "string \<Rightarrow> 'x middleware" where
  "pprof_auth expected next' = (\<lambda>(c, s). case cut (get_header ''Authorization'' c) CHR '' '' of (scheme, token, ok) \<Rightarrow>
     if \<not> ok \<or> \<not> equal_fold scheme ''Bearer'' \<or> constant_time_compare token expected \<noteq> 1
     then Finished (write_status 401 c, s) else next' (c, s))"

definition pprof_routes :: "(string \<times> string) list" where
  "pprof_routes = [(''GET'', ''/debug/pprof/''), (''GET'', ''/debug/pprof/cmdline''), (''GET'', ''/debug/pprof/profile''),
     (''POST'', ''/debug/pprof/symbol''), (''GET'', ''/debug/pprof/symbol''), (''GET'', ''/debug/pprof/trace'')]
     @ map (\<lambda>p. (''GET'', ''/debug/pprof/'' @ p)) [''allocs'', ''block'', ''goroutine'', ''heap'', ''mutex'', ''threadcreate'']"

definition import_handlers :: "('env, 'x) http_api \<Rightarrow> (string \<times> schema \<times> 'x handler) list" where
  "import_handlers api =
    [(''/api/v1/imports/datasets/list'', dataset_page_schema, handle_list_datasets api),
     (''/api/v1/imports/datasets/describe'', dataset_descriptor_schema, handle_describe_dataset api),
     (''/api/v1/imports/create'', import_upload_schema, handle_create api),
     (''/api/v1/imports/complete-upload'', import_job_schema, handle_complete_upload api),
     (''/api/v1/imports/get'', import_job_schema, handle_get api),
     (''/api/v1/imports/list'', import_page_schema, handle_list api),
     (''/api/v1/imports/cancel'', import_job_schema, handle_cancel api),
     (''/api/v1/imports/retry'', import_upload_schema, handle_retry api),
     (''/api/v1/imports/confirm'', import_mutation_schema, handle_confirm api),
     (''/api/v1/imports/error-report'', error_report_schema, handle_error_report api)]"

text \<open>Method, route and handler. The schema of a body is for the theorems.\<close>

definition http_routes :: "('env, 'x) http_server \<Rightarrow> ((string \<times> string) \<times> 'x handler) list" where
  "http_routes v = (let cfg = hv_config v; api = hv_api v in
     concat (map (\<lambda>m. [((m, ''/live''), handle_live api), ((m, ''/ready''), handle_ready api)]) [''GET'', ''POST''])
     @ (if hv_metrics v then [((''GET'', ''/metrics''), hv_library v ''/metrics'')] else [])
     @ (if obs_pprof_enabled (cfg_observability cfg)
        then map (\<lambda>(m, p). ((m, p), pprof_auth (obs_pprof_token (cfg_observability cfg)) (hv_library v p))) pprof_routes else [])
     @ (if swagger_enabled (cfg_swagger cfg)
        then [((''GET'', ''/swagger/*any''), (if swagger_require_auth (cfg_swagger cfg) then mw_jwt (hv_outside v) else id)
          (hv_library v ''/swagger/*any''))] else [])
     @ ((''POST'', ''/api/v1/version''), chain (api_middleware v) (handle_version api))
     # map (\<lambda>(route, t, h). ((''POST'', route), chain (api_middleware v) h)) (import_handlers api))"

text \<open>Without a route gin presets the status 404, runs the global middleware and writes it.\<close>

definition no_route :: "'x handler" where
  "no_route = (\<lambda>(c, s). Finished (c, s))"

definition start_request :: "api_request \<Rightarrow> gin" where
  "start_request r = \<lparr>gx_request = r, gx_limit = None, gx_request_id = None, gx_environment = None, gx_subject = None,
     gx_call = \<lparr>cc_deadline = None, cc_request_id = None, cc_idempotency_key = None, cc_outgoing = []\<rparr>,
     gx_principal = None, gx_credential = None, gx_headers = [], gx_status = 200, gx_written = False, gx_body = []\<rparr>"

definition serve_http :: "('env, 'x) http_server \<Rightarrow> api_request \<Rightarrow> 'x server_state \<Rightarrow> (gin \<times> 'x server_state) flow" where
  "serve_http v r s = (case map_of (http_routes v) (rq_method r, rq_route r) of
       Some h \<Rightarrow> chain (global_middleware v) h (start_request r, s)
     | None \<Rightarrow> after_next (chain (global_middleware v) no_route (start_request r\<lparr>gx_status := 404\<rparr>, s))
         (\<lambda>(c, s). Finished (if gx_written c then c else write_status 404 c, s)))"

section \<open>The chain\<close>

lemma chain_simps [simp]: "chain [] h = h" "chain (m # ms) h = m (chain ms h)"
  by (simp_all add: chain_def)

lemma import_route:
  assumes "(route, t, h) \<in> set (import_handlers (hv_api v))"
  shows "map_of (http_routes v) (''POST'', route) = Some (chain (api_middleware v) h)"
  using assms unfolding import_handlers_def
  by (auto simp: http_routes_def pprof_routes_def import_handlers_def Let_def map_add_def split: option.split)

lemma serve_import:
  assumes "(rq_route r, t, h) \<in> set (import_handlers (hv_api v))" and "rq_method r = ''POST''"
  shows "serve_http v r s = chain (global_middleware v) (chain (api_middleware v) h) (start_request r, s)"
  using import_route [OF assms(1)] assms(2) by (simp add: serve_http_def)

section \<open>A request on its way\<close>

text \<open>The interface of the proofs about whole requests, for those that are \<open>admitted\<close>. \<open>Inv\<close> holds of contexts with states on the way
  to the handler, \<open>Q\<close> of outcomes on the way back; the laws say what the middleware may do to each. A
  handler is \<open>safe\<close> if it takes \<open>Inv\<close> to \<open>Q\<close>, and then so is the chain before it.\<close>

definition refusal :: "gerr \<Rightarrow> bool" where
  "refusal e \<longleftrightarrow> (case e of AppError _ _ st _ \<Rightarrow> st \<ge> 400 | _ \<Rightarrow> False)"

lemma refusals [simp]:
  "refusal (app_invalid m c)" "refusal (app_conflict m c)" "refusal app_request_in_progress" "refusal (app_unauthorized m)"
  "refusal (app_forbidden m)" "refusal app_too_many_requests" "refusal app_request_timeout" "refusal (app_unavailable m c)"
  "refusal (AppError code m st c) \<longleftrightarrow> st \<ge> 400"
  by (simp_all add: refusal_def app_error_defs)

lemma abort_json_fail: "abort_json st code m c = fail_with (AppError code m st None) c"
  by (simp add: abort_json_def fail_with_def failure_of_def)

definition identified :: "api_request \<Rightarrow> string \<Rightarrow> gin" where
  "identified r rid = set_header ''X-Request-ID'' rid ((start_request r)\<lparr>gx_request_id := Some rid,
     gx_call := request_id_with_context (gx_call (start_request r)) rid\<rparr>)"

text \<open>A source of 16 random bytes, and a clock of 64 bits.\<close>

definition outside_ok :: "'x http_outside \<Rightarrow> bool" where
  "outside_ok o' \<longleftrightarrow> (\<forall>x b. fst (ho_random o' x) = Inr b \<longrightarrow> length b = 16)
     \<and> (\<forall>x. - (2 ^ 63) \<le> fst (ho_now o' x) \<and> fst (ho_now o' x) < 2 ^ 63)"

lemma outside_okD:
  "outside_ok o' \<Longrightarrow> ho_random o' x = (Inr b, y) \<Longrightarrow> length b = 16"
  "outside_ok o' \<Longrightarrow> ho_now o' x = (now, y) \<Longrightarrow> - (2 ^ 63) \<le> now"
  "outside_ok o' \<Longrightarrow> ho_now o' x = (now, y) \<Longrightarrow> now < 2 ^ 63"
  unfolding outside_ok_def by (metis fst_conv)+

locale request_flow =
  fixes r :: api_request and s0 :: "'x server_state" and admitted :: bool
    and Inv :: "gin \<times> 'x server_state \<Rightarrow> bool" and Q :: "(gin \<times> 'x server_state) flow \<Rightarrow> bool"
  assumes start: "admitted \<Longrightarrow> valid_request_id rid \<Longrightarrow> Inv (identified r rid, s0\<lparr>st_outside := x\<rparr>)"
    and request: "Inv (c, s) \<Longrightarrow> gx_request c = r"
    and post: "Inv (c, s) \<Longrightarrow> rq_method r = ''POST''"
    and outside: "Inv (c, s) \<Longrightarrow> Inv (c, s\<lparr>st_outside := x\<rparr>)"
    and header: "Inv (c, s) \<Longrightarrow> k \<noteq> ''X-Request-ID'' \<Longrightarrow> Inv (set_header k val c, s)"
    and limited: "Inv (c, s) \<Longrightarrow> Inv (c\<lparr>gx_limit := Some n\<rparr>, s)"
    and environment: "Inv (c, s) \<Longrightarrow> Inv (c\<lparr>gx_environment := Some profile\<rparr>, s)"
    and keyed: "Inv (c, s) \<Longrightarrow> get_header ''Idempotency-Key'' c = key \<Longrightarrow> key \<noteq> [] \<Longrightarrow>
      Inv (c\<lparr>gx_call := (gx_call c)\<lparr>cc_idempotency_key := Some key\<rparr>\<rparr>, s)"
    and refused: "Inv (c, s) \<Longrightarrow> refusal e \<Longrightarrow> Q (Finished (fail_with e c, s))"
    and counted: "Q (Finished (c, s)) \<Longrightarrow> Q (Finished (c, s\<lparr>st_http_requests := l\<rparr>))"
    and recovered: "Q (Panicked (c, s)) \<Longrightarrow> Q (Finished (fail_with (AppError CodeInternal ''internal server error'' 500 None) c, s))"
    and written: "Q (Finished (c, s)) \<Longrightarrow> gx_written c"
begin

definition safe :: "'x handler \<Rightarrow> bool" where
  "safe h \<longleftrightarrow> (\<forall>c s. Inv (c, s) \<longrightarrow> Q (h (c, s)))"

lemma safeI: "(\<And>c s. Inv (c, s) \<Longrightarrow> gx_request c = r \<Longrightarrow> Q (h (c, s))) \<Longrightarrow> safe h"
  using request by (auto simp: safe_def)

lemma safeD: "safe h \<Longrightarrow> Inv (c, s) \<Longrightarrow> Q (h (c, s))"
  by (simp add: safe_def)

lemma safe_idempotency_key: "safe h \<Longrightarrow> safe (mw_idempotency_key o' h)"
  by (rule safeI) (auto simp: mw_idempotency_key_def Let_def intro!: safeD refused header keyed)

lemma safe_environment: "safe h \<Longrightarrow> safe (mw_environment profile h)"
  by (rule safeI) (auto simp: mw_environment_def intro: safeD environment)

lemma safe_recovery: "safe h \<Longrightarrow> safe (mw_recovery h)"
proof (rule safeI)
  fix c s assume "safe h" "Inv (c, s)"
  then have "Q (h (c, s))" by (rule safeD)
  then show "Q (mw_recovery h (c, s))"
    by (auto simp: mw_recovery_def abort_json_fail intro: recovered split: flow.split)
qed

lemma safe_metrics: "safe h \<Longrightarrow> safe (mw_metrics enabled h)"
  by (rule safeI) (auto simp: mw_metrics_def after_next_def dest!: safeD dest: counted split: flow.split)

lemma safe_security_headers: "safe h \<Longrightarrow> safe (mw_security_headers h)"
  by (rule safeI) (auto simp: mw_security_headers_def Let_def intro!: safeD header)

lemma safe_cors: "safe h \<Longrightarrow> safe (mw_cors cfg h)"
  by (rule safeI) (auto simp: mw_cors_def Let_def abort_json_fail post intro!: safeD header refused)

lemma safe_max_body: "safe h \<Longrightarrow> safe (mw_max_body limit h)"
  by (rule safeI) (auto simp: mw_max_body_def intro: safeD limited)

lemma safe_timeout: "safe h \<Longrightarrow> safe (mw_timeout o' timeout h)"
  by (rule safeI) (auto simp: mw_timeout_def after_next_def dest!: safeD dest: written split: flow.split)

lemma safe_require_json: "safe h \<Longrightarrow> safe (mw_require_json o' h)"
  by (rule safeI) (auto simp: mw_require_json_def abort_json_fail intro: safeD refused)

lemma safe_rate_limit: "safe h \<Longrightarrow> safe (mw_rate_limit l rule dim rate_key h)"
  by (rule safeI) (auto simp: mw_rate_limit_def ask_outside_def Let_def intro!: safeD refused header outside
      split: prod.split sum.split)

text \<open>A token, a key or a skipped route leads on with any identity; the authorizer lets pass or refuses.\<close>

lemma safe_authorization: "safe h \<Longrightarrow> safe (mw_authorization o' enabled h)"
  by (rule safeI) (auto simp: mw_authorization_def ask_outside_def intro!: safeD refused outside
      split: option.split prod.split)

text \<open>The middleware before the routes.\<close>

lemma request_id_valid:
  assumes "outside_ok o'" and "safe h" and admitted
  shows "Q (mw_request_id o' h (start_request r, s0))"
proof -
  have known: "Q (h (identified r rid, s0))" if "valid_request_id rid" for rid
    using safeD [OF assms(2) start [OF assms(3) that, of "st_outside s0"]] by simp
  have made: "Q (h (identified r (generate_request_id random now), s0\<lparr>st_outside := x\<rparr>))"
    if "\<And>b. random = Inr b \<Longrightarrow> length b = 16" "- (2 ^ 63) \<le> now" "now < 2 ^ 63" for random now x
    by (rule safeD [OF assms(2) start [OF assms(3)]]) (rule generated_id_valid, fact+)
  show ?thesis
    using outside_okD [OF assms(1)]
    by (auto simp: mw_request_id_def ask_outside_def Let_def identified_def [symmetric]
        split: sum.split prod.split intro!: known made simp del: power_numeral)
qed

lemma global_safe:
  assumes "safe h" and "outside_ok (hv_outside v)" and admitted
  shows "Q (chain (global_middleware v) h (start_request r, s0))"
  using assms unfolding global_middleware_def Let_def
  by (simp, intro request_id_valid safe_idempotency_key safe_environment safe_recovery safe_metrics
      safe_security_headers safe_cors safe_max_body safe_timeout safe_require_json)

end

text \<open>A response that the store of results gives back for a key.\<close>

definition stored_answer :: "'x idempotency_manager option \<Rightarrow> string \<Rightarrow> response \<Rightarrow> bool" where
  "stored_answer manager key rs \<longleftrightarrow> (\<exists>m fingerprint x d y. manager = Some m
     \<and> im_begin m key fingerprint x = (Inr d, y) \<and> de_state d = StateCompleted \<and> de_response d = Inr rs)"

lemma stored_answerI:
  "im_begin m key fingerprint x = (Inr d, y) \<Longrightarrow> de_state d = StateCompleted \<Longrightarrow> de_response d = Inr rs \<Longrightarrow>
   stored_answer (Some m) key rs"
  by (auto simp: stored_answer_def)

text \<open>The middleware of the routes asks for two more laws: identities can be set, and the answers of
  the store of results are answers.\<close>

locale api_flow = request_flow r s0 admitted Inv Q
  for r :: api_request and s0 :: "'x server_state" and admitted :: bool
    and Inv :: "gin \<times> 'x server_state \<Rightarrow> bool" and Q :: "(gin \<times> 'x server_state) flow \<Rightarrow> bool" +
  fixes manager :: "'x idempotency_manager option"
  assumes identity: "Inv (c, s) \<Longrightarrow> Inv (c\<lparr>gx_subject := Some a, gx_principal := Some p, gx_credential := Some d\<rparr>, s)"
    and replayed: "Inv (c, s) \<Longrightarrow> cc_idempotency_key (gx_call c) = Some key \<Longrightarrow> stored_answer manager key rs \<Longrightarrow>
      Q (Finished (write_json 200 (rs\<lparr>rs_request_id := request_id_of c\<rparr>) c, s))"
    and failed_before: "Inv (c, s) \<Longrightarrow> cc_idempotency_key (gx_call c) \<noteq> None \<Longrightarrow>
      Q (Finished (fail_with (AppError code m st None) c, s))"
    and persisted: "Q (Finished (c, s)) \<Longrightarrow> Q (Finished (c, s\<lparr>st_outside := x\<rparr>))"
begin

lemma safe_jwt: "safe h \<Longrightarrow> safe (mw_jwt o' h)"
  by (rule safeI) (auto simp: mw_jwt_def ask_outside_def Let_def intro!: safeD refused outside identity
      split: prod.split sum.split)

lemma safe_authentication: "safe h \<Longrightarrow> safe (mw_authentication o' cfg h)"
  by (rule safeI) (auto simp: mw_authentication_def intro!: refused identity safeD [OF safe_jwt] safeD [of h])

lemma safe_persist: "Q (Finished (c', s)) \<Longrightarrow> Q (persist_result o' m key owner c (c', s))"
  by (auto simp: persist_result_def ask_outside_def Let_def intro: persisted split: option.split prod.split)

lemma safe_idempotency: "safe h \<Longrightarrow> safe (mw_idempotency_execution o' manager paths h)"
proof (rule safeI)
  fix c s assume h: "safe h" and I: "Inv (c, s)"
  have after: "Q (after_next (h (c, t)) (persist_result o' m key owner c))" if "Inv (c, t)" for t m key owner
    using safeD [OF h that] by (auto simp: after_next_def intro: safe_persist split: flow.split)
  show "Q (mw_idempotency_execution o' manager paths h (c, s))"
  proof (cases "cc_idempotency_key (gx_call c)")
    case None
    with h I show ?thesis by (simp add: mw_idempotency_execution_def safeD)
  next
    case (Some key)
    with h I after show ?thesis
      by (auto simp: mw_idempotency_execution_def ask_outside_def abort_json_fail
          intro!: after safeD [of h] refused outside replayed [OF _ Some] failed_before
          intro: stored_answerI
          split: option.split sum.split prod.split idempotency_state.split)
  qed
qed

lemma api_safe: "hv_manager v = manager \<Longrightarrow> safe h \<Longrightarrow> safe (chain (api_middleware v) h)"
  unfolding api_middleware_def Let_def
  by (simp, intro safe_rate_limit safe_authentication safe_authorization safe_idempotency)

lemma serve_safe:
  assumes "(rq_route r, t, h) \<in> set (import_handlers (hv_api v))" and "rq_method r = ''POST''"
    and "outside_ok (hv_outside v)" and "hv_manager v = manager" and admitted and "safe h"
  shows "Q (serve_http v r s0)"
  by (simp add: serve_import [OF assms(1,2)] global_safe api_safe assms(3-6))

end

end
