(* ===== verification/Http_Scenario.thy ===== *)
theory Http_Scenario
  imports Http_Server Scenario Provider_Properties
begin

text \<open>
  A small server and requests on which the properties of the HTTP API and of the gRPC server are
  tried: one token that is accepted, a store of idempotent results as a list, and the service of
  theory \<open>Scenario\<close>. No definition here models code.
\<close>

type_synonym demo_store = "(string \<times> string \<times> response) list"

definition demo_principal :: principal where
  "demo_principal = \<lparr>pr_id = ''ann'', pr_type = OtherType ''user'', pr_tenant_id = ''t1''\<rparr>"

definition demo_outside :: "demo_store http_outside" where
  "demo_outside = \<lparr>ho_random = (\<lambda>x. (Inr (replicate 16 CHR ''a''), x)), ho_now = (\<lambda>x. (0, x)), ho_expired = (\<lambda>d x y. False),
     ho_media_type = Some, ho_valid_key = (\<lambda>k. k \<noteq> []), ho_sha256_hex = (\<lambda>s. s), ho_float_text = (\<lambda>n. []),
     ho_verify = (\<lambda>raw x. (if raw = ''good'' then Inr demo_principal else Inl (ErrText ''bad token''), x)),
     ho_enforce = (\<lambda>p d r x. (None, x))\<rparr>"

definition no_failure :: idempotency_failure where
  "no_failure = \<lparr>if_code = 0, if_message = [], if_http_status = 0\<rparr>"

text \<open>The owner of a key is the fingerprint of its first request.\<close>

definition demo_manager :: "demo_store idempotency_manager" where
  "demo_manager = \<lparr>im_enabled = True,
     im_begin = (\<lambda>key fp x. (Inr (case map_of x key of
         None \<Rightarrow> \<lparr>de_state = StateAcquired, de_owner = fp, de_response = Inl (ErrText []), de_failure = no_failure\<rparr>
       | Some (fp', r) \<Rightarrow> \<lparr>de_state = (if fp' = fp then StateCompleted else StateConflict), de_owner = [],
           de_response = Inr r, de_failure = no_failure\<rparr>), x)),
     im_complete = (\<lambda>key owner r x. (None, (key, owner, r) # x)),
     im_fail = (\<lambda>key owner f x. (None, x))\<rparr>"

definition demo_api :: "(event_metadata \<times> job_changed, demo_store) http_api" where
  "demo_api = \<lparr>ha_service = demo_service, ha_catalog = new_catalog demo_env, ha_time_text = (\<lambda>t. []), ha_parse_time = (\<lambda>s. None),
     ha_decode = (\<lambda>s e. Inr JNull), ha_pings = (\<lambda>x. ((True, None, None), x)), ha_build = JNull\<rparr>"

definition demo_config :: config where
  "demo_config = default_config\<lparr>cfg_auth := (cfg_auth default_config)\<lparr>auth_skip_http_paths := [], auth_skip_grpc_methods := [],
     auth_psk := \<lparr>psk_enabled = False, psk_key = [], psk_http_paths = [], psk_grpc_methods = []\<rparr>\<rparr>\<rparr>"

definition demo_server :: "(event_metadata \<times> job_changed, demo_store) http_server" where
  "demo_server = \<lparr>hv_config = demo_config, hv_api = demo_api, hv_outside = demo_outside,
     hv_limiter = \<lparr>lm_enabled = False, lm_fail_open = False, lm_backend = None\<rparr>, hv_manager = Some demo_manager,
     hv_metrics = True, hv_library = (\<lambda>route x. Finished x)\<rparr>"

definition demo_http_request :: "string \<Rightarrow> api_request" where
  "demo_http_request authorization = \<lparr>rq_method = ''POST'', rq_route = ''/api/v1/imports/get'',
     rq_headers = [(''Authorization'', authorization)], rq_content_length = 2, rq_body = ''{}'', rq_body_err = None,
     rq_tls = True, rq_client_ip = ''10.0.0.1''\<rparr>"

definition demo_state :: "demo_store server_state" where
  "demo_state = \<lparr>st_world = demo_world, st_provider = empty_provider, st_outside = [], st_http_requests = []\<rparr>"

text \<open>A context with an idempotency key on its way.\<close>

definition demo_keyed :: gin where
  "demo_keyed = (start_request (demo_http_request []))\<lparr>gx_call :=
     \<lparr>cc_deadline = None, cc_request_id = None, cc_idempotency_key = Some ''k'', cc_outgoing = []\<rparr>\<rparr>"

lemma demo_route: "(rq_route (demo_http_request a), import_job_schema, handle_get (hv_api demo_server)) \<in> set (import_handlers (hv_api demo_server))"
  by (simp add: demo_http_request_def import_handlers_def)

lemma demo_outside_ok: "outside_ok (hv_outside demo_server)"
  by (simp add: outside_ok_def demo_server_def demo_outside_def)

end
