(* ===== verification/Http_Properties.thy ===== *)
theory Http_Properties
  imports Http_Server Http_Scenario
begin

text \<open>
  What holds of whole requests: the interpretations of the locales of theory \<open>Http_Server\<close> on the
  model's contexts, and the properties of the HTTP API that rest on them.
\<close>

section \<open>Handlers\<close>

lemma import_handler_cases:
  fixes h :: "'x handler"
  assumes "(route, t, h) \<in> set (import_handlers api)"
  obtains c' s' where "h (c, s) = Finished (c', s')" "answers t c c'" | s' where "h (c, s) = Panicked (c, s')"
proof -
  define P where "P t h \<longleftrightarrow> (\<exists>c' s'. h (c, s) = Finished (c', s') \<and> answers t c c') \<or> (\<exists>s'. h (c, s) = Panicked (c, s'))"
    for t and h :: "'x handler"
  have service: "P t (service_handler api read call body)" if "\<And>q x. conforms (body q x) t"
    for t read call and body :: "'b \<Rightarrow> 'c \<Rightarrow> json"
    using that service_handler_answers [of body t api read call c s] unfolding P_def by blast
  have catalog: "P dataset_page_schema (handle_list_datasets api)" "P dataset_descriptor_schema (handle_describe_dataset api)"
    using catalog_handlers_answer [of api c s] unfolding P_def by blast+
  from assms catalog have "P t h" unfolding import_handlers_def handler_defs
    by (auto intro!: service import_upload_conforms import_page_conforms import_mutation_conforms error_report_conforms
        split: prod.splits)
  with that show thesis unfolding P_def by blast
qed

lemma answers_frame:
  assumes "answers t c c'"
  shows "gx_headers c' = gx_headers c" "gx_written c'"
    "\<exists>rs. gx_body c' = gx_body c @ [rs] \<and> rs_request_id rs = request_id_of c"
  using assms by (auto simp: answers_def ok_response_def fail_with_def split_beta)

lemma fail_with_frame [simp]:
  "gx_headers (fail_with e c) = gx_headers c" "gx_written (fail_with e c)" "gx_request (fail_with e c) = gx_request c"
  "gx_body (fail_with e c) = gx_body c @ [\<lparr>rs_code = fst (failure_of e), rs_message = fst (snd (failure_of e)),
     rs_body = JNull, rs_request_id = request_id_of c\<rparr>]"
  "\<not> gx_written c \<Longrightarrow> gx_status (fail_with e c) = snd (snd (failure_of e))"
  by (auto simp: fail_with_def split_beta)

lemma map_of_set_header [simp]: "k \<noteq> j \<Longrightarrow> map_of (gx_headers (set_header k v c)) j = map_of (gx_headers c) j"
  by (simp add: set_header_def update_conv' delete_conv')

lemma request_id_of_frame [simp]:
  "request_id_of (set_header k v c) = request_id_of c" "request_id_of (c\<lparr>gx_limit := n\<rparr>) = request_id_of c"
  "request_id_of (c\<lparr>gx_environment := e\<rparr>) = request_id_of c" "request_id_of (c\<lparr>gx_call := x\<rparr>) = request_id_of c"
  "request_id_of (c\<lparr>gx_subject := a, gx_principal := p, gx_credential := d\<rparr>) = request_id_of c"
  by (simp_all add: request_id_of_def)

section \<open>Every request is answered\<close>

definition arriving :: "api_request \<Rightarrow> gin \<times> 'x server_state \<Rightarrow> bool" where
  "arriving r = (\<lambda>(c, s). gx_request c = r \<and> rq_method r = ''POST'' \<and> \<not> gx_written c \<and> gx_body c = [] \<and> gx_status c = 200
     \<and> valid_request_id (request_id_of c) \<and> map_of (gx_headers c) ''X-Request-ID'' = Some (request_id_of c))"

text \<open>One response, with the id of the request, which the client also finds in a header.\<close>

definition answered_once :: "gin \<Rightarrow> bool" where
  "answered_once c \<longleftrightarrow> gx_written c \<and> (\<exists>rs rid. gx_body c = [rs] \<and> rs_request_id rs = rid \<and> valid_request_id rid
     \<and> map_of (gx_headers c) ''X-Request-ID'' = Some rid)"

definition returning :: "(gin \<times> 'x server_state) flow \<Rightarrow> bool" where
  "returning r = (case r of Finished (c, _) \<Rightarrow> answered_once c
     | Panicked (c, _) \<Rightarrow> \<not> gx_written c \<and> gx_body c = [] \<and> valid_request_id (request_id_of c)
         \<and> map_of (gx_headers c) ''X-Request-ID'' = Some (request_id_of c))"

lemma arriving_identified:
  "rq_method r = ''POST'' \<Longrightarrow> valid_request_id rid \<Longrightarrow> arriving r (identified r rid, s)"
  by (auto simp: arriving_def identified_def start_request_def set_header_def request_id_of_def update_conv'
      valid_request_id_def)

interpretation replying: api_flow r s0 "rq_method r = ''POST''" "arriving r" returning manager for r s0 manager
proof (unfold_locales, goal_cases)
  case 1 then show ?case by (simp add: arriving_identified)
qed (auto simp: arriving_def returning_def answered_once_def)

lemma finishes_request_id: "(\<And>x. \<exists>y. h x = Finished y) \<Longrightarrow> \<exists>y. mw_request_id o' h x = Finished y"
  by (cases x) (simp add: mw_request_id_def split_beta)

lemma finishes_idempotency_key: "(\<And>x. \<exists>y. h x = Finished y) \<Longrightarrow> \<exists>y. mw_idempotency_key o' h x = Finished y"
  by (cases x) (auto simp: mw_idempotency_key_def Let_def)

lemma finishes_environment: "(\<And>x. \<exists>y. h x = Finished y) \<Longrightarrow> \<exists>y. mw_environment p h x = Finished y"
  by (cases x) (simp add: mw_environment_def)

lemma finishes_recovery: "\<exists>y. mw_recovery h x = Finished y"
  by (auto simp: mw_recovery_def split: flow.split)

lemma global_finishes: "\<exists>y. chain (global_middleware v) h x = Finished y"
  unfolding global_middleware_def Let_def chain_simps
  by (intro finishes_request_id finishes_idempotency_key finishes_environment finishes_recovery)

lemma handlers_return:
  fixes v :: "('env, 'x) http_server"
  assumes "(rq_route r, t, h) \<in> set (import_handlers (hv_api v))"
  shows "replying.safe r h"
proof (rule replying.safeI)
  fix c and s :: "'x server_state" assume "arriving r (c, s)"
  then have I: "\<not> gx_written c" "gx_body c = []" "valid_request_id (request_id_of c)"
      "map_of (gx_headers c) ''X-Request-ID'' = Some (request_id_of c)"
    by (auto simp: arriving_def)
  show "returning (h (c, s))"
  proof (rule import_handler_cases [OF assms, of c s])
    fix c' s' assume "h (c, s) = Finished (c', s')" "answers t c c'"
    with I answers_frame [of t c c'] show ?thesis by (auto simp: returning_def answered_once_def)
  qed (use I in \<open>simp add: returning_def\<close>)
qed

text \<open>C9: Every request ends with one answer. A POST to a route of the imports ends, whatever its handler
  and the code outside do, panics included: exactly one response is written, and it has the id of the
  request, valid, that the header \<open>X-Request-ID\<close> gives to the client.\<close>
theorem every_request_is_answered:
  assumes "(rq_route r, t, h) \<in> set (import_handlers (hv_api v))" and "rq_method r = ''POST''"
    and "outside_ok (hv_outside v)"
  shows "\<exists>c s'. serve_http v r s = Finished (c, s') \<and> answered_once c"
proof -
  have "returning (serve_http v r s)" by (rule replying.serve_safe [OF assms refl assms(2) handlers_return [OF assms(1)]])
  moreover obtain c s' where "serve_http v r s = Finished (c, s')"
    using global_finishes serve_import [OF assms(1,2)] by (metis surj_pair)
  ultimately show ?thesis by (simp add: returning_def)
qed

theorem every_request_is_answered_witness:
  "\<exists>c s'. serve_http demo_server (demo_http_request []) demo_state = Finished (c, s') \<and> answered_once c"
  by (rule every_request_is_answered [OF demo_route _ demo_outside_ok]) (simp add: demo_http_request_def)

section \<open>Bodies have the types that are documented\<close>






lemma write_json_request_id [simp]: "request_id_of (write_json st rs c) = request_id_of c"
  by (simp add: request_id_of_def)




section \<open>Nobody gets in without an identity\<close>

text \<open>A request without credentials: on a route for the pre-shared key, a header that is not the key;
  elsewhere, unless the route is skipped, no bearer token or one that the verifier refuses.\<close>

definition unidentified :: "('env, 'x) http_server \<Rightarrow> api_request \<Rightarrow> bool" where
  "unidentified v r \<longleftrightarrow> (let a = cfg_auth (hv_config v); header = get_header ''Authorization'' (start_request r) in
     if psk_enabled (auth_psk a) \<and> matches_any (rq_route r) (psk_http_paths (auth_psk a))
     then \<not> verify_psk header (psk_key (auth_psk a))
     else \<not> matches_any (rq_route r) (auth_skip_http_paths a)
       \<and> (\<forall>scheme raw x. cut header CHR '' '' = (scheme, raw, True) \<and> equal_fold scheme ''Bearer''
            \<longrightarrow> (\<exists>e. fst (ho_verify (hv_outside v) raw x) = Inl e)))"

definition untouched :: "'x server_state \<Rightarrow> 'x server_state \<Rightarrow> bool" where
  "untouched s0 s \<longleftrightarrow> st_world s = st_world s0 \<and> st_provider s = st_provider s0"

definition turned_away :: "'x server_state \<Rightarrow> (gin \<times> 'x server_state) flow \<Rightarrow> bool" where
  "turned_away s0 r = (case r of Panicked _ \<Rightarrow> False | Finished (c, s) \<Rightarrow> untouched s0 s
     \<and> gx_written c \<and> gx_status c \<ge> 400 \<and> (\<exists>rs. gx_body c = [rs] \<and> rs_body rs = JNull))"

lemma refusal_status: "refusal e \<Longrightarrow> snd (snd (failure_of e)) \<ge> 400"
  by (auto simp: refusal_def failure_of_def split: gerr.splits)

interpretation outsider: request_flow r s0 "rq_method r = ''POST''" "\<lambda>x. arriving r x \<and> untouched s0 (snd x)"
  "turned_away s0" for r s0
proof (unfold_locales, goal_cases)
  case 1 then show ?case by (simp add: arriving_identified untouched_def)
qed (auto simp: arriving_def turned_away_def untouched_def refusal_status)

lemma authentication_turns_away:
  fixes v :: "('env, 'x) http_server"
  assumes "unidentified v r"
  shows "outsider.safe r s0 (mw_authentication (hv_outside v) (cfg_auth (hv_config v)) h)"
proof (rule outsider.safeI)
  fix c and s :: "'x server_state" assume I: "arriving r (c, s) \<and> untouched s0 (snd (c, s))" and r: "gx_request c = r"
  have header: "get_header k c = get_header k (start_request r)" for k
    by (rule get_header_cong) (simp add: r start_request_def)
  have away: "turned_away s0 (Finished (fail_with (app_unauthorized m) c, s\<lparr>st_outside := x\<rparr>))" for m x
    using I by (intro outsider.refused) (auto simp: arriving_def untouched_def)
  have away': "turned_away s0 (Finished (fail_with (app_unauthorized m) c, s))" for m
    using away [of m "st_outside s"] by simp
  show "turned_away s0 (mw_authentication (hv_outside v) (cfg_auth (hv_config v)) h (c, s))"
    using assms
    by (auto simp: unidentified_def mw_authentication_def mw_jwt_def ask_outside_def header r Let_def away away'
        split: if_splits prod.split sum.split) (metis fst_conv sum.distinct(1))+
qed

text \<open>C11: No import without an identity. A POST to a route of the imports that has neither the
  pre-shared key, where the route takes it, nor a token that the verifier accepts, on a route that
  is not skipped, is refused with a status of at least 400 and no body, before service or provider
  are called: the database, the objects and the connections are as they were.\<close>
theorem imports_need_identity:
  assumes "(rq_route r, t, h) \<in> set (import_handlers (hv_api v))" and "rq_method r = ''POST''"
    and "outside_ok (hv_outside v)" and "unidentified v r"
  shows "\<exists>c s'. serve_http v r s = Finished (c, s') \<and> untouched s s' \<and> gx_status c \<ge> 400
    \<and> (\<exists>rs. gx_body c = [rs] \<and> rs_body rs = JNull)"
proof -
  have "outsider.safe r s (chain (api_middleware v) h)"
    unfolding api_middleware_def Let_def chain_simps
    by (intro outsider.safe_rate_limit authentication_turns_away assms(4))
  then have "turned_away s (serve_http v r s)"
    unfolding serve_import [OF assms(1,2)] by (rule outsider.global_safe [OF _ assms(3,2)])
  then show ?thesis by (auto simp: turned_away_def split: flow.splits)
qed

theorem imports_need_identity_witness:
  "\<exists>c s'. serve_http demo_server (demo_http_request ''Bearer bad'') demo_state = Finished (c, s') \<and> untouched demo_state s'
    \<and> gx_status c \<ge> 400 \<and> (\<exists>rs. gx_body c = [rs] \<and> rs_body rs = JNull)"
proof (rule imports_need_identity [OF demo_route _ demo_outside_ok])
  show "unidentified demo_server (demo_http_request ''Bearer bad'')"
    by (auto simp: unidentified_def demo_server_def demo_config_def demo_outside_def demo_http_request_def get_header_def start_request_def)
qed (simp add: demo_http_request_def)

section \<open>A recorded result is replayed\<close>

text \<open>How a body comes back. Integers up to \<open>2 ^ 53\<close> are kept, and then all that changes is the order
  in which the keys of an object are written (of equal keys the last counts).\<close>

fun small_integers :: "json \<Rightarrow> bool" where
  "small_integers (JInt n) \<longleftrightarrow> \<bar>n\<bar> \<le> 2 ^ 53"
| "small_integers (JArray js) \<longleftrightarrow> list_all small_integers js"
| "small_integers (JObject kvs) \<longleftrightarrow> list_all (\<lambda>(k, v). small_integers v) kvs"
| "small_integers j \<longleftrightarrow> True"

fun keys_in_order :: "json \<Rightarrow> json" where
  "keys_in_order (JArray js) = JArray (map keys_in_order js)"
| "keys_in_order (JObject kvs) = JObject (map_entries (map (\<lambda>(k, v). (k, keys_in_order v)) kvs))"
| "keys_in_order j = j"

lemma any_of_small: "small_integers j \<Longrightarrow> any_of_json f j = keys_in_order j"
proof (induction j)
  case (JObject kvs)
  then have "map (\<lambda>(k, v). (k, any_of_json f v)) kvs = map (\<lambda>(k, v). (k, keys_in_order v)) kvs"
    by (auto simp: list_all_iff)
  then show ?case by (simp only: any_of_json.simps keys_in_order.simps)
qed (auto simp: list_all_iff)

text \<open>Ordering keeps the entries of an object whose keys are distinct.\<close>

lemma set_map_entries: "distinct (map fst kvs) \<Longrightarrow> set (map_entries kvs) = set kvs"
proof -
  assume d: "distinct (map fst kvs)"
  then have m: "map_of (rev kvs) k = Some v \<longleftrightarrow> (k, v) \<in> set kvs" for k v
    using map_of_eq_Some_iff [of "rev kvs" k v] by (simp add: rev_map [symmetric])
  show ?thesis
  proof (intro equalityI subsetI)
    fix x assume "x \<in> set (map_entries kvs)"
    then obtain k v where "x = (k, the (map_of (rev kvs) k))" "(k, v) \<in> set kvs"
      by (auto simp: map_entries_def)
    with m [of k v] show "x \<in> set kvs" by simp
  next
    fix x assume "x \<in> set kvs"
    with m [of "fst x" "snd x"] show "x \<in> set (map_entries kvs)"
      by (force simp: map_entries_def image_iff)
  qed
qed

text \<open>C15: Idempotent execution. The first request with a key runs its handler, and if its answer is one
  response with a status below 400, that is stored. A second request with the key and the same
  fingerprint (caller, method, route and body) is answered with status 200, the code and the message
  of the first, its own request id, and the body of the first as JSON's \<open>any\<close> keeps it; its handler
  does not run. When the integers of the body are at most \<open>2 ^ 53\<close>, that is the same body with the
  keys of its objects in order; larger ones may come back changed. The law asked of the store is that
  a completed key gives back what was stored for it.\<close>
theorem recorded_result_is_replayed:
  fixes s :: "'x server_state"
  assumes keys: "cc_idempotency_key (gx_call c) = Some key" "cc_idempotency_key (gx_call c2) = Some key"
    and methods: "rq_method (gx_request c) = ''POST''" "rq_method (gx_request c2) = ''POST''"
    and routes: "matches_any (rq_route (gx_request c)) paths" "matches_any (rq_route (gx_request c2)) paths"
    and fingerprints: "idempotency_fingerprint o' c = Inr fp" "idempotency_fingerprint o' c2 = Inr fp"
    and enabled: "im_enabled m"
    and acquired: "im_begin m key fp (st_outside s) = (Inr d, x)" "de_state d = StateAcquired"
    and handled: "h (c, s\<lparr>st_outside := x\<rparr>) = Finished (c1, s1)" "gx_body c1 = gx_body c @ [rs]" "gx_status c1 < 400"
    and stored: "im_complete m key (de_owner d) (rs\<lparr>rs_body := any_of_json (ho_float_text o') (rs_body rs), rs_request_id := []\<rparr>)
      (st_outside s1) = (None, y)"
    and law: "\<And>r x x'. im_complete m key (de_owner d) r x = (None, x') \<Longrightarrow>
      \<exists>d' z. im_begin m key fp x' = (Inr d', z) \<and> de_state d' = StateCompleted \<and> de_response d' = Inr r"
  shows "mw_idempotency_execution o' (Some m) paths h (c, s) = Finished (c1, s1\<lparr>st_outside := y\<rparr>)
    \<and> (\<exists>s3. mw_idempotency_execution o' (Some m) paths h2 (c2, s1\<lparr>st_outside := y\<rparr>)
        = Finished (write_json 200 (rs\<lparr>rs_body := any_of_json (ho_float_text o') (rs_body rs), rs_request_id := request_id_of c2\<rparr>) c2, s3)
      \<and> untouched s1 s3)
    \<and> (small_integers (rs_body rs) \<longrightarrow> any_of_json (ho_float_text o') (rs_body rs) = keys_in_order (rs_body rs))"
proof (intro conjI impI)
  show "mw_idempotency_execution o' (Some m) paths h (c, s) = Finished (c1, s1\<lparr>st_outside := y\<rparr>)"
    using keys(1) methods(1) routes(1) fingerprints(1) enabled acquired handled stored
    by (simp add: mw_idempotency_execution_def ask_outside_def persist_result_def captured_def)
  from law [OF stored] obtain d' z where "im_begin m key fp y = (Inr d', z)" "de_state d' = StateCompleted"
    "de_response d' = Inr (rs\<lparr>rs_body := any_of_json (ho_float_text o') (rs_body rs), rs_request_id := []\<rparr>)" by blast
  then show "\<exists>s3. mw_idempotency_execution o' (Some m) paths h2 (c2, s1\<lparr>st_outside := y\<rparr>)
        = Finished (write_json 200 (rs\<lparr>rs_body := any_of_json (ho_float_text o') (rs_body rs), rs_request_id := request_id_of c2\<rparr>) c2, s3)
      \<and> untouched s1 s3"
    using keys(2) methods(2) routes(2) fingerprints(2) enabled
    by (simp add: mw_idempotency_execution_def ask_outside_def untouched_def)
qed (rule any_of_small)

theorem recorded_result_is_replayed_witness:
  "\<exists>y s3 r. mw_idempotency_execution demo_outside (Some demo_manager) [''/api/v1/imports/get''] Panicked
      (demo_keyed, demo_state\<lparr>st_outside := y\<rparr>) = Finished (write_json 200 r demo_keyed, s3) \<and> rs_code r = CodeOK"
proof -
  have route: "matches_any (rq_route (gx_request demo_keyed)) [''/api/v1/imports/get'']"
  proof -
    have "plain ''/api/v1/imports/get''" by (simp add: plain_def)
    from path_match_plain [OF this] show ?thesis by (simp add: demo_keyed_def demo_http_request_def start_request_def)
  qed
  obtain fp where fp: "idempotency_fingerprint demo_outside demo_keyed = Inr fp"
    by (simp add: idempotency_fingerprint_def body_stream_def demo_keyed_def start_request_def demo_http_request_def demo_outside_def)
  let ?d = "\<lparr>de_state = StateAcquired, de_owner = fp, de_response = Inl (ErrText []), de_failure = no_failure\<rparr>"
  let ?h = "\<lambda>(c, s). Finished (ok_response JNull c, s :: demo_store server_state)"
  define rs where "rs = \<lparr>rs_code = CodeOK, rs_message = ''success'', rs_body = JNull, rs_request_id = request_id_of demo_keyed\<rparr>"
  have keyed: "cc_idempotency_key (gx_call demo_keyed) = Some ''k''" and post: "rq_method (gx_request demo_keyed) = ''POST''"
    and fresh: "gx_body demo_keyed = []" "\<not> gx_written demo_keyed"
    by (simp_all add: demo_keyed_def start_request_def demo_http_request_def)
  have enabled: "im_enabled demo_manager" by (simp add: demo_manager_def)
  have acquired: "im_begin demo_manager ''k'' fp (st_outside demo_state) = (Inr ?d, [])" "de_state ?d = StateAcquired"
    by (simp_all add: demo_manager_def demo_state_def)
  have handled: "?h (demo_keyed, demo_state\<lparr>st_outside := []\<rparr>) = Finished (ok_response JNull demo_keyed, demo_state)"
      "gx_body (ok_response JNull demo_keyed) = gx_body demo_keyed @ [rs]" "gx_status (ok_response JNull demo_keyed) < 400"
    using fresh by (simp_all add: ok_response_def rs_def demo_state_def)
  define sr where "sr = rs\<lparr>rs_body := any_of_json (ho_float_text demo_outside) (rs_body rs), rs_request_id := []\<rparr>"
  have stored: "im_complete demo_manager ''k'' (de_owner ?d) sr (st_outside demo_state) = (None, [(''k'', fp, sr)])"
    by (simp add: demo_manager_def demo_state_def)
  have law: "\<exists>d' z. im_begin demo_manager ''k'' fp x' = (Inr d', z) \<and> de_state d' = StateCompleted \<and> de_response d' = Inr r"
    if "im_complete demo_manager ''k'' (de_owner ?d) r x = (None, x')" for r x x'
    using that by (auto simp: demo_manager_def)
  have "\<exists>s3. mw_idempotency_execution demo_outside (Some demo_manager) [''/api/v1/imports/get''] Panicked
      (demo_keyed, demo_state\<lparr>st_outside := [(''k'', fp, sr)]\<rparr>)
    = Finished (write_json 200 (rs\<lparr>rs_body := any_of_json (ho_float_text demo_outside) (rs_body rs),
        rs_request_id := request_id_of demo_keyed\<rparr>) demo_keyed, s3) \<and> untouched demo_state s3"
    by (rule recorded_result_is_replayed [where h = ?h and d = ?d and c = demo_keyed and s = demo_state and x = "[]",
          OF keyed keyed post post route route fp fp enabled acquired handled stored [unfolded sr_def] law, folded sr_def, THEN conjunct2, THEN conjunct1])
  then show ?thesis by (force simp: rs_def)
qed

section \<open>Panics\<close>

text \<open>A request that the middleware before the routes lets through: its key is valid if it has one, its
  origin is allowed if it has one, and its body is JSON if it has one.\<close>

definition let_through :: "('env, 'x) http_server \<Rightarrow> api_request \<Rightarrow> bool" where
  "let_through v r \<longleftrightarrow> (let o' = hv_outside v; cors = http_cors (cfg_http (hv_config v));
       header = (\<lambda>k. get_header k (start_request r)) in
     (header ''Idempotency-Key'' = [] \<or> ho_valid_key o' (header ''Idempotency-Key''))
     \<and> (cors_enabled cors \<and> header ''Origin'' \<noteq> [] \<longrightarrow>
          header ''Origin'' \<in> set (cors_allowed_origins cors) \<and> rq_method r \<noteq> ''OPTIONS'')
     \<and> (rq_method r = ''POST'' \<and> rq_content_length r \<noteq> 0 \<longrightarrow>
          ho_media_type o' (header ''Content-Type'') = Some ''application/json''))"

text \<open>A context on its way to the handler, with nothing written and nothing counted yet.\<close>

definition on_its_way :: "api_request \<Rightarrow> 'x server_state \<Rightarrow> gin \<times> 'x server_state \<Rightarrow> bool" where
  "on_its_way r s0 = (\<lambda>(c, s). gx_request c = r \<and> \<not> gx_written c \<and> gx_body c = []
     \<and> (\<exists>x. s = s0\<lparr>st_outside := x\<rparr>))"

lemma on_its_way_header [simp]: "on_its_way r s0 (c, s) \<Longrightarrow> get_header k c = get_header k (start_request r)"
  by (rule get_header_cong) (simp add: on_its_way_def start_request_def)

lemma identified_on_its_way: "on_its_way r s0 (identified r rid, s0\<lparr>st_outside := x\<rparr>)"
  by (auto simp: on_its_way_def identified_def start_request_def)

lemma request_id_passes:
  "\<exists>c' s'. mw_request_id o' h (start_request r, s0) = h (c', s') \<and> on_its_way r s0 (c', s')"
proof -
  obtain random x where random: "ho_random o' (st_outside s0) = (random, x)" by fastforce
  obtain now y where now: "ho_now o' x = (now, y)" by fastforce
  have "\<exists>rid z. mw_request_id o' h (start_request r, s0) = h (identified r rid, s0\<lparr>st_outside := z\<rparr>)"
  proof (cases "valid_request_id (get_header ''X-Request-ID'' (start_request r))")
    case True
    then have "mw_request_id o' h (start_request r, s0)
        = h (identified r (get_header ''X-Request-ID'' (start_request r)), s0\<lparr>st_outside := st_outside s0\<rparr>)"
      by (simp add: mw_request_id_def identified_def Let_def)
    then show ?thesis by blast
  next
    case False
    with random now have "mw_request_id o' h (start_request r, s0)
        = (case random of Inr _ \<Rightarrow> h (identified r (generate_request_id random 0), s0\<lparr>st_outside := x\<rparr>)
           | Inl _ \<Rightarrow> h (identified r (generate_request_id random now), s0\<lparr>st_outside := y\<rparr>))"
      by (simp add: mw_request_id_def identified_def ask_outside_def Let_def split: sum.split)
    then show ?thesis by (cases random) auto
  qed
  then obtain rid z where "mw_request_id o' h (start_request r, s0) = h (identified r rid, s0\<lparr>st_outside := z\<rparr>)" by blast
  with identified_on_its_way [of r s0 rid z] show ?thesis by metis
qed

lemma on_its_way_frame [simp]:
  "on_its_way r s0 (set_header k val c, s) \<longleftrightarrow> on_its_way r s0 (c, s)"
  "on_its_way r s0 (c\<lparr>gx_environment := e\<rparr>, s) \<longleftrightarrow> on_its_way r s0 (c, s)"
  "on_its_way r s0 (c\<lparr>gx_limit := n\<rparr>, s) \<longleftrightarrow> on_its_way r s0 (c, s)"
  "on_its_way r s0 (c\<lparr>gx_call := x\<rparr>, s) \<longleftrightarrow> on_its_way r s0 (c, s)"
  by (simp_all add: on_its_way_def)

lemma outer_passes:
  assumes "let_through v r" and way: "on_its_way r s0 (c, s)"
  shows "\<exists>c'. mw_idempotency_key (hv_outside v) (mw_environment profile h) (c, s) = h (c', s) \<and> on_its_way r s0 (c', s)"
proof -
  let ?key = "get_header ''Idempotency-Key'' (start_request r)"
  let ?c = "if ?key = [] then c
    else set_header ''Idempotency-Key'' ?key (c\<lparr>gx_call := (gx_call c)\<lparr>cc_idempotency_key := Some ?key\<rparr>\<rparr>)"
  have "?key = [] \<or> ho_valid_key (hv_outside v) ?key" using assms(1) by (simp add: let_through_def Let_def)
  then have "mw_idempotency_key (hv_outside v) (mw_environment profile h) (c, s) = h (?c\<lparr>gx_environment := Some profile\<rparr>, s)"
    using on_its_way_header [OF way, of "''Idempotency-Key''"]
    by (auto simp: mw_idempotency_key_def mw_environment_def Let_def)
  moreover have "on_its_way r s0 (?c\<lparr>gx_environment := Some profile\<rparr>, s)" using way by simp
  ultimately show ?thesis by (intro exI conjI)
qed

lemma security_headers_pass:
  assumes "on_its_way r s0 (c, s)"
  shows "\<exists>c'. mw_security_headers h (c, s) = h (c', s) \<and> on_its_way r s0 (c', s)"
  unfolding mw_security_headers_def Let_def prod.case
  by (intro exI conjI, rule refl) (simp add: assms)

lemma cors_passes:
  assumes "let_through v r" and way: "on_its_way r s0 (c, s)"
  shows "\<exists>c'. mw_cors (http_cors (cfg_http (hv_config v))) h (c, s) = h (c', s) \<and> on_its_way r s0 (c', s)"
proof -
  let ?origin = "get_header ''Origin'' (start_request r)" and ?cors = "http_cors (cfg_http (hv_config v))"
  note origin = on_its_way_header [OF way, of "''Origin''"]
  show ?thesis
  proof (cases "\<not> cors_enabled ?cors \<or> ?origin = []")
    case True
    with origin have "mw_cors ?cors h (c, s) = h (c, s)" by (auto simp: mw_cors_def)
    with way show ?thesis by blast
  next
    case False
    have "gx_request c = r" using way by (simp add: on_its_way_def)
    moreover from False assms(1) have "?origin \<in> set (cors_allowed_origins ?cors)" "rq_method r \<noteq> ''OPTIONS''"
      by (simp_all add: let_through_def Let_def)
    moreover have "cors_enabled ?cors" "?origin \<noteq> []" using False by simp_all
    ultimately have run: "mw_cors ?cors h (c, s) = h (set_header ''Access-Control-Max-Age'' (itoa (whole_seconds (cors_max_age ?cors)))
        (set_header ''Access-Control-Expose-Headers'' (join_with '', '' (cors_exposed_headers ?cors))
        (set_header ''Access-Control-Allow-Headers'' (join_with '', '' (cors_allowed_headers ?cors))
        (set_header ''Access-Control-Allow-Methods'' ''POST, GET, OPTIONS''
        (set_header ''Vary'' ''Origin'' (set_header ''Access-Control-Allow-Origin'' ?origin c))))), s)"
      by (simp add: mw_cors_def origin Let_def)
    show ?thesis by (rule exI, rule conjI, rule run) (simp add: way)
  qed
qed

lemma inner_passes:
  assumes "let_through v r" and "on_its_way r s0 (c, s)"
  shows "\<exists>c'. mw_security_headers (mw_cors (http_cors (cfg_http (hv_config v))) (mw_max_body limit h)) (c, s) = h (c', s)
    \<and> on_its_way r s0 (c', s)"
proof -
  let ?k = "mw_max_body limit h" and ?cors = "mw_cors (http_cors (cfg_http (hv_config v)))"
  from security_headers_pass [OF assms(2), of "?cors ?k"] obtain c1
    where sec: "mw_security_headers (?cors ?k) (c, s) = ?cors ?k (c1, s)" and w1: "on_its_way r s0 (c1, s)" by blast
  from cors_passes [OF assms(1) w1, of ?k] obtain c2
    where cors: "?cors ?k (c1, s) = ?k (c2, s)" and w2: "on_its_way r s0 (c2, s)" by blast
  have "?k (c2, s) = h (c2\<lparr>gx_limit := Some limit\<rparr>, s)" by (simp add: mw_max_body_def)
  with sec cors have "mw_security_headers (?cors ?k) (c, s) = h (c2\<lparr>gx_limit := Some limit\<rparr>, s)" by simp
  moreover from w2 have "on_its_way r s0 (c2\<lparr>gx_limit := Some limit\<rparr>, s)" by simp
  ultimately show ?thesis by metis
qed

lemma json_passes:
  assumes "let_through v r" and "on_its_way r s0 (c, s)"
  shows "mw_require_json (hv_outside v) h (c, s) = h (c, s)"
  using assms(1) on_its_way_header [OF assms(2)] assms(2)
  by (auto simp: mw_require_json_def let_through_def Let_def on_its_way_def)

text \<open>What becomes of the outcome of a route's handler on the way back to the client.\<close>

definition finished_by :: "('env, 'x) http_server \<Rightarrow> (gin \<times> 'x server_state) flow \<Rightarrow> (gin \<times> 'x server_state) flow \<Rightarrow> bool" where
  "finished_by v out final \<longleftrightarrow> (case out of
       Panicked (c, s) \<Rightarrow> final = Finished (fail_with (AppError CodeInternal ''internal server error'' 500 None) c, s)
     | Finished (c, s) \<Rightarrow> \<exists>c'. (c' = c \<or> \<not> gx_written c \<and> c' = fail_with app_request_timeout c)
         \<and> final = Finished (c', if \<not> hv_metrics v then s else s\<lparr>st_http_requests := st_http_requests s
             @ [(rq_method (gx_request c), if rq_route (gx_request c) = [] then ''unmatched'' else rq_route (gx_request c),
                 gx_status c')]\<rparr>))"

lemma recovery_metrics_finish:
  "finished_by v (h x) (mw_recovery (mw_metrics (hv_metrics v) (mw_timeout o' timeout h)) x)"
proof (cases "h x")
  case (Finished y)
  obtain c s where y: "y = (c, s)" by fastforce
  obtain c0 s0 where x: "x = (c0, s0)" by fastforce
  let ?c = "if ho_expired o' timeout (st_outside s0) (st_outside s) \<and> \<not> gx_written c then fail_with app_request_timeout c else c"
  show ?thesis unfolding finished_by_def Finished y flow.case prod.case
    using Finished by (intro exI [of _ ?c]) (simp add: x y mw_recovery_def mw_metrics_def mw_timeout_def)
next
  case (Panicked y)
  then show ?thesis
    by (cases x; cases y) (simp add: finished_by_def mw_recovery_def mw_metrics_def mw_timeout_def abort_json_fail)
qed

lemma global_finished_by:
  assumes "let_through v r"
  obtains c s where "on_its_way r s0 (c, s)" "finished_by v (h (c, s)) (chain (global_middleware v) h (start_request r, s0))"
proof -
  let ?o = "hv_outside v" and ?http = "cfg_http (hv_config v)"
  let ?k = "mw_timeout ?o (http_request_timeout ?http) (mw_require_json ?o h)"
  let ?in = "mw_security_headers (mw_cors (http_cors ?http) (mw_max_body (http_max_body_bytes ?http) ?k))"
  obtain c1 s1 where start: "chain (global_middleware v) h (start_request r, s0)
      = mw_idempotency_key ?o (mw_environment (run_active_profile (cfg_runtime (hv_config v)))
          (mw_recovery (mw_metrics (hv_metrics v) ?in))) (c1, s1)" and w1: "on_its_way r s0 (c1, s1)"
    using request_id_passes unfolding global_middleware_def Let_def chain_simps by blast
  from outer_passes [OF assms w1] obtain c2 where
    outer: "chain (global_middleware v) h (start_request r, s0) = mw_recovery (mw_metrics (hv_metrics v) ?in) (c2, s1)"
    and w2: "on_its_way r s0 (c2, s1)" unfolding start by blast
  from inner_passes [OF assms w2] obtain c3 where inner: "?in (c2, s1) = ?k (c3, s1)" and w3: "on_its_way r s0 (c3, s1)"
    by blast
  have "mw_recovery (mw_metrics (hv_metrics v) ?in) (c2, s1) = mw_recovery (mw_metrics (hv_metrics v) ?k) (c3, s1)"
    using inner by (simp add: mw_recovery_def mw_metrics_def)
  with outer recovery_metrics_finish [of v "mw_require_json ?o h" "(c3, s1)" ?o "http_request_timeout ?http"]
    json_passes [OF assms w3, of h] w3 show thesis by (intro that [of c3 s1]) simp_all
qed

text \<open>C16: A panic is answered but not counted. On every route of the server, a request that the global
  middleware lets through reaches the handler of its route with nothing written and nothing counted.
  If the handler panics before it has answered, the client gets one response with status 500 and the
  internal code, and the counter of requests stays as the handler left it. If the handler returns, the
  request is counted once, with its method, its route and the status that the client gets (of a
  timeout, when nothing was written before the deadline).\<close>
theorem panics_are_not_counted:
  assumes "map_of (http_routes v) (rq_method r, rq_route r) = Some h" and "let_through v r"
  shows "\<exists>c s. gx_request c = r \<and> \<not> gx_written c \<and> gx_body c = [] \<and> st_http_requests s = st_http_requests s0
    \<and> (case h (c, s) of
         Panicked (c1, s1) \<Rightarrow> \<exists>c2. serve_http v r s0 = Finished (c2, s1)
           \<and> (\<not> gx_written c1 \<longrightarrow> gx_status c2 = 500 \<and> (\<exists>rs. gx_body c2 = gx_body c1 @ [rs]
                \<and> rs_code rs = CodeInternal \<and> rs_body rs = JNull))
       | Finished (c1, s1) \<Rightarrow> \<exists>c2. (c2 = c1 \<or> \<not> gx_written c1 \<and> c2 = fail_with app_request_timeout c1)
           \<and> serve_http v r s0 = Finished (c2, if \<not> hv_metrics v then s1 else s1\<lparr>st_http_requests := st_http_requests s1
             @ [(rq_method (gx_request c1), if rq_route (gx_request c1) = [] then ''unmatched'' else rq_route (gx_request c1),
                 gx_status c2)]\<rparr>))" (is "\<exists>c s. ?P c s")
proof -
  obtain c s where way: "on_its_way r s0 (c, s)"
    and fin: "finished_by v (h (c, s)) (chain (global_middleware v) h (start_request r, s0))"
    using global_finished_by [OF assms(2)] .
  have serve: "serve_http v r s0 = chain (global_middleware v) h (start_request r, s0)"
    using assms(1) by (simp add: serve_http_def)
  have start: "gx_request c = r \<and> \<not> gx_written c \<and> gx_body c = [] \<and> st_http_requests s = st_http_requests s0"
    using way by (auto simp: on_its_way_def)
  have "?P c s"
  proof (cases "h (c, s)")
    case (Finished x)
    with start fin [unfolded serve [symmetric]] show ?thesis by (cases x) (simp add: finished_by_def)
  next
    case (Panicked x)
    with start fin [unfolded serve [symmetric]] show ?thesis by (cases x) (simp add: finished_by_def failure_of_def)
  qed
  then show ?thesis by blast
qed

text \<open>A request for the metrics whose handler panics.\<close>

theorem panics_are_not_counted_witness:
  "\<exists>c s'. serve_http (demo_server\<lparr>hv_library := (\<lambda>route. Panicked)\<rparr>)
      ((demo_http_request [])\<lparr>rq_method := ''GET'', rq_route := ''/metrics''\<rparr>) demo_state = Finished (c, s')
    \<and> gx_status c = 500 \<and> st_http_requests s' = []"
proof -
  let ?v = "demo_server\<lparr>hv_library := (\<lambda>route. Panicked)\<rparr>"
  let ?r = "(demo_http_request [])\<lparr>rq_method := ''GET'', rq_route := ''/metrics''\<rparr>"
  have route: "map_of (http_routes ?v) (rq_method ?r, rq_route ?r) = Some Panicked"
    by (simp add: http_routes_def demo_server_def Let_def)
  have "let_through ?v ?r"
    by (simp add: let_through_def demo_server_def demo_http_request_def get_header_def start_request_def Let_def)
  from panics_are_not_counted [OF route this, of demo_state] show ?thesis by (auto simp: demo_state_def)
qed

end
