(* ===== verification/Transports.thy ===== *)
theory Transports
  imports Http_Server Http_Scenario
begin

text \<open>
  HTTP and gRPC side by side: the handlers of theory \<open>Http_Api\<close> against the methods of theory
  \<open>Import_Server\<close>. The body of an HTTP answer is related to the gRPC response field by field; the
  functions here say how a message of the gRPC API reads as a JSON body, and rest on nothing of
  the handlers. A time is written by HTTP as a text and by gRPC as a timestamp; \<open>tt\<close> is the text of
  a timestamp.
\<close>

section \<open>Messages as bodies\<close>









section \<open>Answers\<close>










section \<open>The bodies of the handlers say what the responses say\<close>








section \<open>Properties\<close>







end
