(* ===== verification/Grpc_Server.thy ===== *)
theory Grpc_Server
  imports Http_Middleware Grpc_Client
begin

text \<open>
  The gRPC server (\<open>internal/transport/grpc/server.go\<close>): the interceptors in their order, the
  authentication of calls, TLS, the health service, start and stop. A handler takes the context of
  the call with the state of the server; \<open>None\<close> is a panic. The interceptors of the platform library
  (authorization, idempotent results) are arguments.
\<close>

section \<open>Calls\<close>

text \<open>The context of a call: its metadata and the values that the interceptors put into it.\<close>

record rpc_context =
  rc_metadata :: "(string \<times> string list) list"
  rc_environment :: "string option"
  rc_call :: call_context
  rc_principal :: "principal option"

text \<open>The state of the server with the header of the response and the counter of calls by method and
  code.\<close>

record 'x rpc_state = "'x server_state" +
  rp_header :: "(string \<times> string) list"
  rp_requests :: "(string \<times> grpc_code) list"

type_synonym ('a, 'x) rpc_handler = "rpc_context \<times> 'x rpc_state \<Rightarrow> (gerr + 'a) option \<times> 'x rpc_state"

type_synonym ('a, 'x) interceptor_of = "string \<Rightarrow> ('a, 'x) rpc_handler \<Rightarrow> ('a, 'x) rpc_handler"

text \<open>\<open>metadata.ValueFromIncomingContext\<close>.\<close>

definition incoming :: "string \<Rightarrow> rpc_context \<Rightarrow> string list" where
  "incoming k ctx = (case map_of (rc_metadata ctx) k of Some vs \<Rightarrow> vs | None \<Rightarrow> [])"

definition ask_rpc :: "('x \<Rightarrow> 'a \<times> 'x) \<Rightarrow> 'x rpc_state \<Rightarrow> 'a \<times> 'x rpc_state" where
  "ask_rpc f s = (case f (st_outside s) of (a, x) \<Rightarrow> (a, s\<lparr>st_outside := x\<rparr>))"

section \<open>Interceptors\<close>

definition environment_interceptor :: "string \<Rightarrow> ('a, 'x) interceptor_of" where
  "environment_interceptor profile m h = (\<lambda>(ctx, s). h (ctx\<lparr>rc_environment := Some profile\<rparr>, s))"

definition rpc_request_id :: "'x http_outside \<Rightarrow> rpc_context \<Rightarrow> 'x rpc_state \<Rightarrow> string \<times> 'x rpc_state" where
  "rpc_request_id o' ctx s = (case incoming ''x-request-id'' ctx of
       v # _ \<Rightarrow> if valid_request_id v then (v, s) else (case ask_rpc (ho_random o') s of (random, s) \<Rightarrow>
         (case random of Inr _ \<Rightarrow> (generate_request_id random 0, s)
          | Inl _ \<Rightarrow> (case ask_rpc (ho_now o') s of (now, s) \<Rightarrow> (generate_request_id random now, s))))
     | [] \<Rightarrow> (case ask_rpc (ho_random o') s of (random, s) \<Rightarrow>
         (case random of Inr _ \<Rightarrow> (generate_request_id random 0, s)
          | Inl _ \<Rightarrow> (case ask_rpc (ho_now o') s of (now, s) \<Rightarrow> (generate_request_id random now, s)))))"

text \<open>A failure to set the header is ignored by the unary interceptor; \<open>set\<close> says whether it works.\<close>

definition request_id_interceptor :: "'x http_outside \<Rightarrow> bool \<Rightarrow> ('a, 'x) interceptor_of" where
  "request_id_interceptor o' set' m h = (\<lambda>(ctx, s). case rpc_request_id o' ctx s of (rid, s) \<Rightarrow>
     h (ctx\<lparr>rc_call := request_id_with_context (rc_call ctx) rid\<rparr>,
        if set' then s\<lparr>rp_header := rp_header s @ [(''x-request-id'', rid)]\<rparr> else s))"

definition idempotency_interceptor :: "'x http_outside \<Rightarrow> ('a, 'x) interceptor_of" where
  "idempotency_interceptor o' m h = (\<lambda>(ctx, s). case incoming ''idempotency-key'' ctx of
       [] \<Rightarrow> h (ctx, s)
     | key # _ \<Rightarrow> if \<not> ho_valid_key o' key
         then (Some (Inl (StatusError GrpcInvalidArgument ''invalid idempotency-key'')), s)
         else h (ctx\<lparr>rc_call := (rc_call ctx)\<lparr>cc_idempotency_key := Some key\<rparr>\<rparr>, s))"

definition recovery_interceptor :: "('a, 'x) interceptor_of" where
  "recovery_interceptor m h = (\<lambda>x. case h x of
       (None, s) \<Rightarrow> (Some (Inl (StatusError GrpcInternal ''internal server error'')), s)
     | r \<Rightarrow> r)"

definition authenticate_grpc :: "'x http_outside \<Rightarrow> auth_config \<Rightarrow> string \<Rightarrow> rpc_context \<Rightarrow> 'x rpc_state
    \<Rightarrow> (gerr + rpc_context) \<times> 'x rpc_state" where
  "authenticate_grpc o' cfg m ctx s = (let values = incoming ''authorization'' ctx in
     if psk_enabled (auth_psk cfg) \<and> matches_any m (psk_grpc_methods (auth_psk cfg))
     then if values = [] \<or> \<not> verify_psk (hd values) (psk_key (auth_psk cfg))
       then (Inl (StatusError GrpcUnauthenticated ''missing or invalid PSK''), s)
       else (Inr (ctx\<lparr>rc_principal := Some psk_principal\<rparr>), s)
     else if matches_any m (auth_skip_grpc_methods cfg) then (Inr ctx, s)
     else if values = [] then (Inl (StatusError GrpcUnauthenticated ''missing bearer token''), s)
     else case cut (hd values) CHR '' '' of (scheme, raw, ok) \<Rightarrow>
       if \<not> ok \<or> \<not> equal_fold scheme ''Bearer''
       then (Inl (StatusError GrpcUnauthenticated ''invalid bearer token''), s)
       else case ask_rpc (ho_verify o' raw) s of
         (Inl e, s) \<Rightarrow> (Inl (StatusError GrpcUnauthenticated ''invalid or expired token''), s)
       | (Inr identity, s) \<Rightarrow> (Inr (ctx\<lparr>rc_principal := Some identity\<rparr>), s))"

definition auth_interceptor :: "'x http_outside \<Rightarrow> auth_config \<Rightarrow> ('a, 'x) interceptor_of" where
  "auth_interceptor o' cfg m h = (\<lambda>(ctx, s). case authenticate_grpc o' cfg m ctx s of
       (Inl e, s) \<Rightarrow> (Some (Inl e), s) | (Inr ctx, s) \<Rightarrow> h (ctx, s))"

definition metrics_interceptor :: "bool \<Rightarrow> ('a, 'x) interceptor_of" where
  "metrics_interceptor enabled m h = (\<lambda>x. case h x of
       (None, s) \<Rightarrow> (None, s)
     | (Some r, s) \<Rightarrow> (Some r, if enabled
         then s\<lparr>rp_requests := rp_requests s @ [(m, status_code (case r of Inl e \<Rightarrow> Some e | Inr _ \<Rightarrow> None))]\<rparr> else s))"

section \<open>Interceptors of streams\<close>

text \<open>A handler of a stream gives an error or none; it reads its context from the stream it is given.\<close>

type_synonym 'x stream_handler = "rpc_context \<times> 'x rpc_state \<Rightarrow> gerr option option \<times> 'x rpc_state"

type_synonym 'x stream_interceptor = "string \<Rightarrow> 'x stream_handler \<Rightarrow> 'x stream_handler"

definition environment_stream_interceptor :: "string \<Rightarrow> 'x stream_interceptor" where
  "environment_stream_interceptor profile m h = (\<lambda>(ctx, s). h (ctx\<lparr>rc_environment := Some profile\<rparr>, s))"

definition request_id_stream_interceptor :: "'x http_outside \<Rightarrow> bool \<Rightarrow> 'x stream_interceptor" where
  "request_id_stream_interceptor o' set' m h = (\<lambda>(ctx, s). case rpc_request_id o' ctx s of (rid, s) \<Rightarrow>
     if \<not> set' then (Some (Some (StatusError GrpcInternal ''set request metadata'')), s)
     else h (ctx\<lparr>rc_call := request_id_with_context (rc_call ctx) rid\<rparr>, s\<lparr>rp_header := rp_header s @ [(''x-request-id'', rid)]\<rparr>))"

definition idempotency_stream_interceptor :: "'x http_outside \<Rightarrow> 'x stream_interceptor" where
  "idempotency_stream_interceptor o' m h = (\<lambda>(ctx, s). case incoming ''idempotency-key'' ctx of
       [] \<Rightarrow> h (ctx, s)
     | key # _ \<Rightarrow> if \<not> ho_valid_key o' key
         then (Some (Some (StatusError GrpcInvalidArgument ''invalid idempotency-key'')), s)
         else h (ctx\<lparr>rc_call := (rc_call ctx)\<lparr>cc_idempotency_key := Some key\<rparr>\<rparr>, s))"

definition auth_stream_interceptor :: "'x http_outside \<Rightarrow> auth_config \<Rightarrow> 'x stream_interceptor" where
  "auth_stream_interceptor o' cfg m h = (\<lambda>(ctx, s). case authenticate_grpc o' cfg m ctx s of
       (Inl e, s) \<Rightarrow> (Some (Some e), s) | (Inr ctx, s) \<Rightarrow> h (ctx, s))"

definition recovery_stream_interceptor :: "'x stream_interceptor" where
  "recovery_stream_interceptor m h = (\<lambda>x. case h x of
       (None, s) \<Rightarrow> (Some (Some (StatusError GrpcInternal ''internal server error'')), s)
     | r \<Rightarrow> r)"

definition metrics_stream_interceptor :: "bool \<Rightarrow> 'x stream_interceptor" where
  "metrics_stream_interceptor enabled m h = (\<lambda>x. case h x of
       (None, s) \<Rightarrow> (None, s)
     | (Some err, s) \<Rightarrow> (Some err, if enabled then s\<lparr>rp_requests := rp_requests s @ [(m, status_code err)]\<rparr> else s))"

section \<open>The chains\<close>

definition grpc_requirements :: "(string \<times> requirement) list" where
  "grpc_requirements = map (\<lambda>(m, resource, action). (''/platform.import.v1.ImportService/'' @ m, \<lparr>rm_resource = resource, rm_action = action\<rparr>))
    [(''ListImportDatasets'', ''import.dataset'', ''list''),
     (''DescribeAvailableImportDataset'', ''import.dataset'', ''read''),
     (''CreateImportJob'', ''import.job'', ''create''),
     (''CompleteUpload'', ''import.job'', ''upload''),
     (''GetImportJob'', ''import.job'', ''read''),
     (''ListImportJobs'', ''import.job'', ''list''),
     (''CancelImportJob'', ''import.job'', ''cancel''),
     (''RetryImportJob'', ''import.job'', ''retry''),
     (''ConfirmImportJob'', ''import.job'', ''confirm''),
     (''CreateErrorReportDownloadURL'', ''import.job'', ''download-error'')]"

definition import_grpc_requirement :: "bool \<Rightarrow> string \<Rightarrow> requirement option" where
  "import_grpc_requirement enabled m = (if \<not> enabled then None else map_of grpc_requirements m)"

text \<open>The interceptor of the authorizer asks for the requirement of the method, that of idempotent results
  gets the methods that have them.\<close>

record ('a, 'x) grpc_parts =
  gp_outside :: "'x http_outside"
  gp_authorization :: "(string \<Rightarrow> requirement option) \<Rightarrow> ('a, 'x) interceptor_of"
  gp_idempotency :: "string list \<Rightarrow> ('a, 'x) interceptor_of"
  gp_metrics :: bool
  gp_set_header :: bool

definition unary_interceptors :: "('a, 'x) grpc_parts \<Rightarrow> config \<Rightarrow> ('a, 'x) interceptor_of list" where
  "unary_interceptors v cfg = [environment_interceptor (run_active_profile (cfg_runtime cfg)),
     request_id_interceptor (gp_outside v) (gp_set_header v), idempotency_interceptor (gp_outside v), recovery_interceptor,
     auth_interceptor (gp_outside v) (cfg_auth cfg),
     gp_authorization v (import_grpc_requirement (authz_enabled (cfg_authorization cfg))),
     gp_idempotency v (idem_grpc_methods (cfg_idempotency cfg)), metrics_interceptor (gp_metrics v)]"

definition stream_interceptors :: "('a, 'x) grpc_parts \<Rightarrow> config \<Rightarrow> 'x stream_interceptor list" where
  "stream_interceptors v cfg = [environment_stream_interceptor (run_active_profile (cfg_runtime cfg)),
     request_id_stream_interceptor (gp_outside v) (gp_set_header v), idempotency_stream_interceptor (gp_outside v),
     recovery_stream_interceptor, auth_stream_interceptor (gp_outside v) (cfg_auth cfg), metrics_stream_interceptor (gp_metrics v)]"

definition intercepted :: "(string \<Rightarrow> 'h \<Rightarrow> 'h) list \<Rightarrow> string \<Rightarrow> 'h \<Rightarrow> 'h" where
  "intercepted is' m h = foldr (\<lambda>i. i m) is' h"

section \<open>Credentials\<close>

text \<open>TLS with the server's certificate; with a CA of clients, certificates of clients are required.\<close>

record server_tls =
  sl_certificate :: string
  sl_client_ca :: "string option"

definition server_credentials :: "tls_files \<Rightarrow> grpc_tls_config \<Rightarrow> gerr + server_tls" where
  "server_credentials files cfg = (case tf_key_pair files (gtls_cert_file cfg) (gtls_key_file cfg) of
       Inl e \<Rightarrow> Inl (Wrapped ''load grpc certificate: '' e [])
     | Inr certificate \<Rightarrow>
         if gtls_client_ca_file cfg = [] then Inr \<lparr>sl_certificate = certificate, sl_client_ca = None\<rparr>
         else case tf_read files (gtls_client_ca_file cfg) of
             Inl e \<Rightarrow> Inl (Wrapped ''read grpc client CA: '' e [])
           | Inr pem \<Rightarrow> if \<not> tf_pool files pem then Inl (ErrText ''parse grpc client CA'')
               else Inr \<lparr>sl_certificate = certificate, sl_client_ca = Some pem\<rparr>)"

record grpc_options =
  go_max_receive :: int
  go_tls :: "server_tls option"
  go_reflection :: bool
  go_address :: string

definition new_grpc_server :: "tls_files \<Rightarrow> config \<Rightarrow> gerr + grpc_options" where
  "new_grpc_server files cfg = (let g = cfg_grpc cfg in
     case (if gtls_enabled (grpc_tls g)
           then (case server_credentials files (grpc_tls g) of Inl e \<Rightarrow> Inl e | Inr t \<Rightarrow> Inr (Some t)) else Inr None) of
       Inl e \<Rightarrow> Inl e
     | Inr tls \<Rightarrow> Inr \<lparr>go_max_receive = grpc_max_receive_bytes g, go_tls = tls,
         go_reflection = grpc_reflection_enabled g, go_address = grpc_address g\<rparr>)"

section \<open>Health, start and stop\<close>

datatype serving_status = SERVING | NOT_SERVING

definition grpc_health_check :: "health_status \<times> bool \<Rightarrow> serving_status" where
  "grpc_health_check ready = (if snd ready then SERVING else NOT_SERVING)"

definition grpc_health_list :: "(string \<times> serving_status) list" where
  "grpc_health_list = [([], SERVING)]"

definition grpc_start :: "bool \<Rightarrow> gerr option \<Rightarrow> gerr option" where
  "grpc_start enabled listen = (if \<not> enabled then None
     else case listen of Some e \<Rightarrow> Some (Wrapped ''listen grpc: '' e []) | None \<Rightarrow> None)"

text \<open>The graceful stop may end before the context does; otherwise the server is stopped at once.\<close>

definition grpc_stop :: "bool \<Rightarrow> gerr \<Rightarrow> gerr option \<times> bool" where
  "grpc_stop graceful_first ctx_err = (if graceful_first then (None, False) else (Some ctx_err, True))"

end
