(* ===== verification/Grpc_Properties.thy ===== *)
theory Grpc_Properties
  imports Grpc_Server Http_Scenario
begin

text \<open>
  What the interceptors of the gRPC server guarantee: no method runs for a caller without an
  identity, and both transports take the same callers; what the health service answers.
\<close>

section \<open>The chain\<close>

lemma intercepted_simps [simp]:
  "intercepted [] m h = h" "intercepted (i # is') m h = i m (intercepted is' m h)"
  by (simp_all add: intercepted_def)

text \<open>A handler that answers without touching the service, for calls with this metadata.\<close>

definition service_kept :: "'x rpc_state \<Rightarrow> 'x rpc_state \<Rightarrow> bool" where
  "service_kept s0 s \<longleftrightarrow> st_world s = st_world s0 \<and> st_provider s = st_provider s0 \<and> rp_requests s = rp_requests s0"

definition refused_call :: "'x rpc_state \<Rightarrow> (gerr + 'a) option \<times> 'x rpc_state \<Rightarrow> bool" where
  "refused_call s0 r \<longleftrightarrow> (\<exists>e s'. r = (Some (Inl e), s') \<and> status_code (Some e) \<in> {GrpcUnauthenticated, GrpcInvalidArgument}
     \<and> service_kept s0 s')"

definition refuses :: "rpc_context \<Rightarrow> 'x rpc_state \<Rightarrow> ('a, 'x) rpc_handler \<Rightarrow> bool" where
  "refuses ctx0 s0 h \<longleftrightarrow> (\<forall>ctx s. rc_metadata ctx = rc_metadata ctx0 \<and> service_kept s0 s \<longrightarrow> refused_call s0 (h (ctx, s)))"

lemma refusesI:
  "(\<And>ctx s. rc_metadata ctx = rc_metadata ctx0 \<Longrightarrow> service_kept s0 s \<Longrightarrow> refused_call s0 (h (ctx, s))) \<Longrightarrow> refuses ctx0 s0 h"
  by (simp add: refuses_def)

lemma refusesD:
  "refuses ctx0 s0 h \<Longrightarrow> rc_metadata ctx = rc_metadata ctx0 \<Longrightarrow> service_kept s0 s \<Longrightarrow> refused_call s0 (h (ctx, s))"
  by (simp add: refuses_def)

lemma refused_status [simp]:
  "refused_call s0 (Some (Inl (StatusError g msg)), s') \<longleftrightarrow> g \<in> {GrpcUnauthenticated, GrpcInvalidArgument} \<and> service_kept s0 s'"
  by (simp add: refused_call_def status_code_def)

lemma refuses_environment: "refuses ctx0 s0 h \<Longrightarrow> refuses ctx0 s0 (environment_interceptor profile m h)"
  by (rule refusesI) (simp add: environment_interceptor_def refusesD)

lemma rpc_request_id_kept: "rpc_request_id o' ctx s = (rid, s') \<Longrightarrow> service_kept s0 s \<Longrightarrow> service_kept s0 s'"
  by (auto simp: rpc_request_id_def ask_rpc_def service_kept_def split: list.splits if_splits prod.splits sum.splits)

lemma refuses_request_id:
  fixes h :: "('a, 'x) rpc_handler"
  shows "refuses ctx0 s0 h \<Longrightarrow> refuses ctx0 s0 (request_id_interceptor o' set' m h)"
proof (rule refusesI)
  fix ctx :: rpc_context and s :: "'x rpc_state"
  assume h: "refuses ctx0 s0 h" "rc_metadata ctx = rc_metadata ctx0" and kept: "service_kept s0 s"
  obtain rid s1 where r: "rpc_request_id o' ctx s = (rid, s1)" by fastforce
  with kept have "service_kept s0 s1" by (blast dest: rpc_request_id_kept)
  moreover from this have "service_kept s0 (s1\<lparr>rp_header := l\<rparr>)" for l by (simp add: service_kept_def)
  ultimately show "refused_call s0 (request_id_interceptor o' set' m h (ctx, s))"
    using h r by (simp add: request_id_interceptor_def refusesD)
qed

lemma refuses_idempotency: "refuses ctx0 s0 h \<Longrightarrow> refuses ctx0 s0 (idempotency_interceptor o' m h)"
  by (rule refusesI) (auto simp: idempotency_interceptor_def refusesD split: list.split)

lemma refuses_recovery: "refuses ctx0 s0 h \<Longrightarrow> refuses ctx0 s0 (recovery_interceptor m h)"
  by (rule refusesI) (auto simp: recovery_interceptor_def refused_call_def dest!: refusesD)

text \<open>A call without credentials, as for a request of the HTTP API.\<close>

definition rpc_unidentified :: "'x http_outside \<Rightarrow> auth_config \<Rightarrow> string \<Rightarrow> rpc_context \<Rightarrow> bool" where
  "rpc_unidentified o' a m ctx \<longleftrightarrow> (let values = incoming ''authorization'' ctx in
     if psk_enabled (auth_psk a) \<and> matches_any m (psk_grpc_methods (auth_psk a))
     then \<forall>v \<in> set (take 1 values). \<not> verify_psk v (psk_key (auth_psk a))
     else \<not> matches_any m (auth_skip_grpc_methods a)
       \<and> (\<forall>v \<in> set (take 1 values). \<forall>scheme raw x. cut v CHR '' '' = (scheme, raw, True) \<and> equal_fold scheme ''Bearer''
            \<longrightarrow> (\<exists>e. fst (ho_verify o' raw x) = Inl e)))"

lemma refuses_auth:
  fixes h :: "('a, 'x) rpc_handler"
  assumes "rpc_unidentified o' a m ctx0"
  shows "refuses ctx0 s0 (auth_interceptor o' a m h)"
proof (rule refusesI)
  fix ctx :: rpc_context and s :: "'x rpc_state"
  assume same: "rc_metadata ctx = rc_metadata ctx0" and kept: "service_kept s0 s"
  have "incoming k ctx = incoming k ctx0" for k using same by (simp add: incoming_def)
  moreover have "service_kept s0 (s\<lparr>st_outside := x\<rparr>)" for x using kept by (simp add: service_kept_def)
  ultimately show "refused_call s0 (auth_interceptor o' a m h (ctx, s))"
    using assms kept
    by (cases "incoming ''authorization'' ctx0")
      (auto simp: auth_interceptor_def authenticate_grpc_def rpc_unidentified_def ask_rpc_def Let_def
        split: if_splits prod.splits sum.splits, (metis fst_conv sum.distinct(1))+)
qed

text \<open>A handler of streams as one of calls: the interceptors of streams do to it what those of calls do,
  except that the one for request ids gives up when it cannot set the header.\<close>

definition as_unary :: "'x stream_handler \<Rightarrow> (unit, 'x) rpc_handler" where
  "as_unary h = (\<lambda>x. case h x of (r, s) \<Rightarrow>
     (map_option (\<lambda>err. case err of None \<Rightarrow> Inr () | Some e \<Rightarrow> Inl e) r, s))"

lemma stream_as_unary:
  "as_unary (environment_stream_interceptor profile m h) = environment_interceptor profile m (as_unary h)"
  "as_unary (idempotency_stream_interceptor o' m h) = idempotency_interceptor o' m (as_unary h)"
  "as_unary (auth_stream_interceptor o' a m h) = auth_interceptor o' a m (as_unary h)"
  "as_unary (recovery_stream_interceptor m h) = recovery_interceptor m (as_unary h)"
  "as_unary (metrics_stream_interceptor enabled m h) = metrics_interceptor enabled m (as_unary h)"
  "as_unary (request_id_stream_interceptor o' True m h) = request_id_interceptor o' True m (as_unary h)"
  by (auto simp: fun_eq_iff as_unary_def environment_stream_interceptor_def environment_interceptor_def
      idempotency_stream_interceptor_def idempotency_interceptor_def auth_stream_interceptor_def auth_interceptor_def
      recovery_stream_interceptor_def recovery_interceptor_def metrics_stream_interceptor_def metrics_interceptor_def
      request_id_stream_interceptor_def request_id_interceptor_def split: prod.splits option.splits list.splits sum.splits)

lemma as_unary_refused: "refused_call s0 (as_unary h x) \<Longrightarrow> \<exists>e s'. h x = (Some (Some e), s')
    \<and> status_code (Some e) \<in> {GrpcUnauthenticated, GrpcInvalidArgument} \<and> service_kept s0 s'"
  by (auto simp: as_unary_def refused_call_def split: prod.splits option.splits)

text \<open>C12: No method without an identity. A call of a method that is not skipped, whose first
  \<open>authorization\<close> value is neither the pre-shared key, where the method takes it, nor a token that
  the verifier accepts, is refused as unauthenticated (or for a malformed idempotency key) whatever
  the handler and the library's interceptors are; nothing of the service changes, and neither does
  the counter of calls, whose interceptor is the innermost. A stream without an identity is refused
  in the same way.\<close>
theorem methods_need_identity:
  assumes "rpc_unidentified (gp_outside v) (cfg_auth cfg) m ctx"
  shows "(\<exists>e s'. intercepted (unary_interceptors v cfg) m h (ctx, s) = (Some (Inl e), s')
      \<and> status_code (Some e) \<in> {GrpcUnauthenticated, GrpcInvalidArgument} \<and> service_kept s s')
    \<and> (\<exists>e s'. intercepted (stream_interceptors v cfg) m hs (ctx, s) = (Some (Some e), s')
      \<and> status_code (Some e) \<in> {GrpcUnauthenticated, GrpcInvalidArgument, GrpcInternal} \<and> service_kept s s')"
proof
  have "refuses ctx s (intercepted (unary_interceptors v cfg) m h)"
    unfolding unary_interceptors_def intercepted_simps
    by (intro refuses_environment refuses_request_id refuses_idempotency refuses_recovery refuses_auth assms)
  from refusesD [OF this refl, of s]
  show "\<exists>e s'. intercepted (unary_interceptors v cfg) m h (ctx, s) = (Some (Inl e), s')
      \<and> status_code (Some e) \<in> {GrpcUnauthenticated, GrpcInvalidArgument} \<and> service_kept s s'"
    by (auto simp: refused_call_def service_kept_def)
  show "\<exists>e s'. intercepted (stream_interceptors v cfg) m hs (ctx, s) = (Some (Some e), s')
      \<and> status_code (Some e) \<in> {GrpcUnauthenticated, GrpcInvalidArgument, GrpcInternal} \<and> service_kept s s'"
  proof (cases "gp_set_header v")
    case True
    have "refuses ctx s (as_unary (intercepted (stream_interceptors v cfg) m hs))"
      by (simp only: stream_interceptors_def intercepted_simps stream_as_unary True) (intro refuses_environment refuses_request_id refuses_idempotency refuses_recovery refuses_auth assms)
    from as_unary_refused [OF refusesD [OF this refl, of s]] show ?thesis by (auto simp: service_kept_def)
  next
    case False
    obtain rid s1 where r: "rpc_request_id (gp_outside v) (ctx\<lparr>rc_environment := Some (run_active_profile (cfg_runtime cfg))\<rparr>) s = (rid, s1)"
      by fastforce
    from rpc_request_id_kept [OF this, of s] have "service_kept s s1" by (simp add: service_kept_def)
    with False r show ?thesis
      by (simp add: stream_interceptors_def environment_stream_interceptor_def request_id_stream_interceptor_def status_code_def)
  qed
qed

text \<open>A call with a token that the verifier does not accept.\<close>

definition demo_call :: "string \<Rightarrow> rpc_context" where
  "demo_call authorization = \<lparr>rc_metadata = [(''authorization'', [authorization])], rc_environment = None,
     rc_call = \<lparr>cc_deadline = None, cc_request_id = None, cc_idempotency_key = None, cc_outgoing = []\<rparr>, rc_principal = None\<rparr>"

definition demo_rpc_state :: "demo_store rpc_state" where
  "demo_rpc_state = \<lparr>st_world = demo_world, st_provider = empty_provider, st_outside = [], st_http_requests = [],
     rp_header = [], rp_requests = []\<rparr>"

definition demo_parts :: "(unit, demo_store) grpc_parts" where
  "demo_parts = \<lparr>gp_outside = demo_outside, gp_authorization = (\<lambda>_ m h. h), gp_idempotency = (\<lambda>_ m h. h), gp_metrics = True,
     gp_set_header = True\<rparr>"

theorem methods_need_identity_witness:
  "\<exists>e s'. intercepted (unary_interceptors demo_parts demo_config) ''/platform.import.v1.ImportService/GetImportJob''
      (\<lambda>(ctx, s). (Some (Inr ()), s)) (demo_call ''Bearer bad'', demo_rpc_state) = (Some (Inl e), s')
    \<and> status_code (Some e) \<in> {GrpcUnauthenticated, GrpcInvalidArgument} \<and> service_kept demo_rpc_state s'"
proof (rule methods_need_identity [THEN conjunct1])
  have "cut ''Bearer bad'' CHR '' '' = (''Bearer'', ''bad'', True)" by code_simp
  then show "rpc_unidentified (gp_outside demo_parts) (cfg_auth demo_config) ''/platform.import.v1.ImportService/GetImportJob''
    (demo_call ''Bearer bad'')"
    by (simp add: rpc_unidentified_def demo_parts_def demo_config_def demo_call_def incoming_def demo_outside_def)
qed

section \<open>The same callers\<close>

text \<open>With \<open>Panicked\<close> as the rest of the chain, a middleware that gives \<open>Panicked\<close> has let the request
  pass.\<close>

text \<open>C13: Both transports take the same callers. For one authorization header and the same state
  outside, with corresponding patterns of routes and methods and a verifier that refuses the empty
  token, the HTTP middleware lets a request pass with a principal exactly when the interceptor lets
  the call pass with it.\<close>
theorem transports_identify_alike:
  assumes "get_header ''Authorization'' c = (case incoming ''authorization'' ctx of v # _ \<Rightarrow> v | [] \<Rightarrow> [])"
    and "matches_any (rq_route (gx_request c)) (psk_http_paths (auth_psk a)) = matches_any m (psk_grpc_methods (auth_psk a))"
    and "matches_any (rq_route (gx_request c)) (auth_skip_http_paths a) = matches_any m (auth_skip_grpc_methods a)"
    and "\<And>x. \<exists>e. fst (ho_verify o' [] x) = Inl e"
    and "gx_principal c = rc_principal ctx" and "st_outside s = st_outside t"
  shows "(\<exists>c' s'. mw_authentication o' a Panicked (c, s) = Panicked (c', s') \<and> gx_principal c' = p)
    \<longleftrightarrow> (\<exists>ctx' t'. authenticate_grpc o' a m ctx t = (Inr ctx', t') \<and> rc_principal ctx' = p)"
proof -
  have empty: "\<nexists>q x'. ho_verify o' [] x = (Inr q, x')" for x using assms(4) [of x] by (metis fst_conv sum.distinct(1))
  show ?thesis
  proof (cases "incoming ''authorization'' ctx")
    case Nil
    with assms(1-3,5) show ?thesis
      by (auto simp: mw_authentication_def mw_jwt_def authenticate_grpc_def verify_psk_def Let_def)
  next
    case (Cons v vs)
    show ?thesis
    proof (cases "cut v CHR '' ''")
      case (fields scheme raw ok)
      with Cons assms(1-3,5,6) empty show ?thesis
        by (auto simp: mw_authentication_def mw_jwt_def authenticate_grpc_def ask_outside_def ask_rpc_def Let_def
            split: prod.splits sum.splits if_splits)
    qed
  qed
qed

theorem transports_identify_alike_witness:
  "(\<exists>c' s'. mw_authentication demo_outside (cfg_auth demo_config) Panicked (start_request (demo_http_request ''Bearer good''), demo_state)
      = Panicked (c', s') \<and> gx_principal c' = Some demo_principal)
    \<longleftrightarrow> (\<exists>ctx' t'. authenticate_grpc demo_outside (cfg_auth demo_config) ''/platform.import.v1.ImportService/GetImportJob''
      (demo_call ''Bearer good'') demo_rpc_state = (Inr ctx', t') \<and> rc_principal ctx' = Some demo_principal)"
  by (rule transports_identify_alike)
    (simp_all add: get_header_def start_request_def demo_http_request_def demo_call_def incoming_def demo_config_def
      demo_outside_def demo_state_def demo_rpc_state_def)

section \<open>Health\<close>

text \<open>Readiness. The health check of gRPC serves exactly when no configured dependency fails its ping,
  whichever answer arrives first; the list of the health service says that the server serves even
  when the check says that it does not.\<close>
lemma readiness_and_health_list:
  "grpc_health_check (health_ready first db redis) = SERVING \<longleftrightarrow>
     (\<forall>e l. db \<noteq> Some (Some e, l)) \<and> (\<forall>e l. redis \<noteq> Some (Some e, l))"
  "health_ready True db redis = health_ready False db redis"
  "grpc_health_check (health_ready first (Some (Some e, l)) redis) = NOT_SERVING \<and> map_of grpc_health_list [] = Some SERVING"
proof -
  show "grpc_health_check (health_ready first db redis) = SERVING \<longleftrightarrow>
     (\<forall>e l. db \<noteq> Some (Some e, l)) \<and> (\<forall>e l. redis \<noteq> Some (Some e, l))"
    using health_ready_iff [of first db redis] by (simp add: grpc_health_check_def)
  show "health_ready True db redis = health_ready False db redis" by (rule health_ready_order)
  show "grpc_health_check (health_ready first (Some (Some e, l)) redis) = NOT_SERVING \<and> map_of grpc_health_list [] = Some SERVING"
    using health_ready_iff [of first "Some (Some e, l)" redis] by (simp add: grpc_health_check_def grpc_health_list_def)
qed

end
