(* ===== verification/Event_Properties.thy ===== *)
theory Event_Properties
  imports Event_Runtime Scenario
begin

text \<open>
  What the event bus guarantees: an event of the outbox reaches the worker for the job it was stored
  for, and no other event does.
\<close>

text \<open>C17: A completed upload is validated. When \<open>CompleteUpload\<close> succeeds, the job is queued and the
  outbox has one new event; under the laws of the message encoding, its delivery by the subject it
  was stored with makes the consumer run the worker's validation of exactly that job.\<close>
theorem completed_upload_is_validated:
  assumes "service_complete_upload s p t a i n b cs w = (Inr j, w')"
    and "envelope_laws (sv_codec s) rd decode"
  shows "\<exists>row envelope durable. outbox w' = outbox w @ [row] \<and> decode (oe_envelope row) = Inr envelope
    \<and> (durable, oe_subject row, ''requested'') \<in> set import_consumers
    \<and> find (is_key (clean t) (clean a) (clean i)) (jobs w') = Some j \<and> status j = StatusQueued
    \<and> handle_event rd (worker_processor k) envelope ''requested'' v = worker_validate k (clean t) (clean a) (clean i) v"
proof -
  from assms(1) obtain row actor at where row: "outbox w' = outbox w @ [row]"
    "announces (sv_codec s) j ''requested'' actor at row"
    "find (is_key (clean t) (clean a) (clean i)) (jobs w') = Some j" "status j = StatusQueued"
    by (rule completed_upload_row)
  from find_SomeD [OF row(3)] have key: "tenant_id j = clean t" "application_id j = clean a" "job_id j = clean i"
    by (auto simp: is_key_def)
  from announced_is_handled [OF assms(2) row(2), of "worker_processor k" v] complete_upload_named [OF assms(1)] key
  obtain envelope durable where "decode (oe_envelope row) = Inr envelope"
    "(durable, oe_subject row, ''requested'') \<in> set import_consumers"
    "handle_event rd (worker_processor k) envelope ''requested'' v
      = (if ''requested'' = ''requested'' then pc_validate (worker_processor k) (tenant_id j) (application_id j) (job_id j) v
         else pc_apply (worker_processor k) (tenant_id j) (application_id j) (job_id j) v)"
    by auto
  with row key show ?thesis by (auto simp: worker_processor_def)
qed

text \<open>A service that encodes one event and refuses every other, and a run that makes this event.\<close>

definition demo_event :: "event_metadata \<times> job_changed" where
  "demo_event = (job_metadata ''0'' queued_job ''ann'' 0,
     \<lparr>jc_job = to_proto (ec_timestamp demo_codec) queued_job, jc_change_type = ''requested''\<rparr>)"

definition one_event_codec :: "(event_metadata \<times> job_changed) event_codec" where
  "one_event_codec = demo_codec\<lparr>ec_marshal := (\<lambda>e. if e = demo_event then Inr ''event'' else Inl (ErrText ''too large''))\<rparr>"

definition demo_reader :: "(event_metadata \<times> job_changed) envelope_reader" where
  "demo_reader = \<lparr>er_payload = (\<lambda>(m, p). Inr (Some (jc_job p), jc_change_type p)), er_tenant = (\<lambda>(m, p). em_tenant_id m),
     er_application = (\<lambda>(m, p). em_application_id m)\<rparr>"

lemma one_event_laws: "envelope_laws one_event_codec demo_reader (\<lambda>bytes. Inr demo_event)"
  by (simp add: envelope_laws_def one_event_codec_def demo_codec_def demo_reader_def)

theorem completed_upload_is_validated_witness:
  "\<exists>w' row envelope durable. service_complete_upload (demo_service\<lparr>sv_codec := one_event_codec\<rparr>) demo_caller ''t1'' ''a1'' ''0'' 1
       16 ''16'' (holding [new_demo_job]) = (Inr queued_job, w') \<and> outbox w' = outbox (holding [new_demo_job]) @ [row]
    \<and> (durable, oe_subject row, ''requested'') \<in> set import_consumers
    \<and> handle_event demo_reader (worker_processor demo_worker) envelope ''requested'' w'
      = worker_validate demo_worker (clean ''t1'') (clean ''a1'') (clean ''0'') w'"
proof -
  let ?r = "service_complete_upload (demo_service\<lparr>sv_codec := one_event_codec\<rparr>) demo_caller ''t1'' ''a1'' ''0'' 1 16 ''16'' (holding [new_demo_job])"
  have "fst ?r = Inr queued_job" by code_simp
  then obtain w' where run: "?r = (Inr queued_job, w')" by (cases ?r) simp
  have "envelope_laws (sv_codec (demo_service\<lparr>sv_codec := one_event_codec\<rparr>)) demo_reader (\<lambda>bytes. Inr demo_event)"
    using one_event_laws by simp
  from completed_upload_is_validated [OF run this, of demo_worker w'] run show ?thesis by blast
qed

text \<open>C18: Foreign and malformed events are refused. An event that cannot be read, has no job or another
  change, names no tenant or application, or whose job belongs to another tenant or application
  than its envelope is an error, and neither validation nor application of the worker is called:
  its state is as it was. A consumer calls the worker only for the change it was set up for.\<close>
theorem foreign_events_refused:
  "(\<exists>j. er_payload rd envelope = Inr (Some j, expected) \<and> pj_tenant_id j \<noteq> [] \<and> pj_application_id j \<noteq> []
      \<and> er_tenant rd envelope = pj_tenant_id j \<and> er_application rd envelope = pj_application_id j
      \<and> handle_event rd p envelope expected w
        = (if expected = ''requested'' then pc_validate p (er_tenant rd envelope) (er_application rd envelope) (pj_id j) w
           else pc_apply p (er_tenant rd envelope) (er_application rd envelope) (pj_id j) w))
   \<or> (\<exists>e. handle_event rd p envelope expected w = (Some e, w))"
proof (cases "er_payload rd envelope")
  case (Inr x)
  show ?thesis
  proof (cases "fst x")
    case (Some j)
    with Inr show ?thesis by (cases x) (auto simp: handle_event_def)
  qed (use Inr in \<open>cases x; simp add: handle_event_def\<close>)
qed (simp add: handle_event_def)

end
