(* ===== verification/Setup.thy ===== *)
theory Setup
  imports Config_Check Outbound Service Worker
begin

text \<open>
  What the process does before it serves: the startup migration (\<open>internal/migration/migration.go\<close>),
  the connection to the database (\<open>internal/database/database.go\<close>), locks in Redis
  (\<open>internal/cache/redis.go\<close>) and the providers of the application (\<open>internal/app/app.go\<close>,
  \<open>internal/app/application.go\<close>). Drivers, the migration library and Redis are outside the
  repository; what they are given and what happens to their errors is modelled.
\<close>

section \<open>The URL of a migration\<close>

text \<open>\<open>url.QueryEscape\<close>.\<close>

definition unreserved :: "char \<Rightarrow> bool" where
  "unreserved c \<longleftrightarrow> (let n = of_char c :: nat in
     97 \<le> n \<and> n \<le> 122 \<or> 65 \<le> n \<and> n \<le> 90 \<or> 48 \<le> n \<and> n \<le> 57 \<or> c \<in> {CHR ''-'', CHR ''_'', CHR ''.'', CHR ''~''})"

definition upper_hex :: "nat \<Rightarrow> char" where
  "upper_hex n = ''0123456789ABCDEF'' ! (n mod 16)"

definition query_escape :: "string \<Rightarrow> string" where
  "query_escape s = concat (map (\<lambda>c. if unreserved c then [c] else if c = CHR '' '' then ''+''
     else let n = (of_char c :: nat) in [CHR ''%'', upper_hex (n div 16), upper_hex n]) s)"

text \<open>\<open>strings.LastIndex\<close> of one byte.\<close>

definition last_index :: "string \<Rightarrow> char \<Rightarrow> nat option" where
  "last_index s c = (if c \<notin> set s then None else Some (length s - 1 - length (takeWhile (\<lambda>x. x \<noteq> c) (rev s))))"

text \<open>Other URLs go through \<open>net/url\<close>: parsing, the path, the query as a map, and the text.\<close>

record 'u url_library =
  ul_parse :: "string \<Rightarrow> gerr + 'u"
  ul_with_path :: "string \<Rightarrow> 'u \<Rightarrow> 'u"
  ul_query :: "'u \<Rightarrow> (string \<rightharpoonup> string list)"
  ul_with_query :: "(string \<rightharpoonup> string list) \<Rightarrow> 'u \<Rightarrow> 'u"
  ul_text :: "'u \<Rightarrow> string"

definition mysql_scheme :: string where "mysql_scheme = ''mysql://''"

definition mysql_with_database :: "string \<Rightarrow> string \<Rightarrow> gerr + string" where
  "mysql_with_database url name = (if name = [] then Inr url
     else let path_end = length (takeWhile (\<lambda>c. c \<noteq> CHR ''?'') url) in
       case last_index (take path_end url) CHR ''/'' of
         None \<Rightarrow> Inl (ErrText ''mysql migration URL is missing database path'')
       | Some slash \<Rightarrow> Inr (take (slash + 1) url @ name @ drop path_end url))"

definition with_migration_options :: "'u url_library \<Rightarrow> string \<Rightarrow> string \<Rightarrow> string \<Rightarrow> string \<Rightarrow> gerr + string" where
  "with_migration_options l url name table schema =
     (if name = [] \<and> table = [] \<and> schema = [] then Inr url
      else if has_prefix url mysql_scheme then
        (case mysql_with_database url name of
           Inl e \<Rightarrow> Inl e
         | Inr url \<Rightarrow> if table = [] then Inr url
             else Inr (url @ (if contains url ''?'' then ''&'' else ''?'') @ ''x-migrations-table='' @ query_escape table))
      else case ul_parse l url of
        Inl e \<Rightarrow> Inl (Wrapped ''parse migration database URL: '' e [])
      | Inr u \<Rightarrow> (let q = ul_query l u; u = (if name \<noteq> [] then ul_with_path l (CHR ''/'' # name) u else u);
            q = (if table \<noteq> [] then q(''x-migrations-table'' \<mapsto> [table]) else q);
            q = (if schema \<noteq> [] then q(''search_path'' \<mapsto> [schema]) else q) in
          Inr (ul_text l (ul_with_query l q u))))"

section \<open>The schema\<close>

datatype sql_op = SqlBegin | SqlExec string "string list" | SqlCommit | SqlRollback

text \<open>The operations that are carried out, and which of them fail.\<close>

definition create_schema :: "(sql_op \<Rightarrow> gerr option) \<Rightarrow> string \<Rightarrow> gerr option \<times> sql_op list" where
  "create_schema run schema =
     (let lock = SqlExec ''SELECT pg_advisory_xact_lock(hashtext($1))'' [''import-service:schema:'' @ schema];
        create = SqlExec (''CREATE SCHEMA IF NOT EXISTS '' @ [CHR 0x22] @ schema @ [CHR 0x22]) [] in
      case run SqlBegin of Some e \<Rightarrow> (Some (Wrapped ''begin schema creation: '' e []), [SqlBegin])
      | None \<Rightarrow> (case run lock of Some e \<Rightarrow> (Some (Wrapped ''lock schema creation: '' e []), [SqlBegin, lock, SqlRollback])
      | None \<Rightarrow> (case run create of Some e \<Rightarrow> (Some (Wrapped ''execute schema creation: '' e []), [SqlBegin, lock, create, SqlRollback])
      | None \<Rightarrow> (case run SqlCommit of
          Some e \<Rightarrow> (Some (Wrapped ''commit schema creation: '' e []), [SqlBegin, lock, create, SqlCommit, SqlRollback])
        | None \<Rightarrow> (None, [SqlBegin, lock, create, SqlCommit])))))"

text \<open>\<open>open_sql\<close> opens a database by its URL and gives what runs its operations.\<close>

definition ensure_schema :: "'u url_library \<Rightarrow> (string \<Rightarrow> gerr + (sql_op \<Rightarrow> gerr option)) \<Rightarrow> migration_config \<Rightarrow> string \<Rightarrow> gerr option" where
  "ensure_schema l open_sql cfg url =
     (if \<not> mig_create_schema cfg \<or> mig_schema cfg = [] \<or> has_prefix (mig_database_url cfg) mysql_scheme then None
      else if \<not> valid_migration_table (mig_schema cfg) then Some (ErrText ''invalid migration schema'')
      else case ul_parse l url of
        Inl e \<Rightarrow> Some (Wrapped ''parse database URL for schema creation: '' e [])
      | Inr u \<Rightarrow> (case open_sql (ul_text l (ul_with_query l ((ul_query l u)(''x-migrations-table'' := None)) u)) of
          Inl e \<Rightarrow> Some (Wrapped ''open database to create schema: '' e [])
        | Inr run \<Rightarrow> (case fst (create_schema run (mig_schema cfg)) of
            Some e \<Rightarrow> Some (Wrapped (''create migration schema '' @ go_quote (mig_schema cfg) @ '': '') e [])
          | None \<Rightarrow> None)))"

section \<open>Running the migration\<close>

text \<open>The library: a migrator of source and URL, its three operations (\<open>Some None\<close> is \<open>ErrNoChange\<close>), and
  closing of source and database.\<close>

record 'm migrate_library =
  mg_source :: "string \<Rightarrow> gerr + string"
  mg_new :: "string \<Rightarrow> string \<Rightarrow> gerr + 'm"
  mg_steps :: "'m \<Rightarrow> int \<Rightarrow> gerr option option"
  mg_up :: "'m \<Rightarrow> gerr option option"
  mg_down :: "'m \<Rightarrow> gerr option option"
  mg_close :: "'m \<Rightarrow> gerr option \<times> gerr option"

definition migration_run :: "'u url_library \<Rightarrow> 'm migrate_library \<Rightarrow> (string \<Rightarrow> gerr + (sql_op \<Rightarrow> gerr option))
    \<Rightarrow> migration_config \<Rightarrow> string \<Rightarrow> int \<Rightarrow> gerr option" where
  "migration_run l g open_sql cfg direction steps =
     (if mig_database_url cfg = [] then Some (ErrText ''migration.database_url is required'')
      else case mg_source g (mig_path cfg) of
        Inl e \<Rightarrow> Some (Wrapped ''resolve migration path: '' e [])
      | Inr source \<Rightarrow> (case with_migration_options l (mig_database_url cfg) (mig_database_name cfg) (mig_table cfg) (mig_schema cfg) of
          Inl e \<Rightarrow> Some e
        | Inr url \<Rightarrow> (case ensure_schema l open_sql cfg url of
            Some e \<Rightarrow> Some e
          | None \<Rightarrow> (case mg_new g source url of
              Inl e \<Rightarrow> Some (Wrapped ''create migrator: '' e [])
            | Inr m \<Rightarrow>
                let run_err = (case (if steps \<noteq> 0 then mg_steps g m steps else if direction = ''down'' then mg_down g m else mg_up g m) of
                    Some (Some e) \<Rightarrow> Some (Wrapped ''run migration: '' e []) | _ \<Rightarrow> None);
                  (source_err, database_err) = mg_close g m;
                  run_err = errors_join run_err (map_option (\<lambda>e. Wrapped ''close migration source: '' e []) source_err) in
                errors_join run_err (map_option (\<lambda>e. Wrapped ''close migration database: '' e []) database_err)))))"

definition run_startup_migration :: "(migration_config \<Rightarrow> gerr option) \<Rightarrow> config \<Rightarrow> gerr option" where
  "run_startup_migration run cfg = (if \<not> mig_auto_up (cfg_migration cfg) then None
     else map_option (\<lambda>e. Wrapped ''startup database migration: '' e []) (run (cfg_migration cfg)))"

section \<open>The database\<close>

definition driver_name :: "string \<Rightarrow> gerr + string" where
  "driver_name db_type = (if db_type = ''mysql'' then Inr ''mysql''
     else if db_type = ''postgres'' \<or> db_type = ''kingbase'' then Inr ''pgx''
     else Inl (ErrText (''unsupported database type '' @ go_quote db_type)))"

text \<open>What a connection is opened with: the driver, the parsed DSN with the database it is given, the
  parameters that are set, and the limits of the pool.\<close>

record 'd db_settings =
  ds_driver :: string
  ds_parsed :: 'd
  ds_database :: "string option"
  ds_params :: "(string \<times> string) list"
  ds_pool :: "int \<times> int \<times> duration \<times> duration"

definition db_settings_of :: "(string \<Rightarrow> string \<Rightarrow> gerr + 'd) \<Rightarrow> gerr option \<Rightarrow> database_config \<Rightarrow> gerr + 'd db_settings" where
  "db_settings_of parse location_err cfg = (case driver_name (dbc_type cfg) of
       Inl e \<Rightarrow> Inl e
     | Inr driver \<Rightarrow> (case parse driver (dbc_dsn cfg) of
         Inl e \<Rightarrow> Inl (Wrapped ''parse database dsn: '' e [])
       | Inr d \<Rightarrow> (let name = (if dbc_name cfg \<noteq> [] then Some (dbc_name cfg) else None);
             pool = (dbc_max_open_conns cfg, dbc_max_idle_conns cfg, dbc_conn_max_lifetime cfg, dbc_conn_max_idle_time cfg) in
           if driver = ''pgx''
           then Inr \<lparr>ds_driver = driver, ds_parsed = d, ds_database = name,
             ds_params = (if dbc_schema cfg \<noteq> [] then [(''search_path'', dbc_schema cfg)] else []) @ [(''timezone'', ''Asia/Shanghai'')],
             ds_pool = pool\<rparr>
           else case location_err of
             Some e \<Rightarrow> Inl (Wrapped ''load database timezone: '' e [])
           | None \<Rightarrow> Inr \<lparr>ds_driver = driver, ds_parsed = d, ds_database = name,
               ds_params = [(''parseTime'', ''true''), (''loc'', ''Asia/Shanghai'')], ds_pool = pool\<rparr>)))"

text \<open>\<open>open_db\<close> makes the pool, which only the driver of MySQL may refuse, and \<open>ping\<close> tries it; a pool that
  does not answer is closed, and the list has it.\<close>

definition database_open :: "('d db_settings \<Rightarrow> gerr + 'db) \<Rightarrow> ('db \<Rightarrow> duration \<Rightarrow> gerr option)
    \<Rightarrow> gerr + 'd db_settings \<Rightarrow> database_config \<Rightarrow> (gerr + 'db) \<times> 'db list" where
  "database_open open_db ping settings cfg = (case settings of
       Inl e \<Rightarrow> (Inl e, [])
     | Inr s \<Rightarrow> (case open_db s of
         Inl e \<Rightarrow> (Inl (Wrapped ''open database: '' e []), [])
       | Inr db \<Rightarrow> (case ping db (dbc_ping_timeout cfg) of
           Some e \<Rightarrow> (Inl (Wrapped ''ping database: '' e []), [db])
         | None \<Rightarrow> (Inr db, []))))"

section \<open>Locks\<close>

record lock_options =
  lo_name :: string
  lo_expiry :: duration
  lo_tries :: "int option"
  lo_retry_delay :: "duration option"

definition new_mutex :: "string \<Rightarrow> duration \<Rightarrow> lock_options \<Rightarrow> gerr + lock_options" where
  "new_mutex key ttl options' = (if key = [] then Inl (ErrText ''lock key must not be empty'')
     else if ttl \<le> 0 then Inl (ErrText ''lock ttl must be positive'')
     else Inr (options'\<lparr>lo_name := ''lock:'' @ key, lo_expiry := ttl\<rparr>))"

definition no_options :: lock_options where
  "no_options = \<lparr>lo_name = [], lo_expiry = 0, lo_tries = None, lo_retry_delay = None\<rparr>"

text \<open>Contention is the library's error that the lock is taken, wherever it is wrapped.\<close>

definition is_contention :: "(gerr \<Rightarrow> bool) \<Rightarrow> (gerr \<Rightarrow> bool) \<Rightarrow> gerr \<Rightarrow> bool" where
  "is_contention failed taken e \<longleftrightarrow> err_any failed e \<or> err_any taken e"

definition try_lock :: "(gerr \<Rightarrow> bool) \<Rightarrow> (lock_options \<Rightarrow> gerr option) \<Rightarrow> string \<Rightarrow> duration \<Rightarrow> gerr + lock_options option" where
  "try_lock contention lock key ttl = (case new_mutex key ttl (no_options\<lparr>lo_tries := Some 1\<rparr>) of
       Inl e \<Rightarrow> Inl e
     | Inr m \<Rightarrow> (case lock m of
         Some e \<Rightarrow> if contention e then Inr None else Inl (Wrapped (''try redis lock '' @ go_quote key @ '': '') e [])
       | None \<Rightarrow> Inr (Some m)))"

definition lock_wait :: "(lock_options \<Rightarrow> gerr option) \<Rightarrow> gerr option \<Rightarrow> string \<Rightarrow> duration \<Rightarrow> duration \<Rightarrow> gerr + lock_options" where
  "lock_wait lock ctx_err key ttl retry_delay' = (if retry_delay' \<le> 0 then Inl (ErrText ''lock retry delay must be positive'')
     else case new_mutex key ttl (no_options\<lparr>lo_retry_delay := Some retry_delay'\<rparr>) of
       Inl e \<Rightarrow> Inl e
     | Inr m \<Rightarrow> (case lock m of
         Some e \<Rightarrow> (case ctx_err of
             Some c \<Rightarrow> Inl (Wrapped (''wait for redis lock '' @ go_quote key @ '': '') c [])
           | None \<Rightarrow> Inl (Wrapped (''acquire redis lock '' @ go_quote key @ '': '') e []))
       | None \<Rightarrow> Inr m))"

definition lock_owned :: "string \<Rightarrow> lock_options \<Rightarrow> gerr + bool \<Rightarrow> gerr option" where
  "lock_owned verb m r = (case r of
       Inl e \<Rightarrow> Some (Wrapped (verb @ '' redis lock '' @ go_quote (lo_name m) @ '': '') e [])
     | Inr ok \<Rightarrow> if ok then None
         else Some (ErrText (verb @ '' redis lock '' @ go_quote (lo_name m) @ '': lock is no longer owned'')))"

definition lock_extend :: "(lock_options \<Rightarrow> gerr + bool) \<Rightarrow> lock_options \<Rightarrow> gerr option" where
  "lock_extend prolong m = lock_owned ''extend'' m (prolong m)"

definition lock_unlock :: "(lock_options \<Rightarrow> gerr + bool) \<Rightarrow> lock_options \<Rightarrow> gerr option" where
  "lock_unlock unlock m = lock_owned ''release'' m (unlock m)"

section \<open>The application\<close>

text \<open>Without a database no application is checked; with one the verifier needs the connection
  \<open>application\<close>, of which \<open>verifier\<close> makes it.\<close>

definition new_application_verifier :: "(dial_options \<Rightarrow> string \<Rightarrow> string \<Rightarrow> world \<Rightarrow> gerr option) \<Rightarrow> config \<Rightarrow> registry option
    \<Rightarrow> gerr + (string \<Rightarrow> string \<Rightarrow> world \<Rightarrow> gerr option)" where
  "new_application_verifier verifier cfg reg = (if \<not> dbc_enabled (cfg_database cfg) then Inr allow_all
     else case reg of None \<Rightarrow> Inl (ErrText ''import service requires outbound registry'')
     | Some g \<Rightarrow> (case registry_grpc g ''application'' of
         None \<Rightarrow> Inl (ErrText ''import service requires outbound.grpc.application'')
       | Some connection \<Rightarrow> Inr (verifier connection)))"

definition new_database :: "(database_config \<Rightarrow> gerr + 'db) \<Rightarrow> config \<Rightarrow> gerr + 'db option" where
  "new_database open_db cfg = (if \<not> dbc_enabled (cfg_database cfg) then Inr None
     else case open_db (cfg_database cfg) of Inl e \<Rightarrow> Inl e | Inr db \<Rightarrow> Inr (Some db))"

text \<open>A client that cannot be instrumented is closed; the list has the clients that were.\<close>

definition new_redis :: "(redis_config \<Rightarrow> gerr + 'r) \<Rightarrow> ('r \<Rightarrow> gerr option) \<Rightarrow> bool \<Rightarrow> config \<Rightarrow> (gerr + 'r option) \<times> 'r list" where
  "new_redis open_redis instrument tracing cfg = (if \<not> redis_enabled (cfg_redis cfg) then (Inr None, [])
     else case open_redis (cfg_redis cfg) of Inl e \<Rightarrow> (Inl e, [])
     | Inr client \<Rightarrow> (case (if tracing then instrument client else None) of
         Some e \<Rightarrow> (Inl (Wrapped ''instrument redis tracing: '' e []), [client])
       | None \<Rightarrow> (Inr (Some client), [])))"

definition redis_open :: "(redis_config \<Rightarrow> 'r) \<Rightarrow> ('r \<Rightarrow> gerr option) \<Rightarrow> redis_config \<Rightarrow> (gerr + 'r) \<times> 'r list" where
  "redis_open client ping cfg = (case ping (client cfg) of
       Some e \<Rightarrow> (Inl (Wrapped ''ping redis: '' e []), [client cfg]) | None \<Rightarrow> (Inr (client cfg), []))"

definition new_import_worker :: "'env worker \<Rightarrow> config \<Rightarrow> 'env worker" where
  "new_import_worker parts cfg = parts\<lparr>wk_batch_size := imp_batch_size (cfg_import cfg), wk_max_rows := imp_max_rows (cfg_import cfg),
     wk_max_bytes := imp_max_bytes (cfg_import cfg), wk_result_ttl := imp_result_ttl (cfg_import cfg)\<rparr>"

definition new_import_service :: "'env service \<Rightarrow> config \<Rightarrow> (string \<Rightarrow> string \<Rightarrow> world \<Rightarrow> gerr option) option
    \<Rightarrow> (string \<Rightarrow> string \<Rightarrow> string \<Rightarrow> string \<Rightarrow> world \<Rightarrow> gerr + dataset_descriptor) option \<Rightarrow> gerr + 'env service" where
  "new_import_service parts cfg applications provider = new_runtime_service (imp_upload_ttl (cfg_import cfg)) parts applications provider"

section \<open>Facts\<close>

lemma takeWhile_before: "c \<notin> set a \<Longrightarrow> takeWhile (\<lambda>x. x \<noteq> c) (a @ c # b) = a"
  by (induction a) auto

lemma takeWhile_absent: "c \<notin> set a \<Longrightarrow> takeWhile (\<lambda>x. x \<noteq> c) a = a"
  by (induction a) auto

lemma last_index_found: "c \<notin> set b \<Longrightarrow> last_index (a @ c # b) c = Some (length a)"
  using takeWhile_before [of c "rev b" "rev a"] by (simp add: last_index_def)

lemma takeWhile_query:
  assumes "CHR ''?'' \<notin> set a" and "q = [] \<or> hd q = CHR ''?''"
  shows "takeWhile (\<lambda>c. c \<noteq> CHR ''?'') (a @ q) = a"
  using assms by (cases q) (auto simp: takeWhile_before takeWhile_absent)

text \<open>The database of a URL is replaced behind the last slash before the query.\<close>

lemma mysql_last_slash:
  assumes "url = a @ CHR ''/'' # path @ q" and "CHR ''?'' \<notin> set (a @ path)" and "CHR ''/'' \<notin> set path"
    and "q = [] \<or> hd q = CHR ''?''" and "name \<noteq> []"
  shows "mysql_with_database url name = Inr (a @ CHR ''/'' # name @ q)"
proof -
  have "takeWhile (\<lambda>c. c \<noteq> CHR ''?'') ((a @ CHR ''/'' # path) @ q) = a @ CHR ''/'' # path"
    by (rule takeWhile_query) (use assms(2,4) in auto)
  then have path_end: "length (takeWhile (\<lambda>c. c \<noteq> CHR ''?'') url) = length a + Suc (length path)"
    using assms(1) by simp
  have "take (length a + Suc (length path)) url = a @ CHR ''/'' # path" "drop (length a + Suc (length path)) url = q"
    "take (Suc (length a)) url = a @ ''/''"
    using assms(1) by simp_all
  with path_end last_index_found [OF assms(3), of a] assms(5) show ?thesis by (simp add: mysql_with_database_def)
qed

text \<open>The database of a MySQL URL. With a database in the URL, its name is replaced and the rest
  kept, the query included. Without one the last slash is that of the scheme: the new name takes
  the place of user, password and host, and the check for a missing database path never fails.\<close>
lemma mysql_url_database:
  assumes "name \<noteq> []" and "q = [] \<or> hd q = CHR ''?''"
    and "CHR ''?'' \<notin> set (authority @ path)" and "CHR ''/'' \<notin> set (authority @ path)"
  shows "mysql_with_database (mysql_scheme @ authority @ CHR ''/'' # path @ q) name
      = Inr (mysql_scheme @ authority @ CHR ''/'' # name @ q)
    \<and> mysql_with_database (mysql_scheme @ authority @ q) name = Inr (mysql_scheme @ name @ q)"
proof
  show "mysql_with_database (mysql_scheme @ authority @ CHR ''/'' # path @ q) name
      = Inr (mysql_scheme @ authority @ CHR ''/'' # name @ q)"
    using mysql_last_slash [OF _ _ _ assms(2,1), of _ "mysql_scheme @ authority" path] assms(3,4)
    by (auto simp: mysql_scheme_def)
  show "mysql_with_database (mysql_scheme @ authority @ q) name = Inr (mysql_scheme @ name @ q)"
    using mysql_last_slash [OF _ _ _ assms(2,1), of "mysql_scheme @ authority @ q" "''mysql:/''" authority] assms(3,4)
    by (auto simp: mysql_scheme_def)
qed

lemma mysql_url_database_witness:
  "mysql_with_database ''mysql://app:pw@tcp(db:3306)?tls=true'' ''orders'' = Inr ''mysql://orders?tls=true''"
  using mysql_url_database [of "''orders''" "''?tls=true''" "''app:pw@tcp(db:3306)''" "[]"]
  by (simp add: mysql_scheme_def)

text \<open>A schema that is created has a name without quotes, under the lock; what fails is rolled back.\<close>

lemma valid_schema_plain: "valid_migration_table s \<Longrightarrow> CHR 0x22 \<notin> set s"
  by (cases s) (auto simp: list_all_iff lower_or_digit_def)

lemma create_schema_rolls_back:
  "fst (create_schema run schema) = None \<longleftrightarrow> last (snd (create_schema run schema)) = SqlCommit"
  "fst (create_schema run schema) \<noteq> None \<Longrightarrow> run SqlBegin = None \<Longrightarrow> last (snd (create_schema run schema)) = SqlRollback"
  by (auto simp: create_schema_def Let_def split: option.splits)

lemma new_mutex_ok: "new_mutex key ttl o' = Inr m \<longleftrightarrow> key \<noteq> [] \<and> 0 < ttl \<and> m = o'\<lparr>lo_name := ''lock:'' @ key, lo_expiry := ttl\<rparr>"
  by (auto simp: new_mutex_def)

end
