(* ===== verification/Process.thy ===== *)
theory Process
  imports Setup Event_Runtime Health_Limits Config_Properties Outbound_Properties Http_Context
begin

text \<open>
  The process around the components: the two commands (\<open>cmd/api/main.go\<close>, \<open>cmd/migrate/main.go\<close>), the
  version (\<open>internal/buildinfo/buildinfo.go\<close>), the logger (\<open>internal/logging/logging.go\<close>), the counters
  (\<open>internal/observability/metrics.go\<close>), the settings that the wiring gives to the store of idempotent
  results (\<open>internal/idempotency/manager.go\<close>) and to the authorizer
  (\<open>internal/authorization/provider.go\<close>). The libraries are arguments.
\<close>

section \<open>Commands\<close>

text \<open>A command ends with its exit code, or runs the application that was configured.\<close>

datatype ending = ExitWith nat string | RunApplication config

record api_flags =
  af_config :: string
  af_profile :: string
  af_version :: bool

definition api_main :: "(string \<Rightarrow> string \<Rightarrow> gerr + config) \<Rightarrow> string \<times> string \<times> string \<Rightarrow> api_flags \<Rightarrow> ending" where
  "api_main load build flags = (case build of (version', commit, build_time) \<Rightarrow>
     if af_version flags
     then ExitWith 0 (''version='' @ version' @ '' commit='' @ commit @ '' build_time='' @ build_time @ [CHR 0x0A])
     else case load (af_config flags) (af_profile flags) of
       Inl e \<Rightarrow> ExitWith 1 (''load configuration: '' @ err_text e @ [CHR 0x0A])
     | Inr cfg \<Rightarrow> RunApplication cfg)"

record migrate_flags =
  mf_config :: string
  mf_profile :: string
  mf_direction :: string
  mf_steps :: int

definition migrate_main :: "(string \<Rightarrow> string \<Rightarrow> gerr + config) \<Rightarrow> (migration_config \<Rightarrow> string \<Rightarrow> int \<Rightarrow> gerr option)
    \<Rightarrow> migrate_flags \<Rightarrow> nat \<times> string" where
  "migrate_main load run flags =
     (if mf_direction flags \<noteq> ''up'' \<and> mf_direction flags \<noteq> ''down''
      then (2, ''direction must be up or down'' @ [CHR 0x0A])
      else case (case load (mf_config flags) (mf_profile flags) of Inl e \<Rightarrow> Some e
          | Inr cfg \<Rightarrow> run (cfg_migration cfg) (mf_direction flags) (mf_steps flags)) of
        Some e \<Rightarrow> (1, ''migration failed: '' @ err_text e @ [CHR 0x0A])
      | None \<Rightarrow> (0, []))"

section \<open>Version, logger, counters\<close>

text \<open>The time of the start and the time since are texts as the encoders of the library write them.\<close>

definition build_info :: "string \<times> string \<times> string \<Rightarrow> string \<Rightarrow> string \<Rightarrow> json" where
  "build_info build started uptime = (case build of (version', commit, build_time) \<Rightarrow> JObject
     [(''version'', JString version'), (''commit'', JString commit), (''build_time'', JString build_time),
      (''started_at'', JString started), (''uptime'', JString uptime)])"

record logger_settings =
  ls_file :: "string \<times> int \<times> int \<times> int \<times> bool"
  ls_level :: string
  ls_as_text :: bool

definition new_logger :: "(string \<Rightarrow> gerr option) \<Rightarrow> (string \<Rightarrow> gerr option) \<Rightarrow> log_config \<Rightarrow> gerr + logger_settings" where
  "new_logger make_directory_of parse_level cfg = (case make_directory_of (log_file cfg) of
       Some e \<Rightarrow> Inl (Wrapped ''create log directory: '' e [])
     | None \<Rightarrow> (case parse_level (to_lower (log_level cfg)) of
         Some e \<Rightarrow> Inl (Wrapped ''parse log level: '' e [])
       | None \<Rightarrow> Inr \<lparr>ls_file = (log_file cfg, log_max_size cfg, log_max_backups cfg, log_max_age_days cfg, log_compress cfg),
           ls_level = to_lower (log_level cfg), ls_as_text = (log_format cfg = ''text'')\<rparr>))"

text \<open>The logger of the application has two attributes.\<close>

definition application_logger :: "(log_config \<Rightarrow> gerr + logger_settings) \<Rightarrow> config \<Rightarrow> gerr + logger_settings \<times> (string \<times> string) list" where
  "application_logger new cfg = (case new (cfg_log cfg) of Inl e \<Rightarrow> Inl e
     | Inr l \<Rightarrow> Inr (l, [(''service'', app_name (cfg_app cfg)), (''environment'', run_active_profile (cfg_runtime cfg))]))"

text \<open>Tracing: disabled, or an exporter for the endpoint with the name and version of the service and the
  ratio of samples.\<close>

definition new_tracing :: "(string \<Rightarrow> gerr + 'e) \<Rightarrow> string \<Rightarrow> config \<Rightarrow> gerr + ('e \<times> (string \<times> string) list \<times> go_float) option" where
  "new_tracing exporter version' cfg = (if \<not> obs_tracing_enabled (cfg_observability cfg) then Inr None
     else case exporter (obs_tracing_endpoint (cfg_observability cfg)) of
       Inl e \<Rightarrow> Inl (Wrapped ''create OTLP trace exporter: '' e [])
     | Inr x \<Rightarrow> Inr (Some (x, [(''service.name'', app_name (cfg_app cfg)), (''service.version'', version')],
         obs_tracing_sample_ratio (cfg_observability cfg))))"

text \<open>The names that are registered; registering one twice panics.\<close>

definition service_collectors :: "string list" where
  "service_collectors = [''http_requests_total'', ''http_request_duration_seconds'', ''cron_runs_total'',
     ''cron_run_duration_seconds'', ''grpc_server_requests_total'', ''grpc_server_duration_seconds'',
     ''outbound_requests_total'', ''outbound_request_duration_seconds'']"

definition redis_collectors :: "string list" where
  "redis_collectors = [''redis_pool_hits_total'', ''redis_pool_misses_total'', ''redis_pool_timeouts_total'',
     ''redis_pool_connections'', ''redis_pool_idle_connections'']"

definition new_metrics :: "string list \<Rightarrow> string list \<Rightarrow> bool \<Rightarrow> bool \<Rightarrow> string list option" where
  "new_metrics runtime db_stats has_db has_redis = (let collectors = runtime @ service_collectors
       @ (if has_db then db_stats else []) @ (if has_redis then redis_collectors else []) in
     if distinct collectors then Some collectors else None)"

text \<open>A run of a scheduled job, counted by job and status.\<close>

definition observe_cron :: "bool \<Rightarrow> string \<times> string \<Rightarrow> (string \<times> string) list \<Rightarrow> (string \<times> string) list" where
  "observe_cron enabled run runs = (if enabled then runs @ [run] else runs)"

section \<open>Settings of libraries\<close>

record idempotency_settings =
  is_enabled :: bool
  is_service :: string
  is_processing_ttl :: duration
  is_result_ttl :: duration
  is_failure_ttl :: duration

definition new_idempotency :: "config \<Rightarrow> idempotency_settings" where
  "new_idempotency cfg = \<lparr>is_enabled = idem_enabled (cfg_idempotency cfg), is_service = app_name (cfg_app cfg),
     is_processing_ttl = idem_processing_ttl (cfg_idempotency cfg), is_result_ttl = idem_result_ttl (cfg_idempotency cfg),
     is_failure_ttl = idem_failure_ttl (cfg_idempotency cfg)\<rparr>"

text \<open>The authorizer's connection and its timeout of two seconds.\<close>

definition new_authorizer :: "registry \<Rightarrow> dial_options option \<times> duration" where
  "new_authorizer r = (registry_grpc r ''authorization'', 2000000000)"

definition new_import_outbox_store :: "('db \<Rightarrow> gerr + 's) \<Rightarrow> 'db option \<Rightarrow> gerr + 's option" where
  "new_import_outbox_store new_store db = (case db of None \<Rightarrow> Inr None
     | Some d \<Rightarrow> (case new_store d of Inl e \<Rightarrow> Inl e | Inr s \<Rightarrow> Inr (Some s)))"

text \<open>Locks need the client of Redis.\<close>

definition new_locker :: "('r \<Rightarrow> 'l) \<Rightarrow> 'r option \<Rightarrow> 'l option" where
  "new_locker new client = (case client of None \<Rightarrow> None | Some c \<Rightarrow> Some (new c))"

section \<open>Serving\<close>

text \<open>The settings of the HTTP server; it listens when the application starts.\<close>

record http_settings =
  hp_address :: string
  hp_read_timeout :: duration
  hp_write_timeout :: duration
  hp_idle_timeout :: duration
  hp_release_mode :: bool

definition new_http_server :: "(string list \<Rightarrow> gerr option) \<Rightarrow> config \<Rightarrow> gerr + http_settings" where
  "new_http_server set_trusted_proxies cfg = (let h = cfg_http cfg in
     case set_trusted_proxies (http_trusted_proxies h) of
       Some e \<Rightarrow> Inl (Wrapped ''configure trusted proxies: '' e [])
     | None \<Rightarrow> Inr \<lparr>hp_address = http_address h, hp_read_timeout = http_read_timeout h, hp_write_timeout = http_write_timeout h,
         hp_idle_timeout = http_idle_timeout h, hp_release_mode = (app_env (cfg_app cfg) = ''production'')\<rparr>)"

definition http_start :: "(string \<Rightarrow> gerr option) \<Rightarrow> http_settings \<Rightarrow> gerr option" where
  "http_start listen server = (case listen (hp_address server) of
       Some e \<Rightarrow> Some (Wrapped ''listen http: '' e []) | None \<Rightarrow> None)"

text \<open>The scheduler stops when its jobs have ended or the context has.\<close>

definition scheduler_stop :: "bool \<Rightarrow> gerr \<Rightarrow> gerr option" where
  "scheduler_stop jobs_first ctx_err = (if jobs_first then None else Some ctx_err)"

section \<open>Facts\<close>

lemma new_metrics_registers:
  assumes "distinct (runtime @ db_stats)"
    and "(set runtime \<union> set db_stats) \<inter> (set service_collectors \<union> set redis_collectors) = {}"
  shows "new_metrics runtime db_stats has_db has_redis \<noteq> None"
proof -
  have "distinct (service_collectors @ redis_collectors)"
    by (simp add: service_collectors_def redis_collectors_def)
  with assms show ?thesis by (auto simp: new_metrics_def Let_def)
qed

lemma registry_has:
  assumes "new_registry v new metrics c = (Inr r, closed)" and "name \<in> fst ` set (out_grpc (cfg_outbound c))"
  shows "registry_grpc r name \<noteq> None"
proof -
  from assms(1) have "register_grpc (he_files v) new metrics [] (out_grpc (cfg_outbound c)) = (Inr (rg_grpc r), closed)"
    by (auto simp: new_registry_def split: sum.splits prod.splits)
  from register_grpc_options [OF this] have "map fst (rg_grpc r) = map fst (out_grpc (cfg_outbound c))" by auto
  then have "fst ` set (rg_grpc r) = fst ` set (out_grpc (cfg_outbound c))" by (metis set_map)
  with assms(2) show ?thesis by (simp add: registry_grpc_def map_of_eq_None_iff)
qed

lemma validated_parts:
  assumes "validate_config c = None"
  shows "dbc_enabled (cfg_database c) \<Longrightarrow> ''application'' \<in> fst ` set (out_grpc (cfg_outbound c))"
    and "dbc_enabled (cfg_database c) \<Longrightarrow> is_db_type (dbc_type (cfg_database c))"
    and "authz_enabled (cfg_authorization c) \<Longrightarrow> ''authorization'' \<in> fst ` set (out_grpc (cfg_outbound c))"
    and "rl_enabled (cfg_rate_limit c) \<Longrightarrow> redis_enabled (cfg_redis c)"
    and "idem_enabled (cfg_idempotency c) \<Longrightarrow> redis_enabled (cfg_redis c)"
  using validate_parts [OF assms]
  by (auto simp: check_servers_def check_security_def check_rate_limits_def check_routes_def)

text \<open>C19: What a configuration enables is there, over the connections it names. With a configuration
  that was loaded, a registry that was built and a connection to Redis where one is enabled: with the
  database enabled the application verifier is the one over the connection \<open>application\<close> of the
  registry, and only without it is no application checked; the authorizer has the connection
  \<open>authorization\<close> where authorization is enabled; rate limiter and store of idempotent results have
  the client of Redis where they are enabled; and the type of the database has its driver. One
  combination passes the checks and cannot start: the event bus without the database.\<close>
theorem configured_parts_exist:
  assumes "load_with_profile v path explicit = Inr c"
    and "new_registry env new metrics c = (Inr r, closed)"
    and "new_redis open_redis instrument tracing c = (Inr client, shut)"
  shows "(if dbc_enabled (cfg_database c)
      then \<exists>connection. registry_grpc r ''application'' = Some connection
        \<and> new_application_verifier verifier c (Some r) = Inr (verifier connection)
      else new_application_verifier verifier c (Some r) = Inr allow_all)
    \<and> (authz_enabled (cfg_authorization c) \<longrightarrow> (\<exists>connection. registry_grpc r ''authorization'' = Some connection
        \<and> fst (new_authorizer r) = Some connection))
    \<and> (rl_enabled (cfg_rate_limit c) \<longrightarrow> (\<exists>redis. client = Some redis
        \<and> lm_enabled (new_limiter (map_option backend client) c)
        \<and> lm_backend (new_limiter (map_option backend client) c) = Some (backend redis)))
    \<and> (idem_enabled (cfg_idempotency c) \<longrightarrow> is_enabled (new_idempotency c) \<and> client \<noteq> None)
    \<and> (dbc_enabled (cfg_database c) \<longrightarrow> driver_name (dbc_type (cfg_database c))
        = Inr (if dbc_type (cfg_database c) = ''mysql'' then ''mysql'' else ''pgx''))
    \<and> (bus_enabled (cfg_event_bus c) \<longrightarrow> \<not> dbc_enabled (cfg_database c) \<longrightarrow> new_database open_db c = Inr db
      \<longrightarrow> new_import_outbox_store new_store db = Inr store
      \<longrightarrow> runtime_start new_dispatcher new_cleaner (cfg_event_bus c) (store \<noteq> None) has_bus
        = Inl (ErrText ''enabled event bus requires database outbox and JetStream''))"
proof (intro conjI impI)
  note parts = validated_parts [OF load_ok(1) [OF assms(1)]]
  show "if dbc_enabled (cfg_database c)
      then \<exists>connection. registry_grpc r ''application'' = Some connection
        \<and> new_application_verifier verifier c (Some r) = Inr (verifier connection)
      else new_application_verifier verifier c (Some r) = Inr allow_all"
    using registry_has [OF assms(2) parts(1)] by (auto simp: new_application_verifier_def)
  show "\<exists>connection. registry_grpc r ''authorization'' = Some connection \<and> fst (new_authorizer r) = Some connection"
    if "authz_enabled (cfg_authorization c)"
    using registry_has [OF assms(2) parts(3) [OF that]] by (simp add: new_authorizer_def)
  show "is_enabled (new_idempotency c)" if "idem_enabled (cfg_idempotency c)"
    using that by (simp add: new_idempotency_def)
  show "client \<noteq> None" if "idem_enabled (cfg_idempotency c)"
    using parts(5) that assms(3) by (auto simp: new_redis_def split: sum.splits option.splits)
  show "\<exists>redis. client = Some redis \<and> lm_enabled (new_limiter (map_option backend client) c)
      \<and> lm_backend (new_limiter (map_option backend client) c) = Some (backend redis)" if "rl_enabled (cfg_rate_limit c)"
    using parts(4) that assms(3) by (auto simp: new_limiter_def new_redis_def split: sum.splits option.splits)
  show "driver_name (dbc_type (cfg_database c)) = Inr (if dbc_type (cfg_database c) = ''mysql'' then ''mysql'' else ''pgx'')"
    if "dbc_enabled (cfg_database c)"
    using parts(2) [OF that] by (auto simp: is_db_type_def driver_name_def)
  show "runtime_start new_dispatcher new_cleaner (cfg_event_bus c) (store \<noteq> None) has_bus
        = Inl (ErrText ''enabled event bus requires database outbox and JetStream'')"
    if "bus_enabled (cfg_event_bus c)" "\<not> dbc_enabled (cfg_database c)" "new_database open_db c = Inr db"
      "new_import_outbox_store new_store db = Inr store"
    using that by (auto simp: runtime_start_def new_database_def new_import_outbox_store_def)
qed

text \<open>A production configuration with a database and Redis.\<close>

definition demo_stored :: config where
  "demo_stored = demo_production\<lparr>
     cfg_database := (cfg_database default_config)\<lparr>dbc_enabled := True, dbc_dsn := ''dsn''\<rparr>,
     cfg_redis := (cfg_redis default_config)\<lparr>redis_enabled := True\<rparr>,
     cfg_rate_limit := (cfg_rate_limit default_config)\<lparr>rl_enabled := True\<rparr>,
     cfg_outbound := \<lparr>out_http = [], out_grpc = [(''application'', demo_upstream), (''authorization'', demo_upstream)]\<rparr>\<rparr>"

definition demo_stored_loaded :: config where
  "demo_stored_loaded = (with_migration demo_stored)\<lparr>cfg_runtime := \<lparr>run_active_profile = ''production'',
     run_config_files = [''app.yaml'']\<rparr>\<rparr>"

lemma demo_stored_loads:
  "load_with_profile (demo_sources demo_stored) ''app.yaml'' ''production'' = Inr demo_stored_loaded"
  by code_simp

theorem configured_parts_exist_witness:
  "\<exists>r connection. new_registry demo_http_env (\<lambda>_ _. None) False demo_stored_loaded = (Inr r, [])
    \<and> registry_grpc r ''application'' = Some connection
    \<and> new_application_verifier (\<lambda>d _ _ _. if d = connection then None else Some (ErrText [])) demo_stored_loaded (Some r)
      = Inr (\<lambda>_ _ _. None)
    \<and> lm_backend (new_limiter (Some (\<lambda>key rule x. (Inl (ErrText []), x))) demo_stored_loaded) \<noteq> None"
proof -
  obtain r where r: "new_registry demo_http_env (\<lambda>_ _. None) False demo_stored_loaded = (Inr r, [])"
  proof
    show "new_registry demo_http_env (\<lambda>_ _. None) False demo_stored_loaded
      = (Inr (projr (fst (new_registry demo_http_env (\<lambda>_ _. None) False demo_stored_loaded))), [])" by code_simp
  qed
  have db: "dbc_enabled (cfg_database demo_stored_loaded)" and rl: "rl_enabled (cfg_rate_limit demo_stored_loaded)"
    and "redis_enabled (cfg_redis demo_stored_loaded)" by code_simp+
  then have redis: "new_redis (\<lambda>_. Inr ()) (\<lambda>_. None) False demo_stored_loaded = (Inr (Some ()), [])"
    by (simp add: new_redis_def)
  note parts = configured_parts_exist [OF demo_stored_loads r redis]
  from parts [THEN conjunct1] db obtain connection where connection: "registry_grpc r ''application'' = Some connection" by auto
  note parts = configured_parts_exist [where verifier = "\<lambda>d _ _ _. if d = connection then None else Some (ErrText [])"
      and backend = "\<lambda>_ key rule x. (Inl (ErrText []), x)", OF demo_stored_loads r redis]
  from parts [THEN conjunct1] db connection
    parts [THEN conjunct2, THEN conjunct2, THEN conjunct1] rl r
  show ?thesis by auto
qed

end
