(* ===== verification/Spec2Isabelle.thy ===== *)
theory Spec2Isabelle
  imports Job_Properties Parser_Properties Progress Provider_Properties Outbound_Properties Client_Calls
    Object_Storage Import_Server Http_Properties Transports Grpc_Properties Event_Properties Process
begin

text \<open>
  A verification of the import service: a Go service through which a tenant uploads a file, has it
  validated and applied row by row by the provider of a dataset, and gets a report of the rows that
  were refused. All paths below are under \<open>src/\<close>.

  \<^bold>\<open>The program.\<close> A client comes over HTTP (\<open>internal/transport/http\<close>) or gRPC
  (\<open>internal/transport/grpc\<close>), is identified, and calls the service
  (\<open>internal/importjob/service.go\<close>), which authorizes it, changes the job in the table \<open>import_jobs\<close>
  (\<open>internal/importjob/repository.go\<close>) and stores an event in the outbox, both in one transaction (\<open>internal/database/transaction.go\<close>). Events bring messages
  through the runtime in \<open>internal/app/import_eventbus.go\<close> to the worker (\<open>internal/importjob/worker.go\<close>), which claims the job, reads the file from the object
  store through the streaming parser (\<open>internal/importjob/parser.go\<close>) and sends its rows in batches to
  the provider, over the client in \<open>internal/importjob/provider_grpc.go\<close>, which finds instances in a
  registry and dials them with \<open>internal/grpcclient/client.go\<close>. The configuration
  (\<open>internal/config/config.go\<close>) is loaded and checked before anything starts; the schema of the database
  is migrated next (\<open>internal/migration/migration.go\<close>).

  \<^bold>\<open>The theories.\<close>
  \<^item> \<open>Prelude\<close>, \<open>Go_Strings\<close>, \<open>Errors\<close>: words, tables that are updated where a condition holds, the
    functions of Go's \<open>strings\<close>, \<open>strconv\<close> and \<open>filepath\<close> that the code uses, error values with
    \<open>errors.Is\<close> and \<open>errors.As\<close>, and \<open>internal/apperror/error.go\<close>.
  \<^item> \<open>Job_Model\<close>, \<open>Provider_Types\<close>: the data of \<open>model.go\<close>, \<open>provider.go\<close> and \<open>storage.go\<close>.
  \<^item> \<open>Store\<close>: the database as the record \<open>world\<close>, with the tables, the clock, the supply of ids, the
    objects, and the faults that calls to the outside may have (a failed call, or one whose effect
    happened and whose answer was lost); \<open>within\<close> is the transaction.
  \<^item> \<open>Repository\<close>: one definition per method, with the \<open>WHERE\<close> and \<open>SET\<close> of its statement;
    \<open>Guarded_Update\<close>: the contract that the guarded updates share, as locales interpreted on each of
    them; \<open>Lifecycle\<close>: the abstract state machine of a job and the invariants of rows and tables.
  \<^item> \<open>Events\<close>, \<open>Service\<close>, \<open>Service_Correct\<close>: the events of a job; the operations; what they change.
  \<^item> \<open>Limit_Reader\<close>, \<open>Row_Parser\<close>: the reader and the writer with a limit; \<open>StreamRows\<close> with its
    three formats, as interpretations of the locale \<open>row_stream\<close>.
  \<^item> \<open>Worker\<close>, \<open>Worker_Correct\<close>: \<open>Validate\<close>, \<open>Apply\<close>, the cleaners, the path of failures.
  \<^item> \<open>History\<close>: any sequence of requests and runs; \<open>Scenario\<close>: one concrete system for the witnesses.
    \<open>Progress\<close>: the same runs in a world where no call fails, computed to their end.
  \<^item> \<open>Path_Match\<close>, \<open>Config_Types\<close>, \<open>Config_Check\<close>, \<open>Config_Load\<close>: \<open>path.Match\<close> and \<open>auth/pattern.go\<close>;
    the configuration, \<open>Validate\<close>, the defaults and \<open>LoadWithProfile\<close>, which decodes the files and
    the environment (the record \<open>sources\<close>) and sets the profile over them (\<open>with_profile\<close>).
  \<^item> \<open>Grpc_Client\<close>, \<open>Outbound\<close>: \<open>Dial\<close>, retries and metadata; the HTTP client and the registry of
    upstreams. \<open>Client_Calls\<close>: a call through the interceptors that \<open>Dial\<close> installed, over the record
    \<open>network\<close>, with the messages it sent and its count; the loop of the retries in it is that of
    \<open>Grpc_Client\<close> (lemma \<open>retry_calls_loop\<close>).
  \<^item> \<open>Provider_Target\<close>, \<open>Provider_Client\<close>, \<open>Provider_Session\<close>: the allowlist of addresses, the choice
    of an instance with the cache of connections, the catalog and the streams with their retries;
    \<open>Provider_Correct\<close>, \<open>Provider_Catalog\<close>: their lemmas.
  \<^item> \<open>Object_Storage\<close>, \<open>Catalog\<close>, \<open>Import_Server\<close>: \<open>internal/objectstorage/storage.go\<close>,
    \<open>internal/importjob/catalog.go\<close>, and the methods of \<open>internal/transport/grpc/import_server.go\<close>.
  \<^item> \<open>Http_Context\<close>, \<open>Http_Types\<close>, \<open>Http_Api\<close>: JSON values, the context of a request and its response
    (\<open>response.go\<close>), what requests are read into and what bodies are written, the handlers
    (\<open>handler.go\<close>). \<open>Http_Middleware\<close>, \<open>Http_Server\<close>: the middleware as functions from the rest of the
    chain to a handler (\<open>middleware.go\<close>), its order, the routes, and \<open>serve_http\<close>, a whole request
    (\<open>server.go\<close>). A handler ends in \<open>Finished\<close> or \<open>Panicked\<close>.
  \<^item> \<open>Access_Control\<close>, \<open>Health_Limits\<close>: \<open>auth/jwt.go\<close> and \<open>auth/psk.go\<close>; readiness and the rate limiter.
  \<^item> \<open>Grpc_Server\<close>: the interceptors of \<open>internal/transport/grpc/server.go\<close> for calls and for
    streams, in their order, credentials, the health service.
  \<^item> \<open>Event_Runtime\<close>: the bus, the consumers with their handler, the jobs of the scheduler.
  \<^item> \<open>Setup\<close>, \<open>Process\<close>: migration, connection and locks; the commands, the constructors of
    \<open>internal/app\<close>, logger, tracing, counters and the settings of libraries.

  \<^bold>\<open>What is shown.\<close> \<open>Job_Properties\<close>: the invariant of every job after every history, that requests
  change jobs of their own tenant only, each kind with the change and the event of its own
  (\<open>Create\<close> stores no event), optimistic concurrency, idempotency, what a run without error has done
  with every row, and with the whole source when the decoders do not stop before it
  (\<open>honest\<close>), that a redelivered message does nothing, that failures are recorded.
  \<open>Parser_Properties\<close>: the parser against a reference that slices the decoded rows, what a callback is
  given that may refuse, headers, limits, the round trip of the normalized file through \<open>StreamRows\<close>. \<open>Progress\<close>: from the
  upload to success, when nothing fails and every row is valid. \<open>Config_Properties\<close>: what a
  loaded configuration promises. \<open>Provider_Properties\<close>, \<open>Outbound_Properties\<close>: that a batch is sent
  as one message with one key, that connections are neither lost nor made outside the allowlist,
  that instances take turns, the catalog, when a session opens (with static upstreams and with
  discovery), how often calls are repeated.
  \<open>Client_Calls\<close>: a call is sent at most as often as the policy allows, with one context, and counted
  once.
  \<open>Http_Properties\<close>: every request to an import route ends with one answer, whose body has its type
  unless it is a stored one; none runs without an identity; results with an idempotency key are
  replayed, as far as the store's JSON keeps them; on every route panics are answered and not counted,
  and what returns is counted once. The first three are proved in the locale \<open>request_flow\<close>
  (and \<open>api_flow\<close>, which extends it) of theory \<open>Http_Server\<close>, whose laws say what a predicate on
  contexts and one on outcomes must satisfy to go through the whole chain, and that the second holds
  of a response of the store of idempotent results; it is interpreted for each of them.
  \<open>Transports\<close>: the ten operations over HTTP and over gRPC leave the same state, and their answers say
  the same field by field. \<open>Grpc_Properties\<close>: no call or stream without an identity, the same callers as over HTTP, health.
  \<open>Event_Properties\<close>: a completed upload is validated by the worker, foreign events are refused.
  \<open>Setup\<close> and \<open>Process\<close>: the database in a MySQL URL, and that what a loaded configuration enables is
  constructed over the connection that is meant for it.

  \<^bold>\<open>Conventions.\<close> A function that returns an error is a function into \<open>gerr + 'a\<close>. State is passed
  explicitly. Code outside the repository is a parameter: fields of the records \<open>service\<close>, \<open>worker\<close>,
  \<open>decoders\<close>, \<open>network\<close>, \<open>sources\<close>, \<open>provider_env\<close>, \<open>http_env\<close>, \<open>http_calls\<close>, \<open>minio\<close>, \<open>tls_files\<close>, \<open>http_outside\<close>,
  \<open>idempotency_manager\<close>, \<open>jwt_library\<close>, \<open>grpc_parts\<close>, \<open>envelope_reader\<close>, \<open>url_library\<close>,
  \<open>migrate_library\<close>, whose
  answers depend on the world or on the number of the call, so that a theorem holds for every
  pattern of answers and failures. Times and durations are nanoseconds as \<open>int\<close>; integers are words
  where the code's arithmetic can leave their range (\<open>list_offset\<close>, \<open>list_datasets\<close>, \<open>retry_delay\<close>,
  \<open>ttl_seconds\<close>, the cursor of the provider client).

  \<^bold>\<open>Bounds.\<close> No definition has fuel: loops recurse on the data, on the number of attempts left, or on
  the length of what is left to read, and all definitions are total. A panic is the value \<open>None\<close>
  where the code can reach one (\<open>list_datasets\<close>), \<open>Panicked\<close> in the handlers over it.

  \<^bold>\<open>Not modelled.\<close> Statements of the database run one at a time: isolation between transactions that
  overlap is left out, except that an insert may find its key taken. Operations of the provider
  client run one at a time, as its mutex and its atomic cursor make them. Case folding and the
  trimming of spaces follow Go for ASCII, the spaces of Unicode, and the two other characters that
  fold to ASCII letters. JSON is a tree of values: the syntax of the text is that of the library. The
  router of gin gives the route of a request. Durations that are only observed (latency histograms),
  logs and spans are left out, and so is fx: the constructors are modelled, the order in which it
  runs them and its hooks are not. The dispatcher of the outbox, the bus, the store of idempotent
  results, the authorizer and the verifier of tokens are libraries of the platform. \<open>docs/docs.go\<close> is
  generated.
\<close>

end
